(* ===== verification/Prelude.thy ===== *)
theory Prelude
  imports Main "HOL-Library.AList" "HOL-Library.List_Lexorder" "HOL-Library.Char_ord"
begin

text \<open>
  Shared vocabulary of the development: Go strings as byte lists, instants as integers of
  nanoseconds, Go errors as values of one datatype, the result type \<open>error + 'a\<close> with its
  sequencing combinators, the parts of the Go standard library that the validators call, and the
  generic facts on lists, maps and results that the component theories use through the
  collections \<open>res_simps\<close> and \<open>rfold_rules\<close>.
\<close>

named_theorems res_simps \<open>characterisations of successful and failed results\<close>
named_theorems rfold_rules \<open>invariant rules for the error-stopping loop\<close>

section \<open>Base types\<close>

type_synonym gostring = string
type_synonym instant = int
type_synonym duration = int

text \<open>The zero \<open>time.Time\<close>, midnight of January 1 of year 1 UTC, in nanoseconds since the epoch.\<close>

definition zero_time :: instant where
  "zero_time = - 62135596800000000000"

text \<open>
  Errors. The sentinels of the source are constructors of their own, since callers branch on them
  with \<open>errors.Is\<close>; an error that wraps a sentinel is that sentinel, and an error the code only
  formats is \<open>ErrText\<close> with the part of the text that is constant. The last two are not Go errors:
  \<open>ErrStackExhausted\<close> stands for a recursion that outgrows its stack, and \<open>ErrDeadlock\<close> for a call
  that blocks forever on a lock its own goroutine holds.
\<close>

datatype error =
    ErrGoalNotFound
  | ErrGoalConflict
  | ErrInvalidDependency
  | ErrDependencyWaitNotFound
  | ErrDependencyWaitConflict
  | ErrDependencyCycle
  | ErrChapterNotFound
  | ErrJobNotFound
  | ErrExecutionLeaseLost
  | ErrConflict
  | ErrExistingJobMismatch gostring
  | ErrInvalidClientPayload
  | ErrDeadlineExceeded
  | ErrCanceled
  | ErrCell gostring nat
  | ErrLeasePermissionDenied
  | ErrDelegation nat gostring
  | ErrInvalidJobDeletion
  | ErrInvalidCrashConcernRequest
  | ErrPayloadTooLarge gostring
  | ErrText gostring
  | ErrStackExhausted
  | ErrDeadlock

section \<open>Results\<close>

definition rbind :: "error + 'a \<Rightarrow> ('a \<Rightarrow> error + 'b) \<Rightarrow> error + 'b" where
  "rbind m f = (case m of Inl e \<Rightarrow> Inl e | Inr x \<Rightarrow> f x)"

definition guard_res :: "bool \<Rightarrow> error \<Rightarrow> error + unit" where
  "guard_res b e = (if b then Inr () else Inl e)"

text \<open>A loop over a slice whose body updates a state and may return early with an error.\<close>

fun rfold :: "('x \<Rightarrow> 's \<Rightarrow> error + 's) \<Rightarrow> 'x list \<Rightarrow> 's \<Rightarrow> error + 's" where
  "rfold f [] s = Inr s"
| "rfold f (x # xs) s = rbind (f x s) (rfold f xs)"

fun rmap :: "('x \<Rightarrow> error + 'y) \<Rightarrow> 'x list \<Rightarrow> error + 'y list" where
  "rmap f [] = Inr []"
| "rmap f (x # xs) = rbind (f x) (\<lambda>y. rbind (rmap f xs) (\<lambda>ys. Inr (y # ys)))"

lemma rbind_simps [simp]:
  "rbind (Inl e) f = Inl e"
  "rbind (Inr x) f = f x"
  by (simp_all add: rbind_def)

lemma rbind_Inr_iff [res_simps]:
  "rbind m f = Inr y \<longleftrightarrow> (\<exists>x. m = Inr x \<and> f x = Inr y)"
  by (cases m) auto

lemma rbind_Inl_iff [res_simps]:
  "rbind m f = Inl e \<longleftrightarrow> m = Inl e \<or> (\<exists>x. m = Inr x \<and> f x = Inl e)"
  by (cases m) auto

lemma rbind_assoc: "rbind (rbind m f) g = rbind m (\<lambda>x. rbind (f x) g)"
  by (cases m) auto

lemma rbind_cong [fundef_cong]:
  "m = m' \<Longrightarrow> (\<And>x. m' = Inr x \<Longrightarrow> f x = f' x) \<Longrightarrow> rbind m f = rbind m' f'"
  by (cases m') auto

lemma guard_res_iff [res_simps]:
  "guard_res b e = Inr u \<longleftrightarrow> b"
  "guard_res b e = Inl e' \<longleftrightarrow> \<not> b \<and> e' = e"
  by (auto simp: guard_res_def)

lemma rfold_append: "rfold f (xs @ ys) s = rbind (rfold f xs s) (rfold f ys)"
  by (induction xs arbitrary: s) (auto simp: rbind_def split: sum.splits)

lemma rfold_invariant [rfold_rules]:
  assumes "rfold f xs s = Inr t" and "P s"
    and "\<And>x u v. x \<in> set xs \<Longrightarrow> P u \<Longrightarrow> f x u = Inr v \<Longrightarrow> P v"
  shows "P t"
  using assms by (induction xs arbitrary: s) (auto simp: res_simps)

text \<open>What one iteration establishes and every later one keeps holds when the loop ends.\<close>

lemma rfold_establish [rfold_rules]:
  assumes run: "rfold f xs s = Inr t" and inv: "P s" and x: "x \<in> set xs"
    and step: "\<And>y u v. y \<in> set xs \<Longrightarrow> P u \<Longrightarrow> f y u = Inr v \<Longrightarrow> P v \<and> (Q u \<longrightarrow> Q v)"
    and est: "\<And>u v. P u \<Longrightarrow> f x u = Inr v \<Longrightarrow> Q v"
  shows "Q t"
proof -
  from x obtain ys zs where xs: "xs = ys @ x # zs" by (meson split_list)
  then obtain u v where u: "rfold f ys s = Inr u" and v: "f x u = Inr v"
    and t: "rfold f zs v = Inr t"
    using run by (auto simp: rfold_append res_simps)
  have "P u" using u inv by (rule rfold_invariant) (use step xs in auto)
  then have "P v \<and> Q v" using v step est xs by auto
  with t have "P t \<and> Q t"
    by (rule rfold_invariant[where P = "\<lambda>s. P s \<and> Q s"]) (use step xs in auto)
  then show ?thesis ..
qed

lemma rmap_Inr_iff [res_simps]:
  "rmap f xs = Inr ys \<longleftrightarrow> list_all2 (\<lambda>x y. f x = Inr y) xs ys"
  by (induction xs arbitrary: ys) (auto simp: res_simps list_all2_Cons1)

lemma rmap_Inl: "rmap f xs = Inl er \<Longrightarrow> \<exists>x \<in> set xs. f x = Inl er"
  by (induction xs) (auto simp: res_simps)

lemma list_all2_in_set2: "list_all2 P xs ys \<Longrightarrow> y \<in> set ys \<Longrightarrow> \<exists>x \<in> set xs. P x y"
  by (induction rule: list_all2_induct) auto

lemma list_all2_in_set1: "list_all2 P xs ys \<Longrightarrow> x \<in> set xs \<Longrightarrow> \<exists>y \<in> set ys. P x y"
  by (induction rule: list_all2_induct) auto

lemma find_SomeD: "find P xs = Some x \<Longrightarrow> x \<in> set xs \<and> P x"
  by (induction xs) (auto split: if_splits)

section \<open>Association lists\<close>

text \<open>
  A Go map that the code iterates is an association list with distinct keys; the position of an
  entry is one iteration order, and the theorems quantify over all of them.
\<close>

lemma map_of_update [simp]: "map_of (AList.update k v al) = (map_of al)(k \<mapsto> v)"
  by (rule AList.update_conv')

lemma in_set_updateD: "(k, v) \<in> set (AList.update a b al) \<Longrightarrow> k = a \<and> v = b \<or> (k, v) \<in> set al"
  by (induction al) (auto split: if_splits)

lemma map_of_eq_None_notin: "map_of al k = None \<longleftrightarrow> k \<notin> fst ` set al"
  by (metis map_of_eq_None_iff)

section \<open>Strings of the standard library\<close>

text \<open>
  \<open>strings.TrimSpace(s) == ""\<close>: every rune of the string is white space in the sense of
  \<open>unicode.IsSpace\<close>. The multi-byte cases are the UTF-8 encodings of U+0085, U+00A0, U+1680,
  U+2000 to U+200A, U+2028, U+2029, U+202F, U+205F and U+3000.
\<close>

abbreviation byte :: "char \<Rightarrow> nat" where
  "byte c \<equiv> of_char c"

definition ascii_space :: "nat \<Rightarrow> bool" where
  "ascii_space b \<longleftrightarrow> b \<in> {9, 10, 11, 12, 13, 32}"

definition wide_space2 :: "nat \<Rightarrow> nat \<Rightarrow> bool" where
  "wide_space2 a b \<longleftrightarrow> a = 0xC2 \<and> (b = 0x85 \<or> b = 0xA0)"

definition wide_space3 :: "nat \<Rightarrow> nat \<Rightarrow> nat \<Rightarrow> bool" where
  "wide_space3 a b c \<longleftrightarrow>
     (a = 0xE1 \<and> b = 0x9A \<and> c = 0x80) \<or>
     (a = 0xE2 \<and> b = 0x80 \<and> (0x80 \<le> c \<and> c \<le> 0x8A \<or> c = 0xA8 \<or> c = 0xA9 \<or> c = 0xAF)) \<or>
     (a = 0xE2 \<and> b = 0x81 \<and> c = 0x9F) \<or>
     (a = 0xE3 \<and> b = 0x80 \<and> c = 0x80)"

fun trim_left :: "gostring \<Rightarrow> gostring" where
  "trim_left [] = []"
| "trim_left (a # s) =
     (if ascii_space (byte a) then trim_left s
      else case s of
        [] \<Rightarrow> a # s
      | b # s' \<Rightarrow> if wide_space2 (byte a) (byte b) then trim_left s'
          else (case s' of
              [] \<Rightarrow> a # s
            | c # s'' \<Rightarrow> if wide_space3 (byte a) (byte b) (byte c) then trim_left s'' else a # s))"

definition blank :: "gostring \<Rightarrow> bool" where
  "blank s \<longleftrightarrow> trim_left s = []"

text \<open>\<open>utf8.ValidString\<close>: the byte ranges of well-formed UTF-8.\<close>

definition cont_byte :: "char \<Rightarrow> bool" where
  "cont_byte c \<longleftrightarrow> 0x80 \<le> byte c \<and> byte c \<le> 0xBF"

fun valid_utf8 :: "gostring \<Rightarrow> bool" where
  "valid_utf8 [] = True"
| "valid_utf8 (a # s) =
     (if byte a < 0x80 then valid_utf8 s
      else if 0xC2 \<le> byte a \<and> byte a \<le> 0xDF then
        (case s of b # s' \<Rightarrow> cont_byte b \<and> valid_utf8 s' | _ \<Rightarrow> False)
      else if 0xE0 \<le> byte a \<and> byte a \<le> 0xEF then
        (case s of b # c # s' \<Rightarrow>
             cont_byte b \<and> cont_byte c
             \<and> (byte a = 0xE0 \<longrightarrow> 0xA0 \<le> byte b) \<and> (byte a = 0xED \<longrightarrow> byte b \<le> 0x9F)
             \<and> valid_utf8 s'
           | _ \<Rightarrow> False)
      else if 0xF0 \<le> byte a \<and> byte a \<le> 0xF4 then
        (case s of b # c # d # s' \<Rightarrow>
             cont_byte b \<and> cont_byte c \<and> cont_byte d
             \<and> (byte a = 0xF0 \<longrightarrow> 0x90 \<le> byte b) \<and> (byte a = 0xF4 \<longrightarrow> byte b \<le> 0x8F)
             \<and> valid_utf8 s'
           | _ \<Rightarrow> False)
      else False)"

definition contains_any :: "gostring \<Rightarrow> gostring \<Rightarrow> bool" where
  "contains_any s chars \<longleftrightarrow> list_ex (\<lambda>c. c \<in> set chars) s"

lemma blank_Nil [simp]: "blank []"
  by (simp add: blank_def)

lemma not_blank_nonempty: "\<not> blank s \<Longrightarrow> s \<noteq> []"
  by auto

end
