(* ===== verification/Goal_Types.thy ===== *)
theory Goal_Types
  imports Prelude
begin

text \<open>
  The data of \<open>pkg/jobdb/goals.go\<close> and the keys of \<open>pkg/jobdb/types.go\<close>: goals and their
  terminal snapshots, dependencies, dependency waits with one resolution per dependency, and the
  request validators. A struct is a record, or a datatype with one constructor when it serves as
  a map key; a nil pointer is \<open>None\<close>.
\<close>

section \<open>Keys\<close>

datatype JobKey = JobKey (TenantId: gostring) (JobId: gostring)

datatype GoalKey = GoalKey (g_TenantId: gostring) (GoalID: gostring)

definition JobKey_String :: "JobKey \<Rightarrow> gostring" where
  "JobKey_String jk = TenantId jk @ ''/'' @ JobId jk"

text \<open>\<open>strings.Split(s, "/")\<close>: the maximal segments between separators, at least one.\<close>

fun split_slash :: "gostring \<Rightarrow> gostring list" where
  "split_slash [] = [[]]"
| "split_slash (c # s) =
     (if c = CHR ''/'' then [] # split_slash s
      else case split_slash s of [] \<Rightarrow> [[c]] | seg # segs \<Rightarrow> (c # seg) # segs)"

definition ParseJobKey :: "gostring \<Rightarrow> error + JobKey" where
  "ParseJobKey s =
     (case split_slash s of
        [t, j] \<Rightarrow> Inr (JobKey t j)
      | _ \<Rightarrow> Inl (ErrText ''invalid JobKey format''))"

definition JobKey_Validate :: "JobKey \<Rightarrow> error + unit" where
  "JobKey_Validate jk =
     (if TenantId jk = [] then Inl (ErrText ''TenantId cannot be empty'')
      else if JobId jk = [] then Inl (ErrText ''JobId cannot be empty'')
      else Inr ())"

definition GoalKey_Validate :: "GoalKey \<Rightarrow> error + unit" where
  "GoalKey_Validate k =
     (if blank (g_TenantId k) \<or> blank (GoalID k) then Inl ErrInvalidDependency else Inr ())"

section \<open>Goals\<close>

datatype GoalState = GoalOpen | GoalSucceeded | GoalFailed

record GoalFailure =
  f_Code :: gostring
  f_GoalID :: gostring
  f_JobID :: gostring
  f_Message :: gostring
  f_TerminalJobIDs :: "gostring list"
  f_NonTerminalJobIDs :: "gostring list"
  f_FailedAt :: instant

record GoalInfo =
  g_Cell :: gostring
  g_CellID :: gostring
  g_CellRepo :: gostring
  g_GoalKey :: GoalKey
  g_State :: GoalState
  g_Revision :: int
  g_SuccessfulJobID :: gostring
  g_Failure :: "GoalFailure option"
  g_CreatedAt :: instant
  g_UpdatedAt :: instant
  g_ClosedAt :: "instant option"

record AddGoalCandidateRequest =
  ac_GoalKey :: GoalKey
  ac_JobID :: gostring

record GoalCandidateInfo =
  ci_GoalKey :: GoalKey
  ci_JobID :: gostring
  ci_AddedAt :: instant
  ci_GoalState :: GoalState
  ci_SuccessfulJobID :: gostring

record FailGoalRequest =
  fg_GoalKey :: GoalKey
  fg_Message :: gostring

definition FailGoalRequest_Validate :: "FailGoalRequest \<Rightarrow> error + unit" where
  "FailGoalRequest_Validate r =
     rbind (GoalKey_Validate (fg_GoalKey r)) (\<lambda>_.
     if \<not> valid_utf8 (fg_Message r) \<or> blank (fg_Message r) \<or> length (fg_Message r) > 16 * 1024
     then Inl ErrInvalidDependency else Inr ())"

section \<open>Dependencies\<close>

datatype JobPrereqCondition = JobPrereqComplete | JobPrereqSuccess | JobPrereqOther gostring

datatype DependencyTarget = DependencyTarget (t_JobID: gostring) (t_GoalID: gostring)

abbreviation job_target :: "gostring \<Rightarrow> DependencyTarget" where
  "job_target j \<equiv> DependencyTarget j []"

abbreviation goal_target :: "gostring \<Rightarrow> DependencyTarget" where
  "goal_target g \<equiv> DependencyTarget [] g"

datatype Dependency =
  Dependency (dep_Target: DependencyTarget) (dep_Condition: JobPrereqCondition)

record DependencyWait =
  dw_WaitID :: gostring
  dw_Dependencies :: "Dependency list"
  dw_Deadline :: "instant option"

datatype DependencyWaitKey = DependencyWaitKey (wk_JobKey: JobKey) (wk_WaitID: gostring)

datatype DependencyState =
    DependencyPending
  | DependencySatisfied
  | DependencyFailed
  | DependencyTimedOut
  | DependencyCancelled

record DependencyResolution =
  d_Target :: DependencyTarget
  d_Condition :: JobPrereqCondition
  d_State :: DependencyState
  d_SatisfiedByJobID :: gostring
  d_BlockedReason :: gostring
  d_Failure :: "GoalFailure option"

record DependencyWaitInfo =
  w_JobKey :: JobKey
  w_WaitID :: gostring
  w_State :: DependencyState
  w_Deadline :: "instant option"
  w_Dependencies :: "DependencyResolution list"
  w_FailedDependencyIndex :: "nat option"
  w_Failure :: "GoalFailure option"

definition wait_key :: "DependencyWaitInfo \<Rightarrow> DependencyWaitKey" where
  "wait_key w = DependencyWaitKey (w_JobKey w) (w_WaitID w)"

text \<open>
  \<open>DependencyWaitInfo.Err\<close>: no error while pending or satisfied; a failed wait reports its
  failure snapshot, as a goal failure or as an exact-job failure by the snapshot's code.
\<close>

datatype wait_error =
    WaitDeadlineExceeded
  | WaitCanceled
  | WaitGoalFailed GoalFailure
  | WaitJobFailed GoalFailure
  | WaitInvalidOutcome

definition DependencyWaitInfo_Err :: "DependencyWaitInfo \<Rightarrow> wait_error option" where
  "DependencyWaitInfo_Err w =
     (case w_State w of
        DependencySatisfied \<Rightarrow> None
      | DependencyPending \<Rightarrow> None
      | DependencyTimedOut \<Rightarrow> Some WaitDeadlineExceeded
      | DependencyCancelled \<Rightarrow> Some WaitCanceled
      | DependencyFailed \<Rightarrow>
          (case w_Failure w of
             Some f \<Rightarrow> if f_Code f = ''goal_failed'' then Some (WaitGoalFailed f)
                       else Some (WaitJobFailed f)
           | None \<Rightarrow> Some WaitInvalidOutcome))"

fun validate_deps :: "DependencyTarget list \<Rightarrow> Dependency list \<Rightarrow> error + unit" where
  "validate_deps seen [] = Inr ()"
| "validate_deps seen (d # ds) =
     (if blank (t_JobID (dep_Target d)) = blank (t_GoalID (dep_Target d))
      then Inl ErrInvalidDependency
      else if dep_Condition d \<noteq> JobPrereqSuccess
              \<and> (dep_Condition d \<noteq> JobPrereqComplete \<or> t_GoalID (dep_Target d) \<noteq> [])
      then Inl ErrInvalidDependency
      else if dep_Target d \<in> set seen then Inl ErrInvalidDependency
      else validate_deps (dep_Target d # seen) ds)"

definition ValidateDependencies :: "Dependency list \<Rightarrow> error + unit" where
  "ValidateDependencies ds = validate_deps [] ds"

definition ValidateDependencyWait :: "DependencyWait option \<Rightarrow> bool \<Rightarrow> error + unit" where
  "ValidateDependencyWait ow submission =
     (case ow of
        None \<Rightarrow> Inr ()
      | Some w \<Rightarrow>
          if dw_WaitID w = [] \<or> (\<not> submission \<and> dw_WaitID w = ''submission'')
             \<or> contains_any (dw_WaitID w) (CHR 0x5C # ''/?#% '') \<or> dw_Dependencies w = []
          then Inl ErrInvalidDependency
          else ValidateDependencies (dw_Dependencies w))"

section \<open>Facts\<close>

lemma split_slash_ne [simp]: "split_slash s \<noteq> []"
  by (induction s) (auto split: list.splits)

lemma split_slash_no_sep: "CHR ''/'' \<notin> set s \<Longrightarrow> split_slash s = [s]"
  by (induction s) auto

lemma split_slash_cons_sep:
  "CHR ''/'' \<notin> set t \<Longrightarrow> split_slash (t @ CHR ''/'' # s) = t # split_slash s"
  by (induction t) auto

definition valid_dep :: "Dependency \<Rightarrow> bool" where
  "valid_dep d \<longleftrightarrow>
     blank (t_JobID (dep_Target d)) \<noteq> blank (t_GoalID (dep_Target d))
     \<and> (dep_Condition d = JobPrereqSuccess
        \<or> dep_Condition d = JobPrereqComplete \<and> t_GoalID (dep_Target d) = [])"

lemma validate_deps_Cons:
  "validate_deps seen (d # ds) =
     (if valid_dep d \<and> dep_Target d \<notin> set seen then validate_deps (dep_Target d # seen) ds
      else Inl ErrInvalidDependency)"
  by (auto simp: valid_dep_def)

lemma validate_deps_iff:
  "validate_deps seen ds = Inr () \<longleftrightarrow>
     (\<forall>d \<in> set ds. valid_dep d \<and> dep_Target d \<notin> set seen) \<and> distinct (map dep_Target ds)"
proof (induction ds arbitrary: seen)
  case (Cons d ds)
  then show ?case
    by (simp add: validate_deps_Cons del: validate_deps.simps(2)) (auto simp: image_iff)
qed simp

section \<open>Properties\<close>

text \<open>
  A job key survives printing and parsing: when neither the tenant nor the job identifier
  contains a slash, \<open>ParseJobKey\<close> of the printed key returns the key.
\<close>

theorem JobKey_roundtrip:
  assumes "CHR ''/'' \<notin> set (TenantId jk)" and "CHR ''/'' \<notin> set (JobId jk)"
  shows "ParseJobKey (JobKey_String jk) = Inr jk"
  using assms
  by (cases jk) (simp add: ParseJobKey_def JobKey_String_def split_slash_cons_sep split_slash_no_sep)

theorem JobKey_roundtrip_witness:
  "ParseJobKey (JobKey_String (JobKey ''acme'' ''job-1'')) = Inr (JobKey ''acme'' ''job-1'')"
  by (rule JobKey_roundtrip) simp_all

end
