(* ===== verification/Goal_Store.thy ===== *)
theory Goal_Store
  imports Goal_Types
begin

text \<open>
  The storage interface of the goal engine (\<open>Store\<close> in \<open>internal/goalstate/state.go\<close>) and its
  in-memory implementation (\<open>internal/goalstate/memory.go\<close>). The interface is a record of
  operations over a state type; the locale \<open>goal_store\<close> states what the engine relies on, and
  the interpretation at the end shows that \<open>Memory\<close> provides it.
\<close>

section \<open>The interface\<close>

record Job =
  j_Key :: JobKey
  j_GoalID :: gostring
  j_Terminal :: bool
  j_Success :: bool
  j_CreatedAt :: instant

record 's Store =
  store_Job :: "'s \<Rightarrow> JobKey \<Rightarrow> error + Job"
  store_Goal :: "'s \<Rightarrow> GoalKey \<Rightarrow> error + GoalInfo"
  store_SaveGoal :: "'s \<Rightarrow> GoalInfo \<Rightarrow> error + 's"
  store_Candidates :: "'s \<Rightarrow> GoalKey \<Rightarrow> error + Job list"
  store_Goals :: "'s \<Rightarrow> JobKey \<Rightarrow> error + GoalKey list"
  store_Candidate :: "'s \<Rightarrow> GoalKey \<Rightarrow> gostring \<Rightarrow> error + (instant \<times> bool)"
  store_InsertCandidate :: "'s \<Rightarrow> GoalKey \<Rightarrow> gostring \<Rightarrow> instant \<Rightarrow> error + 's"
  store_Wait :: "'s \<Rightarrow> DependencyWaitKey \<Rightarrow> error + DependencyWaitInfo"
  store_SaveWait :: "'s \<Rightarrow> DependencyWaitInfo \<Rightarrow> error + 's"
  store_ConsumerWaits :: "'s \<Rightarrow> JobKey \<Rightarrow> error + DependencyWaitInfo list"
  store_TargetWaits :: "'s \<Rightarrow> gostring \<Rightarrow> DependencyTarget \<Rightarrow> error + DependencyWaitInfo list"

section \<open>Detached copies\<close>

text \<open>
  \<open>copyValue\<close> marshals and unmarshals a value. On the types stored here this is the identity up
  to \<open>GoalFailure.MarshalJSON\<close>, which writes an exact-job failure without its snapshot fields.
\<close>

definition copyFailure :: "GoalFailure \<Rightarrow> GoalFailure" where
  "copyFailure f =
     (if f_GoalID f = [] \<and> f_JobID f \<noteq> []
      then f\<lparr>f_TerminalJobIDs := [], f_NonTerminalJobIDs := [], f_FailedAt := zero_time\<rparr>
      else f)"

definition copyGoal :: "GoalInfo \<Rightarrow> GoalInfo" where
  "copyGoal g = g\<lparr>g_Failure := map_option copyFailure (g_Failure g)\<rparr>"

definition copyResolution :: "DependencyResolution \<Rightarrow> DependencyResolution" where
  "copyResolution d = d\<lparr>d_Failure := map_option copyFailure (d_Failure d)\<rparr>"

definition copyWait :: "DependencyWaitInfo \<Rightarrow> DependencyWaitInfo" where
  "copyWait w = w\<lparr>w_Dependencies := map copyResolution (w_Dependencies w),
                   w_Failure := map_option copyFailure (w_Failure w)\<rparr>"

section \<open>The in-memory store\<close>

datatype CandidateKey = CandidateKey (ck_Goal: GoalKey) (ck_JobID: gostring)

record Memory =
  GoalRows :: "GoalKey \<rightharpoonup> GoalInfo"
  Extras :: "(CandidateKey \<times> instant) list"
  WaitRows :: "(DependencyWaitKey \<times> DependencyWaitInfo) list"
  LookupJob :: "JobKey \<Rightarrow> error + Job"
  PrimaryJobs :: "GoalKey \<Rightarrow> Job list"

definition NewMemory :: "(JobKey \<Rightarrow> error + Job) \<Rightarrow> (GoalKey \<Rightarrow> Job list) \<Rightarrow> Memory" where
  "NewMemory lookup primary =
     \<lparr>GoalRows = Map.empty, Extras = [], WaitRows = [], LookupJob = lookup, PrimaryJobs = primary\<rparr>"

definition Memory_Goal :: "Memory \<Rightarrow> GoalKey \<Rightarrow> error + GoalInfo" where
  "Memory_Goal s k =
     (case GoalRows s k of None \<Rightarrow> Inl ErrGoalNotFound | Some v \<Rightarrow> Inr (copyGoal v))"

definition Memory_SaveGoal :: "Memory \<Rightarrow> GoalInfo \<Rightarrow> error + Memory" where
  "Memory_SaveGoal s g = Inr (s\<lparr>GoalRows := (GoalRows s)(g_GoalKey g \<mapsto> copyGoal g)\<rparr>)"

definition Memory_Candidates :: "Memory \<Rightarrow> GoalKey \<Rightarrow> error + Job list" where
  "Memory_Candidates s k =
     rbind (rmap (\<lambda>pair. LookupJob s (JobKey (g_TenantId k) (ck_JobID pair)))
              (filter (\<lambda>pair. ck_Goal pair = k) (map fst (Extras s))))
       (\<lambda>extra. Inr (sort_key (\<lambda>j. JobId (j_Key j)) (PrimaryJobs s k @ extra)))"

definition Memory_Goals :: "Memory \<Rightarrow> JobKey \<Rightarrow> error + GoalKey list" where
  "Memory_Goals s k =
     rbind (LookupJob s k) (\<lambda>j.
       Inr (GoalKey (TenantId k) (j_GoalID j) #
            map ck_Goal (filter (\<lambda>pair. g_TenantId (ck_Goal pair) = TenantId k \<and> ck_JobID pair = JobId k)
                           (map fst (Extras s)))))"

definition Memory_Candidate :: "Memory \<Rightarrow> GoalKey \<Rightarrow> gostring \<Rightarrow> error + (instant \<times> bool)" where
  "Memory_Candidate s k jid =
     rbind (LookupJob s (JobKey (g_TenantId k) jid)) (\<lambda>j.
       if j_GoalID j = GoalID k then Inr (j_CreatedAt j, True)
       else case map_of (Extras s) (CandidateKey k jid) of
              Some at \<Rightarrow> Inr (at, True)
            | None \<Rightarrow> Inr (zero_time, False))"

definition Memory_InsertCandidate :: "Memory \<Rightarrow> GoalKey \<Rightarrow> gostring \<Rightarrow> instant \<Rightarrow> error + Memory" where
  "Memory_InsertCandidate s k jid at =
     Inr (s\<lparr>Extras := AList.update (CandidateKey k jid) at (Extras s)\<rparr>)"

definition Memory_Wait :: "Memory \<Rightarrow> DependencyWaitKey \<Rightarrow> error + DependencyWaitInfo" where
  "Memory_Wait s k =
     (case map_of (WaitRows s) k of
        None \<Rightarrow> Inl ErrDependencyWaitNotFound
      | Some w \<Rightarrow> Inr (copyWait w))"

definition Memory_SaveWait :: "Memory \<Rightarrow> DependencyWaitInfo \<Rightarrow> error + Memory" where
  "Memory_SaveWait s w =
     Inr (s\<lparr>WaitRows := AList.update (wait_key w) (copyWait w) (WaitRows s)\<rparr>)"

definition Memory_ConsumerWaits :: "Memory \<Rightarrow> JobKey \<Rightarrow> error + DependencyWaitInfo list" where
  "Memory_ConsumerWaits s k =
     Inr (map (copyWait \<circ> snd)
           (filter (\<lambda>(key, w). wk_JobKey key = k \<and> w_State w = DependencyPending) (WaitRows s)))"

definition pending_on :: "DependencyTarget \<Rightarrow> DependencyWaitInfo \<Rightarrow> bool" where
  "pending_on t w \<longleftrightarrow>
     (\<exists>d \<in> set (w_Dependencies w). d_Target d = t \<and> d_State d = DependencyPending)"

definition Memory_TargetWaits ::
  "Memory \<Rightarrow> gostring \<Rightarrow> DependencyTarget \<Rightarrow> error + DependencyWaitInfo list" where
  "Memory_TargetWaits s tenant t =
     Inr (map (copyWait \<circ> snd)
           (filter (\<lambda>(key, w). TenantId (wk_JobKey key) = tenant
                               \<and> w_State w = DependencyPending \<and> pending_on t w) (WaitRows s)))"

definition memory_store :: "Memory Store" where
  "memory_store =
     \<lparr>store_Job = LookupJob, store_Goal = Memory_Goal, store_SaveGoal = Memory_SaveGoal,
      store_Candidates = Memory_Candidates, store_Goals = Memory_Goals,
      store_Candidate = Memory_Candidate, store_InsertCandidate = Memory_InsertCandidate,
      store_Wait = Memory_Wait, store_SaveWait = Memory_SaveWait,
      store_ConsumerWaits = Memory_ConsumerWaits, store_TargetWaits = Memory_TargetWaits\<rparr>"

text \<open>
  The two job callbacks that the in-process runtime passes to \<open>NewMemory\<close>
  (\<open>initGoalsLocked\<close>), over its table of jobs.
\<close>

definition tableLookup :: "(JobKey \<times> Job) list \<Rightarrow> JobKey \<Rightarrow> error + Job" where
  "tableLookup al k = (case map_of al k of None \<Rightarrow> Inl ErrJobNotFound | Some j \<Rightarrow> Inr j)"

definition tablePrimary :: "(JobKey \<times> Job) list \<Rightarrow> GoalKey \<Rightarrow> Job list" where
  "tablePrimary al gk =
     map snd (filter (\<lambda>(key, j). TenantId key = g_TenantId gk \<and> j_GoalID j = GoalID gk) al)"

section \<open>The contract\<close>

text \<open>
  \<open>inv\<close> is the store's own well-formedness. A writer changes exactly the row it names, the
  pending-wait queries return exactly the matching rows, and the candidates of a goal are the jobs
  for which \<open>Candidate\<close> answers yes. A failing read never reports the errors that the cycle search
  itself produces. Iteration order is left open.
\<close>

definition engine_error :: "error \<Rightarrow> bool" where
  "engine_error er \<longleftrightarrow> er = ErrDependencyCycle \<or> er = ErrStackExhausted"

locale goal_store =
  fixes st :: "'s Store" and inv :: "'s \<Rightarrow> bool"
  assumes job_error: "inv s \<Longrightarrow> store_Job st s k = Inl er \<Longrightarrow> \<not> engine_error er"
    and goal_error: "inv s \<Longrightarrow> store_Goal st s gk = Inl er \<Longrightarrow> \<not> engine_error er"
    and candidates_error: "inv s \<Longrightarrow> store_Candidates st s gk = Inl er \<Longrightarrow> \<not> engine_error er"
    and consumer_error: "inv s \<Longrightarrow> store_ConsumerWaits st s k = Inl er \<Longrightarrow> \<not> engine_error er"
    and job_key: "inv s \<Longrightarrow> store_Job st s k = Inr j \<Longrightarrow> j_Key j = k"
    and job_success: "inv s \<Longrightarrow> store_Job st s k = Inr j \<Longrightarrow> j_Success j \<Longrightarrow> j_Terminal j"
    and goal_key: "inv s \<Longrightarrow> store_Goal st s gk = Inr g \<Longrightarrow> g_GoalKey g = gk"
    and goal_copy: "inv s \<Longrightarrow> store_Goal st s gk = Inr g \<Longrightarrow> copyGoal g = g"
    and wait_at_key: "inv s \<Longrightarrow> store_Wait st s wk = Inr w \<Longrightarrow> wait_key w = wk"
    and wait_copy: "inv s \<Longrightarrow> store_Wait st s wk = Inr w \<Longrightarrow> copyWait w = w"
    and finite_waits: "inv s \<Longrightarrow> finite {wk. \<exists>w. store_Wait st s wk = Inr w}"
    and consumer_set: "inv s \<Longrightarrow> store_ConsumerWaits st s k = Inr ws \<Longrightarrow>
      set ws = {w. store_Wait st s (wait_key w) = Inr w \<and> w_JobKey w = k
                   \<and> w_State w = DependencyPending}"
    and consumer_distinct: "inv s \<Longrightarrow> store_ConsumerWaits st s jk = Inr ws \<Longrightarrow> distinct (map wait_key ws)"
    and target_distinct: "inv s \<Longrightarrow> store_TargetWaits st s tenant t = Inr ws \<Longrightarrow> distinct (map wait_key ws)"
    and target_set: "inv s \<Longrightarrow> store_TargetWaits st s tenant t = Inr ws \<Longrightarrow>
      set ws = {w. store_Wait st s (wait_key w) = Inr w \<and> TenantId (w_JobKey w) = tenant
                   \<and> w_State w = DependencyPending \<and> pending_on t w}"
    and candidates_set: "inv s \<Longrightarrow> store_Candidates st s gk = Inr js \<Longrightarrow>
      set js = {j. store_Job st s (j_Key j) = Inr j \<and> TenantId (j_Key j) = g_TenantId gk
                   \<and> (\<exists>at. store_Candidate st s gk (JobId (j_Key j)) = Inr (at, True))}"
    and goals_set: "inv s \<Longrightarrow> store_Goals st s k = Inr gks \<Longrightarrow>
      set gks = {gk. g_TenantId gk = TenantId k
                     \<and> (\<exists>at. store_Candidate st s gk (JobId k) = Inr (at, True))}"
    and save_goal_inv: "inv s \<Longrightarrow> store_SaveGoal st s g = Inr s' \<Longrightarrow> inv s'"
    and save_goal_goal: "inv s \<Longrightarrow> store_SaveGoal st s g = Inr s' \<Longrightarrow>
      store_Goal st s' gk = (if gk = g_GoalKey g then Inr (copyGoal g) else store_Goal st s gk)"
    and save_goal_frame: "inv s \<Longrightarrow> store_SaveGoal st s g = Inr s' \<Longrightarrow>
      store_Job st s' = store_Job st s \<and> store_Wait st s' = store_Wait st s
      \<and> store_Candidate st s' = store_Candidate st s"
    and save_wait_inv: "inv s \<Longrightarrow> store_SaveWait st s w = Inr s' \<Longrightarrow> inv s'"
    and save_wait_wait: "inv s \<Longrightarrow> store_SaveWait st s w = Inr s' \<Longrightarrow>
      store_Wait st s' wk = (if wk = wait_key w then Inr (copyWait w) else store_Wait st s wk)"
    and save_wait_frame: "inv s \<Longrightarrow> store_SaveWait st s w = Inr s' \<Longrightarrow>
      store_Job st s' = store_Job st s \<and> store_Goal st s' = store_Goal st s
      \<and> store_Candidate st s' = store_Candidate st s"
    and insert_inv: "inv s \<Longrightarrow> store_InsertCandidate st s gk jid at = Inr s' \<Longrightarrow> inv s'"
    and insert_candidate: "inv s \<Longrightarrow> store_InsertCandidate st s gk jid at = Inr s' \<Longrightarrow>
      store_Candidate st s gk jid = Inr (at0, False) \<Longrightarrow>
      store_Candidate st s' gk' jid' =
        (if gk' = gk \<and> jid' = jid then Inr (at, True) else store_Candidate st s gk' jid')"
    and insert_frame: "inv s \<Longrightarrow> store_InsertCandidate st s gk jid at = Inr s' \<Longrightarrow>
      store_Job st s' = store_Job st s \<and> store_Goal st s' = store_Goal st s
      \<and> store_Wait st s' = store_Wait st s"

section \<open>The in-memory store keeps the contract\<close>

definition jobs_consistent :: "(JobKey \<Rightarrow> error + Job) \<Rightarrow> (GoalKey \<Rightarrow> Job list) \<Rightarrow> bool" where
  "jobs_consistent lookup primary \<longleftrightarrow>
     (\<forall>k j. lookup k = Inr j \<longrightarrow> j_Key j = k \<and> (j_Success j \<longrightarrow> j_Terminal j))
     \<and> (\<forall>k er. lookup k = Inl er \<longrightarrow> er = ErrJobNotFound)
     \<and> (\<forall>gk. set (primary gk) =
             {j. lookup (j_Key j) = Inr j \<and> TenantId (j_Key j) = g_TenantId gk
                 \<and> j_GoalID j = GoalID gk})"

definition memory_inv :: "Memory \<Rightarrow> bool" where
  "memory_inv s \<longleftrightarrow>
     distinct (map fst (Extras s)) \<and> distinct (map fst (WaitRows s))
     \<and> (\<forall>k g. GoalRows s k = Some g \<longrightarrow> g_GoalKey g = k)
     \<and> (\<forall>(k, w) \<in> set (WaitRows s). wait_key w = k)
     \<and> jobs_consistent (LookupJob s) (PrimaryJobs s)"

definition table_ok :: "(JobKey \<times> Job) list \<Rightarrow> bool" where
  "table_ok al \<longleftrightarrow> distinct (map fst al)
     \<and> (\<forall>(k, j) \<in> set al. j_Key j = k \<and> (j_Success j \<longrightarrow> j_Terminal j))"

lemma table_consistent:
  assumes "table_ok al"
  shows "jobs_consistent (tableLookup al) (tablePrimary al)"
proof -
  have d: "distinct (map fst al)"
    and k: "\<And>k j. (k, j) \<in> set al \<Longrightarrow> j_Key j = k \<and> (j_Success j \<longrightarrow> j_Terminal j)"
    using assms by (auto simp: table_ok_def)
  have l: "tableLookup al k = Inr j \<longleftrightarrow> (k, j) \<in> set al" for k j
    using map_of_eq_Some_iff[OF d, of k j]
    by (cases "map_of al k") (auto simp: tableLookup_def simp del: map_of_eq_Some_iff)
  have p: "j \<in> set (tablePrimary al gk) \<longleftrightarrow>
      (\<exists>key. (key, j) \<in> set al \<and> TenantId key = g_TenantId gk \<and> j_GoalID j = GoalID gk)" for j gk
    by (force simp: tablePrimary_def)
  have "set (tablePrimary al gk) = {j. tableLookup al (j_Key j) = Inr j \<and> TenantId (j_Key j) = g_TenantId gk
      \<and> j_GoalID j = GoalID gk}" for gk
    by (rule set_eqI) (use p l k in \<open>simp, metis\<close>)
  moreover have "tableLookup al k = Inl er \<Longrightarrow> er = ErrJobNotFound" for k er
    by (simp add: tableLookup_def split: option.splits)
  ultimately show ?thesis using l k by (simp add: jobs_consistent_def)
qed

lemma copyFailure_idem [simp]: "copyFailure (copyFailure f) = copyFailure f"
  by (simp add: copyFailure_def)

lemma copyFailure_comp_idem [simp]: "copyFailure \<circ> copyFailure = copyFailure"
  by (simp add: fun_eq_iff)

lemma copyGoal_idem [simp]: "copyGoal (copyGoal g) = copyGoal g"
  by (simp add: copyGoal_def option.map_comp)

lemma copyGoal_simps [simp]:
  "g_GoalKey (copyGoal g) = g_GoalKey g" "g_State (copyGoal g) = g_State g"
  "g_SuccessfulJobID (copyGoal g) = g_SuccessfulJobID g" "g_Revision (copyGoal g) = g_Revision g"
  "g_Failure (copyGoal g) = map_option copyFailure (g_Failure g)"
  by (simp_all add: copyGoal_def)

lemma copyResolution_simps [simp]:
  "d_Target (copyResolution d) = d_Target d" "d_State (copyResolution d) = d_State d"
  "d_Condition (copyResolution d) = d_Condition d"
  "d_SatisfiedByJobID (copyResolution d) = d_SatisfiedByJobID d"
  "d_Failure (copyResolution d) = map_option copyFailure (d_Failure d)"
  by (simp_all add: copyResolution_def)

lemma copyResolution_idem [simp]: "copyResolution (copyResolution d) = copyResolution d"
  by (simp add: copyResolution_def option.map_comp)

lemma copyWait_simps [simp]:
  "wait_key (copyWait w) = wait_key w" "w_State (copyWait w) = w_State w"
  "w_JobKey (copyWait w) = w_JobKey w" "w_WaitID (copyWait w) = w_WaitID w"
  "w_Deadline (copyWait w) = w_Deadline w"
  "w_FailedDependencyIndex (copyWait w) = w_FailedDependencyIndex w"
  "w_Dependencies (copyWait w) = map copyResolution (w_Dependencies w)"
  "w_Failure (copyWait w) = map_option copyFailure (w_Failure w)"
  by (simp_all add: copyWait_def wait_key_def)

lemma copyWait_idem [simp]: "copyWait (copyWait w) = copyWait w"
  by (simp add: copyWait_def option.map_comp o_def)

lemma pending_on_copy [simp]: "pending_on t (copyWait w) = pending_on t w"
  by (simp add: pending_on_def)

lemma NewMemory_inv:
  "jobs_consistent lookup primary \<Longrightarrow> memory_inv (NewMemory lookup primary)"
  by (auto simp: memory_inv_def NewMemory_def)

lemma memory_job:
  "memory_inv s \<Longrightarrow> LookupJob s k = Inr j \<Longrightarrow> j_Key j = k \<and> (j_Success j \<longrightarrow> j_Terminal j)"
  by (auto simp: memory_inv_def jobs_consistent_def)

lemma memory_job_error: "memory_inv s \<Longrightarrow> LookupJob s k = Inl er \<Longrightarrow> \<not> engine_error er"
  by (auto simp: memory_inv_def jobs_consistent_def engine_error_def)

lemma memory_primary:
  "memory_inv s \<Longrightarrow> j \<in> set (PrimaryJobs s gk) \<longleftrightarrow> LookupJob s (j_Key j) = Inr j
      \<and> TenantId (j_Key j) = g_TenantId gk \<and> j_GoalID j = GoalID gk"
  by (auto simp: memory_inv_def jobs_consistent_def)

lemma memory_row_iff:
  assumes "memory_inv s"
  shows "(k, w) \<in> set (WaitRows s) \<longleftrightarrow> map_of (WaitRows s) k = Some w \<and> k = wait_key w"
proof -
  have "distinct (map fst (WaitRows s))" "\<forall>x \<in> set (WaitRows s). wait_key (snd x) = fst x"
    using assms unfolding memory_inv_def by (simp_all add: split_def)
  then show ?thesis by fastforce
qed

lemma memory_wait_iff:
  assumes "memory_inv s"
  shows "Memory_Wait s k = Inr w \<longleftrightarrow> (\<exists>v. (k, v) \<in> set (WaitRows s) \<and> w = copyWait v)"
proof -
  have "distinct (map fst (WaitRows s))" using assms by (simp add: memory_inv_def)
  then show ?thesis
    using map_of_eq_Some_iff[of "WaitRows s" k]
    by (cases "map_of (WaitRows s) k") (auto simp: Memory_Wait_def simp del: map_of_eq_Some_iff)
qed

lemma memory_wait_rows:
  assumes inv: "memory_inv s" and P: "\<And>k w. P k (copyWait w) = P k w"
  shows "set (map (copyWait \<circ> snd) (filter (\<lambda>(key, w). P (wk_JobKey key) w) (WaitRows s)))
    = {w. Memory_Wait s (wait_key w) = Inr w \<and> P (w_JobKey w) w}" (is "?L = ?R")
proof
  show "?L \<subseteq> ?R"
    by (auto simp: memory_wait_iff[OF inv] P) (auto simp: memory_row_iff[OF inv] wait_key_def)
  show "?R \<subseteq> ?L"
  proof
    fix w assume w: "w \<in> ?R"
    then obtain v where v: "(wait_key w, v) \<in> set (WaitRows s)" "w = copyWait v"
      by (auto simp: memory_wait_iff[OF inv])
    then have "(wait_key w, v) \<in> set (filter (\<lambda>(key, w). P (wk_JobKey key) w) (WaitRows s))"
      using w P by (auto simp: wait_key_def)
    then have "(copyWait \<circ> snd) (wait_key w, v) \<in> ?L" unfolding set_map by (rule imageI)
    then show "w \<in> ?L" using v by simp
  qed
qed

lemma memory_keys_distinct:
  assumes "memory_inv s"
  shows "distinct (map (wait_key \<circ> (copyWait \<circ> snd)) (filter P (WaitRows s)))"
proof -
  have "map (wait_key \<circ> (copyWait \<circ> snd)) (filter P (WaitRows s)) = map fst (filter P (WaitRows s))"
    using assms by (auto simp: memory_inv_def)
  also have "distinct \<dots>"
    using assms by (auto simp: memory_inv_def distinct_map_filter)
  finally show ?thesis .
qed

lemma memory_candidates_extra:
  assumes inv: "memory_inv s"
    and extra: "list_all2 (\<lambda>pair j. LookupJob s (JobKey (g_TenantId k) (ck_JobID pair)) = Inr j)
           (filter (\<lambda>pair. ck_Goal pair = k) (map fst (Extras s))) extra"
  shows "j \<in> set extra \<longleftrightarrow> LookupJob s (j_Key j) = Inr j \<and> TenantId (j_Key j) = g_TenantId k
                         \<and> CandidateKey k (JobId (j_Key j)) \<in> fst ` set (Extras s)"
    (is "_ \<longleftrightarrow> ?R")
proof
  have key: "LookupJob s key = Inr j \<Longrightarrow> j_Key j = key" for key j
    using memory_job[OF inv] by blast
  show ?R if "j \<in> set extra"
  proof -
    from list_all2_in_set2[OF extra that] obtain pair
      where p: "pair \<in> set (map fst (Extras s))" "ck_Goal pair = k"
        and j: "LookupJob s (JobKey (g_TenantId k) (ck_JobID pair)) = Inr j" by auto
    have "pair = CandidateKey k (JobId (j_Key j))"
      using key[OF j] p(2) by (metis CandidateKey.collapse JobKey.sel(2))
    then show ?thesis using key[OF j] j p(1) by auto
  qed
  show "j \<in> set extra" if r: ?R
  proof -
    have "CandidateKey k (JobId (j_Key j))
        \<in> set (filter (\<lambda>pair. ck_Goal pair = k) (map fst (Extras s)))"
      using r by simp
    from list_all2_in_set1[OF extra this] obtain j' where j': "j' \<in> set extra"
      "LookupJob s (JobKey (g_TenantId k) (JobId (j_Key j))) = Inr j'" by auto
    moreover have "JobKey (g_TenantId k) (JobId (j_Key j)) = j_Key j"
      using r by (metis JobKey.collapse)
    ultimately show ?thesis using r by simp
  qed
qed

lemma memory_candidate_iff:
  assumes "LookupJob s (JobKey (g_TenantId gk) jid) = Inr j"
  shows "(\<exists>at. Memory_Candidate s gk jid = Inr (at, True)) \<longleftrightarrow>
    j_GoalID j = GoalID gk \<or> CandidateKey gk jid \<in> fst ` set (Extras s)"
  using assms map_of_eq_None_notin[of "Extras s" "CandidateKey gk jid"]
  by (auto simp: Memory_Candidate_def split: option.splits)

lemmas memory_ops = memory_store_def Memory_Goal_def Memory_SaveGoal_def Memory_Candidates_def
  Memory_Goals_def Memory_Candidate_def Memory_InsertCandidate_def Memory_SaveWait_def
  Memory_ConsumerWaits_def Memory_TargetWaits_def

lemma memory_frame [simp]:
  "Memory_Wait (s\<lparr>GoalRows := rows\<rparr>) = Memory_Wait s"
  "Memory_Candidate (s\<lparr>GoalRows := rows\<rparr>) = Memory_Candidate s"
  "Memory_Goal (s\<lparr>WaitRows := waits\<rparr>) = Memory_Goal s"
  "Memory_Candidate (s\<lparr>WaitRows := waits\<rparr>) = Memory_Candidate s"
  "Memory_Goal (s\<lparr>Extras := extras\<rparr>) = Memory_Goal s"
  "Memory_Wait (s\<lparr>Extras := extras\<rparr>) = Memory_Wait s"
  by (simp_all add: fun_eq_iff Memory_Wait_def Memory_Goal_def Memory_Candidate_def
      cong: if_cong option.case_cong)

interpretation mem: goal_store memory_store memory_inv
proof (unfold_locales, goal_cases)
  case (1 s k er) then show ?case by (simp add: memory_store_def memory_job_error)
next
  case (2 s gk er)
  then show ?case by (auto simp: memory_ops engine_error_def split: option.splits)
next
  case (3 s gk er)
  then show ?case by (auto simp: memory_ops rbind_Inl_iff dest!: rmap_Inl memory_job_error)
next
  case (4 s k er) then show ?case by (simp add: memory_ops)
next
  case (5 s k j) then show ?case by (simp add: memory_store_def memory_job)
next
  case (6 s k j) then show ?case using memory_job[of s k j] by (simp add: memory_store_def)
next
  case (7 s gk g) then show ?case by (auto simp: memory_ops memory_inv_def split: option.splits)
next
  case (8 s gk g) then show ?case by (auto simp: memory_ops split: option.splits)
next
  case (9 s wk w)
  then show ?case by (auto simp: memory_store_def memory_wait_iff memory_row_iff)
next
  case (10 s wk w) then show ?case by (auto simp: memory_store_def memory_wait_iff)
next
  case (11 s)
  then have "{wk. \<exists>w. store_Wait memory_store s wk = Inr w} \<subseteq> fst ` set (WaitRows s)"
    by (force simp: memory_store_def memory_wait_iff)
  then show ?case by (rule finite_subset) simp
next
  case (12 s k ws)
  then show ?case
    using memory_wait_rows[of s "\<lambda>jk w. jk = k \<and> w_State w = DependencyPending"]
    by (simp add: memory_ops)
next
  case (13 s jk ws) then show ?case by (auto simp: memory_ops intro: memory_keys_distinct)
next
  case (14 s tenant t ws) then show ?case by (auto simp: memory_ops intro: memory_keys_distinct)
next
  case (15 s tenant t ws)
  then show ?case
    using memory_wait_rows[of s "\<lambda>jk w. TenantId jk = tenant \<and> w_State w = DependencyPending \<and> pending_on t w"]
    by (simp add: memory_ops)
next
  case (16 s gk js)
  then obtain extra where e: "list_all2 (\<lambda>pair j. LookupJob s (JobKey (g_TenantId gk) (ck_JobID pair)) = Inr j)
           (filter (\<lambda>pair. ck_Goal pair = gk) (map fst (Extras s))) extra"
    and js: "set js = set (PrimaryJobs s gk) \<union> set extra"
    by (auto simp: memory_ops res_simps)
  note p = memory_primary[OF 16(1)]
  have c: "(\<exists>at. Memory_Candidate s gk (JobId (j_Key j)) = Inr (at, True)) \<longleftrightarrow>
      j_GoalID j = GoalID gk \<or> CandidateKey gk (JobId (j_Key j)) \<in> fst ` set (Extras s)"
    if "LookupJob s (j_Key j) = Inr j" "TenantId (j_Key j) = g_TenantId gk" for j
    by (rule memory_candidate_iff) (use that in \<open>metis JobKey.collapse\<close>)
  show ?case
    unfolding js memory_store_def using p memory_candidates_extra[OF 16(1) e] c
    by (intro set_eqI) (simp, blast)
next
  case (17 s k gks)
  then obtain j where j: "LookupJob s k = Inr j" and gks: "set gks = insert (GoalKey (TenantId k) (j_GoalID j))
      (ck_Goal ` {pair \<in> fst ` set (Extras s). g_TenantId (ck_Goal pair) = TenantId k \<and> ck_JobID pair = JobId k})"
    by (auto simp: memory_ops res_simps image_iff)
  have c: "(\<exists>at. Memory_Candidate s gk (JobId k) = Inr (at, True)) \<longleftrightarrow>
      j_GoalID j = GoalID gk \<or> CandidateKey gk (JobId k) \<in> fst ` set (Extras s)"
    if "g_TenantId gk = TenantId k" for gk
    by (rule memory_candidate_iff) (use that j in \<open>metis JobKey.collapse\<close>)
  have m: "gk \<in> ck_Goal ` {pair \<in> X. g_TenantId (ck_Goal pair) = TenantId k \<and> ck_JobID pair = JobId k}
      \<longleftrightarrow> g_TenantId gk = TenantId k \<and> CandidateKey gk (JobId k) \<in> X" for gk X
  proof
    assume "g_TenantId gk = TenantId k \<and> CandidateKey gk (JobId k) \<in> X"
    then show "gk \<in> ck_Goal ` {pair \<in> X. g_TenantId (ck_Goal pair) = TenantId k \<and> ck_JobID pair = JobId k}"
      by (intro image_eqI[where x = "CandidateKey gk (JobId k)"]) simp_all
  qed (auto simp: CandidateKey.expand, metis CandidateKey.collapse)
  have g: "gk = GoalKey (TenantId k) (j_GoalID j) \<longleftrightarrow> g_TenantId gk = TenantId k \<and> j_GoalID j = GoalID gk"
    for gk by (cases gk) auto
  have "gk \<in> set gks \<longleftrightarrow> g_TenantId gk = TenantId k
      \<and> (\<exists>at. Memory_Candidate s gk (JobId k) = Inr (at, True))" for gk
    unfolding gks insert_iff m g using c[of gk] by blast
  then show ?case by (intro set_eqI) (simp add: memory_store_def)
next
  case (18 s g s')
  then show ?case by (auto simp: memory_ops memory_inv_def split: if_splits)
next
  case (19 s g s' gk) then show ?case by (auto simp: memory_ops)
next
  case (20 s g s')
  then have "s' = s\<lparr>GoalRows := (GoalRows s)(g_GoalKey g \<mapsto> copyGoal g)\<rparr>"
    by (simp add: memory_store_def Memory_SaveGoal_def)
  then show ?case by (simp add: memory_store_def)
next
  case (21 s w s')
  then have s': "s' = s\<lparr>WaitRows := AList.update (wait_key w) (copyWait w) (WaitRows s)\<rparr>"
    by (simp add: memory_store_def Memory_SaveWait_def)
  have "wait_key v = k" if "(k, v) \<in> set (AList.update (wait_key w) (copyWait w) (WaitRows s))" for k v
    using that 21(1) by (auto simp: memory_inv_def dest!: in_set_updateD)
  then show ?case using 21(1) by (auto simp: s' memory_inv_def distinct_update)
next
  case (22 s w s' wk) then show ?case by (auto simp: memory_ops Memory_Wait_def)
next
  case (23 s w s')
  then have "s' = s\<lparr>WaitRows := AList.update (wait_key w) (copyWait w) (WaitRows s)\<rparr>"
    by (simp add: memory_store_def Memory_SaveWait_def)
  then show ?case by (simp add: memory_store_def)
next
  case (24 s gk jid at s') then show ?case by (auto simp: memory_ops memory_inv_def distinct_update)
next
  case (25 s gk jid at s' at0 gk' jid')
  then have s': "s' = s\<lparr>Extras := AList.update (CandidateKey gk jid) at (Extras s)\<rparr>"
    by (simp add: memory_store_def Memory_InsertCandidate_def)
  from 25(3) obtain j where "LookupJob s (JobKey (g_TenantId gk) jid) = Inr j" "j_GoalID j \<noteq> GoalID gk"
    by (auto simp: memory_store_def Memory_Candidate_def res_simps split: if_splits)
  then show ?case
    by (simp add: s' memory_store_def Memory_Candidate_def cong: if_cong option.case_cong)
next
  case (26 s gk jid at s')
  then have "s' = s\<lparr>Extras := AList.update (CandidateKey gk jid) at (Extras s)\<rparr>"
    by (simp add: memory_store_def Memory_InsertCandidate_def)
  then show ?case by (simp add: memory_store_def)
qed

end
