(* ===== verification/Goal_Cycle.thy ===== *)
theory Goal_Cycle
  imports Goal_Types
begin

text \<open>
  The depth-first search of \<open>Engine.CheckCycle\<close> in \<open>internal/goalstate/state.go\<close>, over an
  arbitrary successor function. The search keeps the set of nodes on the current path
  (\<open>active\<close>) and the set of finished nodes (\<open>done\<close>); \<open>fuel\<close> bounds the recursion depth. It is
  shown that the search succeeds exactly when no cycle is reachable from its start, that a cycle
  report is never spurious, and that a depth of one more than the number of nodes is enough.
\<close>

type_synonym 'n marks = "'n set \<times> 'n set"

fun visit :: "('n \<Rightarrow> error + 'n list) \<Rightarrow> nat \<Rightarrow> 'n \<Rightarrow> 'n marks \<Rightarrow> error + 'n marks"
  and visit_all :: "('n \<Rightarrow> error + 'n list) \<Rightarrow> nat \<Rightarrow> 'n list \<Rightarrow> 'n marks \<Rightarrow> error + 'n marks" where
  "visit succ 0 n m = Inl ErrStackExhausted"
| "visit succ (Suc fuel) n (active, finished) =
     (if n \<in> active then Inl ErrDependencyCycle
      else if n \<in> finished then Inr (active, finished)
      else rbind (succ n) (\<lambda>ts.
           rbind (visit_all succ fuel ts (insert n active, finished)) (\<lambda>(a, d).
           Inr (a - {n}, insert n d))))"
| "visit_all succ fuel [] m = Inr m"
| "visit_all succ fuel (t # ts) m = rbind (visit succ fuel t m) (visit_all succ fuel ts)"

definition edges :: "('n \<Rightarrow> error + 'n list) \<Rightarrow> ('n \<times> 'n) set" where
  "edges succ = {(a, b). \<exists>ts. succ a = Inr ts \<and> b \<in> set ts}"

definition settled :: "('n \<Rightarrow> error + 'n list) \<Rightarrow> 'n set \<Rightarrow> bool" where
  "settled succ D \<longleftrightarrow> edges succ `` D \<subseteq> D
     \<and> (\<forall>x \<in> D. (x, x) \<notin> (edges succ)\<^sup>+ \<and> (\<exists>ts. succ x = Inr ts))"

lemma edges_succ: "succ n = Inr ts \<Longrightarrow> t \<in> set ts \<Longrightarrow> (n, t) \<in> edges succ"
  by (auto simp: edges_def)

lemma closed_trancl:
  assumes "R `` D \<subseteq> D" "x \<in> D" and "(x, y) \<in> R\<^sup>+"
  shows "y \<in> D"
  using assms(3) by (induction rule: trancl_induct) (use assms(1,2) in auto)

lemma settled_insert:
  assumes s: "settled succ D" and n: "n \<notin> D" and ts: "succ n = Inr ts" "set ts \<subseteq> D"
  shows "settled succ (insert n D)"
proof -
  have cl: "edges succ `` D \<subseteq> D" using s by (simp add: settled_def)
  have out: "(n, y) \<in> edges succ \<Longrightarrow> y \<in> D" for y using ts by (auto simp: edges_def)
  have "(n, n) \<notin> (edges succ)\<^sup>+"
  proof
    assume "(n, n) \<in> (edges succ)\<^sup>+"
    then consider "(n, n) \<in> edges succ" | y where "(n, y) \<in> edges succ" "(y, n) \<in> (edges succ)\<^sup>+"
      by (meson tranclD rtranclD converse_tranclE)
    then show False using out closed_trancl[OF cl] n by cases blast+
  qed
  then show ?thesis using s out cl ts(1) by (auto simp: settled_def)
qed

lemma visit_success:
  fixes succ :: "'n \<Rightarrow> error + 'n list"
  shows "visit succ fuel n (A, D) = Inr (A', D') \<Longrightarrow> settled succ D \<Longrightarrow> A \<inter> D = {} \<Longrightarrow>
      A' = A \<and> D \<subseteq> D' \<and> n \<in> D' \<and> settled succ D' \<and> A \<inter> D' = {}"
    and "visit_all succ fuel ts (A, D) = Inr (A', D') \<Longrightarrow> settled succ D \<Longrightarrow> A \<inter> D = {} \<Longrightarrow>
      A' = A \<and> D \<subseteq> D' \<and> set ts \<subseteq> D' \<and> settled succ D' \<and> A \<inter> D' = {}"
proof (induction succ fuel n "(A, D)" and succ fuel ts "(A, D)"
    arbitrary: A D A' D' and A D A' D' rule: visit_visit_all.induct)
  case (2 succ fuel n A D)
  show ?case
  proof (cases "n \<in> A \<or> n \<in> D")
    case True then show ?thesis using 2(2,3,4) by (auto split: if_splits)
  next
    case False
    with 2(2) obtain ts a d where ts: "succ n = Inr ts"
      and v: "visit_all succ fuel ts (insert n A, D) = Inr (a, d)"
      and r: "A' = a - {n}" "D' = insert n d"
      by (auto simp: res_simps)
    have h: "a = insert n A" "D \<subseteq> d" "set ts \<subseteq> d" "settled succ d" "insert n A \<inter> d = {}"
      using 2(1)[OF _ _ ts v] False 2(3,4) by auto
    have n: "n \<notin> d" using h(5) by blast
    have "settled succ (insert n d)" by (rule settled_insert[OF h(4) n ts h(3)])
    moreover have "A' = A" using r(1) h(1) False by simp
    moreover have "A \<inter> insert n d = {}" "D \<subseteq> insert n d" using h(2,5) False by blast+
    ultimately show ?thesis using r(2) by simp
  qed
next
  case (4 succ fuel t ts A D)
  from 4(3) obtain a d where v: "visit succ fuel t (A, D) = Inr (a, d)"
    and w: "visit_all succ fuel ts (a, d) = Inr (A', D')" by (auto simp: res_simps)
  from 4(1)[OF v 4(4,5)] have h: "a = A" "D \<subseteq> d" "t \<in> d" "settled succ d" "a \<inter> d = {}" by auto
  from 4(2)[OF v w h(4,5)] h show ?case by auto
qed auto

lemma visit_cycle:
  fixes succ :: "'n \<Rightarrow> error + 'n list"
  assumes no: "\<And>x. succ x \<noteq> Inl ErrDependencyCycle"
  shows "visit succ fuel n (A, D) = Inl ErrDependencyCycle \<Longrightarrow>
      (\<And>a. a \<in> A \<Longrightarrow> (a, n) \<in> (edges succ)\<^sup>+) \<Longrightarrow> settled succ D \<Longrightarrow> A \<inter> D = {} \<Longrightarrow>
      \<exists>x. (n, x) \<in> (edges succ)\<^sup>* \<and> (x, x) \<in> (edges succ)\<^sup>+"
    and "visit_all succ fuel ts (A, D) = Inl ErrDependencyCycle \<Longrightarrow>
      (\<And>a t. a \<in> A \<Longrightarrow> t \<in> set ts \<Longrightarrow> (a, t) \<in> (edges succ)\<^sup>+) \<Longrightarrow> settled succ D \<Longrightarrow> A \<inter> D = {} \<Longrightarrow>
      \<exists>t \<in> set ts. \<exists>x. (t, x) \<in> (edges succ)\<^sup>* \<and> (x, x) \<in> (edges succ)\<^sup>+"
  using no
proof (induction succ fuel n "(A, D)" and succ fuel ts "(A, D)"
    arbitrary: A D and A D rule: visit_visit_all.induct)
  case (2 succ fuel n A D)
  show ?case
  proof (cases "n \<in> A")
    case True then show ?thesis using 2(3) by blast
  next
    case False
    then obtain ts where nD: "n \<notin> D" and ts: "succ n = Inr ts"
      and v: "visit_all succ fuel ts (insert n A, D) = Inl ErrDependencyCycle"
      using 2(2,6) by (auto simp: res_simps split: if_splits)
    have e: "t \<in> set ts \<Longrightarrow> (n, t) \<in> edges succ" for t using ts by (auto simp: edges_def)
    have path: "(a, t) \<in> (edges succ)\<^sup>+" if "a \<in> insert n A" "t \<in> set ts" for a t
      using that e 2(3) by (auto intro: trancl_into_trancl)
    have dis: "insert n A \<inter> D = {}" using nD 2(5) by simp
    obtain t x where "t \<in> set ts" "(t, x) \<in> (edges succ)\<^sup>*" "(x, x) \<in> (edges succ)\<^sup>+"
      using 2(1)[OF False nD ts v path 2(4) dis 2(6)] by blast
    then show ?thesis using e by (meson converse_rtrancl_into_rtrancl)
  qed
next
  case (4 succ fuel t ts A D)
  from 4(3) consider "visit succ fuel t (A, D) = Inl ErrDependencyCycle"
    | a d where "visit succ fuel t (A, D) = Inr (a, d)"
        "visit_all succ fuel ts (a, d) = Inl ErrDependencyCycle"
    by (auto simp: res_simps)
  then show ?case
  proof cases
    case 1 then show ?thesis using 4(1)[OF 1 _ 4(5,6,7)] 4(4) by (meson list.set_intros(1))
  next
    case (2 a d)
    from visit_success(1)[OF 2(1) 4(5,6)] have ad: "a = A" "settled succ d" "A \<inter> d = {}" by auto
    have "\<exists>t \<in> set ts. \<exists>x. (t, x) \<in> (edges succ)\<^sup>* \<and> (x, x) \<in> (edges succ)\<^sup>+"
      using 4(2)[OF 2] ad 4(4,7) by (metis list.set_intros(2))
    then show ?thesis by auto
  qed
qed auto

lemma visit_fuel:
  fixes succ :: "'n \<Rightarrow> error + 'n list"
  assumes no: "\<And>x. succ x \<noteq> Inl ErrStackExhausted"
    and fin: "finite N" and closed: "edges succ `` N \<subseteq> N"
  shows "n \<in> N \<Longrightarrow> card (N - A) < fuel \<Longrightarrow> settled succ D \<Longrightarrow> A \<inter> D = {} \<Longrightarrow>
      visit succ fuel n (A, D) \<noteq> Inl ErrStackExhausted"
    and "set ts \<subseteq> N \<Longrightarrow> card (N - A) < fuel \<Longrightarrow> settled succ D \<Longrightarrow> A \<inter> D = {} \<Longrightarrow>
      visit_all succ fuel ts (A, D) \<noteq> Inl ErrStackExhausted"
  using no closed
proof (induction succ fuel n "(A, D)" and succ fuel ts "(A, D)"
    arbitrary: A D and A D rule: visit_visit_all.induct)
  case (2 succ fuel n A D)
  have "visit_all succ fuel ts (insert n A, D) \<noteq> Inl ErrStackExhausted"
    if ts: "succ n = Inr ts" and n: "n \<notin> A" "n \<notin> D" for ts
  proof (rule 2(1)[OF n ts])
    show "set ts \<subseteq> N" using edges_succ[of succ n ts] ts 2(2,7) by blast
    have "card (N - A) = Suc (card (N - A - {n}))"
      by (rule card.remove) (use fin 2(2) n in simp_all)
    then have "card (N - A - {n}) < fuel" using 2(3) by linarith
    moreover have "N - A - {n} = N - insert n A" by blast
    ultimately show "card (N - insert n A) < fuel" by (rule subst[rotated])
    show "settled succ D" "insert n A \<inter> D = {}" using 2(4,5) n by simp_all
    show "succ x \<noteq> Inl ErrStackExhausted" for x by (rule 2(6))
    show "edges succ `` N \<subseteq> N" by (rule 2(7))
  qed
  then show ?case using 2(6) by (auto simp: res_simps)
next
  case (4 succ fuel t ts A D)
  have "visit_all succ fuel ts (a, d) \<noteq> Inl ErrStackExhausted"
    if v: "visit succ fuel t (A, D) = Inr (a, d)" for a d
  proof (rule 4(2)[OF v])
    from visit_success(1)[OF v 4(5,6)] show "settled succ d" "a \<inter> d = {}" by auto
    show "card (N - a) < fuel" using visit_success(1)[OF v 4(5,6)] 4(4) by simp
  qed (use 4(3,7,8) in simp_all)
  moreover have "visit succ fuel t (A, D) \<noteq> Inl ErrStackExhausted"
    using 4(1)[OF _ 4(4,5,6,7,8)] 4(3) by simp
  ultimately show ?case by (auto simp: res_simps)
qed auto

lemma visit_error:
  fixes succ :: "'n \<Rightarrow> error + 'n list"
  shows "visit succ fuel n (A, D) = Inl e \<Longrightarrow>
      e \<in> {ErrDependencyCycle, ErrStackExhausted} \<or> (\<exists>x. (n, x) \<in> (edges succ)\<^sup>* \<and> succ x = Inl e)"
    and "visit_all succ fuel ts (A, D) = Inl e \<Longrightarrow>
      e \<in> {ErrDependencyCycle, ErrStackExhausted}
      \<or> (\<exists>t \<in> set ts. \<exists>x. (t, x) \<in> (edges succ)\<^sup>* \<and> succ x = Inl e)"
proof (induction succ fuel n "(A, D)" and succ fuel ts "(A, D)"
    arbitrary: A D and A D rule: visit_visit_all.induct)
  case (2 succ fuel n A D)
  have e: "(n, t) \<in> edges succ" if "succ n = Inr ts" "t \<in> set ts" for t ts
    using that by (auto simp: edges_def)
  from 2(2) consider "e = ErrDependencyCycle" | "succ n = Inl e"
    | ts where "n \<notin> A" "n \<notin> D" "succ n = Inr ts" "visit_all succ fuel ts (insert n A, D) = Inl e"
    by (auto simp: res_simps split: if_splits)
  then show ?case
  proof cases
    case (3 ts)
    from 2(1)[OF 3] show ?thesis using e[OF 3(3)] by (meson converse_rtrancl_into_rtrancl)
  qed auto
next
  case (4 succ fuel t ts A D)
  from 4(3) consider "visit succ fuel t (A, D) = Inl e"
    | a d where "visit succ fuel t (A, D) = Inr (a, d)" "visit_all succ fuel ts (a, d) = Inl e"
    by (auto simp: res_simps)
  then show ?case
  proof cases
    case 1 from 4(1)[OF 1] show ?thesis by auto
  next
    case (2 a d) from 4(2)[OF 2] show ?thesis by auto
  qed
qed auto

text \<open>The search as \<open>CheckCycle\<close> starts it, with nothing marked.\<close>

definition acyclic_from :: "('n \<Rightarrow> error + 'n list) \<Rightarrow> 'n \<Rightarrow> bool" where
  "acyclic_from succ n \<longleftrightarrow> (\<forall>x. (n, x) \<in> (edges succ)\<^sup>* \<longrightarrow> (x, x) \<notin> (edges succ)\<^sup>+)"

definition total_from :: "('n \<Rightarrow> error + 'n list) \<Rightarrow> 'n \<Rightarrow> bool" where
  "total_from succ n \<longleftrightarrow> (\<forall>x. (n, x) \<in> (edges succ)\<^sup>* \<longrightarrow> (\<exists>ts. succ x = Inr ts))"

lemma settled_empty [simp]: "settled succ {}"
  by (simp add: settled_def)

lemma visit_acyclic:
  assumes "visit succ fuel n ({}, {}) = Inr m"
  shows "acyclic_from succ n \<and> total_from succ n"
proof -
  obtain A' D' where m: "m = (A', D')" by fastforce
  have D: "n \<in> D'" "settled succ D'" using visit_success(1)[of succ fuel n "{}" "{}" A' D'] assms m by auto
  have "x \<in> D'" if "(n, x) \<in> (edges succ)\<^sup>*" for x
    using that closed_trancl[of "edges succ" D' n x] D by (auto simp: settled_def rtrancl_eq_or_trancl)
  then show ?thesis using D by (auto simp: settled_def acyclic_from_def total_from_def)
qed

lemma visit_cyclic:
  assumes "visit succ fuel n ({}, {}) = Inl ErrDependencyCycle"
    and "\<And>x. succ x \<noteq> Inl ErrDependencyCycle"
  shows "\<not> acyclic_from succ n"
  using visit_cycle(1)[OF assms(2,1)] by (auto simp: acyclic_from_def)

end
