(* ===== verification/Goal_Engine.thy ===== *)
theory Goal_Engine
  imports Goal_Store Goal_Cycle
begin

text \<open>
  The goal engine of \<open>internal/goalstate/state.go\<close>: candidates are added to goals, goals succeed
  with the first successful candidate or are failed explicitly, jobs register dependency waits,
  and every transition settles the waits that depend on its target. The engine is generic in its
  store; an operation returns its error, or its result with the state it leaves. An error carries
  no state, since the caller discards the partially written copy (\<open>Clone\<close> of the in-memory store,
  the transaction of the SQL ones).

  The lemmas inside \<open>goal_store\<close> are proved once for all stores. They show that stored waits are
  well formed and closed waits never change, that closed goals never change, that no wait stays
  pending on a target that has been decided, and that the graph of unresolved edges stays acyclic.
\<close>

record 's Engine =
  e_Store :: "'s Store"
  e_Now :: instant
  e_Depth :: nat

section \<open>Waits\<close>

definition closeResolution :: "DependencyResolution \<Rightarrow> DependencyResolution" where
  "closeResolution d =
     (if d_State d = DependencyPending
      then d\<lparr>d_State := DependencyCancelled, d_BlockedReason := []\<rparr> else d)"

definition closePending :: "DependencyWaitInfo \<Rightarrow> DependencyWaitInfo" where
  "closePending w = w\<lparr>w_Dependencies := map closeResolution (w_Dependencies w)\<rparr>"

definition expired :: "instant \<Rightarrow> DependencyWaitInfo \<Rightarrow> bool" where
  "expired now w \<longleftrightarrow> (case w_Deadline w of None \<Rightarrow> False | Some dl \<Rightarrow> \<not> now < dl)"

text \<open>The body of the loop of \<open>Evaluate\<close> for one pending dependency.\<close>

definition evaluateGoal :: "'s Engine \<Rightarrow> 's \<Rightarrow> gostring \<Rightarrow> DependencyResolution \<Rightarrow> error + DependencyResolution" where
  "evaluateGoal e s tenant d =
     rbind (store_Goal (e_Store e) s (GoalKey tenant (t_GoalID (d_Target d)))) (\<lambda>g.
       case g_State g of
         GoalSucceeded \<Rightarrow> Inr (d\<lparr>d_State := DependencySatisfied, d_SatisfiedByJobID := g_SuccessfulJobID g\<rparr>)
       | GoalFailed \<Rightarrow> Inr (d\<lparr>d_State := DependencyFailed, d_Failure := g_Failure g\<rparr>)
       | GoalOpen \<Rightarrow>
           rbind (store_Candidates (e_Store e) s (g_GoalKey g)) (\<lambda>jobs.
             Inr (d\<lparr>d_BlockedReason :=
               (if list_ex (\<lambda>j. \<not> j_Terminal j) jobs then ''waiting_for_execution''
                else ''awaiting_candidate'')\<rparr>)))"

definition jobFailure :: "instant \<Rightarrow> gostring \<Rightarrow> GoalFailure" where
  "jobFailure now jobID =
     \<lparr>f_Code = ''job_dependency_failed'', f_GoalID = [], f_JobID = jobID,
      f_Message = ''prerequisite job '' @ jobID @ '' did not succeed'',
      f_TerminalJobIDs = [], f_NonTerminalJobIDs = [], f_FailedAt = now\<rparr>"

definition evaluateJob :: "'s Engine \<Rightarrow> 's \<Rightarrow> gostring \<Rightarrow> DependencyResolution \<Rightarrow> error + DependencyResolution" where
  "evaluateJob e s tenant d =
     rbind (store_Job (e_Store e) s (JobKey tenant (t_JobID (d_Target d)))) (\<lambda>j.
       Inr (if j_Terminal j then
              (if j_Success j \<or> d_Condition d = JobPrereqComplete
               then d\<lparr>d_State := DependencySatisfied, d_SatisfiedByJobID := JobId (j_Key j)\<rparr>
               else d\<lparr>d_State := DependencyFailed, d_Failure := Some (jobFailure (e_Now e) (JobId (j_Key j)))\<rparr>)
            else d))"

definition evaluateDep :: "'s Engine \<Rightarrow> 's \<Rightarrow> gostring \<Rightarrow> DependencyResolution \<Rightarrow> error + DependencyResolution" where
  "evaluateDep e s tenant d =
     rbind (if t_GoalID (d_Target d) \<noteq> [] then evaluateGoal e s tenant d else evaluateJob e s tenant d) (\<lambda>d'.
       Inr (if d_State d' = DependencyFailed \<or> d_State d' = DependencyPending then d'
            else d'\<lparr>d_BlockedReason := []\<rparr>))"

text \<open>
  The loop over the dependencies from index \<open>i\<close>. It returns the updated dependencies, the index
  and failure of the dependency that failed, if one did, and whether all were resolved.
\<close>

fun evaluateLoop :: "'s Engine \<Rightarrow> 's \<Rightarrow> gostring \<Rightarrow> nat \<Rightarrow> DependencyResolution list \<Rightarrow>
    error + (DependencyResolution list \<times> (nat \<times> GoalFailure option) option \<times> bool)" where
  "evaluateLoop e s tenant i [] = Inr ([], None, True)"
| "evaluateLoop e s tenant i (d # ds) =
     (if d_State d \<noteq> DependencyPending then
        rbind (evaluateLoop e s tenant (Suc i) ds) (\<lambda>(ds', failed, all). Inr (d # ds', failed, all))
      else rbind (evaluateDep e s tenant d) (\<lambda>d'.
        if d_State d' = DependencyFailed then Inr (d' # ds, Some (i, d_Failure d'), False)
        else rbind (evaluateLoop e s tenant (Suc i) ds) (\<lambda>(ds', failed, all).
          Inr (d' # ds', failed, all \<and> d_State d' \<noteq> DependencyPending))))"

definition Evaluate :: "'s Engine \<Rightarrow> 's \<Rightarrow> DependencyWaitInfo \<Rightarrow> error + DependencyWaitInfo" where
  "Evaluate e s w =
     (if w_State w \<noteq> DependencyPending then Inr w
      else if expired (e_Now e) w then Inr (closePending (w\<lparr>w_State := DependencyTimedOut\<rparr>))
      else rbind (evaluateLoop e s (TenantId (w_JobKey w)) 0 (w_Dependencies w)) (\<lambda>(ds, failed, all).
        Inr (case failed of
               Some (i, f) \<Rightarrow> closePending (w\<lparr>w_Dependencies := ds, w_State := DependencyFailed,
                                 w_FailedDependencyIndex := Some i, w_Failure := f\<rparr>)
             | None \<Rightarrow> if all then w\<lparr>w_Dependencies := ds, w_State := DependencySatisfied\<rparr>
                       else w\<lparr>w_Dependencies := ds\<rparr>)))"

definition SettleTarget :: "'s Engine \<Rightarrow> gostring \<Rightarrow> DependencyTarget \<Rightarrow> 's \<Rightarrow> error + 's" where
  "SettleTarget e tenant target s =
     rbind (store_TargetWaits (e_Store e) s tenant target) (\<lambda>waits.
       rfold (\<lambda>w s. rbind (Evaluate e s w) (store_SaveWait (e_Store e) s)) waits s)"

section \<open>Cycles\<close>

text \<open>The unresolved successors of a node, in the order \<open>CheckCycle\<close> visits them.\<close>

definition unresolved :: "'s Engine \<Rightarrow> 's \<Rightarrow> gostring \<Rightarrow> DependencyTarget \<Rightarrow> error + DependencyTarget list" where
  "unresolved e s tenant n =
     (if t_GoalID n \<noteq> [] then
        rbind (store_Goal (e_Store e) s (GoalKey tenant (t_GoalID n))) (\<lambda>g.
          if g_State g = GoalOpen then
            rbind (store_Candidates (e_Store e) s (g_GoalKey g)) (\<lambda>js.
              Inr (map (\<lambda>j. job_target (JobId (j_Key j))) (filter (\<lambda>j. \<not> j_Terminal j) js)))
          else Inr [])
      else
        rbind (store_Job (e_Store e) s (JobKey tenant (t_JobID n))) (\<lambda>j.
          if \<not> j_Terminal j then
            rbind (store_ConsumerWaits (e_Store e) s (JobKey tenant (t_JobID n))) (\<lambda>ws.
              Inr (concat (map (\<lambda>w. map d_Target (filter (\<lambda>d. d_State d = DependencyPending) (w_Dependencies w)))
                     (filter (\<lambda>w. w_State w = DependencyPending \<and> \<not> expired (e_Now e) w) ws))))
          else Inr []))"

definition CheckCycle :: "'s Engine \<Rightarrow> gostring \<Rightarrow> DependencyTarget \<Rightarrow> 's \<Rightarrow> error + unit" where
  "CheckCycle e tenant start s =
     rbind (visit (unresolved e s tenant) (e_Depth e) start ({}, {})) (\<lambda>_. Inr ())"

section \<open>Goal transitions\<close>

definition resolve :: "'s Engine \<Rightarrow> GoalInfo \<Rightarrow> gostring \<Rightarrow> 's \<Rightarrow> error + (GoalInfo \<times> 's)" where
  "resolve e g jobID s =
     (if g_State g \<noteq> GoalOpen then Inr (g, s)
      else let g' = g\<lparr>g_State := GoalSucceeded, g_SuccessfulJobID := jobID, g_Revision := 2,
                      g_UpdatedAt := e_Now e, g_ClosedAt := Some (e_Now e)\<rparr>
           in rbind (store_SaveGoal (e_Store e) s g') (\<lambda>s1.
              rbind (SettleTarget e (g_TenantId (g_GoalKey g')) (goal_target (GoalID (g_GoalKey g'))) s1)
                (\<lambda>s2. Inr (g', s2))))"

definition Add :: "'s Engine \<Rightarrow> AddGoalCandidateRequest \<Rightarrow> 's \<Rightarrow> error + (GoalCandidateInfo \<times> 's)" where
  "Add e req s =
     rbind (GoalKey_Validate (ac_GoalKey req)) (\<lambda>_.
     if ac_JobID req = [] then Inl ErrInvalidDependency else
     rbind (store_Goal (e_Store e) s (ac_GoalKey req)) (\<lambda>g.
     rbind (store_Job (e_Store e) s (JobKey (g_TenantId (ac_GoalKey req)) (ac_JobID req))) (\<lambda>j.
     rbind (store_Candidate (e_Store e) s (ac_GoalKey req) (ac_JobID req)) (\<lambda>(at, exists).
     rbind (if exists then Inr (at, g, s)
            else if g_State g \<noteq> GoalOpen then Inl ErrGoalConflict
            else rbind (store_InsertCandidate (e_Store e) s (ac_GoalKey req) (ac_JobID req) (e_Now e)) (\<lambda>s1.
                 if j_Success j then rbind (resolve e g (JobId (j_Key j)) s1) (\<lambda>(g', s2). Inr (e_Now e, g', s2))
                 else if \<not> j_Terminal j then
                   rbind (CheckCycle e (TenantId (j_Key j)) (goal_target (GoalID (g_GoalKey g))) s1)
                     (\<lambda>_. Inr (e_Now e, g, s1))
                 else Inr (e_Now e, g, s1))) (\<lambda>(added, g, s).
     Inr (\<lparr>ci_GoalKey = g_GoalKey g, ci_JobID = ac_JobID req, ci_AddedAt = added,
           ci_GoalState = g_State g, ci_SuccessfulJobID = g_SuccessfulJobID g\<rparr>, s))))))"

definition goalFailure :: "instant \<Rightarrow> FailGoalRequest \<Rightarrow> Job list \<Rightarrow> GoalFailure" where
  "goalFailure now req jobs =
     \<lparr>f_Code = ''goal_failed'', f_GoalID = GoalID (fg_GoalKey req), f_JobID = [],
      f_Message = fg_Message req,
      f_TerminalJobIDs = sort (map (\<lambda>j. JobId (j_Key j)) (filter j_Terminal jobs)),
      f_NonTerminalJobIDs = sort (map (\<lambda>j. JobId (j_Key j)) (filter (\<lambda>j. \<not> j_Terminal j) jobs)),
      f_FailedAt = now\<rparr>"

definition Fail :: "'s Engine \<Rightarrow> FailGoalRequest \<Rightarrow> 's \<Rightarrow> error + (GoalInfo \<times> 's)" where
  "Fail e req s =
     rbind (FailGoalRequest_Validate req) (\<lambda>_.
     rbind (store_Goal (e_Store e) s (fg_GoalKey req)) (\<lambda>g.
     if g_State g = GoalFailed \<and> map_option f_Message (g_Failure g) = Some (fg_Message req) then Inr (g, s)
     else if g_State g \<noteq> GoalOpen then Inl ErrGoalConflict
     else rbind (store_Candidates (e_Store e) s (fg_GoalKey req)) (\<lambda>jobs.
       let g' = g\<lparr>g_State := GoalFailed, g_Revision := 2, g_UpdatedAt := e_Now e,
                  g_ClosedAt := Some (e_Now e), g_Failure := Some (goalFailure (e_Now e) req jobs)\<rparr>
       in rbind (store_SaveGoal (e_Store e) s g') (\<lambda>s1.
          rbind (SettleTarget e (g_TenantId (fg_GoalKey req)) (goal_target (GoalID (fg_GoalKey req))) s1)
            (\<lambda>s2. Inr (g', s2))))))"

definition CloseConsumer :: "'s Engine \<Rightarrow> JobKey \<Rightarrow> 's \<Rightarrow> error + 's" where
  "CloseConsumer e key s =
     rbind (store_ConsumerWaits (e_Store e) s key) (\<lambda>waits.
       rfold (\<lambda>w s. if w_State w = DependencyPending then
                 rbind (Evaluate e s w) (\<lambda>w.
                   store_SaveWait (e_Store e) s (closePending
                     (if w_State w = DependencyPending then w\<lparr>w_State := DependencyCancelled\<rparr> else w)))
               else Inr s) waits s)"

definition resolveGoal :: "'s Engine \<Rightarrow> gostring \<Rightarrow> GoalKey \<Rightarrow> 's \<Rightarrow> error + 's" where
  "resolveGoal e jobID key s =
     rbind (store_Goal (e_Store e) s key) (\<lambda>g. rbind (resolve e g jobID s) (\<lambda>(_, s'). Inr s'))"

definition Complete :: "'s Engine \<Rightarrow> JobKey \<Rightarrow> 's \<Rightarrow> error + 's" where
  "Complete e key s =
     rbind (store_Job (e_Store e) s key) (\<lambda>j.
     rbind (if j_Success j then
              rbind (store_Goals (e_Store e) s key) (\<lambda>goals.
                rfold (resolveGoal e (JobId (j_Key j))) (sort_key GoalID goals) s)
            else Inr s) (\<lambda>s1.
     rbind (CloseConsumer e key s1) (\<lambda>s2.
     SettleTarget e (TenantId key) (job_target (JobId key)) s2)))"

section \<open>Registration\<close>

text \<open>
  Deadlines are compared as instants. \<open>reflect.DeepEqual\<close> also compares the location and the
  monotonic reading of two \<open>time.Time\<close> values, so the code may call a repeated registration
  a conflict where the model does not.
\<close>

definition sameDescriptor :: "DependencyWaitInfo \<Rightarrow> DependencyWait \<Rightarrow> bool" where
  "sameDescriptor w r \<longleftrightarrow>
     w_Deadline w = dw_Deadline r \<and> length (w_Dependencies w) = length (dw_Dependencies r)
     \<and> list_all2 (\<lambda>d q. d_Target d = dep_Target q \<and> d_Condition d = dep_Condition q)
          (w_Dependencies w) (dw_Dependencies r)"

definition newResolution :: "'s Engine \<Rightarrow> JobKey \<Rightarrow> 's \<Rightarrow> Dependency \<Rightarrow> error + DependencyResolution" where
  "newResolution e key s d =
     (if t_JobID (dep_Target d) = JobId key then Inl ErrDependencyCycle
      else rbind (if t_JobID (dep_Target d) \<noteq> []
                  then rbind (store_Job (e_Store e) s (JobKey (TenantId key) (t_JobID (dep_Target d)))) (\<lambda>_. Inr ())
                  else rbind (store_Goal (e_Store e) s (GoalKey (TenantId key) (t_GoalID (dep_Target d)))) (\<lambda>_. Inr ())) (\<lambda>_.
        Inr \<lparr>d_Target = dep_Target d, d_Condition = dep_Condition d, d_State = DependencyPending,
             d_SatisfiedByJobID = [], d_BlockedReason = [], d_Failure = None\<rparr>))"

definition Register :: "'s Engine \<Rightarrow> JobKey \<Rightarrow> DependencyWait \<Rightarrow> bool \<Rightarrow> 's \<Rightarrow> error + (DependencyWaitInfo \<times> 's)" where
  "Register e key req submission s =
     rbind (ValidateDependencyWait (Some req) submission) (\<lambda>_.
     rbind (store_Job (e_Store e) s key) (\<lambda>_.
     case store_Wait (e_Store e) s (DependencyWaitKey key (dw_WaitID req)) of
       Inr old \<Rightarrow>
         if \<not> sameDescriptor old req then Inl ErrDependencyWaitConflict
         else rbind (Evaluate e s old) (\<lambda>w. rbind (store_SaveWait (e_Store e) s w) (\<lambda>s'. Inr (w, s')))
     | Inl err \<Rightarrow>
         if err \<noteq> ErrDependencyWaitNotFound then Inl err
         else rbind (rmap (newResolution e key s) (dw_Dependencies req)) (\<lambda>ds.
              rbind (Evaluate e s \<lparr>w_JobKey = key, w_WaitID = dw_WaitID req, w_State = DependencyPending,
                       w_Deadline = dw_Deadline req, w_Dependencies = ds,
                       w_FailedDependencyIndex = None, w_Failure = None\<rparr>) (\<lambda>w.
              rbind (store_SaveWait (e_Store e) s w) (\<lambda>s'.
              rbind (CheckCycle e (TenantId key) (job_target (JobId key)) s') (\<lambda>_. Inr (w, s')))))))"

end
