(* ===== verification/Goal_Invariants.thy ===== *)
theory Goal_Invariants
  imports Goal_Engine
begin

text \<open>
  Invariants of the goal engine, proved once for every store that keeps the contract
  \<open>goal_store\<close> and then read off for the in-memory store: well-formed waits, sticky outcomes of
  waits and goals, and prompt settlement (no wait is pending on a decided target).
\<close>

section \<open>Well-formed waits and their evolution\<close>

definition wf_wait :: "DependencyWaitInfo \<Rightarrow> bool" where
  "wf_wait w \<longleftrightarrow>
     (case w_State w of
        DependencyPending \<Rightarrow>
          (\<forall>d \<in> set (w_Dependencies w). d_State d \<in> {DependencyPending, DependencySatisfied})
          \<and> (\<exists>d \<in> set (w_Dependencies w). d_State d = DependencyPending)
      | DependencySatisfied \<Rightarrow> (\<forall>d \<in> set (w_Dependencies w). d_State d = DependencySatisfied)
      | DependencyFailed \<Rightarrow>
          (\<exists>i < length (w_Dependencies w). w_FailedDependencyIndex w = Some i
             \<and> d_State (w_Dependencies w ! i) = DependencyFailed
             \<and> w_Failure w = d_Failure (w_Dependencies w ! i)
             \<and> (\<forall>j < length (w_Dependencies w). j \<noteq> i \<longrightarrow>
                   d_State (w_Dependencies w ! j) \<in> {DependencySatisfied, DependencyCancelled}))
      | _ \<Rightarrow> (\<forall>d \<in> set (w_Dependencies w). d_State d \<in> {DependencySatisfied, DependencyCancelled}))"

definition dep_le :: "DependencyResolution \<Rightarrow> DependencyResolution \<Rightarrow> bool" where
  "dep_le d d' \<longleftrightarrow> d_Target d' = d_Target d \<and> d_Condition d' = d_Condition d
     \<and> (d_State d \<noteq> DependencyPending \<longrightarrow> d' = d)"

definition wait_le :: "DependencyWaitInfo \<Rightarrow> DependencyWaitInfo \<Rightarrow> bool" where
  "wait_le w w' \<longleftrightarrow> wait_key w' = wait_key w \<and> w_Deadline w' = w_Deadline w
     \<and> list_all2 dep_le (w_Dependencies w) (w_Dependencies w')
     \<and> (w_State w \<noteq> DependencyPending \<longrightarrow> w' = w)"

lemma dep_le_refl [simp]: "dep_le d d"
  by (simp add: dep_le_def)

lemma dep_le_trans: "dep_le a b \<Longrightarrow> dep_le b c \<Longrightarrow> dep_le a c"
  by (auto simp: dep_le_def)

lemma deps_le_refl [simp]: "list_all2 dep_le ds ds"
  by (simp add: list.rel_refl)

lemma wait_le_refl [simp]: "wait_le w w"
  by (simp add: wait_le_def)

lemma wait_le_trans: "wait_le a b \<Longrightarrow> wait_le b c \<Longrightarrow> wait_le a c"
  using list_all2_trans[of dep_le dep_le dep_le] dep_le_trans
  unfolding wait_le_def by metis

lemma dep_le_closeResolution: "dep_le d (closeResolution d)"
  by (simp add: closeResolution_def dep_le_def)

lemma closePending_simps [simp]:
  "wait_key (closePending w) = wait_key w" "w_State (closePending w) = w_State w"
  "w_JobKey (closePending w) = w_JobKey w" "w_WaitID (closePending w) = w_WaitID w"
  "w_Deadline (closePending w) = w_Deadline w" "w_Failure (closePending w) = w_Failure w"
  "w_FailedDependencyIndex (closePending w) = w_FailedDependencyIndex w"
  "w_Dependencies (closePending w) = map closeResolution (w_Dependencies w)"
  by (simp_all add: closePending_def wait_key_def)

lemma deps_le_close: "list_all2 dep_le ds es \<Longrightarrow> list_all2 dep_le ds (map closeResolution es)"
  by (auto simp: list_all2_conv_all_nth) (metis dep_le_trans dep_le_closeResolution)

lemma deps_le_close_refl [simp]: "list_all2 dep_le ds (map closeResolution ds)"
  by (rule deps_le_close) simp

lemma closeResolution_state:
  "d_State (closeResolution d) =
     (if d_State d = DependencyPending then DependencyCancelled else d_State d)"
  "d_State d \<noteq> DependencyPending \<Longrightarrow> closeResolution d = d"
  by (simp_all add: closeResolution_def)

lemma wait_key_update [simp]:
  "wait_key (w\<lparr>w_State := x\<rparr>) = wait_key w"
  "wait_key (w\<lparr>w_Dependencies := ds\<rparr>) = wait_key w"
  "wait_key (w\<lparr>w_FailedDependencyIndex := i\<rparr>) = wait_key w"
  "wait_key (w\<lparr>w_Failure := f\<rparr>) = wait_key w"
  by (simp_all add: wait_key_def)

lemma wf_wait_copy [simp]: "wf_wait w \<Longrightarrow> wf_wait (copyWait w)"
  by (auto simp: wf_wait_def split: DependencyState.splits)

section \<open>Evaluation\<close>

lemma evaluateGoal_cases:
  assumes "evaluateGoal e s tenant d = Inr d'"
  obtains g where "store_Goal (e_Store e) s (GoalKey tenant (t_GoalID (d_Target d))) = Inr g"
      "g_State g = GoalSucceeded"
      "d' = d\<lparr>d_State := DependencySatisfied, d_SatisfiedByJobID := g_SuccessfulJobID g\<rparr>"
  | g where "store_Goal (e_Store e) s (GoalKey tenant (t_GoalID (d_Target d))) = Inr g"
      "g_State g = GoalFailed" "d' = d\<lparr>d_State := DependencyFailed, d_Failure := g_Failure g\<rparr>"
  | g r where "store_Goal (e_Store e) s (GoalKey tenant (t_GoalID (d_Target d))) = Inr g"
      "g_State g = GoalOpen" "d' = d\<lparr>d_BlockedReason := r\<rparr>"
proof -
  from assms obtain g where g: "store_Goal (e_Store e) s (GoalKey tenant (t_GoalID (d_Target d))) = Inr g"
    unfolding evaluateGoal_def rbind_Inr_iff by blast
  show thesis
  proof (cases "g_State g")
    case GoalOpen
    then show thesis using assms g that(3)[OF g] unfolding evaluateGoal_def
      by (simp add: rbind_Inr_iff) blast
  qed (use assms g that in \<open>simp_all add: evaluateGoal_def\<close>)
qed

lemma evaluateJob_cases:
  assumes "evaluateJob e s tenant d = Inr d'"
  obtains j where "store_Job (e_Store e) s (JobKey tenant (t_JobID (d_Target d))) = Inr j"
      "j_Terminal j" "j_Success j \<or> d_Condition d = JobPrereqComplete"
      "d' = d\<lparr>d_State := DependencySatisfied, d_SatisfiedByJobID := JobId (j_Key j)\<rparr>"
  | j where "store_Job (e_Store e) s (JobKey tenant (t_JobID (d_Target d))) = Inr j"
      "j_Terminal j" "\<not> j_Success j" "d_Condition d \<noteq> JobPrereqComplete"
      "d' = d\<lparr>d_State := DependencyFailed, d_Failure := Some (jobFailure (e_Now e) (JobId (j_Key j)))\<rparr>"
  | j where "store_Job (e_Store e) s (JobKey tenant (t_JobID (d_Target d))) = Inr j"
      "\<not> j_Terminal j" "d' = d"
proof -
  from assms obtain j where j: "store_Job (e_Store e) s (JobKey tenant (t_JobID (d_Target d))) = Inr j"
    unfolding evaluateJob_def rbind_Inr_iff by blast
  have d': "d' = (if j_Terminal j then
              (if j_Success j \<or> d_Condition d = JobPrereqComplete
               then d\<lparr>d_State := DependencySatisfied, d_SatisfiedByJobID := JobId (j_Key j)\<rparr>
               else d\<lparr>d_State := DependencyFailed, d_Failure := Some (jobFailure (e_Now e) (JobId (j_Key j)))\<rparr>)
            else d)"
    using assms j by (simp add: evaluateJob_def)
  show thesis
  proof (cases "j_Terminal j")
    case True
    then show thesis
      using that(1)[OF j True] that(2)[OF j True] d'
      by (cases "j_Success j \<or> d_Condition d = JobPrereqComplete") simp_all
  next
    case False show thesis by (rule that(3)[OF j False]) (simp add: d' False)
  qed
qed

lemma evaluateDep_Inr:
  assumes "evaluateDep e s tenant d = Inr d'" "d_State d = DependencyPending"
  shows "dep_le d d'" "d_State d' \<in> {DependencyPending, DependencySatisfied, DependencyFailed}"
proof -
  from assms(1) obtain d1 where
    "(if t_GoalID (d_Target d) \<noteq> [] then evaluateGoal e s tenant d else evaluateJob e s tenant d) = Inr d1"
    and d': "d' = (if d_State d1 = DependencyFailed \<or> d_State d1 = DependencyPending then d1
            else d1\<lparr>d_BlockedReason := []\<rparr>)"
    by (auto simp: evaluateDep_def rbind_Inr_iff)
  then have "(evaluateGoal e s tenant d = Inr d1) \<or> (evaluateJob e s tenant d = Inr d1)"
    by (simp split: if_splits)
  then have "dep_le d d1 \<and> d_State d1 \<in> {DependencyPending, DependencySatisfied, DependencyFailed}"
  proof
    assume "evaluateGoal e s tenant d = Inr d1"
    then show ?thesis by (cases rule: evaluateGoal_cases) (simp_all add: dep_le_def assms(2))
  next
    assume "evaluateJob e s tenant d = Inr d1"
    then show ?thesis by (cases rule: evaluateJob_cases) (simp_all add: dep_le_def assms(2))
  qed
  then show "dep_le d d'" "d_State d' \<in> {DependencyPending, DependencySatisfied, DependencyFailed}"
    using d' assms(2) by (auto simp: dep_le_def)
qed

lemma evaluateLoop_Cons:
  assumes "evaluateLoop e s tenant i (d # ds) = Inr (ds', failed, all)"
  obtains es where "d_State d \<noteq> DependencyPending" "ds' = d # es"
      "evaluateLoop e s tenant (Suc i) ds = Inr (es, failed, all)"
  | d' where "d_State d = DependencyPending" "evaluateDep e s tenant d = Inr d'"
      "d_State d' = DependencyFailed" "ds' = d' # ds" "failed = Some (i, d_Failure d')" "\<not> all"
  | d' es a where "d_State d = DependencyPending" "evaluateDep e s tenant d = Inr d'"
      "d_State d' \<noteq> DependencyFailed" "ds' = d' # es" "all = (a \<and> d_State d' \<noteq> DependencyPending)"
      "evaluateLoop e s tenant (Suc i) ds = Inr (es, failed, a)"
proof (cases "d_State d = DependencyPending")
  case False
  then show thesis using assms that(1) by (auto simp: rbind_Inr_iff)
next
  case True
  with assms obtain d' where d': "evaluateDep e s tenant d = Inr d'" by (auto simp: rbind_Inr_iff)
  show thesis
  proof (cases "d_State d' = DependencyFailed")
    case F: True
    then show thesis using assms True d' that(2) by auto
  next
    case False
    then show thesis using assms True d' that(3) by (auto simp: rbind_Inr_iff)
  qed
qed

lemma evaluateLoop_le:
  "evaluateLoop e s tenant i ds = Inr (ds', failed, all) \<Longrightarrow> list_all2 dep_le ds ds'"
proof (induction ds arbitrary: i ds' failed all)
  case (Cons d ds)
  from Cons.prems show ?case
    by (cases rule: evaluateLoop_Cons) (simp_all add: evaluateDep_Inr(1) Cons.IH)
qed simp

lemma evaluateLoop_states:
  assumes "evaluateLoop e s tenant i ds = Inr (ds', None, all)"
    and "\<forall>d \<in> set ds. d_State d \<in> {DependencyPending, DependencySatisfied}"
  shows "(\<forall>d \<in> set ds'. d_State d \<in> {DependencyPending, DependencySatisfied})
    \<and> (all \<longleftrightarrow> (\<forall>d \<in> set ds'. d_State d \<noteq> DependencyPending))"
  using assms
proof (induction ds arbitrary: i ds' all)
  case (Cons d ds)
  from Cons.prems(1) show ?case
  proof (cases rule: evaluateLoop_Cons)
    case (1 es) then show ?thesis using Cons.IH[OF 1(3)] Cons.prems(2) by auto
  next
    case (3 d' es a)
    then show ?thesis using Cons.IH[OF 3(6)] Cons.prems(2) evaluateDep_Inr(2)[OF 3(2,1)] by auto
  qed simp
qed simp

lemma evaluateLoop_failed:
  assumes "evaluateLoop e s tenant i ds = Inr (ds', Some (k, f), all)"
    and "\<forall>d \<in> set ds. d_State d \<in> {DependencyPending, DependencySatisfied}"
  shows "i \<le> k \<and> k - i < length ds' \<and> d_State (ds' ! (k - i)) = DependencyFailed
    \<and> d_Failure (ds' ! (k - i)) = f
    \<and> (\<forall>j < length ds'. j \<noteq> k - i \<longrightarrow> d_State (ds' ! j) \<in> {DependencyPending, DependencySatisfied})"
  using assms
proof (induction ds arbitrary: i ds' all)
  case (Cons d ds)
  have here: "(\<forall>j < length (x # xs). j \<noteq> 0 \<longrightarrow> d_State ((x # xs) ! j) \<in> S) \<longleftrightarrow> (\<forall>y \<in> set xs. d_State y \<in> S)"
    for x xs S by (auto simp: all_set_conv_all_nth nth_Cons split: nat.splits)
  have later: ?case if r: "ds' = d' # es" and d': "d_State d' \<in> {DependencyPending, DependencySatisfied}"
    and es: "evaluateLoop e s tenant (Suc i) ds = Inr (es, Some (k, f), a)" for d' es a
  proof -
    from Cons.IH[OF es] Cons.prems(2) have h: "Suc i \<le> k" "k - Suc i < length es"
      "d_State (es ! (k - Suc i)) = DependencyFailed" "d_Failure (es ! (k - Suc i)) = f"
      "\<forall>j < length es. j \<noteq> k - Suc i \<longrightarrow> d_State (es ! j) \<in> {DependencyPending, DependencySatisfied}" by auto
    from h(1) obtain m where m: "k - i = Suc m" "k - Suc i = m" by (metis Suc_diff_le diff_Suc_Suc)
    show ?thesis using h m r d' by (auto simp: nth_Cons split: nat.splits)
  qed
  from Cons.prems(1) show ?case
  proof (cases rule: evaluateLoop_Cons)
    case (1 es) then show ?thesis using later[OF 1(2) _ 1(3)] Cons.prems(2) by auto
  next
    case (2 d') then show ?thesis using here[of d' ds] Cons.prems(2) by auto
  next
    case (3 d' es a) then show ?thesis using later[OF 3(4) _ 3(6)] evaluateDep_Inr(2)[OF 3(2,1)] by auto
  qed
qed simp

lemma Evaluate_le: "Evaluate e s w = Inr w' \<Longrightarrow> wait_le w w'"
  by (auto simp: Evaluate_def res_simps wait_le_def split: if_splits option.splits prod.splits
      intro: deps_le_close deps_le_refl dest!: evaluateLoop_le)

lemma wf_wait_close:
  assumes "\<forall>d \<in> set (w_Dependencies w). d_State d \<in> {DependencyPending, DependencySatisfied}"
    and "w_State w \<in> {DependencyTimedOut, DependencyCancelled}"
  shows "wf_wait (closePending w)"
  using assms by (auto simp: wf_wait_def closeResolution_state)

lemma Evaluate_wf:
  assumes "Evaluate e s w = Inr w'" and "wf_wait w"
  shows "wf_wait w'"
proof (cases "w_State w = DependencyPending \<and> \<not> expired (e_Now e) w")
  case False
  then show ?thesis using assms
    by (auto simp: Evaluate_def wf_wait_def closeResolution_state split: if_splits)
next
  case True
  then have pre: "\<forall>d \<in> set (w_Dependencies w). d_State d \<in> {DependencyPending, DependencySatisfied}"
    using assms(2) by (simp add: wf_wait_def)
  from True assms(1) obtain ds failed all where
    loop: "evaluateLoop e s (TenantId (w_JobKey w)) 0 (w_Dependencies w) = Inr (ds, failed, all)"
    by (auto simp: Evaluate_def res_simps)
  show ?thesis
  proof (cases failed)
    case None
    from assms(1) True loop None have w': "w' = (if all
        then w\<lparr>w_Dependencies := ds, w_State := DependencySatisfied\<rparr> else w\<lparr>w_Dependencies := ds\<rparr>)"
      by (simp add: Evaluate_def)
    show ?thesis using evaluateLoop_states[OF loop[unfolded None] pre] True
      unfolding w' by (cases all) (auto simp: wf_wait_def)
  next
    case (Some kf)
    obtain k f where kf: "kf = (k, f)" by fastforce
    from assms(1) True loop Some kf have w': "w' = closePending (w\<lparr>w_Dependencies := ds,
        w_State := DependencyFailed, w_FailedDependencyIndex := Some k, w_Failure := f\<rparr>)"
      by (simp add: Evaluate_def)
    from evaluateLoop_failed[OF loop[unfolded Some kf] pre] show ?thesis
      unfolding w' by (simp add: wf_wait_def closeResolution_state) auto
  qed
qed

end
