(* ===== verification/Goal_Settlement.thy ===== *)
theory Goal_Settlement
  imports Goal_Invariants
begin

text \<open>
  What the operations of the goal engine do to a store that keeps the contract \<open>goal_store\<close>:
  outcomes of goals and waits are sticky, stored waits stay well formed, and a transition that
  decides a target leaves no wait pending on it.
\<close>

section \<open>Relations between store states\<close>

definition canonical :: "DependencyTarget \<Rightarrow> bool" where
  "canonical t \<longleftrightarrow> (t_JobID t = []) \<noteq> (t_GoalID t = [])"

definition decided :: "'s Store \<Rightarrow> 's \<Rightarrow> gostring \<Rightarrow> DependencyTarget \<Rightarrow> bool" where
  "decided st s tenant t \<longleftrightarrow>
     (if t_GoalID t \<noteq> []
      then (\<exists>g. store_Goal st s (GoalKey tenant (t_GoalID t)) = Inr g \<and> g_State g \<noteq> GoalOpen)
      else (\<exists>j. store_Job st s (JobKey tenant (t_JobID t)) = Inr j \<and> j_Terminal j))"

definition stale :: "'s Store \<Rightarrow> 's \<Rightarrow> (gostring \<times> DependencyTarget) set" where
  "stale st s =
     {(tenant, t). canonical t \<and> decided st s tenant t
        \<and> (\<exists>k w. store_Wait st s k = Inr w \<and> TenantId (wk_JobKey k) = tenant
                \<and> w_State w = DependencyPending \<and> pending_on t w)}"

definition wf_waits :: "'s Store \<Rightarrow> 's \<Rightarrow> bool" where
  "wf_waits st s \<longleftrightarrow> (\<forall>k w. store_Wait st s k = Inr w \<longrightarrow> wf_wait w)"

definition evolves :: "'s Store \<Rightarrow> 's \<Rightarrow> 's \<Rightarrow> bool" where
  "evolves st s s' \<longleftrightarrow>
     store_Job st s' = store_Job st s
     \<and> (\<forall>k g. store_Goal st s k = Inr g \<longrightarrow>
           (\<exists>g'. store_Goal st s' k = Inr g' \<and> (g_State g \<noteq> GoalOpen \<longrightarrow> g' = g)))
     \<and> (\<forall>k w. store_Wait st s k = Inr w \<longrightarrow> (\<exists>w'. store_Wait st s' k = Inr w' \<and> wait_le w w'))
     \<and> (\<forall>k jid at. store_Candidate st s k jid = Inr (at, True) \<longrightarrow>
           store_Candidate st s' k jid = Inr (at, True))"

text \<open>A transition that only advances existing waits.\<close>

definition advances :: "'s Store \<Rightarrow> 's \<Rightarrow> 's \<Rightarrow> bool" where
  "advances st s s' \<longleftrightarrow>
     store_Job st s' = store_Job st s \<and> store_Goal st s' = store_Goal st s
     \<and> store_Candidate st s' = store_Candidate st s
     \<and> (\<forall>k w. store_Wait st s k = Inr w \<longrightarrow>
           (\<exists>w'. store_Wait st s' k = Inr w' \<and> wait_le w w' \<and> (wf_wait w \<longrightarrow> wf_wait w')))
     \<and> (\<forall>k w'. store_Wait st s' k = Inr w' \<longrightarrow> (\<exists>w. store_Wait st s k = Inr w))"

text \<open>A transition that adds no wait, no candidate and no open goal.\<close>

definition shrinks :: "'s Store \<Rightarrow> 's \<Rightarrow> 's \<Rightarrow> bool" where
  "shrinks st s s' \<longleftrightarrow>
     evolves st s s' \<and> store_Candidate st s' = store_Candidate st s
     \<and> (\<forall>k w'. store_Wait st s' k = Inr w' \<longrightarrow> (\<exists>w. store_Wait st s k = Inr w))
     \<and> (\<forall>k g'. store_Goal st s' k = Inr g' \<longrightarrow> g_State g' = GoalOpen \<longrightarrow> store_Goal st s k = Inr g')"

text \<open>The three guarantees every operation of the engine gives.\<close>

definition keeps :: "'s Store \<Rightarrow> 's \<Rightarrow> 's \<Rightarrow> bool" where
  "keeps st s s' \<longleftrightarrow>
     evolves st s s' \<and> (wf_waits st s \<longrightarrow> wf_waits st s') \<and> stale st s' \<subseteq> stale st s"

lemma evolves_refl [simp]: "evolves st s s"
  by (auto simp: evolves_def intro: wait_le_refl)

lemma evolves_trans:
  assumes a: "evolves st s t" and b: "evolves st t u"
  shows "evolves st s u"
proof -
  have "\<exists>g'. store_Goal st u k = Inr g' \<and> (g_State g \<noteq> GoalOpen \<longrightarrow> g' = g)"
    if "store_Goal st s k = Inr g" for k g
    using that a b unfolding evolves_def by metis
  moreover have "\<exists>w'. store_Wait st u k = Inr w' \<and> wait_le w w'" if "store_Wait st s k = Inr w" for k w
    using that a b unfolding evolves_def by (metis wait_le_trans)
  ultimately show ?thesis using a b by (simp add: evolves_def)
qed

lemma advances_evolves: "advances st s s' \<Longrightarrow> evolves st s s'"
  by (auto simp: advances_def evolves_def) meson

lemma advances_refl [simp]: "advances st s s"
  by (auto simp: advances_def intro: wait_le_refl)

lemma advances_trans:
  assumes a: "advances st s t" and b: "advances st t u"
  shows "advances st s u"
proof -
  have "\<exists>w'. store_Wait st u k = Inr w' \<and> wait_le w w' \<and> (wf_wait w \<longrightarrow> wf_wait w')"
    if "store_Wait st s k = Inr w" for k w
    using that a b unfolding advances_def by (metis wait_le_trans)
  moreover have "\<exists>w. store_Wait st s k = Inr w" if "store_Wait st u k = Inr w'" for k w'
    using that a b unfolding advances_def by metis
  ultimately show ?thesis using a b by (simp add: advances_def)
qed

lemma advances_wf: "advances st s s' \<Longrightarrow> wf_waits st s \<Longrightarrow> wf_waits st s'"
  unfolding advances_def wf_waits_def by (metis sum.inject(2))

lemma wait_le_pending:
  assumes "wait_le w w'"
  shows "w_State w' = DependencyPending \<Longrightarrow> w_State w = DependencyPending"
    and "pending_on t w' \<Longrightarrow> pending_on t w"
proof -
  show "w_State w = DependencyPending" if "w_State w' = DependencyPending"
    using assms that by (auto simp: wait_le_def)
  assume "pending_on t w'"
  then obtain d' where d': "d' \<in> set (w_Dependencies w')" "d_Target d' = t" "d_State d' = DependencyPending"
    by (auto simp: pending_on_def)
  have "list_all2 dep_le (w_Dependencies w) (w_Dependencies w')" using assms by (simp add: wait_le_def)
  from list_all2_in_set2[OF this d'(1)] obtain d where "d \<in> set (w_Dependencies w)" "dep_le d d'" by blast
  then show "pending_on t w" using d' by (auto simp: pending_on_def dep_le_def)
qed

lemma shrinks_refl [simp]: "shrinks st s s"
  by (auto simp: shrinks_def)

lemma shrinks_trans: "shrinks st s t \<Longrightarrow> shrinks st t u \<Longrightarrow> shrinks st s u"
  unfolding shrinks_def by (metis evolves_trans)

lemma advances_shrinks: "advances st s s' \<Longrightarrow> shrinks st s s'"
  using advances_evolves[of st s s'] by (auto simp: shrinks_def advances_def)

lemma decided_cong:
  "store_Job st s' = store_Job st s \<Longrightarrow> store_Goal st s' = store_Goal st s \<Longrightarrow>
     decided st s' tenant t = decided st s tenant t"
  by (simp add: decided_def)

lemma advances_stale:
  assumes "advances st s s'"
  shows "stale st s' \<subseteq> stale st s"
proof (clarsimp simp: stale_def)
  fix t k w' assume h: "canonical t" "decided st s' (TenantId (wk_JobKey k)) t"
    "store_Wait st s' k = Inr w'" "w_State w' = DependencyPending" "pending_on t w'"
  from assms h(3) obtain w where w: "store_Wait st s k = Inr w" "wait_le w w'"
    unfolding advances_def by (metis sum.inject(2))
  have "decided st s (TenantId (wk_JobKey k)) t" 
    using h(2) assms decided_cong[of st s' s] by (simp add: advances_def)
  then show "decided st s (TenantId (wk_JobKey k)) t \<and>
      (\<exists>ka w. store_Wait st s ka = Inr w \<and> TenantId (wk_JobKey ka) = TenantId (wk_JobKey k)
         \<and> w_State w = DependencyPending \<and> pending_on t w)"
    using w wait_le_pending[OF w(2)] h by blast
qed

lemma keeps_refl [simp]: "keeps st s s"
  by (simp add: keeps_def)

lemma keeps_trans: "keeps st s t \<Longrightarrow> keeps st t u \<Longrightarrow> keeps st s u"
  unfolding keeps_def by (meson evolves_trans subset_trans)

lemma advances_keeps: "advances st s s' \<Longrightarrow> keeps st s s'"
  by (simp add: keeps_def advances_evolves advances_wf advances_stale)

lemma deps_le_copy:
  "list_all2 dep_le ds es \<Longrightarrow> map copyResolution ds = ds \<Longrightarrow> list_all2 dep_le ds (map copyResolution es)"
  by (induction rule: list_all2_induct) (auto simp: dep_le_def)

lemma wait_le_copy:
  assumes "wait_le w w'" and "copyWait w = w"
  shows "wait_le w (copyWait w')"
proof -
  have "map copyResolution (w_Dependencies w) = w_Dependencies w"
    using assms(2) by (metis copyWait_simps(7))
  then show ?thesis using assms deps_le_copy by (auto simp: wait_le_def)
qed

lemma wf_wait_no_pending:
  assumes "wf_wait w" "w_State w \<noteq> DependencyPending" "d \<in> set (w_Dependencies w)"
  shows "d_State d \<noteq> DependencyPending"
proof (cases "w_State w = DependencyFailed")
  case True
  obtain j where "j < length (w_Dependencies w)" "d = w_Dependencies w ! j"
    using assms(3) by (auto simp: in_set_conv_nth)
  moreover from True assms(1) obtain i where "d_State (w_Dependencies w ! i) = DependencyFailed"
    "\<forall>j < length (w_Dependencies w). j \<noteq> i \<longrightarrow>
       d_State (w_Dependencies w ! j) \<in> {DependencySatisfied, DependencyCancelled}"
    by (auto simp: wf_wait_def)
  ultimately show ?thesis by (cases "j = i") auto
next
  case False
  then show ?thesis using assms by (cases "w_State w") (auto simp: wf_wait_def)
qed

section \<open>A pending dependency is undecided after evaluation\<close>

lemma evaluateDep_decided:
  assumes "evaluateDep e s tenant d = Inr d'" and "d_State d' = DependencyPending"
    and "d_State d = DependencyPending"
  shows "\<not> decided (e_Store e) s tenant (d_Target d)"
proof (cases "t_GoalID (d_Target d) \<noteq> []")
  case True
  with assms(1) obtain d1 where g: "evaluateGoal e s tenant d = Inr d1" "d_State d1 = DependencyPending"
    using assms(2) by (auto simp: evaluateDep_def rbind_Inr_iff split: if_splits)
  from g(1) show ?thesis using g(2) True by (cases rule: evaluateGoal_cases) (simp_all add: decided_def)
next
  case False
  with assms(1) obtain d1 where j: "evaluateJob e s tenant d = Inr d1" "d_State d1 = DependencyPending"
    using assms(2) by (auto simp: evaluateDep_def rbind_Inr_iff split: if_splits)
  from j(1) show ?thesis using j(2) False by (cases rule: evaluateJob_cases) (simp_all add: decided_def)
qed

lemma evaluateLoop_decided:
  "evaluateLoop e s tenant i ds = Inr (ds', None, all) \<Longrightarrow> d \<in> set ds' \<Longrightarrow>
     d_State d = DependencyPending \<Longrightarrow> \<not> decided (e_Store e) s tenant (d_Target d)"
proof (induction ds arbitrary: i ds' all)
  case (Cons c ds)
  from Cons.prems(1) show ?case
  proof (cases rule: evaluateLoop_Cons)
    case (1 es) then show ?thesis using Cons.IH[OF 1(3)] Cons.prems(2,3) by auto
  next
    case (3 d' es a)
    have "d_Target d' = d_Target c" using evaluateDep_Inr(1)[OF 3(2,1)] by (simp add: dep_le_def)
    then show ?thesis
      using Cons.IH[OF 3(6)] Cons.prems(2,3) 3(4) evaluateDep_decided[OF 3(2) _ 3(1)] by auto
  qed simp
qed simp

lemma Evaluate_decided:
  assumes "Evaluate e s w = Inr w'" and "w_State w' = DependencyPending" and "pending_on t w'"
  shows "\<not> decided (e_Store e) s (TenantId (w_JobKey w)) t"
proof -
  have p: "w_State w = DependencyPending"
    using wait_le_pending(1)[OF Evaluate_le[OF assms(1)] assms(2)] .
  have "\<not> expired (e_Now e) w" using assms(1,2) p by (auto simp: Evaluate_def)
  with assms(1) p obtain ds failed all where
    loop: "evaluateLoop e s (TenantId (w_JobKey w)) 0 (w_Dependencies w) = Inr (ds, failed, all)"
    and w': "w' = (case failed of
               Some (i, f) \<Rightarrow> closePending (w\<lparr>w_Dependencies := ds, w_State := DependencyFailed,
                                 w_FailedDependencyIndex := Some i, w_Failure := f\<rparr>)
             | None \<Rightarrow> if all then w\<lparr>w_Dependencies := ds, w_State := DependencySatisfied\<rparr>
                       else w\<lparr>w_Dependencies := ds\<rparr>)"
    by (auto simp: Evaluate_def rbind_Inr_iff)
  with assms(2) have "failed = None" "w_Dependencies w' = ds" by (auto split: option.splits if_splits)
  then show ?thesis using evaluateLoop_decided loop assms(3) by (fastforce simp: pending_on_def)
qed

section \<open>Engine operations over a store\<close>

locale goal_engine = goal_store st inv
  for st :: "'s Store" and inv :: "'s \<Rightarrow> bool" +
  fixes e :: "'s Engine"
  assumes store_e [simp]: "e_Store e = st"
begin

lemma save_advances:
  assumes "inv s" and "store_SaveWait st s w' = Inr s'"
    and "store_Wait st s (wait_key w) = Inr w" and "wait_le w w'" and "wf_wait w \<longrightarrow> wf_wait w'"
  shows "inv s'" "advances st s s'"
proof -
  have key: "wait_key w' = wait_key w" using assms(4) by (simp add: wait_le_def)
  show "inv s'" using save_wait_inv assms(1,2) .
  have w: "store_Wait st s' k = (if k = wait_key w then Inr (copyWait w') else store_Wait st s k)" for k
    using save_wait_wait[OF assms(1,2)] key by simp
  have "wait_le w (copyWait w')" using wait_le_copy[OF assms(4)] wait_copy[OF assms(1,3)] by simp
  then show "advances st s s'"
    using save_wait_frame[OF assms(1,2)] w assms(3,5) by (auto simp: advances_def intro: wf_wait_copy)
qed

text \<open>
  A loop that replaces each wait of a list of distinct stored waits by a related one.
\<close>

lemma rfold_save:
  assumes "rfold body ws s = Inr s'" and "inv s" and "distinct (map wait_key ws)"
    and "\<And>w. w \<in> set ws \<Longrightarrow> store_Wait st s (wait_key w) = Inr w"
    and "\<And>w u u'. w \<in> set ws \<Longrightarrow> body w u = Inr u' \<Longrightarrow> inv u \<Longrightarrow>
      store_Goal st u = store_Goal st s \<Longrightarrow> store_Job st u = store_Job st s \<Longrightarrow>
      \<exists>w'. store_SaveWait st u w' = Inr u' \<and> wait_le w w' \<and> (wf_wait w \<longrightarrow> wf_wait w') \<and> R w w'"
  shows "inv s' \<and> advances st s s'
    \<and> (\<forall>k. k \<notin> wait_key ` set ws \<longrightarrow> store_Wait st s' k = store_Wait st s k)
    \<and> (\<forall>w \<in> set ws. \<exists>w'. R w w' \<and> store_Wait st s' (wait_key w) = Inr (copyWait w'))"
  using assms
proof (induction ws arbitrary: s)
  case (Cons w ws)
  from Cons.prems(1) obtain u where u: "body w s = Inr u" and rest: "rfold body ws u = Inr s'"
    by (auto simp: rbind_Inr_iff)
  from Cons.prems(5)[OF _ u Cons.prems(2)] obtain w' where
    save: "store_SaveWait st s w' = Inr u" and le: "wait_le w w'" "wf_wait w \<longrightarrow> wf_wait w'" and R: "R w w'"
    by auto
  have key: "wait_key w' = wait_key w" using le(1) by (simp add: wait_le_def)
  have at: "store_Wait st s (wait_key w) = Inr w" by (rule Cons.prems(4)) simp
  note adv = save_advances[OF Cons.prems(2) save at le]
  have W: "store_Wait st u k = (if k = wait_key w then Inr (copyWait w') else store_Wait st s k)" for k
    using save_wait_wait[OF Cons.prems(2) save] key by simp
  have G: "store_Goal st u = store_Goal st s" "store_Job st u = store_Job st s"
    using adv(2) by (simp_all add: advances_def)
  have dist: "distinct (map wait_key ws)" "wait_key w \<notin> wait_key ` set ws" using Cons.prems(3) by auto
  have at': "store_Wait st u (wait_key v) = Inr v" if "v \<in> set ws" for v
  proof -
    have "wait_key v \<noteq> wait_key w" using dist(2) that by (metis imageI)
    then show ?thesis using W Cons.prems(4)[of v] that by simp
  qed
  have IH: "inv s' \<and> advances st u s'
      \<and> (\<forall>k. k \<notin> wait_key ` set ws \<longrightarrow> store_Wait st s' k = store_Wait st u k)
      \<and> (\<forall>w \<in> set ws. \<exists>w'. R w w' \<and> store_Wait st s' (wait_key w) = Inr (copyWait w'))"
  proof (rule Cons.IH[OF rest adv(1) dist(1) at'])
    fix v x x'
    assume "v \<in> set ws" "body v x = Inr x'" "inv x"
      "store_Goal st x = store_Goal st u" "store_Job st x = store_Job st u"
    then show "\<exists>w'. store_SaveWait st x w' = Inr x' \<and> wait_le v w' \<and> (wf_wait v \<longrightarrow> wf_wait w') \<and> R v w'"
      using Cons.prems(5)[of v x x'] G by simp
  qed
  have adv': "advances st s s'" by (rule advances_trans[OF adv(2)]) (rule IH[THEN conjunct2, THEN conjunct1])
  note other = IH[THEN conjunct2, THEN conjunct2, THEN conjunct1, rule_format]
  note each = IH[THEN conjunct2, THEN conjunct2, THEN conjunct2]
  have here: "store_Wait st s' (wait_key w) = Inr (copyWait w')" using other[OF dist(2)] W[of "wait_key w"] by simp
  have "store_Wait st s' k = store_Wait st s k" if "k \<notin> wait_key ` set (w # ws)" for k
    using other[of k] W[of k] that by simp
  moreover have "\<exists>v'. R v v' \<and> store_Wait st s' (wait_key v) = Inr (copyWait v')" if "v \<in> set (w # ws)" for v
    using that each here R by (cases "v = w") auto
  ultimately show ?case using adv' IH[THEN conjunct1] by blast
qed simp

lemma settle_body:
  assumes "rbind (Evaluate e u w) (store_SaveWait st u) = Inr u'"
  obtains w' where "store_SaveWait st u w' = Inr u'" "Evaluate e u w = Inr w'" "wait_le w w'"
    "wf_wait w \<longrightarrow> wf_wait w'"
proof -
  from assms obtain w' where w': "Evaluate e u w = Inr w'" "store_SaveWait st u w' = Inr u'"
    by (auto simp: rbind_Inr_iff)
  show thesis by (rule that[OF w'(2,1)]) (use Evaluate_le[OF w'(1)] Evaluate_wf[OF w'(1)] in auto)
qed

lemma SettleTarget_advances:
  assumes "SettleTarget e tenant t s = Inr s'" and "inv s"
  shows "inv s'" "advances st s s'" "stale st s' \<subseteq> stale st s - {(tenant, t)}"
    "store_Wait st s k = Inr w \<Longrightarrow> \<not> pending_on t w \<Longrightarrow> store_Wait st s' k = Inr w"
proof -
  from assms(1) obtain ws where ws: "store_TargetWaits st s tenant t = Inr ws"
    and run: "rfold (\<lambda>w s. rbind (Evaluate e s w) (store_SaveWait st s)) ws s = Inr s'"
    by (auto simp: SettleTarget_def rbind_Inr_iff)
  note ws_set = target_set[OF assms(2) ws]
  define R where "R = (\<lambda>(w :: DependencyWaitInfo) (w' :: DependencyWaitInfo). w_State w' = DependencyPending \<longrightarrow>
      (\<forall>x. pending_on x w' \<longrightarrow> \<not> decided st s (TenantId (w_JobKey w)) x))"
  have loop: "inv s' \<and> advances st s s'
    \<and> (\<forall>k. k \<notin> wait_key ` set ws \<longrightarrow> store_Wait st s' k = store_Wait st s k)
    \<and> (\<forall>w \<in> set ws. \<exists>w'. R w w' \<and> store_Wait st s' (wait_key w) = Inr (copyWait w'))"
  proof (rule rfold_save[OF run assms(2) target_distinct[OF assms(2) ws]])
    show "store_Wait st s (wait_key w) = Inr w" if "w \<in> set ws" for w using that ws_set by simp
    fix w u u'
    assume b: "rbind (Evaluate e u w) (store_SaveWait st u) = Inr u'"
      and fr: "store_Goal st u = store_Goal st s" "store_Job st u = store_Job st s"
    from b obtain w' where w': "store_SaveWait st u w' = Inr u'" "Evaluate e u w = Inr w'" "wait_le w w'"
      "wf_wait w \<longrightarrow> wf_wait w'" by (rule settle_body)
    have "R w w'" using Evaluate_decided[OF w'(2)] decided_cong[OF fr(2,1)] by (simp add: R_def)
    with w' show "\<exists>w'. store_SaveWait st u w' = Inr u' \<and> wait_le w w' \<and> (wf_wait w \<longrightarrow> wf_wait w') \<and> R w w'"
      by blast
  qed
  then show "inv s'" and adv: "advances st s s'" by auto
  have frame: "decided st s' tn x = decided st s tn x" for tn x
    by (rule decided_cong) (use adv in \<open>simp_all add: advances_def\<close>)
  have "(tenant, t) \<notin> stale st s'"
  proof
    assume "(tenant, t) \<in> stale st s'"
    then obtain k w where k: "store_Wait st s' k = Inr w" "TenantId (wk_JobKey k) = tenant"
      "w_State w = DependencyPending" "pending_on t w" and dec: "decided st s tenant t"
      by (auto simp: stale_def frame)
    from adv k(1) obtain v where v: "store_Wait st s k = Inr v" "wait_le v w"
      unfolding advances_def by (metis sum.inject(2))
    have vk: "wait_key v = k" using wait_at_key[OF assms(2) v(1)] .
    have "v \<in> set ws" unfolding ws_set
      using v vk k wait_le_pending[OF v(2)] by (auto simp: wait_key_def)
    then obtain v' where v': "R v v'" "store_Wait st s' k = Inr (copyWait v')" using loop vk by blast
    then have "w = copyWait v'" using k(1) by simp
    then have "\<not> decided st s (TenantId (w_JobKey v)) t" using v'(1) k(3,4) by (simp add: R_def)
    then show False using dec k(2) vk by (auto simp: wait_key_def)
  qed
  then show "stale st s' \<subseteq> stale st s - {(tenant, t)}" using advances_stale[OF adv] by blast
  assume w: "store_Wait st s k = Inr w" "\<not> pending_on t w"
  have "k \<notin> wait_key ` set ws" using w unfolding ws_set by auto
  then show "store_Wait st s' k = Inr w" using loop w(1) by simp
qed

lemma close_body:
  assumes "Evaluate e u w = Inr w1" and "w_State w = DependencyPending"
  defines "w' \<equiv> closePending (if w_State w1 = DependencyPending then w1\<lparr>w_State := DependencyCancelled\<rparr> else w1)"
  shows "wait_le w w'" "wf_wait w \<longrightarrow> wf_wait w'" "w_State w' \<noteq> DependencyPending"
proof -
  have le: "wait_le w w1" by (rule Evaluate_le[OF assms(1)])
  then show "wait_le w w'" unfolding w'_def using assms(2) by (auto simp: wait_le_def intro: deps_le_close)
  show "w_State w' \<noteq> DependencyPending" by (simp add: w'_def)
  show "wf_wait w \<longrightarrow> wf_wait w'"
  proof
    assume "wf_wait w"
    then have wf: "wf_wait w1" using Evaluate_wf[OF assms(1)] by simp
    show "wf_wait w'"
    proof (cases "w_State w1 = DependencyPending")
      case True
      then show ?thesis unfolding w'_def using wf by (auto simp: wf_wait_def closeResolution_state(1))
    next
      case False
      have "map closeResolution (w_Dependencies w1) = w_Dependencies w1"
        using wf_wait_no_pending[OF wf False] by (intro map_idI closeResolution_state(2)) simp
      then show ?thesis unfolding w'_def using wf False by (simp add: closePending_def)
    qed
  qed
qed

lemma CloseConsumer_advances:
  assumes "CloseConsumer e key s = Inr s'" and "inv s"
  shows "inv s'" "advances st s s'"
    and "store_Wait st s' k = Inr w \<Longrightarrow> wk_JobKey k = key \<Longrightarrow> w_State w \<noteq> DependencyPending"
proof -
  let ?body = "\<lambda>w s. if w_State w = DependencyPending then
                 rbind (Evaluate e s w) (\<lambda>w.
                   store_SaveWait st s (closePending
                     (if w_State w = DependencyPending then w\<lparr>w_State := DependencyCancelled\<rparr> else w)))
               else Inr s"
  from assms(1) obtain ws where ws: "store_ConsumerWaits st s key = Inr ws"
    and run: "rfold ?body ws s = Inr s'" 
    unfolding CloseConsumer_def rbind_Inr_iff store_e by blast
  note ws_set = consumer_set[OF assms(2) ws]
  define R where "R = (\<lambda>(w :: DependencyWaitInfo) (w' :: DependencyWaitInfo). w_State w' \<noteq> DependencyPending)"
  have loop: "inv s' \<and> advances st s s'
    \<and> (\<forall>k. k \<notin> wait_key ` set ws \<longrightarrow> store_Wait st s' k = store_Wait st s k)
    \<and> (\<forall>w \<in> set ws. \<exists>w'. R w w' \<and> store_Wait st s' (wait_key w) = Inr (copyWait w'))"
  proof (rule rfold_save[OF run assms(2) consumer_distinct[OF assms(2) ws]])
    show "store_Wait st s (wait_key w) = Inr w" if "w \<in> set ws" for w using that ws_set by simp
    fix w u u' assume w: "w \<in> set ws" and b: "?body w u = Inr u'"
    have p: "w_State w = DependencyPending" using w ws_set by simp
    with b obtain w1 where w1: "Evaluate e u w = Inr w1"
      and sv: "store_SaveWait st u (closePending
          (if w_State w1 = DependencyPending then w1\<lparr>w_State := DependencyCancelled\<rparr> else w1)) = Inr u'"
      by (auto simp: rbind_Inr_iff)
    show "\<exists>w'. store_SaveWait st u w' = Inr u' \<and> wait_le w w' \<and> (wf_wait w \<longrightarrow> wf_wait w') \<and> R w w'"
      using sv close_body[OF w1 p] unfolding R_def by blast
  qed
  then show "inv s'" and adv: "advances st s s'" by auto
  assume k: "store_Wait st s' k = Inr w" "wk_JobKey k = key"
  from adv k(1) obtain v where v: "store_Wait st s k = Inr v" "wait_le v w"
    unfolding advances_def by (metis sum.inject(2))
  have vk: "wait_key v = k" using wait_at_key[OF assms(2) v(1)] .
  show "w_State w \<noteq> DependencyPending"
  proof
    assume "w_State w = DependencyPending"
    then have "v \<in> set ws" unfolding ws_set using v vk k(2) wait_le_pending(1)[OF v(2)]
      by (auto simp: wait_key_def)
    then obtain v' where "R v v'" "store_Wait st s' k = Inr (copyWait v')" using loop vk by blast
    then show False using k(1) \<open>w_State w = DependencyPending\<close> by (simp add: R_def)
  qed
qed

lemma save_goal_step:
  assumes "inv s" and "store_SaveGoal st s g' = Inr s1"
    and "store_Goal st s (g_GoalKey g') = Inr g" and "g_State g = GoalOpen" and "g_State g' \<noteq> GoalOpen"
  shows "inv s1" "shrinks st s s1" "wf_waits st s \<longrightarrow> wf_waits st s1"
    "stale st s1 \<subseteq> insert (g_TenantId (g_GoalKey g'), goal_target (GoalID (g_GoalKey g'))) (stale st s)"
proof -
  note G = save_goal_goal[OF assms(1,2)] and F = save_goal_frame[OF assms(1,2)]
  show "inv s1" using save_goal_inv assms(1,2) .
  show "shrinks st s s1" using F G assms(3,4,5) by (auto simp: shrinks_def evolves_def intro: wait_le_refl)
  show "wf_waits st s \<longrightarrow> wf_waits st s1" using F by (simp add: wf_waits_def)
  have "decided st s1 tn t \<Longrightarrow> canonical t \<Longrightarrow> decided st s tn t
      \<or> (tn, t) = (g_TenantId (g_GoalKey g'), goal_target (GoalID (g_GoalKey g')))" for tn t
    using G F by (cases t; cases "g_GoalKey g'") (auto simp: decided_def canonical_def split: if_splits)
  then show "stale st s1 \<subseteq> insert (g_TenantId (g_GoalKey g'), goal_target (GoalID (g_GoalKey g'))) (stale st s)"
    using F by (auto simp: stale_def)
qed

lemma close_goal:
  assumes "inv s" and "store_SaveGoal st s g' = Inr s1"
    and "store_Goal st s (g_GoalKey g') = Inr g" and "g_State g = GoalOpen" and "g_State g' \<noteq> GoalOpen"
    and "SettleTarget e (g_TenantId (g_GoalKey g')) (goal_target (GoalID (g_GoalKey g'))) s1 = Inr s2"
  shows "inv s2" "shrinks st s s2" "keeps st s s2" "store_Goal st s2 (g_GoalKey g') = Inr (copyGoal g')"
proof -
  note one = save_goal_step[OF assms(1-5)]
  note two = SettleTarget_advances[OF assms(6) one(1)]
  show "inv s2" by (rule two(1))
  show sh: "shrinks st s s2" using one(2) advances_shrinks[OF two(2)] by (rule shrinks_trans)
  show "keeps st s s2"
    using sh one(3,4) two(3) advances_wf[OF two(2)] unfolding keeps_def shrinks_def by blast
  have "store_Goal st s2 = store_Goal st s1" using two(2) by (simp add: advances_def)
  then show "store_Goal st s2 (g_GoalKey g') = Inr (copyGoal g')"
    using save_goal_goal[OF assms(1,2)] by simp
qed

end

end
