(* ===== verification/Goal_Transitions.thy ===== *)
theory Goal_Transitions
  imports Goal_Settlement
begin

text \<open>
  The public operations of the goal engine: each keeps the store well formed, keeps closed goals
  and waits as they are, and settles what it decides; completing a job also closes the job's own
  waits and leaves no wait pending on the job.
\<close>

lemma copyGoal_fix: "copyGoal g = g \<longleftrightarrow> map_option copyFailure (g_Failure g) = g_Failure g"
  by (cases g) (simp add: copyGoal_def)

context goal_engine
begin

lemma resolve_step:
  assumes "resolve e g jobID s = Inr (g', s')" and "inv s" and "store_Goal st s (g_GoalKey g) = Inr g"
  shows "inv s'" "shrinks st s s'" "keeps st s s'" "store_Goal st s' (g_GoalKey g) = Inr g'"
    "g_State g' \<noteq> GoalOpen"
proof -
  let ?g = "g\<lparr>g_State := GoalSucceeded, g_SuccessfulJobID := jobID, g_Revision := 2,
                      g_UpdatedAt := e_Now e, g_ClosedAt := Some (e_Now e)\<rparr>"
  have "inv s' \<and> shrinks st s s' \<and> keeps st s s' \<and> store_Goal st s' (g_GoalKey g) = Inr g'
    \<and> g_State g' \<noteq> GoalOpen"
  proof (cases "g_State g = GoalOpen")
    case False then show ?thesis using assms by (simp add: resolve_def)
  next
    case True
    with assms(1) obtain s1 where s1: "store_SaveGoal st s ?g = Inr s1"
      and s2: "SettleTarget e (g_TenantId (g_GoalKey ?g)) (goal_target (GoalID (g_GoalKey ?g))) s1 = Inr s'"
      and g': "g' = ?g"
      by (auto simp: resolve_def rbind_Inr_iff Let_def)
    have at: "store_Goal st s (g_GoalKey ?g) = Inr g" using assms(3) by simp
    note cl = close_goal[OF assms(2) s1 at True _ s2]
    have "copyGoal ?g = ?g" using goal_copy[OF assms(2,3)] by (simp add: copyGoal_fix)
    then show ?thesis using cl g' by simp
  qed
  then show "inv s'" "shrinks st s s'" "keeps st s s'" "store_Goal st s' (g_GoalKey g) = Inr g'"
    "g_State g' \<noteq> GoalOpen" by auto
qed

lemma resolveGoal_step:
  assumes "resolveGoal e jobID gk s = Inr s'" and "inv s"
  shows "inv s'" "shrinks st s s'" "keeps st s s'" "\<exists>g. store_Goal st s' gk = Inr g \<and> g_State g \<noteq> GoalOpen"
proof -
  from assms(1) obtain g g' where g: "store_Goal st s gk = Inr g" and r: "resolve e g jobID s = Inr (g', s')"
    by (auto simp: resolveGoal_def rbind_Inr_iff)
  have gk: "g_GoalKey g = gk" using goal_key[OF assms(2) g] .
  note st = resolve_step[OF r assms(2)]
  show "inv s'" "shrinks st s s'" "keeps st s s'" "\<exists>g. store_Goal st s' gk = Inr g \<and> g_State g \<noteq> GoalOpen"
    using st g gk by auto
qed

lemma Fail_step:
  assumes "Fail e req s = Inr (g', s')" and "inv s"
  shows "inv s'" "shrinks st s s'" "keeps st s s'"
    "store_Goal st s' (fg_GoalKey req) = Inr g'" "g_State g' = GoalFailed"
proof -
  from assms(1) obtain g where g: "store_Goal st s (fg_GoalKey req) = Inr g"
    by (auto simp: Fail_def rbind_Inr_iff)
  have gk: "g_GoalKey g = fg_GoalKey req" using goal_key[OF assms(2) g] .
  have "inv s' \<and> shrinks st s s' \<and> keeps st s s' \<and> store_Goal st s' (fg_GoalKey req) = Inr g'
    \<and> g_State g' = GoalFailed"
  proof (cases "g_State g = GoalFailed \<and> map_option f_Message (g_Failure g) = Some (fg_Message req)")
    case True
    then have "g' = g" "s' = s" using assms(1) g by (auto simp: Fail_def rbind_Inr_iff)
    then show ?thesis using True assms(2) g by simp
  next
    case False
    from assms(1) g False obtain jobs s1 where op: "g_State g = GoalOpen"
      and g': "g' = g\<lparr>g_State := GoalFailed, g_Revision := 2, g_UpdatedAt := e_Now e,
                  g_ClosedAt := Some (e_Now e), g_Failure := Some (goalFailure (e_Now e) req jobs)\<rparr>"
      and s1: "store_SaveGoal st s g' = Inr s1"
      and s2: "SettleTarget e (g_TenantId (fg_GoalKey req)) (goal_target (GoalID (fg_GoalKey req))) s1 = Inr s'"
      by (auto simp: Fail_def rbind_Inr_iff Let_def split: if_splits)
    have k: "g_GoalKey g' = fg_GoalKey req" using g' gk by simp
    have at: "store_Goal st s (g_GoalKey g') = Inr g" using k g by simp
    have cl: "g_State g' \<noteq> GoalOpen" using g' by simp
    note c = close_goal[OF assms(2) s1 at op cl s2[folded k]]
    have "copyGoal g' = g'" by (simp add: g' copyGoal_fix copyFailure_def goalFailure_def)
    then show ?thesis using c k g' by simp
  qed
  then show "inv s'" "shrinks st s s'" "keeps st s s'"
    "store_Goal st s' (fg_GoalKey req) = Inr g'" "g_State g' = GoalFailed" by auto
qed

text \<open>Failing a goal leaves alone a wait that has no dependency on exactly that goal.\<close>

lemma Fail_others:
  assumes "Fail e req s = Inr (g', s')" and "inv s" and "store_Wait st s k = Inr w"
    and "\<not> pending_on (goal_target (GoalID (fg_GoalKey req))) w"
  shows "store_Wait st s' k = Inr w"
proof -
  from assms(1) consider "s' = s" | g1 s1 where "store_SaveGoal st s g1 = Inr s1"
      "SettleTarget e (g_TenantId (fg_GoalKey req)) (goal_target (GoalID (fg_GoalKey req))) s1 = Inr s'"
    by (auto simp: Fail_def rbind_Inr_iff Let_def split: if_splits)
  then show ?thesis
  proof cases
    case 2
    then have "inv s1" "store_Wait st s1 k = Inr w" using save_goal_inv[OF assms(2)] save_goal_frame[OF assms(2)] assms(3) by auto
    then show ?thesis using SettleTarget_advances(4)[OF 2(2)] assms(4) by simp
  qed (use assms(3) in simp)
qed

lemma Complete_step:
  assumes "Complete e key s = Inr s'" and "inv s"
  shows "inv s'" "shrinks st s s'" "keeps st s s'"
    "(TenantId key, job_target (JobId key)) \<notin> stale st s'"
    "store_Wait st s' k = Inr w \<Longrightarrow> wk_JobKey k = key \<Longrightarrow> w_State w \<noteq> DependencyPending"
proof -
  from assms(1) obtain j s1 s2 where j: "store_Job st s key = Inr j"
    and s1: "(if j_Success j then
              rbind (store_Goals st s key) (\<lambda>goals.
                rfold (resolveGoal e (JobId (j_Key j))) (sort_key GoalID goals) s)
            else Inr s) = Inr s1"
    and s2: "CloseConsumer e key s1 = Inr s2"
    and s3: "SettleTarget e (TenantId key) (job_target (JobId key)) s2 = Inr s'"
    unfolding Complete_def rbind_Inr_iff store_e by blast
  have one: "inv s1 \<and> shrinks st s s1 \<and> keeps st s s1"
  proof (cases "j_Success j")
    case True
    with s1 obtain goals where "rfold (resolveGoal e (JobId (j_Key j))) (sort_key GoalID goals) s = Inr s1"
      by (auto simp: rbind_Inr_iff)
    then show ?thesis
    proof (rule rfold_invariant[where P = "\<lambda>u. inv u \<and> shrinks st s u \<and> keeps st s u"])
      show "inv s \<and> shrinks st s s \<and> keeps st s s" using assms(2) by simp
      fix x u v
      assume u: "inv u \<and> shrinks st s u \<and> keeps st s u" and r: "resolveGoal e (JobId (j_Key j)) x u = Inr v"
      note r' = resolveGoal_step[OF r u[THEN conjunct1]]
      show "inv v \<and> shrinks st s v \<and> keeps st s v"
        using r'(1) shrinks_trans[OF _ r'(2)] keeps_trans[OF _ r'(3)] u by simp
    qed
  next
    case False then show ?thesis using s1 assms(2) by simp
  qed
  note two = CloseConsumer_advances[OF s2 one[THEN conjunct1]]
  note three = SettleTarget_advances[OF s3 two(1)]
  show "inv s'" by (rule three(1))
  have adv: "advances st s1 s'" by (rule advances_trans[OF two(2) three(2)])
  show "shrinks st s s'" by (rule shrinks_trans[OF one[THEN conjunct2, THEN conjunct1] advances_shrinks[OF adv]])
  show "keeps st s s'" by (rule keeps_trans[OF one[THEN conjunct2, THEN conjunct2] advances_keeps[OF adv]])
  show "(TenantId key, job_target (JobId key)) \<notin> stale st s'" using three(3) by blast
  show "w_State w \<noteq> DependencyPending" if h: "store_Wait st s' k = Inr w" "wk_JobKey k = key"
  proof -
    from three(2) h(1) obtain v where v: "store_Wait st s2 k = Inr v" "wait_le v w"
      unfolding advances_def by (metis sum.inject(2))
    show ?thesis using two(3)[OF v(1) h(2)] wait_le_pending(1)[OF v(2)] by blast
  qed
qed

lemma insert_step:
  assumes "inv s" and "store_InsertCandidate st s gk jid at = Inr s1"
    and "store_Candidate st s gk jid = Inr (at0, False)"
  shows "inv s1" "keeps st s s1"
proof -
  note F = insert_frame[OF assms(1,2)] and C = insert_candidate[OF assms(1,2,3)]
  show "inv s1" using insert_inv assms(1,2) .
  have "stale st s1 = stale st s" using F decided_cong[of st s1 s] by (simp add: stale_def)
  moreover have "evolves st s s1" using F C assms(3) by (auto simp: evolves_def intro: wait_le_refl)
  moreover have "wf_waits st s1 = wf_waits st s" using F by (simp add: wf_waits_def)
  ultimately show "keeps st s s1" by (simp add: keeps_def)
qed

lemma Add_cases:
  assumes "Add e req s = Inr (out, s')" and "inv s"
  obtains
    (existing) at where "store_Candidate st s (ac_GoalKey req) (ac_JobID req) = Inr (at, True)" "s' = s"
      "ci_AddedAt out = at"
  | (inserted) g j at0 s1 g' where "store_Goal st s (ac_GoalKey req) = Inr g" "g_State g = GoalOpen"
      "store_Job st s (JobKey (g_TenantId (ac_GoalKey req)) (ac_JobID req)) = Inr j"
      "store_Candidate st s (ac_GoalKey req) (ac_JobID req) = Inr (at0, False)"
      "store_InsertCandidate st s (ac_GoalKey req) (ac_JobID req) (e_Now e) = Inr s1"
      "j_Success j \<longrightarrow> resolve e g (ac_JobID req) s1 = Inr (g', s')"
      "\<not> j_Success j \<longrightarrow> g' = g \<and> s' = s1"
      "\<not> j_Terminal j \<longrightarrow> CheckCycle e (g_TenantId (ac_GoalKey req)) (goal_target (GoalID (ac_GoalKey req))) s1 = Inr ()"
      "ci_AddedAt out = e_Now e" "ci_GoalState out = g_State g'" "ci_SuccessfulJobID out = g_SuccessfulJobID g'"
proof -
  from assms(1) obtain g j at exists where g: "store_Goal st s (ac_GoalKey req) = Inr g"
    and j: "store_Job st s (JobKey (g_TenantId (ac_GoalKey req)) (ac_JobID req)) = Inr j"
    and c: "store_Candidate st s (ac_GoalKey req) (ac_JobID req) = Inr (at, exists)"
    by (auto simp: Add_def rbind_Inr_iff split: if_splits)
  have gk: "g_GoalKey g = ac_GoalKey req" using goal_key[OF assms(2) g] .
  have jk: "j_Key j = JobKey (g_TenantId (ac_GoalKey req)) (ac_JobID req)" using job_key[OF assms(2) j] .
  have js: "j_Success j \<Longrightarrow> j_Terminal j" using job_success[OF assms(2) j] .
  show thesis
  proof (cases exists)
    case True
    then show thesis using assms(1) g j c existing by (auto simp: Add_def rbind_Inr_iff split: if_splits)
  next
    case False
    from assms(1) g j c False obtain s1 where op: "g_State g = GoalOpen"
      and s1: "store_InsertCandidate st s (ac_GoalKey req) (ac_JobID req) (e_Now e) = Inr s1"
      by (auto simp: Add_def rbind_Inr_iff split: if_splits)
    have c': "store_Candidate st s (ac_GoalKey req) (ac_JobID req) = Inr (at, False)" using c False by simp
    show thesis
    proof (cases "j_Success j")
      case True
      from assms(1) g j c False op s1 True jk obtain g' where
        "resolve e g (ac_JobID req) s1 = Inr (g', s')" "ci_AddedAt out = e_Now e"
        "ci_GoalState out = g_State g'" "ci_SuccessfulJobID out = g_SuccessfulJobID g'"
        by (auto simp: Add_def rbind_Inr_iff split: if_splits)
      with inserted[OF g op j c' s1] True js show thesis by simp
    next
      case ns: False
      from assms(1) g j c False op s1 ns jk gk have
        "s' = s1" "ci_AddedAt out = e_Now e" "ci_GoalState out = g_State g"
        "ci_SuccessfulJobID out = g_SuccessfulJobID g"
        "\<not> j_Terminal j \<longrightarrow> CheckCycle e (g_TenantId (ac_GoalKey req)) (goal_target (GoalID (ac_GoalKey req))) s1 = Inr ()"
        by (auto simp: Add_def rbind_Inr_iff split: if_splits)
      with inserted[OF g op j c' s1] ns show thesis by simp
    qed
  qed
qed

lemma Add_step:
  assumes "Add e req s = Inr (out, s')" and "inv s"
  shows "inv s'" "keeps st s s'"
proof -
  from assms have "inv s' \<and> keeps st s s'"
  proof (cases rule: Add_cases)
    case (existing at) then show ?thesis using assms(2) by simp
  next
    case (inserted g j at0 s1 g')
    note ins = insert_step[OF assms(2) inserted(5,4)]
    have g1: "store_Goal st s1 (g_GoalKey g) = Inr g"
      using insert_frame[OF assms(2) inserted(5)] inserted(1) goal_key[OF assms(2) inserted(1)] by simp
    show ?thesis
    proof (cases "j_Success j")
      case True
      with inserted(6) have r: "resolve e g (ac_JobID req) s1 = Inr (g', s')" by simp
      from resolve_step(1,3)[OF r ins(1) g1] keeps_trans[OF ins(2)] show ?thesis by simp
    next
      case False then show ?thesis using inserted(7) ins by simp
    qed
  qed
  then show "inv s'" "keeps st s s'" by auto
qed

lemma newResolution_pending:
  "newResolution e key s d = Inr r \<Longrightarrow> d_State r = DependencyPending \<and> d_Target r = dep_Target d
     \<and> d_Condition r = dep_Condition d"
  by (auto simp: newResolution_def rbind_Inr_iff split: if_splits)

lemma save_new_step:
  assumes "inv s" and "store_SaveWait st s w = Inr s'" and "Evaluate e s w0 = Inr w"
    and "store_Wait st s (wait_key w0) = Inl err" and "wf_wait w0"
  shows "inv s'" "keeps st s s'"
proof -
  have key: "wait_key w = wait_key w0" using Evaluate_le[OF assms(3)] by (simp add: wait_le_def)
  note F = save_wait_frame[OF assms(1,2)]
  have W: "store_Wait st s' k = (if k = wait_key w0 then Inr (copyWait w) else store_Wait st s k)" for k
    using save_wait_wait[OF assms(1,2)] key by simp
  show "inv s'" using save_wait_inv assms(1,2) .
  have "evolves st s s'" using F W assms(4) by (auto simp: evolves_def intro: wait_le_refl)
  moreover have "wf_waits st s \<longrightarrow> wf_waits st s'"
    using W Evaluate_wf[OF assms(3,5)] by (auto simp: wf_waits_def intro: wf_wait_copy)
  moreover have "stale st s' \<subseteq> stale st s"
  proof (clarsimp simp: stale_def)
    fix t k v assume h: "canonical t" "decided st s' (TenantId (wk_JobKey k)) t"
      "store_Wait st s' k = Inr v" "w_State v = DependencyPending" "pending_on t v"
    have dec: "decided st s (TenantId (wk_JobKey k)) t" using h(2) decided_cong[of st s' s] F by simp
    have "k \<noteq> wait_key w0"
    proof
      assume k: "k = wait_key w0"
      then have "v = copyWait w" using W h(3) by simp
      then have "\<not> decided st s (TenantId (w_JobKey w0)) t"
        using Evaluate_decided[OF assms(3)] h(4,5) by simp
      then show False using dec k by (simp add: wait_key_def)
    qed
    then show "decided st s (TenantId (wk_JobKey k)) t \<and>
      (\<exists>ka w. store_Wait st s ka = Inr w \<and> TenantId (wk_JobKey ka) = TenantId (wk_JobKey k)
         \<and> w_State w = DependencyPending \<and> pending_on t w)"
      using dec h W by metis
  qed
  ultimately show "keeps st s s'" by (simp add: keeps_def)
qed

lemma Register_cases:
  assumes "Register e key req submission s = Inr (w, s')"
  obtains
    (existing) old where "store_Wait st s (DependencyWaitKey key (dw_WaitID req)) = Inr old"
      "sameDescriptor old req" "Evaluate e s old = Inr w" "store_SaveWait st s w = Inr s'"
  | (fresh) ds w0 where "store_Wait st s (DependencyWaitKey key (dw_WaitID req)) = Inl ErrDependencyWaitNotFound"
      "list_all2 (\<lambda>d r. newResolution e key s d = Inr r) (dw_Dependencies req) ds"
      "w0 = \<lparr>w_JobKey = key, w_WaitID = dw_WaitID req, w_State = DependencyPending,
                       w_Deadline = dw_Deadline req, w_Dependencies = ds,
                       w_FailedDependencyIndex = None, w_Failure = None\<rparr>"
      "Evaluate e s w0 = Inr w" "store_SaveWait st s w = Inr s'"
      "CheckCycle e (TenantId key) (job_target (JobId key)) s' = Inr ()"
proof (cases "store_Wait st s (DependencyWaitKey key (dw_WaitID req))")
  case (Inr old)
  then show thesis using assms existing[OF Inr]
    by (auto simp: Register_def rbind_Inr_iff split: if_splits)
next
  case (Inl err)
  with assms have err: "err = ErrDependencyWaitNotFound"
    by (auto simp: Register_def rbind_Inr_iff split: if_splits)
  show thesis using assms Inl fresh[OF Inl[unfolded err] _ refl]
    by (auto simp: Register_def rbind_Inr_iff rmap_Inr_iff split: if_splits)
qed

lemma Register_deps: "Register e key req submission s = Inr (w, s') \<Longrightarrow> dw_Dependencies req \<noteq> []"
  by (auto simp: Register_def ValidateDependencyWait_def rbind_Inr_iff split: if_split_asm)

lemma Register_step:
  assumes "Register e key req submission s = Inr (w, s')" and "inv s"
  shows "inv s'" "keeps st s s'"
proof -
  from assms(1) have "inv s' \<and> keeps st s s'"
  proof (cases rule: Register_cases)
    case (existing old)
    have at: "store_Wait st s (wait_key old) = Inr old" using wait_at_key[OF assms(2) existing(1)] existing(1) by simp
    have "wf_wait old \<longrightarrow> wf_wait w" using Evaluate_wf[OF existing(3)] by simp
    note sv = save_advances[OF assms(2) existing(4) at Evaluate_le[OF existing(3)] this]
    show ?thesis using sv(1) advances_keeps[OF sv(2)] by simp
  next
    case (fresh ds w0)
    have key: "wait_key w0 = DependencyWaitKey key (dw_WaitID req)" by (simp add: fresh(3) wait_key_def)
    have "\<forall>d \<in> set ds. d_State d = DependencyPending"
      using list_all2_in_set2[OF fresh(2)] newResolution_pending by blast
    moreover have "ds \<noteq> []" using Register_deps[OF assms(1)] fresh(2) by auto
    ultimately have "wf_wait w0" by (auto simp: fresh(3) wf_wait_def neq_Nil_conv)
    from save_new_step[OF assms(2) fresh(5,4) fresh(1)[folded key] this] show ?thesis by simp
  qed
  then show "inv s'" "keeps st s s'" by auto
qed

end

end
