(* ===== verification/Goal_Acyclic.thy ===== *)
theory Goal_Acyclic
  imports Goal_Transitions
begin

text \<open>
  Acyclicity of the unresolved dependency graph. Nodes are targets of one tenant; an open goal has
  an edge to each candidate that has not ended, and a job that has not ended has an edge to each
  pending dependency of its pending, unexpired waits. \<open>CheckCycle\<close> decides whether a cycle of
  this graph is reachable, and the engine's operations keep the whole graph free of cycles.
\<close>

section \<open>The graph\<close>

definition goal_edge :: "'s Store \<Rightarrow> 's \<Rightarrow> gostring \<Rightarrow> gostring \<Rightarrow> DependencyTarget \<Rightarrow> bool" where
  "goal_edge st s tenant gid m \<longleftrightarrow>
     (\<exists>g j at. store_Goal st s (GoalKey tenant gid) = Inr g \<and> g_State g = GoalOpen
        \<and> m = job_target (t_JobID m) \<and> store_Job st s (JobKey tenant (t_JobID m)) = Inr j \<and> \<not> j_Terminal j
        \<and> store_Candidate st s (GoalKey tenant gid) (t_JobID m) = Inr (at, True))"

definition job_edge :: "'s Store \<Rightarrow> instant \<Rightarrow> 's \<Rightarrow> gostring \<Rightarrow> gostring \<Rightarrow> DependencyTarget \<Rightarrow> bool" where
  "job_edge st now s tenant jid m \<longleftrightarrow>
     (\<exists>j k w. store_Job st s (JobKey tenant jid) = Inr j \<and> \<not> j_Terminal j
        \<and> store_Wait st s k = Inr w \<and> wk_JobKey k = JobKey tenant jid
        \<and> w_State w = DependencyPending \<and> \<not> expired now w \<and> pending_on m w)"

definition dep_edges :: "'s Store \<Rightarrow> instant \<Rightarrow> 's \<Rightarrow> gostring \<Rightarrow> (DependencyTarget \<times> DependencyTarget) set" where
  "dep_edges st now s tenant =
     {(n, m). if t_GoalID n \<noteq> [] then goal_edge st s tenant (t_GoalID n) m
              else job_edge st now s tenant (t_JobID n) m}"

definition no_cycles :: "'s Store \<Rightarrow> instant \<Rightarrow> 's \<Rightarrow> bool" where
  "no_cycles st now s \<longleftrightarrow> (\<forall>tenant. acyclic (dep_edges st now s tenant))"

lemma in_dep_edges:
  "(n, m) \<in> dep_edges st now s tenant \<longleftrightarrow>
     (if t_GoalID n \<noteq> [] then goal_edge st s tenant (t_GoalID n) m
      else job_edge st now s tenant (t_JobID n) m)"
  by (simp add: dep_edges_def)

lemma dep_edges_mono:
  assumes "\<And>gid m. goal_edge st s' tenant gid m \<Longrightarrow> goal_edge st s tenant gid m"
    and "\<And>jid m. job_edge st now' s' tenant jid m \<Longrightarrow> job_edge st now s tenant jid m"
  shows "dep_edges st now' s' tenant \<subseteq> dep_edges st now s tenant"
  using assms by (auto simp: dep_edges_def split: if_splits)

lemma wait_le_expired: "wait_le w w' \<Longrightarrow> expired now w' = expired now w"
  by (simp add: wait_le_def expired_def)

lemma expired_mono: "now \<le> now' \<Longrightarrow> expired now w \<Longrightarrow> expired now' w"
  by (auto simp: expired_def split: option.splits)

lemma shrinks_edges:
  assumes "shrinks st s s'"
  shows "dep_edges st now s' tenant \<subseteq> dep_edges st now s tenant"
proof (rule dep_edges_mono)
  have ev: "evolves st s s'" using assms by (simp add: shrinks_def)
  show "goal_edge st s tenant gid m" if "goal_edge st s' tenant gid m" for gid m
    using that assms unfolding goal_edge_def shrinks_def evolves_def by metis
  show "job_edge st now s tenant jid m" if je: "job_edge st now s' tenant jid m" for jid m
  proof -
    from je obtain j k w' where j: "store_Job st s' (JobKey tenant jid) = Inr j" "\<not> j_Terminal j"
      and w': "store_Wait st s' k = Inr w'" "wk_JobKey k = JobKey tenant jid" "w_State w' = DependencyPending"
        "\<not> expired now w'" "pending_on m w'" by (auto simp: job_edge_def)
    from assms w'(1) obtain w where w: "store_Wait st s k = Inr w" by (auto simp: shrinks_def)
    with ev w'(1) have le: "wait_le w w'" by (fastforce simp: evolves_def)
    have "store_Job st s (JobKey tenant jid) = Inr j" using j(1) ev by (simp add: evolves_def)
    then show ?thesis
      using j(2) w w' wait_le_pending[OF le] wait_le_expired[OF le] unfolding job_edge_def by blast
  qed
qed

lemma time_edges:
  assumes "now \<le> now'"
  shows "dep_edges st now' s tenant \<subseteq> dep_edges st now s tenant"
  by (rule dep_edges_mono, assumption)
     (use expired_mono[OF assms] in \<open>unfold job_edge_def, blast\<close>)

lemma no_cycles_mono:
  "no_cycles st now s \<Longrightarrow> (\<And>tenant. dep_edges st now' s' tenant \<subseteq> dep_edges st now s tenant) \<Longrightarrow>
     no_cycles st now' s'"
  unfolding no_cycles_def by (meson acyclic_subset)

text \<open>
  Adding edges out of nodes that all have the successors of \<open>n\<close> creates no cycle, unless one is
  reachable from \<open>n\<close>.
\<close>

lemma acyclic_extend:
  assumes ac: "acyclic R" and sub: "\<And>a b. (a, b) \<in> R' \<Longrightarrow> a \<notin> N \<Longrightarrow> (a, b) \<in> R"
    and same: "\<And>a b. a \<in> N \<Longrightarrow> (a, b) \<in> R' \<Longrightarrow> (n, b) \<in> R'\<^sup>+"
    and none: "\<And>x. (n, x) \<in> R'\<^sup>* \<Longrightarrow> (x, x) \<notin> R'\<^sup>+"
  shows "acyclic R'"
proof -
  have split: "(x, y) \<in> R\<^sup>+ \<or> (\<exists>a \<in> N. (x, a) \<in> R'\<^sup>* \<and> (a, y) \<in> R'\<^sup>+)" if "(x, y) \<in> R'\<^sup>+" for x y
    using that
  proof (induction rule: trancl_induct)
    case (base y) then show ?case using sub[of x y] by (cases "x \<in> N") auto
  next
    case (step y z)
    show ?case
    proof (cases "y \<in> N")
      case True then show ?thesis using step(1,2) by (meson r_into_trancl trancl_into_rtrancl)
    next
      case False then show ?thesis using step(2,3) sub by (meson trancl_into_trancl)
    qed
  qed
  show ?thesis
  proof (rule acyclicI, rule allI, rule notI)
    fix x assume "(x, x) \<in> R'\<^sup>+"
    with split[OF this] ac obtain a where a: "a \<in> N" "(a, a) \<in> R'\<^sup>+"
      by (meson acyclic_def rtrancl_trancl_trancl trancl_rtrancl_trancl trancl_into_rtrancl)
    from a(2) obtain b where b: "(a, b) \<in> R'" "(b, a) \<in> R'\<^sup>*" by (meson tranclD)
    have "(n, b) \<in> R'\<^sup>*" using same[OF a(1) b(1)] by (rule trancl_into_rtrancl)
    moreover have "(b, b) \<in> R'\<^sup>+" using b by (meson rtrancl_into_trancl1)
    ultimately show False using none by blast
  qed
qed

section \<open>The search decides reachability of a cycle\<close>

context goal_engine
begin

lemma unresolved_edges:
  assumes "inv s" and "unresolved e s tenant n = Inr ts"
  shows "m \<in> set ts \<longleftrightarrow> (n, m) \<in> dep_edges st (e_Now e) s tenant"
proof (cases "t_GoalID n \<noteq> []")
  case True
  with assms(2) obtain g where g: "store_Goal st s (GoalKey tenant (t_GoalID n)) = Inr g"
    by (auto simp: unresolved_def rbind_Inr_iff)
  have gk: "g_GoalKey g = GoalKey tenant (t_GoalID n)" using goal_key[OF assms(1) g] .
  show ?thesis
  proof (cases "g_State g = GoalOpen")
    case False
    then show ?thesis using True g assms(2) by (auto simp: unresolved_def in_dep_edges goal_edge_def)
  next
    case op: True
    with True g gk assms(2) obtain js where js: "store_Candidates st s (GoalKey tenant (t_GoalID n)) = Inr js"
      and ts: "ts = map (\<lambda>j. job_target (JobId (j_Key j))) (filter (\<lambda>j. \<not> j_Terminal j) js)"
      by (auto simp: unresolved_def rbind_Inr_iff)
    note cs = candidates_set[OF assms(1) js]
    have "m \<in> set ts \<longleftrightarrow> (\<exists>j at. m = job_target (t_JobID m) \<and> store_Job st s (JobKey tenant (t_JobID m)) = Inr j
        \<and> \<not> j_Terminal j \<and> store_Candidate st s (GoalKey tenant (t_GoalID n)) (t_JobID m) = Inr (at, True))"
    proof
      assume "m \<in> set ts"
      then obtain j where j: "j \<in> set js" "\<not> j_Terminal j" "m = job_target (JobId (j_Key j))"
        by (auto simp: ts)
      then show "\<exists>j at. m = job_target (t_JobID m) \<and> store_Job st s (JobKey tenant (t_JobID m)) = Inr j
        \<and> \<not> j_Terminal j \<and> store_Candidate st s (GoalKey tenant (t_GoalID n)) (t_JobID m) = Inr (at, True)"
        unfolding cs by (cases "j_Key j") auto
    next
      assume "\<exists>j at. m = job_target (t_JobID m) \<and> store_Job st s (JobKey tenant (t_JobID m)) = Inr j
        \<and> \<not> j_Terminal j \<and> store_Candidate st s (GoalKey tenant (t_GoalID n)) (t_JobID m) = Inr (at, True)"
      then obtain j at where m: "m = job_target (t_JobID m)" and j: "store_Job st s (JobKey tenant (t_JobID m)) = Inr j"
        "\<not> j_Terminal j" "store_Candidate st s (GoalKey tenant (t_GoalID n)) (t_JobID m) = Inr (at, True)" by auto
      have "j_Key j = JobKey tenant (t_JobID m)" using job_key[OF assms(1) j(1)] .
      then have "j \<in> set js" "job_target (JobId (j_Key j)) = m" unfolding cs using j m by auto
      then show "m \<in> set ts" unfolding ts using j(2) by force
    qed
    then show ?thesis using True g op by (auto simp: in_dep_edges goal_edge_def)
  qed
next
  case False
  with assms(2) obtain j where j: "store_Job st s (JobKey tenant (t_JobID n)) = Inr j"
    by (auto simp: unresolved_def rbind_Inr_iff)
  show ?thesis
  proof (cases "j_Terminal j")
    case True
    then show ?thesis using False j assms(2) by (auto simp: unresolved_def in_dep_edges job_edge_def)
  next
    case nt: False
    with False j assms(2) obtain ws where ws: "store_ConsumerWaits st s (JobKey tenant (t_JobID n)) = Inr ws"
      and ts: "ts = concat (map (\<lambda>w. map d_Target (filter (\<lambda>d. d_State d = DependencyPending) (w_Dependencies w)))
                     (filter (\<lambda>w. w_State w = DependencyPending \<and> \<not> expired (e_Now e) w) ws))"
      by (auto simp: unresolved_def rbind_Inr_iff)
    have "m \<in> set ts \<longleftrightarrow> (\<exists>w \<in> set ws. w_State w = DependencyPending \<and> \<not> expired (e_Now e) w \<and> pending_on m w)"
      unfolding ts pending_on_def by auto
    also have "\<dots> \<longleftrightarrow> (\<exists>k w. store_Wait st s k = Inr w \<and> wk_JobKey k = JobKey tenant (t_JobID n)
        \<and> w_State w = DependencyPending \<and> \<not> expired (e_Now e) w \<and> pending_on m w)"
      unfolding consumer_set[OF assms(1) ws] using wait_at_key[OF assms(1)]
      by (auto simp: wait_key_def) (metis DependencyWaitKey.sel(1))+
    finally show ?thesis using False j nt by (auto simp: in_dep_edges job_edge_def)
  qed
qed

lemma edges_sub:
  "inv s \<Longrightarrow> edges (unresolved e s tenant) \<subseteq> dep_edges st (e_Now e) s tenant"
  using unresolved_edges by (auto simp: edges_def)

lemma unresolved_error: "inv s \<Longrightarrow> unresolved e s tenant n = Inl er \<Longrightarrow> \<not> engine_error er"
  by (auto simp: unresolved_def rbind_Inl_iff split: if_splits
      dest: goal_error job_error candidates_error consumer_error)

lemma CheckCycle_ok:
  assumes "inv s" and "CheckCycle e tenant n s = Inr ()"
    and "(n, x) \<in> (dep_edges st (e_Now e) s tenant)\<^sup>*"
  shows "(x, x) \<notin> (dep_edges st (e_Now e) s tenant)\<^sup>+"
proof -
  let ?E = "dep_edges st (e_Now e) s tenant" and ?F = "edges (unresolved e s tenant)"
  from assms(2) obtain m where "visit (unresolved e s tenant) (e_Depth e) n ({}, {}) = Inr m"
    by (auto simp: CheckCycle_def rbind_Inr_iff)
  from visit_acyclic[OF this] have ac: "acyclic_from (unresolved e s tenant) n"
    and tot: "total_from (unresolved e s tenant) n" by auto
  have step: "(a, b) \<in> ?F" if "(n, a) \<in> ?F\<^sup>*" "(a, b) \<in> ?E" for a b
    using that tot unresolved_edges[OF assms(1)] unfolding total_from_def edges_def by blast
  have reach: "(n, a) \<in> ?F\<^sup>*" if "(n, a) \<in> ?E\<^sup>*" for a
    using that by (induction rule: rtrancl_induct) (auto intro: step rtrancl_into_rtrancl)
  have "(x, a) \<in> ?F\<^sup>+" if "(x, a) \<in> ?E\<^sup>+" for a
    using that
  proof (induction rule: trancl_induct)
    case (base y) then show ?case using step reach[OF assms(3)] by blast
  next
    case (step y z)
    then have "(n, y) \<in> ?F\<^sup>*" using reach[OF assms(3)] by (meson trancl_into_rtrancl rtrancl_trans)
    then show ?case using step \<open>\<And>b a. (n, a) \<in> ?F\<^sup>* \<Longrightarrow> (a, b) \<in> ?E \<Longrightarrow> (a, b) \<in> ?F\<close>
      by (meson trancl_into_trancl)
  qed
  then show ?thesis using ac reach[OF assms(3)] by (auto simp: acyclic_from_def)
qed

lemma CheckCycle_cycle:
  assumes "inv s" and "CheckCycle e tenant n s = Inl ErrDependencyCycle"
  shows "\<exists>x. (n, x) \<in> (dep_edges st (e_Now e) s tenant)\<^sup>* \<and> (x, x) \<in> (dep_edges st (e_Now e) s tenant)\<^sup>+"
proof -
  from assms(2) have "visit (unresolved e s tenant) (e_Depth e) n ({}, {}) = Inl ErrDependencyCycle"
    by (auto simp: CheckCycle_def rbind_Inl_iff)
  moreover have "unresolved e s tenant x \<noteq> Inl ErrDependencyCycle" for x
    using unresolved_error[OF assms(1)] by (auto simp: engine_error_def)
  ultimately have "\<not> acyclic_from (unresolved e s tenant) n" by (rule visit_cyclic)
  then obtain x where "(n, x) \<in> (edges (unresolved e s tenant))\<^sup>*" "(x, x) \<in> (edges (unresolved e s tenant))\<^sup>+"
    by (auto simp: acyclic_from_def)
  then show ?thesis
    using rtrancl_mono[OF edges_sub[OF assms(1)]] trancl_mono[OF _ edges_sub[OF assms(1)]] by blast
qed

definition search_nodes :: "'s \<Rightarrow> gostring \<Rightarrow> DependencyTarget \<Rightarrow> DependencyTarget set" where
  "search_nodes s tenant n =
     (let T = insert n {t. \<exists>k w. store_Wait st s k = Inr w \<and> pending_on t w}
      in T \<union> edges (unresolved e s tenant) `` T)"

lemma search_nodes_finite:
  assumes "inv s"
  shows "finite (search_nodes s tenant n)"
proof -
  let ?W = "{k. \<exists>w. store_Wait st s k = Inr w}" and ?T = "{t. \<exists>k w. store_Wait st s k = Inr w \<and> pending_on t w}"
  have "?T \<subseteq> (\<Union>k \<in> ?W. d_Target ` set (w_Dependencies (projr (store_Wait st s k))))"
    by (force simp: pending_on_def)
  moreover have "finite (\<Union>k \<in> ?W. d_Target ` set (w_Dependencies (projr (store_Wait st s k))))"
    using finite_waits[OF assms] by blast
  ultimately have T: "finite (insert n ?T)" using finite_subset by blast
  have "finite (edges (unresolved e s tenant) `` {x})" for x
  proof (cases "unresolved e s tenant x")
    case (Inl er) then have "edges (unresolved e s tenant) `` {x} = {}" by (auto simp: edges_def)
    then show ?thesis by simp
  next
    case (Inr ts) then have "edges (unresolved e s tenant) `` {x} = set ts" by (auto simp: edges_def)
    then show ?thesis by simp
  qed
  then have "finite (\<Union>x \<in> insert n ?T. edges (unresolved e s tenant) `` {x})" using T by blast
  moreover have "edges (unresolved e s tenant) `` insert n ?T = (\<Union>x \<in> insert n ?T. edges (unresolved e s tenant) `` {x})"
    by blast
  ultimately show ?thesis using T unfolding search_nodes_def Let_def by simp
qed

lemma search_nodes_closed:
  assumes "inv s"
  shows "edges (unresolved e s tenant) `` search_nodes s tenant n \<subseteq> search_nodes s tenant n"
proof
  let ?T = "insert n {t. \<exists>k w. store_Wait st s k = Inr w \<and> pending_on t w}"
  fix y assume "y \<in> edges (unresolved e s tenant) `` search_nodes s tenant n"
  then obtain x where x: "x \<in> search_nodes s tenant n" "(x, y) \<in> edges (unresolved e s tenant)" by blast
  have xy: "(x, y) \<in> dep_edges st (e_Now e) s tenant" using edges_sub[OF assms] x(2) by blast
  show "y \<in> search_nodes s tenant n"
  proof (cases "x \<in> ?T")
    case True
    then have "y \<in> edges (unresolved e s tenant) `` ?T" using x(2) by (rule ImageI[rotated])
    then show ?thesis unfolding search_nodes_def Let_def by (rule UnI2)
  next
    case False
    then obtain z where z: "(z, x) \<in> edges (unresolved e s tenant)" using x(1) unfolding search_nodes_def Let_def by blast
    have zx: "(z, x) \<in> dep_edges st (e_Now e) s tenant" using edges_sub[OF assms] z by blast
    have "t_GoalID x = []"
    proof (cases "t_GoalID z = []")
      case True
      then have "x \<in> ?T" using zx by (auto simp: in_dep_edges job_edge_def)
      then show ?thesis using False by simp
    next
      case False
      then have "x = job_target (t_JobID x)" using zx by (auto simp: in_dep_edges goal_edge_def)
      then show ?thesis by (metis DependencyTarget.sel(2))
    qed
    then have "y \<in> ?T" using xy by (auto simp: in_dep_edges job_edge_def)
    then show ?thesis unfolding search_nodes_def Let_def by (rule UnI1)
  qed
qed

lemma CheckCycle_fuel:
  assumes "inv s" and "card (search_nodes s tenant n) < e_Depth e"
  shows "CheckCycle e tenant n s \<noteq> Inl ErrStackExhausted"
proof -
  have "visit (unresolved e s tenant) (e_Depth e) n ({}, {}) \<noteq> Inl ErrStackExhausted"
  proof (rule visit_fuel(1)[OF _ search_nodes_finite[OF assms(1)] search_nodes_closed[OF assms(1)]])
    show "unresolved e s tenant x \<noteq> Inl ErrStackExhausted" for x
      using unresolved_error[OF assms(1)] by (auto simp: engine_error_def)
    show "n \<in> search_nodes s tenant n" by (simp add: search_nodes_def Let_def)
  qed (use assms(2) in simp_all)
  then show ?thesis by (auto simp: CheckCycle_def rbind_Inl_iff)
qed

section \<open>Registration and candidates keep the graph acyclic\<close>

lemma Register_no_cycles:
  assumes "Register e key req submission s = Inr (w, s')" and "inv s" and "no_cycles st (e_Now e) s"
  shows "no_cycles st (e_Now e) s'"
  using assms(1)
proof (cases rule: Register_cases)
  case (existing old)
  have at: "store_Wait st s (wait_key old) = Inr old" using wait_at_key[OF assms(2) existing(1)] existing(1) by simp
  have "advances st s s'"
    using save_advances(2)[OF assms(2) existing(4) at Evaluate_le[OF existing(3)]] Evaluate_wf[OF existing(3)] by simp
  then show ?thesis by (intro no_cycles_mono[OF assms(3)] shrinks_edges[OF advances_shrinks])
next
  case (fresh ds w0)
  note F = save_wait_frame[OF assms(2) fresh(5)]
  have key: "wait_key w = DependencyWaitKey key (dw_WaitID req)"
    using Evaluate_le[OF fresh(4)] by (simp add: wait_le_def fresh(3) wait_key_def)
  have W: "store_Wait st s' k = (if k = wait_key w then Inr (copyWait w) else store_Wait st s k)" for k
    using save_wait_wait[OF assms(2) fresh(5)] .
  have ge: "goal_edge st s' tn g m = goal_edge st s tn g m" for tn g m using F by (simp add: goal_edge_def)
  have je: "job_edge st (e_Now e) s tn j m" if "job_edge st (e_Now e) s' tn j m" "JobKey tn j \<noteq> key" for tn j m
    using that F W key unfolding job_edge_def by (auto split: if_splits)
  have inv': "inv s'" using save_wait_inv[OF assms(2) fresh(5)] .
  show ?thesis
    unfolding no_cycles_def
  proof
    fix tenant
    let ?n = "job_target (JobId key)"
    have ac: "acyclic (dep_edges st (e_Now e) s tenant)" using assms(3) by (simp add: no_cycles_def)
    show "acyclic (dep_edges st (e_Now e) s' tenant)"
    proof (cases "tenant = TenantId key")
      case False
      have "dep_edges st (e_Now e) s' tenant \<subseteq> dep_edges st (e_Now e) s tenant"
        by (rule dep_edges_mono) (use ge je False JobKey.sel(1) in metis)+
      then show ?thesis using ac acyclic_subset by blast
    next
      case True
      show ?thesis
      proof (rule acyclic_extend[OF ac, where N = "{?n}" and n = ?n])
        fix a b assume ab: "(a, b) \<in> dep_edges st (e_Now e) s' tenant" "a \<notin> {?n}"
        have "t_GoalID a = [] \<Longrightarrow> JobKey tenant (t_JobID a) \<noteq> key" using ab(2) by (cases a; cases key) auto
        then show "(a, b) \<in> dep_edges st (e_Now e) s tenant"
          using ab(1) ge je by (auto simp: in_dep_edges split: if_splits)
      next
        fix x assume "(?n, x) \<in> (dep_edges st (e_Now e) s' tenant)\<^sup>*"
        then show "(x, x) \<notin> (dep_edges st (e_Now e) s' tenant)\<^sup>+"
          using CheckCycle_ok[OF inv' fresh(6)] True by blast
      qed blast
    qed
  qed
qed

lemma Add_no_cycles:
  assumes "Add e req s = Inr (out, s')" and "inv s" and "no_cycles st (e_Now e) s"
  shows "no_cycles st (e_Now e) s'"
  using assms(1,2)
proof (cases rule: Add_cases)
  case (existing at) then show ?thesis using assms(3) by simp
next
  case (inserted g j at0 s1 g')
  let ?gk = "ac_GoalKey req" and ?jid = "ac_JobID req"
  note F = insert_frame[OF assms(2) inserted(5)] and C = insert_candidate[OF assms(2) inserted(5,4)]
  have inv1: "inv s1" using insert_inv[OF assms(2) inserted(5)] .
  have je: "job_edge st (e_Now e) s1 tn k m = job_edge st (e_Now e) s tn k m" for tn k m
    using F by (simp add: job_edge_def)
  have ge: "goal_edge st s tn gid m"
    if "goal_edge st s1 tn gid m" "GoalKey tn gid \<noteq> ?gk \<or> j_Terminal j" for tn gid m
    using that F C inserted(3) by (cases ?gk) (auto simp: goal_edge_def split: if_splits)
  have ac: "acyclic (dep_edges st (e_Now e) s tn)" for tn using assms(3) by (simp add: no_cycles_def)
  show ?thesis
  proof (cases "j_Terminal j")
    case True
    have sub: "dep_edges st (e_Now e) s1 tn \<subseteq> dep_edges st (e_Now e) s tn" for tn
      by (rule dep_edges_mono) (use ge je True in auto)
    have nc: "no_cycles st (e_Now e) s1" using no_cycles_mono[OF assms(3) sub] .
    have g1: "store_Goal st s1 (g_GoalKey g) = Inr g"
      using F inserted(1) goal_key[OF assms(2) inserted(1)] by simp
    show ?thesis
    proof (cases "j_Success j")
      case True
      with inserted(6) have r: "resolve e g ?jid s1 = Inr (g', s')" by simp
      show ?thesis using no_cycles_mono[OF nc shrinks_edges[OF resolve_step(2)[OF r inv1 g1]]] .
    next
      case False then show ?thesis using inserted(7) nc by simp
    qed
  next
    case False
    then have ns: "\<not> j_Success j" using job_success[OF assms(2) inserted(3)] by blast
    then have s': "s' = s1" using inserted(7) by simp
    let ?n = "goal_target (GoalID ?gk)"
    have cc: "CheckCycle e (g_TenantId ?gk) ?n s1 = Inr ()" using inserted(8) False by simp
    show ?thesis
      unfolding no_cycles_def s'
    proof
      fix tenant
      show "acyclic (dep_edges st (e_Now e) s1 tenant)"
      proof (cases "tenant = g_TenantId ?gk \<and> GoalID ?gk \<noteq> []")
        case False
        have "(a, b) \<in> dep_edges st (e_Now e) s tenant" if ab: "(a, b) \<in> dep_edges st (e_Now e) s1 tenant" for a b
        proof -
          have "t_GoalID a \<noteq> [] \<Longrightarrow> GoalKey tenant (t_GoalID a) \<noteq> ?gk" using False by (cases ?gk) auto
          then show ?thesis using ab ge je by (auto simp: in_dep_edges split: if_splits)
        qed
        then have "dep_edges st (e_Now e) s1 tenant \<subseteq> dep_edges st (e_Now e) s tenant" by auto
        then show ?thesis using ac acyclic_subset by blast
      next
        case True
        show ?thesis
        proof (rule acyclic_extend[OF ac[of tenant], where N = "{a. t_GoalID a = GoalID ?gk}" and n = ?n])
          fix a b assume ab: "(a, b) \<in> dep_edges st (e_Now e) s1 tenant" "a \<notin> {a. t_GoalID a = GoalID ?gk}"
          then have "GoalKey tenant (t_GoalID a) \<noteq> ?gk" by (cases ?gk) auto
          then show "(a, b) \<in> dep_edges st (e_Now e) s tenant"
            using ab(1) ge je by (auto simp: in_dep_edges split: if_splits)
        next
          fix a b assume "a \<in> {a. t_GoalID a = GoalID ?gk}" "(a, b) \<in> dep_edges st (e_Now e) s1 tenant"
          then have "(?n, b) \<in> dep_edges st (e_Now e) s1 tenant" using True by (auto simp: in_dep_edges)
          then show "(?n, b) \<in> (dep_edges st (e_Now e) s1 tenant)\<^sup>+" by (rule r_into_trancl)
        next
          fix x assume "(?n, x) \<in> (dep_edges st (e_Now e) s1 tenant)\<^sup>*"
          then show "(x, x) \<notin> (dep_edges st (e_Now e) s1 tenant)\<^sup>+"
            using CheckCycle_ok[OF inv1 cc] True by blast
        qed
      qed
    qed
  qed
qed

end

end
