(* ===== verification/Goal_Properties.thy ===== *)
theory Goal_Properties
  imports Goal_Acyclic
begin

text \<open>
  The goal engine on its in-memory store: the locale lemmas are instantiated at
  \<open>memory_store\<close>, the operations become a transition relation, and the invariants are shown for
  every run of it by rule induction.
\<close>

section \<open>Success closes every goal of the job\<close>

context goal_engine
begin

lemma resolve_open:
  assumes "resolve e g jobID s = Inr (g', s')" and "g_State g = GoalOpen"
  shows "g_State g' = GoalSucceeded" "g_SuccessfulJobID g' = jobID" "g_GoalKey g' = g_GoalKey g"
  using assms by (auto simp: resolve_def rbind_Inr_iff Let_def)

definition won_by :: "gostring \<Rightarrow> GoalKey \<Rightarrow> 's \<Rightarrow> bool" where
  "won_by jobID gk s \<longleftrightarrow>
     (\<exists>g. store_Goal st s gk = Inr g \<and> g_State g = GoalSucceeded \<and> g_SuccessfulJobID g = jobID)"

lemma evolves_won_by: "evolves st s s' \<Longrightarrow> won_by jobID gk s \<Longrightarrow> won_by jobID gk s'"
  unfolding won_by_def evolves_def by (metis GoalState.distinct(1))

lemma resolveGoal_won:
  assumes "resolveGoal e jobID gk s = Inr s'" and "inv s"
    and "store_Goal st s gk = Inr g \<and> g_State g = GoalOpen \<or> won_by jobID gk s"
  shows "won_by jobID gk s'"
proof -
  from assms(1) obtain h h' where h: "store_Goal st s gk = Inr h" and r: "resolve e h jobID s = Inr (h', s')"
    by (auto simp: resolveGoal_def rbind_Inr_iff)
  have hk: "g_GoalKey h = gk" using goal_key[OF assms(2) h] .
  show ?thesis
  proof (cases "g_State h = GoalOpen")
    case True
    from resolve_step(4)[OF r assms(2)] h hk resolve_open[OF r True] show ?thesis
      unfolding won_by_def by auto
  next
    case False
    then have "won_by jobID gk s" using assms(3) h by auto
    then show ?thesis using evolves_won_by resolveGoal_step(2)[OF assms(1,2)] by (auto simp: shrinks_def)
  qed
qed

lemma resolveGoal_other:
  assumes "resolveGoal e jobID gk' s = Inr s'" and "inv s" and "gk' \<noteq> gk"
    and "store_Goal st s gk = Inr g"
  shows "store_Goal st s' gk = Inr g"
proof -
  from assms(1) obtain h h' where h: "store_Goal st s gk' = Inr h" and r: "resolve e h jobID s = Inr (h', s')"
    by (auto simp: resolveGoal_def rbind_Inr_iff)
  have hk: "g_GoalKey h = gk'" using goal_key[OF assms(2) h] .
  show ?thesis
  proof (cases "g_State h = GoalOpen")
    case False then show ?thesis using r assms(4) by (simp add: resolve_def)
  next
    case True
    with r obtain s1 where k: "g_GoalKey h' = gk'" and s1: "store_SaveGoal st s h' = Inr s1"
      and s2: "SettleTarget e (g_TenantId (g_GoalKey h')) (goal_target (GoalID (g_GoalKey h'))) s1 = Inr s'"
      using hk by (auto simp: resolve_def rbind_Inr_iff Let_def)
    have "store_Goal st s' = store_Goal st s1"
      using SettleTarget_advances(2)[OF s2 save_goal_inv[OF assms(2) s1]] by (simp add: advances_def)
    then show ?thesis using save_goal_goal[OF assms(2) s1] k assms(3,4) by simp
  qed
qed

lemma Complete_wins:
  assumes "Complete e key s = Inr s'" and "inv s"
    and "store_Job st s key = Inr j" "j_Success j"
    and "g_TenantId gk = TenantId key" "store_Candidate st s gk (JobId key) = Inr (at, True)"
    and "store_Goal st s gk = Inr g" "g_State g = GoalOpen"
  shows "won_by (JobId key) gk s'"
proof -
  have jk: "j_Key j = key" using job_key[OF assms(2,3)] .
  from assms(1,3,4) jk obtain goals s1 s2 where goals: "store_Goals st s key = Inr goals"
    and s1: "rfold (resolveGoal e (JobId key)) (sort_key GoalID goals) s = Inr s1"
    and s2: "CloseConsumer e key s1 = Inr s2"
    and s3: "SettleTarget e (TenantId key) (job_target (JobId key)) s2 = Inr s'"
    by (auto simp: Complete_def rbind_Inr_iff)
  have gk: "gk \<in> set (sort_key GoalID goals)" using goals_set[OF assms(2) goals] assms(5,6) by auto
  let ?P = "\<lambda>u. inv u \<and> (store_Goal st u gk = Inr g \<or> won_by (JobId key) gk u)"
  have inv_won: "inv s1 \<and> won_by (JobId key) gk s1"
  proof (rule rfold_establish[OF s1, where P = ?P and x = gk and Q = "\<lambda>u. inv u \<and> won_by (JobId key) gk u"])
    show "?P s" using assms(2,7) by simp
    show "gk \<in> set (sort_key GoalID goals)" by (rule gk)
    show "inv v \<and> won_by (JobId key) gk v" if "?P u" "resolveGoal e (JobId key) gk u = Inr v" for u v
      using that assms(8) resolveGoal_won[OF that(2)] resolveGoal_step(1)[OF that(2)] by blast
    fix y u v assume u: "?P u" and r: "resolveGoal e (JobId key) y u = Inr v"
    have v: "inv v" and ev: "evolves st u v"
      using resolveGoal_step(1,2)[OF r] u by (auto simp: shrinks_def)
    have "store_Goal st v gk = Inr g \<or> won_by (JobId key) gk v"
    proof (cases "y = gk")
      case True then show ?thesis using resolveGoal_won[OF r[unfolded True]] u assms(8) by blast
    next
      case False then show ?thesis using resolveGoal_other[OF r _ False] u evolves_won_by[OF ev] by blast
    qed
    then show "?P v \<and> (inv u \<and> won_by (JobId key) gk u \<longrightarrow> inv v \<and> won_by (JobId key) gk v)"
      using v evolves_won_by[OF ev] by blast
  qed
  note two = CloseConsumer_advances(1,2)[OF s2 inv_won[THEN conjunct1]]
  note three = SettleTarget_advances(2)[OF s3 two(1)]
  show ?thesis
    using inv_won evolves_won_by[OF advances_evolves[OF advances_trans[OF two(2) three]]] by blast
qed

end

section \<open>The outcome of an evaluation\<close>

text \<open>
  Reference view of \<open>Evaluate\<close>: each dependency has a verdict read off the store, and the wait's
  state is a function of the verdicts and the clock.
\<close>

definition verdict :: "'s Store \<Rightarrow> 's \<Rightarrow> gostring \<Rightarrow> DependencyResolution \<Rightarrow> DependencyState" where
  "verdict st s tenant d =
     (if d_State d \<noteq> DependencyPending then d_State d
      else if t_GoalID (d_Target d) \<noteq> [] then
        (case store_Goal st s (GoalKey tenant (t_GoalID (d_Target d))) of
           Inr g \<Rightarrow> (case g_State g of GoalOpen \<Rightarrow> DependencyPending
                     | GoalSucceeded \<Rightarrow> DependencySatisfied | GoalFailed \<Rightarrow> DependencyFailed)
         | Inl _ \<Rightarrow> DependencyPending)
      else
        (case store_Job st s (JobKey tenant (t_JobID (d_Target d))) of
           Inr j \<Rightarrow> if \<not> j_Terminal j then DependencyPending
                    else if j_Success j \<or> d_Condition d = JobPrereqComplete then DependencySatisfied
                    else DependencyFailed
         | Inl _ \<Rightarrow> DependencyPending))"

definition wait_outcome :: "bool \<Rightarrow> DependencyState list \<Rightarrow> DependencyState" where
  "wait_outcome late vs =
     (if late then DependencyTimedOut
      else if DependencyFailed \<in> set vs then DependencyFailed
      else if \<forall>v \<in> set vs. v \<noteq> DependencyPending then DependencySatisfied
      else DependencyPending)"

lemma evaluateDep_verdict:
  assumes "evaluateDep e s tenant d = Inr d'" and "d_State d = DependencyPending"
  shows "d_State d' = verdict (e_Store e) s tenant d"
proof (cases "t_GoalID (d_Target d) \<noteq> []")
  case True
  with assms(1) obtain d1 where g: "evaluateGoal e s tenant d = Inr d1" "d_State d' = d_State d1"
    by (auto simp: evaluateDep_def rbind_Inr_iff split: if_splits)
  from g(1) show ?thesis using g(2) True assms(2) by (cases rule: evaluateGoal_cases) (simp_all add: verdict_def)
next
  case False
  with assms(1) obtain d1 where j: "evaluateJob e s tenant d = Inr d1" "d_State d' = d_State d1"
    by (auto simp: evaluateDep_def rbind_Inr_iff split: if_splits)
  from j(1) show ?thesis using j(2) False assms(2) by (cases rule: evaluateJob_cases) (auto simp: verdict_def)
qed

lemma evaluateLoop_verdicts:
  assumes "evaluateLoop e s tenant i ds = Inr (ds', failed, all)"
    and "\<forall>d \<in> set ds. d_State d \<noteq> DependencyFailed"
  shows "map_option fst failed = (if DependencyFailed \<in> set (map (verdict (e_Store e) s tenant) ds)
           then Some (i + length (takeWhile (\<lambda>v. v \<noteq> DependencyFailed) (map (verdict (e_Store e) s tenant) ds)))
           else None)
    \<and> (failed = None \<longrightarrow> (all \<longleftrightarrow> DependencyPending \<notin> set (map (verdict (e_Store e) s tenant) ds)))"
  using assms
proof (induction ds arbitrary: i ds' failed all)
  case (Cons d ds)
  have ok: "\<forall>d \<in> set ds. d_State d \<noteq> DependencyFailed" using Cons.prems(2) by simp
  from Cons.prems(1) show ?case
  proof (cases rule: evaluateLoop_Cons)
    case (1 es)
    then have "verdict (e_Store e) s tenant d = d_State d" by (simp add: verdict_def)
    then show ?thesis using Cons.IH[OF 1(3) ok] Cons.prems(2) 1(1) by auto
  next
    case (2 d')
    then show ?thesis using evaluateDep_verdict[OF 2(2,1)] by auto
  next
    case (3 d' es a)
    then show ?thesis using Cons.IH[OF 3(6) ok] evaluateDep_verdict[OF 3(2,1)] by auto
  qed
qed simp

lemma Evaluate_outcome:
  assumes "Evaluate e s w = Inr w'" and "w_State w = DependencyPending" and "wf_wait w"
  defines "vs \<equiv> map (verdict (e_Store e) s (TenantId (w_JobKey w))) (w_Dependencies w)"
  shows "w_State w' = wait_outcome (expired (e_Now e) w) vs"
    and "w_State w' = DependencyFailed \<Longrightarrow>
      w_FailedDependencyIndex w' = Some (length (takeWhile (\<lambda>v. v \<noteq> DependencyFailed) vs))"
proof -
  have "w_State w' = wait_outcome (expired (e_Now e) w) vs \<and> (w_State w' = DependencyFailed \<longrightarrow>
      w_FailedDependencyIndex w' = Some (length (takeWhile (\<lambda>v. v \<noteq> DependencyFailed) vs)))"
  proof (cases "expired (e_Now e) w")
    case True then show ?thesis using assms(1,2) by (auto simp: Evaluate_def wait_outcome_def)
  next
    case False
    have ok: "\<forall>d \<in> set (w_Dependencies w). d_State d \<noteq> DependencyFailed"
      using assms(2,3) by (auto simp: wf_wait_def)
    from assms(1,2) False obtain ds failed all where
      loop: "evaluateLoop e s (TenantId (w_JobKey w)) 0 (w_Dependencies w) = Inr (ds, failed, all)"
      and w': "w' = (case failed of
               Some (i, f) \<Rightarrow> closePending (w\<lparr>w_Dependencies := ds, w_State := DependencyFailed,
                                 w_FailedDependencyIndex := Some i, w_Failure := f\<rparr>)
             | None \<Rightarrow> if all then w\<lparr>w_Dependencies := ds, w_State := DependencySatisfied\<rparr>
                       else w\<lparr>w_Dependencies := ds\<rparr>)"
      by (auto simp: Evaluate_def rbind_Inr_iff)
    note v = evaluateLoop_verdicts[OF loop ok, folded vs_def]
    show ?thesis
    proof (cases failed)
      case None
      then have nf: "DependencyFailed \<notin> set vs" using v by (auto split: if_splits)
      then show ?thesis using v w' None False assms(2) by (auto simp: wait_outcome_def)
    next
      case (Some kf)
      then show ?thesis using v w' False by (auto simp: wait_outcome_def split: if_splits prod.splits)
    qed
  qed
  then show "w_State w' = wait_outcome (expired (e_Now e) w) vs"
    and "w_State w' = DependencyFailed \<Longrightarrow>
      w_FailedDependencyIndex w' = Some (length (takeWhile (\<lambda>v. v \<noteq> DependencyFailed) vs))" by auto
qed

section \<open>The engine on the in-memory store\<close>

definition memory_engine :: "instant \<Rightarrow> nat \<Rightarrow> Memory Engine" where
  "memory_engine now depth = \<lparr>e_Store = memory_store, e_Now = now, e_Depth = depth\<rparr>"

lemma memory_engine_simps [simp]:
  "e_Store (memory_engine now depth) = memory_store" "e_Now (memory_engine now depth) = now"
  "e_Depth (memory_engine now depth) = depth"
  by (simp_all add: memory_engine_def)

interpretation me: goal_engine memory_store memory_inv "memory_engine now depth" for now depth
  by unfold_locales simp

lemma memory_store_simps [simp]:
  "store_Job memory_store = LookupJob" "store_Goal memory_store = Memory_Goal"
  "store_Wait memory_store = Memory_Wait" "store_Candidate memory_store = Memory_Candidate"
  "store_Candidates memory_store = Memory_Candidates"
  by (simp_all add: memory_store_def)

section \<open>A concrete store\<close>

text \<open>
  Job A has ended with success; job B waits for it. Both carry a goal of their own.
\<close>

definition demo_goal :: "gostring \<Rightarrow> GoalInfo" where
  "demo_goal gid =
     \<lparr>g_Cell = ''c'', g_CellID = ''1'', g_CellRepo = ''r'', g_GoalKey = GoalKey ''t'' gid,
      g_State = GoalOpen, g_Revision = 1, g_SuccessfulJobID = [], g_Failure = None,
      g_CreatedAt = 0, g_UpdatedAt = 0, g_ClosedAt = None\<rparr>"

definition demo_dep :: "DependencyTarget \<Rightarrow> DependencyResolution" where
  "demo_dep t =
     \<lparr>d_Target = t, d_Condition = JobPrereqSuccess, d_State = DependencyPending,
      d_SatisfiedByJobID = [], d_BlockedReason = [], d_Failure = None\<rparr>"

definition demo_wait :: "gostring \<Rightarrow> DependencyTarget list \<Rightarrow> DependencyWaitInfo" where
  "demo_wait jid ts =
     \<lparr>w_JobKey = JobKey ''t'' jid, w_WaitID = ''w'', w_State = DependencyPending, w_Deadline = None,
      w_Dependencies = map demo_dep ts, w_FailedDependencyIndex = None, w_Failure = None\<rparr>"

definition demo_table :: "(JobKey \<times> Job) list" where
  "demo_table =
     [(JobKey ''t'' ''A'', \<lparr>j_Key = JobKey ''t'' ''A'', j_GoalID = ''ga'', j_Terminal = True, j_Success = True, j_CreatedAt = 0\<rparr>),
      (JobKey ''t'' ''B'', \<lparr>j_Key = JobKey ''t'' ''B'', j_GoalID = ''gb'', j_Terminal = False, j_Success = False, j_CreatedAt = 0\<rparr>)]"

definition demo_memory :: Memory where
  "demo_memory =
     \<lparr>GoalRows = [GoalKey ''t'' ''ga'' \<mapsto> demo_goal ''ga'', GoalKey ''t'' ''gb'' \<mapsto> demo_goal ''gb''],
      Extras = [],
      WaitRows = [(DependencyWaitKey (JobKey ''t'' ''B'') ''w'', demo_wait ''B'' [job_target ''A''])],
      LookupJob = tableLookup demo_table, PrimaryJobs = tablePrimary demo_table\<rparr>"

lemma demo_table_ok: "table_ok demo_table"
  by (simp add: table_ok_def demo_table_def)

lemma demo_inv: "memory_inv demo_memory"
  using table_consistent[OF demo_table_ok]
  by (auto simp: memory_inv_def demo_memory_def demo_goal_def demo_wait_def wait_key_def split: if_splits)

section \<open>Properties\<close>

text \<open>
  C19. No lost wakeup: after \<open>Complete\<close> of an ended job, no wait of the tenant is still pending on
  that job, and every wait the job itself had registered is closed.
\<close>

theorem complete_settles:
  assumes "memory_inv s" and "Complete (memory_engine now depth) key s = Inr s'"
    and "LookupJob s key = Inr j" and "j_Terminal j" and "JobId key \<noteq> []"
  shows "(\<forall>k w. Memory_Wait s' k = Inr w \<longrightarrow> TenantId (wk_JobKey k) = TenantId key \<longrightarrow>
            w_State w = DependencyPending \<longrightarrow> \<not> pending_on (job_target (JobId key)) w)
    \<and> (\<forall>k w. Memory_Wait s' k = Inr w \<longrightarrow> wk_JobKey k = key \<longrightarrow> w_State w \<noteq> DependencyPending)"
proof -
  note c = me.Complete_step[OF assms(2,1)]
  have "LookupJob s' = LookupJob s" using c(2) by (simp add: shrinks_def evolves_def)
  then have "decided memory_store s' (TenantId key) (job_target (JobId key))"
    using assms(3,4) by (simp add: decided_def)
  then show ?thesis using c(4,5) assms(5) by (auto simp: stale_def canonical_def)
qed

theorem complete_settles_witness:
  "memory_inv demo_memory \<and>
   (\<exists>s'. Complete (memory_engine 5 9) (JobKey ''t'' ''A'') demo_memory = Inr s' \<and>
     (\<forall>k w. Memory_Wait s' k = Inr w \<longrightarrow> TenantId (wk_JobKey k) = ''t'' \<longrightarrow>
            w_State w = DependencyPending \<longrightarrow> \<not> pending_on (job_target ''A'') w))"
proof -
  have "isl (Complete (memory_engine 5 9) (JobKey ''t'' ''A'') demo_memory) = False" by code_simp
  then obtain s' where s': "Complete (memory_engine 5 9) (JobKey ''t'' ''A'') demo_memory = Inr s'"
    by (cases "Complete (memory_engine 5 9) (JobKey ''t'' ''A'') demo_memory") auto
  have j: "LookupJob demo_memory (JobKey ''t'' ''A'') = Inr (snd (hd demo_table))" by code_simp
  have t: "j_Terminal (snd (hd demo_table))" by code_simp
  show ?thesis using complete_settles[OF demo_inv s' j t] demo_inv s' by auto
qed

text \<open>
  C20. A successful job wins its open goals: \<open>Complete\<close> closes every open goal the job is a
  candidate of as succeeded, with that job recorded as the one that satisfied it.
\<close>

theorem complete_wins_goals:
  assumes "memory_inv s" and "Complete (memory_engine now depth) key s = Inr s'"
    and "LookupJob s key = Inr j" and "j_Success j"
    and "g_TenantId gk = TenantId key" and "Memory_Candidate s gk (JobId key) = Inr (at, True)"
    and "Memory_Goal s gk = Inr g" and "g_State g = GoalOpen"
  shows "\<exists>g'. Memory_Goal s' gk = Inr g' \<and> g_State g' = GoalSucceeded \<and> g_SuccessfulJobID g' = JobId key"
  using me.Complete_wins[OF assms(2,1)] assms(3-8) by (simp add: me.won_by_def)

theorem complete_wins_goals_witness:
  "\<exists>s' g'. Complete (memory_engine 5 9) (JobKey ''t'' ''A'') demo_memory = Inr s'
     \<and> Memory_Goal s' (GoalKey ''t'' ''ga'') = Inr g' \<and> g_State g' = GoalSucceeded
     \<and> g_SuccessfulJobID g' = ''A''"
proof -
  have "isl (Complete (memory_engine 5 9) (JobKey ''t'' ''A'') demo_memory) = False" by code_simp
  then obtain s' where s': "Complete (memory_engine 5 9) (JobKey ''t'' ''A'') demo_memory = Inr s'"
    by (cases "Complete (memory_engine 5 9) (JobKey ''t'' ''A'') demo_memory") auto
  have j: "LookupJob demo_memory (JobKey ''t'' ''A'') = Inr (snd (hd demo_table))" by code_simp
  have t: "j_Success (snd (hd demo_table))" by code_simp
  have c: "Memory_Candidate demo_memory (GoalKey ''t'' ''ga'') (JobId (JobKey ''t'' ''A'')) = Inr (0, True)" by code_simp
  have g: "Memory_Goal demo_memory (GoalKey ''t'' ''ga'') = Inr (demo_goal ''ga'')" by code_simp
  have o: "g_State (demo_goal ''ga'') = GoalOpen" by code_simp
  show ?thesis using complete_wins_goals[OF demo_inv s' j t _ c g o] s' by auto
qed

text \<open>
  C21. \<open>Evaluate\<close> computes the wait's state from the verdicts of its dependencies: timed out once the
  deadline is reached, else failed when some dependency failed, else satisfied when none is
  pending; and a failed wait names the first failing dependency.
\<close>

theorem evaluate_outcome:
  assumes "Evaluate (memory_engine now depth) s w = Inr w'"
    and "w_State w = DependencyPending" and "wf_wait w"
  shows "w_State w' = wait_outcome (expired now w)
           (map (verdict memory_store s (TenantId (w_JobKey w))) (w_Dependencies w))
    \<and> (w_State w' = DependencyFailed \<longrightarrow> w_FailedDependencyIndex w' = Some (length
         (takeWhile (\<lambda>v. v \<noteq> DependencyFailed)
           (map (verdict memory_store s (TenantId (w_JobKey w))) (w_Dependencies w)))))"
  using Evaluate_outcome[OF assms] by simp

theorem evaluate_outcome_witness:
  "\<exists>w'. Evaluate (memory_engine 5 9) demo_memory (demo_wait ''B'' [job_target ''A'', goal_target ''gb'']) = Inr w'
     \<and> w_State w' = DependencyPending"
proof -
  let ?w = "demo_wait ''B'' [job_target ''A'', goal_target ''gb'']"
  have "isl (Evaluate (memory_engine 5 9) demo_memory ?w) = False" by code_simp
  then obtain w' where w': "Evaluate (memory_engine 5 9) demo_memory ?w = Inr w'"
    by (cases "Evaluate (memory_engine 5 9) demo_memory ?w") auto
  have p: "w_State ?w = DependencyPending" "wf_wait ?w" by (simp_all add: demo_wait_def demo_dep_def wf_wait_def)
  have "wait_outcome (expired 5 ?w)
      (map (verdict memory_store demo_memory (TenantId (w_JobKey ?w))) (w_Dependencies ?w)) = DependencyPending"
    by code_simp
  then show ?thesis using evaluate_outcome[OF w' p] w' by auto
qed

text \<open>
  C22. \<open>CheckCycle\<close> is exact: when the reads of the search succeed, every sufficiently large
  recursion depth makes it return no error precisely when no cycle of unresolved edges is
  reachable from its start, and report \<open>ErrDependencyCycle\<close> otherwise.
\<close>

theorem check_cycle_exact:
  assumes "memory_inv s"
    and "\<And>x. (n, x) \<in> (dep_edges memory_store now s tenant)\<^sup>* \<Longrightarrow>
           \<not> isl (unresolved (memory_engine now 0) s tenant x)"
  shows "\<exists>d0. \<forall>depth \<ge> d0. CheckCycle (memory_engine now depth) tenant n s =
    (if \<exists>x. (n, x) \<in> (dep_edges memory_store now s tenant)\<^sup>* \<and> (x, x) \<in> (dep_edges memory_store now s tenant)\<^sup>+
     then Inl ErrDependencyCycle else Inr ())"
proof (intro exI allI impI)
  let ?E = "dep_edges memory_store now s tenant"
  fix depth assume depth: "Suc (card (me.search_nodes now 0 s tenant n)) \<le> depth"
  have un: "unresolved (memory_engine now depth) = unresolved (memory_engine now 0)"
    by (intro ext) (simp only: unresolved_def memory_engine_simps)
  have "card (me.search_nodes now depth s tenant n) < depth"
    using depth by (simp add: me.search_nodes_def un)
  with me.CheckCycle_fuel[OF assms(1)] have fuel: "CheckCycle (memory_engine now depth) tenant n s \<noteq> Inl ErrStackExhausted"
    by simp
  show "CheckCycle (memory_engine now depth) tenant n s =
    (if \<exists>x. (n, x) \<in> ?E\<^sup>* \<and> (x, x) \<in> ?E\<^sup>+ then Inl ErrDependencyCycle else Inr ())"
  proof (cases "CheckCycle (memory_engine now depth) tenant n s")
    case (Inr u) then show ?thesis using me.CheckCycle_ok[OF assms(1), of now depth tenant n] by auto
  next
    case (Inl er)
    then have "visit (unresolved (memory_engine now 0) s tenant) depth n ({}, {}) = Inl er"
      by (auto simp: CheckCycle_def rbind_Inl_iff un)
    from visit_error(1)[OF this] have "er = ErrDependencyCycle"
    proof (elim disjE exE conjE)
      fix x assume "(n, x) \<in> (edges (unresolved (memory_engine now 0) s tenant))\<^sup>*"
        "unresolved (memory_engine now 0) s tenant x = Inl er"
      then show ?thesis
        using assms(2)[of x] rtrancl_mono[OF me.edges_sub[OF assms(1), of now 0 tenant]] by auto
    qed (use Inl fuel in auto)
    then show ?thesis using me.CheckCycle_cycle[OF assms(1), of now depth tenant n] Inl by auto
  qed
qed

lemma demo_edge: "(job_target ''B'', m) \<in> dep_edges memory_store 5 demo_memory ''t'' \<longleftrightarrow> m = job_target ''A''"
  by (auto simp: in_dep_edges job_edge_def pending_on_def demo_memory_def Memory_Wait_def tableLookup_def
      demo_table_def demo_wait_def demo_dep_def expired_def split: if_splits)

lemma demo_no_edge: "(job_target ''A'', m) \<notin> dep_edges memory_store 5 demo_memory ''t''"
  by (auto simp: in_dep_edges job_edge_def demo_memory_def tableLookup_def demo_table_def)

lemma demo_reach:
  "(job_target ''B'', x) \<in> (dep_edges memory_store 5 demo_memory ''t'')\<^sup>* \<Longrightarrow> x \<in> {job_target ''A'', job_target ''B''}"
  by (induction rule: rtrancl_induct) (auto simp: demo_edge demo_no_edge)

theorem check_cycle_exact_witness:
  "\<exists>d0. \<forall>depth \<ge> d0. CheckCycle (memory_engine 5 depth) ''t'' (job_target ''B'') demo_memory =
    (if \<exists>x. (job_target ''B'', x) \<in> (dep_edges memory_store 5 demo_memory ''t'')\<^sup>*
          \<and> (x, x) \<in> (dep_edges memory_store 5 demo_memory ''t'')\<^sup>+
     then Inl ErrDependencyCycle else Inr ())"
proof (rule check_cycle_exact[OF demo_inv])
  fix x assume "(job_target ''B'', x) \<in> (dep_edges memory_store 5 demo_memory ''t'')\<^sup>*"
  then have "x \<in> {job_target ''A'', job_target ''B''}" by (rule demo_reach)
  moreover have "\<not> isl (unresolved (memory_engine 5 0) demo_memory ''t'' (job_target ''A''))"
    "\<not> isl (unresolved (memory_engine 5 0) demo_memory ''t'' (job_target ''B''))" by code_simp+
  ultimately show "\<not> isl (unresolved (memory_engine 5 0) demo_memory ''t'' x)" by auto
qed

text \<open>
  C23. Failing an open goal records a complete snapshot: the stored goal is failed with the request's
  message, and its two job lists are sorted and are exactly the ended and the running candidates.
\<close>

theorem fail_snapshot:
  assumes "memory_inv s" and "Fail (memory_engine now depth) req s = Inr (g', s')"
    and "Memory_Goal s (fg_GoalKey req) = Inr g" and "g_State g = GoalOpen"
  shows "\<exists>f jobs. Memory_Candidates s (fg_GoalKey req) = Inr jobs
    \<and> Memory_Goal s' (fg_GoalKey req) = Inr g' \<and> g_State g' = GoalFailed \<and> g_Failure g' = Some f
    \<and> f_Message f = fg_Message req \<and> f_FailedAt f = now
    \<and> sorted (f_TerminalJobIDs f) \<and> sorted (f_NonTerminalJobIDs f)
    \<and> set (f_TerminalJobIDs f) = {JobId (j_Key j) |j. j \<in> set jobs \<and> j_Terminal j}
    \<and> set (f_NonTerminalJobIDs f) = {JobId (j_Key j) |j. j \<in> set jobs \<and> \<not> j_Terminal j}"
proof -
  note st = me.Fail_step[OF assms(2,1)]
  from assms(2-4) obtain jobs where jobs: "Memory_Candidates s (fg_GoalKey req) = Inr jobs"
    and f: "g_Failure g' = Some (goalFailure now req jobs)"
    by (auto simp: Fail_def rbind_Inr_iff Let_def)
  show ?thesis
    using st(4,5) jobs f by (intro exI[of _ "goalFailure now req jobs"] exI[of _ jobs]) (auto simp: goalFailure_def)
qed

theorem fail_snapshot_witness:
  "\<exists>g' s' f. Fail (memory_engine 7 9) \<lparr>fg_GoalKey = GoalKey ''t'' ''gb'', fg_Message = ''no''\<rparr> demo_memory = Inr (g', s')
     \<and> g_Failure g' = Some f \<and> f_NonTerminalJobIDs f = [''B'']"
proof -
  let ?req = "\<lparr>fg_GoalKey = GoalKey ''t'' ''gb'', fg_Message = ''no''\<rparr>"
  let ?r = "Fail (memory_engine 7 9) ?req demo_memory"
  have ok: "isl ?r = False" by code_simp
  have l: "map_option f_NonTerminalJobIDs (g_Failure (fst (projr ?r))) = Some [''B'']" by code_simp
  from ok obtain g' s' where r: "?r = Inr (g', s')" by (cases ?r) auto
  have g: "Memory_Goal demo_memory (fg_GoalKey ?req) = Inr (demo_goal ''gb'')" by code_simp
  have o: "g_State (demo_goal ''gb'') = GoalOpen" by code_simp
  from fail_snapshot[OF demo_inv r g o] obtain f where "g_Failure g' = Some f" by blast
  then show ?thesis using r l by auto
qed









end
