(* ===== verification/Cell_Repo.thy ===== *)
theory Cell_Repo
  imports Prelude
begin

text \<open>
  Cell names and repository locators of \<open>pkg/jobdb/cells.go\<close>: the error codes, the name pattern,
  the revision precondition and \<open>NormalizeCellRepo\<close>, with the parts of \<open>net/url\<close> and \<open>strings\<close>
  it calls. The URL parser covers strings without \<open>?\<close> and \<open>#\<close>, which the caller rejects first.
\<close>

section \<open>Errors\<close>

abbreviation ErrInvalidCell :: error where "ErrInvalidCell \<equiv> ErrCell ''invalid_request'' 400"
abbreviation ErrCellForbidden :: error where "ErrCellForbidden \<equiv> ErrCell ''forbidden'' 403"
abbreviation ErrCellNotFound :: error where "ErrCellNotFound \<equiv> ErrCell ''not_found'' 404"
abbreviation ErrCellConflict :: error where "ErrCellConflict \<equiv> ErrCell ''cell_conflict'' 409"
abbreviation ErrCellRepoMismatch :: error where "ErrCellRepoMismatch \<equiv> ErrCell ''cell_repo_mismatch'' 409"
abbreviation ErrCellRetired :: error where "ErrCellRetired \<equiv> ErrCell ''cell_retired'' 409"
abbreviation ErrCellBusy :: error where "ErrCellBusy \<equiv> ErrCell ''cell_busy'' 409"
abbreviation ErrCellRequestConflict :: error where "ErrCellRequestConflict \<equiv> ErrCell ''request_conflict'' 409"
abbreviation ErrCellPrecondition :: error where "ErrCellPrecondition \<equiv> ErrCell ''precondition_failed'' 412"
abbreviation ErrCellPreconditionRequired :: error where "ErrCellPreconditionRequired \<equiv> ErrCell ''precondition_required'' 428"
abbreviation ErrInvalidCellPageToken :: error where "ErrInvalidCellPageToken \<equiv> ErrCell ''invalid_page_token'' 400"

section \<open>Characters and strings\<close>

definition is_lower :: "char \<Rightarrow> bool" where "is_lower c \<longleftrightarrow> 97 \<le> byte c \<and> byte c \<le> 122"
definition is_upper :: "char \<Rightarrow> bool" where "is_upper c \<longleftrightarrow> 65 \<le> byte c \<and> byte c \<le> 90"
definition is_digit :: "char \<Rightarrow> bool" where "is_digit c \<longleftrightarrow> 48 \<le> byte c \<and> byte c \<le> 57"
definition is_alnum :: "char \<Rightarrow> bool" where "is_alnum c \<longleftrightarrow> is_lower c \<or> is_upper c \<or> is_digit c"

definition to_lower_char :: "char \<Rightarrow> char" where
  "to_lower_char c = (if is_upper c then char_of (byte c + 32) else c)"

text \<open>
  \<open>strings.ToLower\<close> of an ASCII string. Other letters keep their case here, where Go lowers them by
  the Unicode tables, so what is shown of canonical locators is about ASCII hosts.
\<close>

definition to_lower :: "gostring \<Rightarrow> gostring" where
  "to_lower s = map to_lower_char s"

text \<open>\<open>strings.Cut\<close> at a byte: the parts before and after its first occurrence.\<close>

fun cut :: "char \<Rightarrow> gostring \<Rightarrow> (gostring \<times> gostring) option" where
  "cut c [] = None"
| "cut c (x # s) = (if x = c then Some ([], s) else map_option (\<lambda>(a, b). (x # a, b)) (cut c s))"

text \<open>The same at the last occurrence (\<open>strings.LastIndex\<close>).\<close>

definition cut_last :: "char \<Rightarrow> gostring \<Rightarrow> (gostring \<times> gostring) option" where
  "cut_last c s = map_option (\<lambda>(a, b). (rev b, rev a)) (cut c (rev s))"

fun split_on :: "char \<Rightarrow> gostring \<Rightarrow> gostring list" where
  "split_on c [] = [[]]"
| "split_on c (x # s) =
     (if x = c then [] # split_on c s
      else case split_on c s of [] \<Rightarrow> [[x]] | seg # segs \<Rightarrow> (x # seg) # segs)"

definition has_prefix :: "gostring \<Rightarrow> gostring \<Rightarrow> bool" where
  "has_prefix s p \<longleftrightarrow> take (length p) s = p"

definition trim_prefix :: "gostring \<Rightarrow> gostring \<Rightarrow> gostring" where
  "trim_prefix s p = (if has_prefix s p then drop (length p) s else s)"

definition trim_suffix :: "gostring \<Rightarrow> gostring \<Rightarrow> gostring" where
  "trim_suffix s p = (if has_prefix (rev s) (rev p) then rev (drop (length p) (rev s)) else s)"

fun contains :: "gostring \<Rightarrow> gostring \<Rightarrow> bool" where
  "contains [] p \<longleftrightarrow> p = []"
| "contains (x # s) p \<longleftrightarrow> has_prefix (x # s) p \<or> contains s p"

text \<open>
  \<open>strings.TrimSpace(s) != s\<close>: the string begins or ends with a space. The trailing test reads the
  encodings backwards.
\<close>

definition leading_space :: "gostring \<Rightarrow> bool" where
  "leading_space s \<longleftrightarrow> trim_left s \<noteq> s"

definition trailing_space :: "gostring \<Rightarrow> bool" where
  "trailing_space s \<longleftrightarrow>
     (case rev s of
        [] \<Rightarrow> False
      | a # t \<Rightarrow> ascii_space (byte a)
          \<or> (case t of [] \<Rightarrow> False
             | b # u \<Rightarrow> wide_space2 (byte b) (byte a)
                 \<or> (case u of [] \<Rightarrow> False | c # _ \<Rightarrow> wide_space3 (byte c) (byte b) (byte a))))"

section \<open>net/url\<close>

definition hex_val :: "char \<Rightarrow> nat option" where
  "hex_val c =
     (if is_digit c then Some (byte c - 48)
      else if 97 \<le> byte c \<and> byte c \<le> 102 then Some (byte c - 87)
      else if 65 \<le> byte c \<and> byte c \<le> 70 then Some (byte c - 55)
      else None)"

definition hex_digit :: "nat \<Rightarrow> char" where
  "hex_digit n = (if n < 10 then char_of (48 + n) else char_of (55 + n))"

fun unescape :: "gostring \<Rightarrow> gostring option" where
  "unescape [] = Some []"
| "unescape (c # s) =
     (if c = CHR ''%'' then
        (case s of
           a # b # r \<Rightarrow>
             (case (hex_val a, hex_val b) of
                (Some x, Some y) \<Rightarrow> map_option (\<lambda>t. char_of (16 * x + y) # t) (unescape r)
              | _ \<Rightarrow> None)
         | _ \<Rightarrow> None)
      else map_option (\<lambda>t. c # t) (unescape s))"

text \<open>
  In a host, a percent sequence stands for a non-ASCII byte or for the percent sign, and the
  remaining ASCII bytes must be among those a host may hold.
\<close>

definition host_byte_ok :: "char \<Rightarrow> bool" where
  "host_byte_ok c \<longleftrightarrow> byte c \<ge> 128 \<or> is_alnum c
     \<or> c \<in> set ''!$&()*+,;=:[]<>-_.~'' \<or> byte c = 34 \<or> byte c = 39"

fun unescape_host :: "gostring \<Rightarrow> gostring option" where
  "unescape_host [] = Some []"
| "unescape_host (c # s) =
     (if c = CHR ''%'' then
        (case s of
           a # b # r \<Rightarrow>
             (case (hex_val a, hex_val b) of
                (Some x, Some y) \<Rightarrow>
                  if x < 8 \<and> \<not> (x = 2 \<and> y = 5) then None
                  else map_option (\<lambda>t. char_of (16 * x + y) # t) (unescape_host r)
              | _ \<Rightarrow> None)
         | _ \<Rightarrow> None)
      else if host_byte_ok c then map_option (\<lambda>t. c # t) (unescape_host s) else None)"

definition path_byte_plain :: "char \<Rightarrow> bool" where
  "path_byte_plain c \<longleftrightarrow> is_alnum c \<or> c \<in> set ''-_.~$&+,/:;=@''"

definition escape_path :: "gostring \<Rightarrow> gostring" where
  "escape_path s =
     concat (map (\<lambda>c. if path_byte_plain c then [c]
                      else [CHR ''%'', hex_digit (byte c div 16), hex_digit (byte c mod 16)]) s)"

definition valid_userinfo :: "gostring \<Rightarrow> bool" where
  "valid_userinfo s \<longleftrightarrow> list_all (\<lambda>c. is_alnum c \<or> c \<in> set ''-._:~!$&()*+,;=%@'' \<or> byte c = 39) s"

definition valid_optional_port :: "gostring \<Rightarrow> bool" where
  "valid_optional_port s \<longleftrightarrow> (case s of [] \<Rightarrow> True | c # r \<Rightarrow> c = CHR '':'' \<and> list_all is_digit r)"

datatype userinfo = NoUser | User gostring | UserPassword gostring gostring

record Url =
  u_Scheme :: gostring
  u_User :: userinfo
  u_Host :: gostring
  u_Path :: gostring
  u_RawPath :: gostring

text \<open>
  \<open>getScheme\<close>: \<open>None\<close> is the error for a string that starts with a colon, the empty scheme stands
  for a string without one.
\<close>

fun get_scheme :: "nat \<Rightarrow> gostring \<Rightarrow> gostring \<Rightarrow> (gostring \<times> gostring) option" where
  "get_scheme i whole [] = Some ([], whole)"
| "get_scheme i whole (c # s) =
     (if is_lower c \<or> is_upper c then get_scheme (Suc i) whole s
      else if is_digit c \<or> c \<in> set ''+-.'' then
        (if i = 0 then Some ([], whole) else get_scheme (Suc i) whole s)
      else if c = CHR '':'' then (if i = 0 then None else Some (take i whole, s))
      else Some ([], whole))"

text \<open>A bracketed literal is an IPv6 address; no locator accepts one, so it is an error here.\<close>

definition parse_host :: "gostring \<Rightarrow> gostring option" where
  "parse_host host =
     (if CHR ''['' \<in> set host then None
      else case cut_last CHR '':'' host of
        Some (_, port) \<Rightarrow> if valid_optional_port (CHR '':'' # port) then unescape_host host else None
      | None \<Rightarrow> unescape_host host)"

definition parse_authority :: "gostring \<Rightarrow> (userinfo \<times> gostring) option" where
  "parse_authority a =
     (case cut_last CHR ''@'' a of
        None \<Rightarrow> map_option (Pair NoUser) (parse_host a)
      | Some (info, h) \<Rightarrow>
          (case parse_host h of
             None \<Rightarrow> None
           | Some host \<Rightarrow>
               if \<not> valid_userinfo info then None
               else (case cut CHR '':'' info of
                   None \<Rightarrow> map_option (\<lambda>u. (User u, host)) (unescape info)
                 | Some (u, p) \<Rightarrow>
                     (case (unescape u, unescape p) of
                        (Some u', Some p') \<Rightarrow> Some (UserPassword u' p', host)
                      | _ \<Rightarrow> None))))"

definition url_Parse :: "gostring \<Rightarrow> Url option" where
  "url_Parse raw =
     (if list_ex (\<lambda>c. byte c < 32 \<or> byte c = 127) raw then None
      else case get_scheme 0 raw raw of
        None \<Rightarrow> None
      | Some (scheme, rest) \<Rightarrow>
          if \<not> has_prefix rest ''/'' then
            (if scheme \<noteq> [] then Some \<lparr>u_Scheme = to_lower scheme, u_User = NoUser, u_Host = [], u_Path = [], u_RawPath = []\<rparr>
             else None)
          else
            (case (if (scheme \<noteq> [] \<or> \<not> has_prefix rest ''///'') \<and> has_prefix rest ''//'' then
                     (let a = drop 2 rest in
                      case cut CHR ''/'' a of
                        None \<Rightarrow> map_option (\<lambda>(u, h). (u, h, [])) (parse_authority a)
                      | Some (auth, p) \<Rightarrow> map_option (\<lambda>(u, h). (u, h, CHR ''/'' # p)) (parse_authority auth))
                   else Some (NoUser, [], rest)) of
               None \<Rightarrow> None
             | Some (user, host, p) \<Rightarrow>
                 (case unescape p of
                    None \<Rightarrow> None
                  | Some path \<Rightarrow>
                      Some \<lparr>u_Scheme = to_lower scheme, u_User = user, u_Host = host, u_Path = path,
                            u_RawPath = (if p = escape_path path then [] else p)\<rparr>)))"

definition split_host_port :: "gostring \<Rightarrow> gostring \<times> gostring" where
  "split_host_port h =
     (case cut_last CHR '':'' h of
        Some (host, port) \<Rightarrow> if valid_optional_port (CHR '':'' # port) then (host, port) else (h, [])
      | None \<Rightarrow> (h, []))"

section \<open>Validators\<close>

definition ValidateCellName :: "gostring \<Rightarrow> error + unit" where
  "ValidateCellName s =
     (if \<not> (1 \<le> length s \<and> length s \<le> 128 \<and> list_all (\<lambda>c. is_alnum c \<or> c \<in> set ''._-'') s)
         \<or> s = ''.'' \<or> s = ''..''
      then Inl ErrInvalidCell else Inr ())"

text \<open>\<open>%q\<close> of a revision: revisions are base-62 identifiers, which quoting leaves unchanged.\<close>

definition quote_revision :: "gostring \<Rightarrow> gostring" where
  "quote_revision s = CHR 0x22 # s @ [CHR 0x22]"

definition CheckCellRevision :: "gostring \<Rightarrow> gostring \<Rightarrow> error + unit" where
  "CheckCellRevision header revision =
     (if header = [] then Inl ErrCellPreconditionRequired
      else if length header < 3 \<or> hd header \<noteq> CHR 0x22 \<or> last header \<noteq> CHR 0x22
              \<or> contains_any (butlast (tl header)) [CHR 0x22, CHR 0x5C, CHR '','', CHR 0x0D, CHR 0x0A]
      then Inl ErrInvalidCell
      else if header \<noteq> quote_revision revision then Inl ErrCellPrecondition
      else Inr ())"

text \<open>The URL branch of \<open>NormalizeCellRepo\<close>: host and path of an accepted URL.\<close>

definition repoFromURL :: "gostring \<Rightarrow> error + (gostring \<times> gostring)" where
  "repoFromURL s =
     (case url_Parse s of
        None \<Rightarrow> Inl ErrInvalidCell
      | Some u \<Rightarrow>
          if u_Host u = [] \<or> u_RawPath u \<noteq> [] then Inl ErrInvalidCell
          else if u_Scheme u \<noteq> ''https'' \<and> u_Scheme u \<noteq> ''ssh'' then Inl ErrInvalidCell
          else if u_Scheme u = ''https'' \<and> u_User u \<noteq> NoUser then Inl ErrInvalidCell
          else if (case u_User u of UserPassword _ _ \<Rightarrow> True | _ \<Rightarrow> False) then Inl ErrInvalidCell
          else let (host, port) = split_host_port (u_Host u) in
            if port \<noteq> [] \<and> \<not> (u_Scheme u = ''https'' \<and> port = ''443'')
               \<and> \<not> (u_Scheme u = ''ssh'' \<and> port = ''22'')
            then Inl ErrInvalidCell
            else Inr (host, trim_prefix (u_Path u) ''/''))"

definition splitRepo :: "gostring \<Rightarrow> error + (gostring \<times> gostring)" where
  "splitRepo s =
     (if contains s ''://'' then repoFromURL s
      else case cut CHR ''@'' s of
        Some (user, rest) \<Rightarrow>
          (case cut CHR '':'' rest of
             Some (h, p) \<Rightarrow> if user = [] then Inl ErrInvalidCell else Inr (h, p)
           | None \<Rightarrow> Inl ErrInvalidCell)
      | None \<Rightarrow>
          (case cut CHR ''/'' s of
             Some (h, p) \<Rightarrow> Inr (h, p)
           | None \<Rightarrow> Inl ErrInvalidCell))"

definition checkRepo :: "gostring \<Rightarrow> gostring \<Rightarrow> error + gostring" where
  "checkRepo host path =
     (if host = [] \<or> contains_any host '':/@%'' \<or> host = ''.'' \<or> host = ''..'' \<or> path = []
         \<or> contains_any path '':@%'' then Inl ErrInvalidCell
      else if list_ex (\<lambda>part. part = [] \<or> part = ''.'' \<or> part = ''..'') (split_on CHR ''/'' path)
      then Inl ErrInvalidCell
      else if \<not> valid_utf8 path \<or> length host + length path + 1 > 2048 then Inl ErrInvalidCell
      else Inr (host @ ''/'' @ path))"

definition NormalizeCellRepo :: "gostring \<Rightarrow> error + gostring" where
  "NormalizeCellRepo s =
     (if s = [] \<or> leading_space s \<or> trailing_space s
         \<or> contains_any s [CHR ''?'', CHR ''#'', CHR 0x5C, CHR 0x09, CHR 0x0D, CHR 0x0A, CHR '' '']
      then Inl ErrInvalidCell
      else rbind (splitRepo s) (\<lambda>(host, path).
        checkRepo (to_lower host) (trim_suffix (trim_suffix path ''/'') ''.git'')))"

section \<open>Facts\<close>

lemma cut_None_iff: "cut c s = None \<longleftrightarrow> c \<notin> set s"
  by (induction s) auto

lemma cut_append: "c \<notin> set a \<Longrightarrow> cut c (a @ c # b) = Some (a, b)"
  by (induction a) auto

lemma contains_set: "contains s p \<Longrightarrow> set p \<subseteq> set s"
proof (induction s)
  case (Cons x s)
  show ?case
  proof (cases "has_prefix (x # s) p")
    case True
    then have "set p \<subseteq> set (x # s)" unfolding has_prefix_def by (metis set_take_subset)
    then show ?thesis .
  next
    case False then show ?thesis using Cons by auto
  qed
qed simp

lemma split_on_ne [simp]: "split_on c s \<noteq> []"
  by (induction s) (auto split: list.splits)

lemma split_on_snoc: "split_on c (s @ [c]) = split_on c s @ [[]]"
  by (induction s) (auto split: list.splits)

lemma to_lower_char_not_upper: "\<not> is_upper (to_lower_char c)"
proof (cases "is_upper c")
  case True
  then have "byte c + 32 < 256" "\<not> (65 \<le> byte c + 32 \<and> byte c + 32 \<le> 90)" by (auto simp: is_upper_def)
  then show ?thesis using True by (simp add: to_lower_char_def is_upper_def)
qed (simp add: to_lower_char_def)

lemma to_lower_char_idem: "to_lower_char (to_lower_char c) = to_lower_char c"
  by (subst to_lower_char_def) (simp add: to_lower_char_not_upper)

lemma to_lower_none: "list_all (\<lambda>c. \<not> is_upper c) (to_lower s)"
  by (simp add: to_lower_def list_all_iff to_lower_char_not_upper)

lemma to_lower_idem: "to_lower (to_lower s) = to_lower s"
  by (simp add: to_lower_def to_lower_char_idem)

lemma trim_suffix_slash:
  assumes "\<forall>part \<in> set (split_on CHR ''/'' p). part \<noteq> []"
  shows "trim_suffix p ''/'' = p"
proof -
  have "\<not> has_prefix (rev p) (rev ''/'')"
  proof
    assume "has_prefix (rev p) (rev ''/'')"
    then obtain q where "rev p = CHR ''/'' # q" by (cases "rev p") (auto simp: has_prefix_def)
    then have "p = rev q @ [CHR ''/'']" by (metis rev.simps(2) rev_rev_ident)
    then have "last (split_on CHR ''/'' p) = []" using split_on_snoc by simp
    then show False using assms last_in_set split_on_ne by metis
  qed
  then show ?thesis by (simp add: trim_suffix_def)
qed

lemma contains_anyD: "\<not> contains_any s cs \<Longrightarrow> c \<in> set cs \<Longrightarrow> c \<notin> set s"
  by (auto simp: contains_any_def list_ex_iff)

lemma checkRepo_Inr:
  assumes "checkRepo h p = Inr r"
  shows "r = h @ ''/'' @ p \<and> h \<noteq> [] \<and> p \<noteq> [] \<and> length r \<le> 2048
    \<and> \<not> contains_any h '':/@%'' \<and> \<not> contains_any p '':@%''
    \<and> \<not> list_ex (\<lambda>part. part = [] \<or> part = ''.'' \<or> part = ''..'') (split_on CHR ''/'' p)"
proof -
  have "\<not> (h = [] \<or> contains_any h '':/@%'' \<or> h = ''.'' \<or> h = ''..'' \<or> p = [] \<or> contains_any p '':@%'')"
    using assms unfolding checkRepo_def by (rule_tac notI) (simp only: if_True sum.distinct)
  moreover from this have "\<not> list_ex (\<lambda>part. part = [] \<or> part = ''.'' \<or> part = ''..'') (split_on CHR ''/'' p)"
    using assms unfolding checkRepo_def by (rule_tac notI) (simp only: if_True if_False sum.distinct)
  moreover from calculation have "\<not> (\<not> valid_utf8 p \<or> length h + length p + 1 > 2048)"
    using assms unfolding checkRepo_def by (rule_tac notI) (simp only: if_True if_False sum.distinct)
  moreover from calculation have "r = h @ ''/'' @ p"
    using assms unfolding checkRepo_def by (simp only: if_False sum.inject)
  ultimately show ?thesis by simp
qed

section \<open>Properties\<close>

definition ascii :: "gostring \<Rightarrow> bool" where
  "ascii s \<longleftrightarrow> list_all (\<lambda>c. byte c < 128) s"

definition accepted_text :: "gostring \<Rightarrow> bool" where
  "accepted_text s \<longleftrightarrow> \<not> leading_space s \<and> \<not> trailing_space s
     \<and> \<not> contains_any s [CHR ''?'', CHR ''#'', CHR 0x5C, CHR 0x09, CHR 0x0D, CHR 0x0A, CHR '' '']"

text \<open>
  C33. The canonical form of a repository locator with an ASCII host is host, slash and path, at most
  2048 bytes, with no upper-case letter and no separator in the host and no empty or dot segment in
  the path; and it is a fixed point of \<open>NormalizeCellRepo\<close> unless it still ends in \<open>.git\<close> or holds
  a character the input check rejects.
\<close>

theorem normalize_repo_canonical:
  assumes "NormalizeCellRepo s = Inr r" and "splitRepo s = Inr (host, path)" and "ascii host"
  shows "\<exists>h p. r = h @ ''/'' @ p \<and> h \<noteq> [] \<and> p \<noteq> [] \<and> length r \<le> 2048
      \<and> list_all (\<lambda>c. \<not> is_upper c) h
      \<and> \<not> contains_any h '':/@%'' \<and> \<not> contains_any p '':@%''
      \<and> \<not> list_ex (\<lambda>part. part = [] \<or> part = ''.'' \<or> part = ''..'') (split_on CHR ''/'' p)
      \<and> (accepted_text r \<longrightarrow> trim_suffix p ''.git'' = p \<longrightarrow> NormalizeCellRepo r = Inr r)"
proof -
  from assms(1) obtain h0 p where c: "checkRepo (to_lower h0) p = Inr r"
    by (auto simp: NormalizeCellRepo_def rbind_Inr_iff split: if_splits)
  let ?h = "to_lower h0"
  note r = checkRepo_Inr[OF c]
  have "NormalizeCellRepo r = Inr r" if a: "accepted_text r" and g: "trim_suffix p ''.git'' = p"
  proof -
    have "CHR '':'' \<notin> set ?h" "CHR ''@'' \<notin> set ?h" "CHR ''/'' \<notin> set ?h"
      using contains_anyD[of ?h "'':/@%''"] r by auto
    moreover have "CHR '':'' \<notin> set p" "CHR ''@'' \<notin> set p" using contains_anyD[of p "'':@%''"] r by auto
    ultimately have nocolon: "CHR '':'' \<notin> set r" and noat: "CHR ''@'' \<notin> set r" and hs: "CHR ''/'' \<notin> set ?h"
      using r by auto
    have "\<not> contains r ''://''" using contains_set[of r "''://''"] nocolon by auto
    moreover have "cut CHR ''@'' r = None" using noat by (simp add: cut_None_iff)
    moreover have "cut CHR ''/'' r = Some (?h, p)" using r cut_append[OF hs, of p] by auto
    ultimately have "splitRepo r = Inr (?h, p)" by (simp add: splitRepo_def)
    moreover have "trim_suffix p ''/'' = p" by (rule trim_suffix_slash) (use r in \<open>auto simp: list_ex_iff\<close>)
    moreover have "r \<noteq> []" using r by simp
    ultimately show ?thesis using a g c
      by (simp add: NormalizeCellRepo_def accepted_text_def to_lower_idem)
  qed
  then show ?thesis using r to_lower_none[of h0] by blast
qed

theorem normalize_repo_canonical_witness:
  "NormalizeCellRepo ''https://GitHub.com/Org/Repo.git'' = Inr ''github.com/Org/Repo''
   \<and> NormalizeCellRepo ''github.com/Org/Repo'' = Inr ''github.com/Org/Repo''"
proof -
  have n: "NormalizeCellRepo ''https://GitHub.com/Org/Repo.git'' = Inr ''github.com/Org/Repo''" by code_simp
  have s: "splitRepo ''https://GitHub.com/Org/Repo.git'' = Inr (''GitHub.com'', ''Org/Repo.git'')" "ascii ''GitHub.com''" by code_simp+
  from normalize_repo_canonical[OF n s] obtain h p where hp: "''github.com/Org/Repo'' = h @ ''/'' @ p"
    "\<not> contains_any h '':/@%''"
    "accepted_text ''github.com/Org/Repo'' \<longrightarrow> trim_suffix p ''.git'' = p \<longrightarrow>
       NormalizeCellRepo ''github.com/Org/Repo'' = Inr ''github.com/Org/Repo''" by blast
  have "cut CHR ''/'' ''github.com/Org/Repo'' = Some (h, p)"
    using hp(1) cut_append[of "CHR ''/''" h p] contains_anyD[OF hp(2), of "CHR ''/''"] by auto
  moreover have "cut CHR ''/'' ''github.com/Org/Repo'' = Some (''github.com'', ''Org/Repo'')" by code_simp
  ultimately have p: "p = ''Org/Repo''" by simp
  have "accepted_text ''github.com/Org/Repo''" "trim_suffix ''Org/Repo'' ''.git'' = ''Org/Repo''" by code_simp+
  then show ?thesis using n hp(3) p by simp
qed

text \<open>
  \<open>NormalizeCellRepo\<close> strips one \<open>.git\<close> suffix only, so its result need not be canonical: a
  locator ending in \<open>.git.git\<close> normalises to one that normalises further, and a cell stored with
  the first form is not matched by a request that names exactly that stored repository.
\<close>

theorem normalize_repo_not_idempotent:
  "NormalizeCellRepo ''host/a.git.git'' = Inr ''host/a.git'' \<and> NormalizeCellRepo ''host/a.git'' = Inr ''host/a''"
  by code_simp

end
