(* ===== verification/Cell_State.thy ===== *)
theory Cell_State
  imports Cell_Repo Goal_Types
begin

text \<open>
  The cell registry of one tenant: the types and authorization rule of \<open>pkg/jobdb/cells.go\<close> and
  the operations of \<open>runtime/cellstate/state.go\<close> and \<open>lookup.go\<close>. The request context is the
  authority it carries, if any. Fresh identifiers and the clock are arguments; the encoding of
  metadata is a record of functions.
\<close>

section \<open>Types\<close>

datatype CellState = CellActive | CellRetired

type_synonym metadata = "(gostring \<times> gostring) list"

record Cell =
  c_TenantID :: gostring
  c_ID :: gostring
  c_Name :: gostring
  c_Repo :: gostring
  c_Description :: gostring
  c_Metadata :: metadata
  c_State :: CellState
  c_Aliases :: "gostring list"
  c_Revision :: gostring
  c_CreatedAt :: instant
  c_UpdatedAt :: instant
  c_RetiredAt :: "instant option"

record CreateCellRequest =
  cr_TenantID :: gostring
  cr_Name :: gostring
  cr_Repo :: gostring
  cr_Description :: gostring
  cr_Metadata :: metadata
  cr_RequestID :: gostring

record UpdateCellRequest =
  up_TenantID :: gostring
  up_CellID :: gostring
  up_IfMatch :: gostring
  up_Name :: "gostring option"
  up_Repo :: "gostring option"
  up_Description :: "gostring option"
  up_Metadata :: "metadata option option"

record RetireCellRequest =
  rt_TenantID :: gostring
  rt_CellID :: gostring
  rt_IfMatch :: gostring

record ResolvedCell =
  rc_Cell :: gostring
  rc_CellID :: gostring
  rc_CellRepo :: gostring

definition Resolved :: "Cell \<Rightarrow> ResolvedCell" where
  "Resolved c = \<lparr>rc_Cell = c_Name c, rc_CellID = c_ID c, rc_CellRepo = c_Repo c\<rparr>"

record CellAuthority =
  a_Principal :: gostring
  a_TenantID :: gostring
  a_Permissions :: "gostring list"
  a_Cells :: "gostring list option"

definition AuthorizeCell :: "CellAuthority option \<Rightarrow> gostring \<Rightarrow> gostring \<Rightarrow> gostring \<Rightarrow> error + unit" where
  "AuthorizeCell ctx tenant cid permission =
     (case ctx of
        None \<Rightarrow> Inl ErrCellForbidden
      | Some a \<Rightarrow>
          if tenant = [] \<or> a_Principal a = [] \<or> (a_TenantID a \<noteq> tenant \<and> a_TenantID a \<noteq> ''*'')
             \<or> permission \<notin> set (a_Permissions a)
          then Inl ErrCellForbidden
          else if cid \<noteq> [] \<and> (case a_Cells a of None \<Rightarrow> False | Some ids \<Rightarrow> cid \<notin> set ids)
          then Inl ErrCellNotFound
          else Inr ())"

text \<open>
  Metadata values are raw JSON texts. \<open>js_Valid\<close>, \<open>js_Canonical\<close> and \<open>js_Size\<close> are
  \<open>json.Valid\<close>, the decode-and-encode of one value and the length of the encoded map;
  \<open>js_Digest\<close> is the hex SHA-256 of the encoded request.
\<close>

record json_lib =
  js_Valid :: "gostring \<Rightarrow> bool"
  js_Canonical :: "gostring \<Rightarrow> gostring"
  js_Size :: "metadata \<Rightarrow> nat"
  js_Digest :: "CreateCellRequest \<Rightarrow> gostring"

definition rune_count :: "gostring \<Rightarrow> nat" where
  "rune_count s = length (filter (\<lambda>c. \<not> cont_byte c) s)"

definition ValidateCellProperties :: "json_lib \<Rightarrow> gostring \<Rightarrow> metadata \<Rightarrow> error + unit" where
  "ValidateCellProperties js description md =
     (if \<not> valid_utf8 description \<or> rune_count description > 2048 \<or> length md > 64
      then Inl ErrInvalidCell
      else if list_ex (\<lambda>(k, v). \<not> valid_utf8 k \<or> rune_count k < 1 \<or> rune_count k > 128 \<or> \<not> js_Valid js v) md
      then Inl ErrInvalidCell
      else if js_Size js md > 16384 then Inl ErrInvalidCell
      else Inr ())"

definition canonicalMetadata :: "json_lib \<Rightarrow> metadata \<Rightarrow> metadata" where
  "canonicalMetadata js md = map (\<lambda>(k, v). (k, js_Canonical js v)) md"

section \<open>State and lookup\<close>

record Creation =
  cn_Principal :: gostring
  cn_RequestID :: gostring
  cn_Descriptor :: gostring
  cn_Result :: Cell

record CellRegistry =
  cs_CursorKey :: gostring
  cs_Cells :: "(gostring \<times> Cell) list"
  cs_Creations :: "Creation list"

definition cell_names :: "Cell \<Rightarrow> gostring list" where
  "cell_names c = c_Name c # c_Aliases c"

definition ByName :: "CellRegistry \<Rightarrow> gostring \<Rightarrow> Cell option" where
  "ByName s name = find (\<lambda>c. name \<in> set (cell_names c)) (map snd (cs_Cells s))"

definition unique :: "CellRegistry \<Rightarrow> Cell \<Rightarrow> error + unit" where
  "unique s c =
     (if list_ex (\<lambda>(_, old). c_ID old \<noteq> c_ID c \<and> c_Repo old = c_Repo c) (cs_Cells s)
      then Inl ErrCellConflict
      else if list_ex (\<lambda>n. case ByName s n of Some old \<Rightarrow> c_ID old \<noteq> c_ID c | None \<Rightarrow> False) (cell_names c)
      then Inl ErrCellConflict
      else Inr ())"

definition put_cell :: "Cell \<Rightarrow> CellRegistry \<Rightarrow> CellRegistry" where
  "put_cell c s = s\<lparr>cs_Cells := AList.update (c_ID c) c (cs_Cells s)\<rparr>"

section \<open>Operations\<close>

definition principal_of :: "CellAuthority option \<Rightarrow> gostring" where
  "principal_of ctx = (case ctx of None \<Rightarrow> [] | Some a \<Rightarrow> a_Principal a)"

text \<open>The search for an earlier creation under the same request identifier.\<close>

definition replayCreation :: "CellRegistry \<Rightarrow> gostring \<Rightarrow> gostring \<Rightarrow> gostring \<Rightarrow> (error + Cell) option" where
  "replayCreation s who rid descriptor =
     (if rid = [] then None
      else map_option (\<lambda>r.
             if cn_Descriptor r \<noteq> descriptor then Inl ErrCellRequestConflict
             else if map_option c_State (map_of (cs_Cells s) (c_ID (cn_Result r))) = Some CellRetired
             then Inl ErrCellRetired
             else Inr (cn_Result r))
           (find (\<lambda>r. cn_Principal r = who \<and> cn_RequestID r = rid) (cs_Creations s)))"

definition Create :: "json_lib \<Rightarrow> CellAuthority option \<Rightarrow> gostring \<Rightarrow> gostring \<Rightarrow> instant \<Rightarrow>
    CreateCellRequest \<Rightarrow> CellRegistry \<Rightarrow> error + (Cell \<times> CellRegistry)" where
  "Create js ctx newID newRev now req0 s =
     rbind (AuthorizeCell ctx (cr_TenantID req0) [] ''cells.create'') (\<lambda>_.
     rbind (ValidateCellName (cr_Name req0)) (\<lambda>_.
     rbind (NormalizeCellRepo (cr_Repo req0)) (\<lambda>repo.
     rbind (ValidateCellProperties js (cr_Description req0) (cr_Metadata req0)) (\<lambda>_.
     let req = req0\<lparr>cr_Repo := repo, cr_Metadata := canonicalMetadata js (cr_Metadata req0)\<rparr>;
         who = principal_of ctx; descriptor = js_Digest js req
     in if length (cr_RequestID req) > 128 then Inl ErrInvalidCell
        else case replayCreation s who (cr_RequestID req) descriptor of
          Some (Inl err) \<Rightarrow> Inl err
        | Some (Inr c) \<Rightarrow> Inr (c, s)
        | None \<Rightarrow>
            let c = \<lparr>c_TenantID = cr_TenantID req, c_ID = newID, c_Name = cr_Name req, c_Repo = repo,
                     c_Description = cr_Description req, c_Metadata = cr_Metadata req, c_State = CellActive,
                     c_Aliases = [], c_Revision = newRev, c_CreatedAt = now, c_UpdatedAt = now,
                     c_RetiredAt = None\<rparr>
            in rbind (unique s c) (\<lambda>_.
               let s1 = put_cell c s;
                   s2 = (if cr_RequestID req = [] then s1
                         else s1\<lparr>cs_Creations := cs_Creations s1 @
                                [\<lparr>cn_Principal = who, cn_RequestID = cr_RequestID req,
                                  cn_Descriptor = descriptor, cn_Result = c\<rparr>]\<rparr>)
               in Inr (c, s2))))))"

definition Get :: "CellAuthority option \<Rightarrow> gostring \<Rightarrow> gostring \<Rightarrow> CellRegistry \<Rightarrow> error + Cell" where
  "Get ctx tenant cid s =
     rbind (AuthorizeCell ctx tenant cid ''cells.get'') (\<lambda>_.
       case map_of (cs_Cells s) cid of None \<Rightarrow> Inl ErrCellNotFound | Some c \<Rightarrow> Inr c)"

definition renameCell :: "gostring \<Rightarrow> Cell \<Rightarrow> Cell" where
  "renameCell n c =
     (if n = c_Name c then c
      else c\<lparr>c_Aliases := sort (c_Name c # filter (\<lambda>a. a \<noteq> n) (c_Aliases c)), c_Name := n\<rparr>)"

definition applyUpdate :: "json_lib \<Rightarrow> UpdateCellRequest \<Rightarrow> Cell \<Rightarrow> error + Cell" where
  "applyUpdate js r c0 =
     rbind (case up_Name r of
              None \<Rightarrow> Inr c0
            | Some n \<Rightarrow> rbind (ValidateCellName n) (\<lambda>_. Inr (renameCell n c0))) (\<lambda>c1.
     rbind (case up_Repo r of
              None \<Rightarrow> Inr c1
            | Some repo \<Rightarrow> rbind (NormalizeCellRepo repo) (\<lambda>q. Inr (c1\<lparr>c_Repo := q\<rparr>))) (\<lambda>c2.
     let c3 = (case up_Description r of None \<Rightarrow> c2 | Some d \<Rightarrow> c2\<lparr>c_Description := d\<rparr>) in
     rbind (case up_Metadata r of
              None \<Rightarrow> Inr c3
            | Some None \<Rightarrow> Inl ErrInvalidCell
            | Some (Some md) \<Rightarrow>
                rbind (ValidateCellProperties js (c_Description c3) md) (\<lambda>_.
                  Inr (c3\<lparr>c_Metadata := canonicalMetadata js md\<rparr>))) (\<lambda>c4.
     rbind (ValidateCellProperties js (c_Description c4) (c_Metadata c4)) (\<lambda>_. Inr c4))))"

text \<open>
  The comparison of the cell before and after an update. Metadata is a Go map, so the order of its
  entries does not matter.
\<close>

definition sameMetadata :: "metadata \<Rightarrow> metadata \<Rightarrow> bool" where
  "sameMetadata m m' \<longleftrightarrow> list_all (\<lambda>k. map_of m k = map_of m' k) (map fst (m @ m'))"

definition sameCell :: "Cell \<Rightarrow> Cell \<Rightarrow> bool" where
  "sameCell c c' \<longleftrightarrow> c\<lparr>c_Metadata := []\<rparr> = c'\<lparr>c_Metadata := []\<rparr> \<and> sameMetadata (c_Metadata c) (c_Metadata c')"

definition Update :: "json_lib \<Rightarrow> CellAuthority option \<Rightarrow> gostring \<Rightarrow> instant \<Rightarrow>
    UpdateCellRequest \<Rightarrow> CellRegistry \<Rightarrow> error + (Cell \<times> CellRegistry)" where
  "Update js ctx newRev now r s =
     rbind (Get ctx (up_TenantID r) (up_CellID r) s) (\<lambda>c.
     rbind (AuthorizeCell ctx (up_TenantID r) (c_ID c) ''cells.update'') (\<lambda>_.
     rbind (CheckCellRevision (up_IfMatch r) (c_Revision c)) (\<lambda>_.
     if c_State c \<noteq> CellActive then Inl ErrCellRetired
     else if up_Name r = None \<and> up_Repo r = None \<and> up_Description r = None \<and> up_Metadata r = None
     then Inl ErrInvalidCell
     else rbind (applyUpdate js r c) (\<lambda>c'.
          rbind (unique s c') (\<lambda>_.
          if sameCell c c' then Inr (c', s)
          else let c'' = c'\<lparr>c_Revision := newRev, c_UpdatedAt := now\<rparr> in Inr (c'', put_cell c'' s))))))"

definition Retire :: "CellAuthority option \<Rightarrow> gostring \<Rightarrow> instant \<Rightarrow> (gostring \<Rightarrow> error + bool) \<Rightarrow>
    RetireCellRequest \<Rightarrow> CellRegistry \<Rightarrow> error + (Cell \<times> CellRegistry)" where
  "Retire ctx newRev now busy r s =
     rbind (Get ctx (rt_TenantID r) (rt_CellID r) s) (\<lambda>c.
     rbind (AuthorizeCell ctx (rt_TenantID r) (c_ID c) ''cells.retire'') (\<lambda>_.
     rbind (CheckCellRevision (rt_IfMatch r) (c_Revision c)) (\<lambda>_.
     if c_State c = CellRetired then Inr (c, s)
     else rbind (busy (c_ID c)) (\<lambda>b.
          if b then Inl ErrCellBusy
          else let c' = c\<lparr>c_State := CellRetired, c_RetiredAt := Some now, c_UpdatedAt := now, c_Revision := newRev\<rparr>
               in Inr (c', put_cell c' s)))))"

definition Resolve :: "CellAuthority option \<Rightarrow> gostring \<Rightarrow> gostring \<Rightarrow> gostring \<Rightarrow> Cell option \<Rightarrow>
    ResolvedCell option \<Rightarrow> bool \<Rightarrow> CellRegistry \<Rightarrow> error + ResolvedCell" where
  "Resolve ctx tenant name repo0 parent existing confirmation s =
     rbind (ValidateCellName name) (\<lambda>_.
     rbind (if parent = None \<or> ctx \<noteq> None then AuthorizeCell ctx tenant [] ''jobs.submit'' else Inr ()) (\<lambda>_.
     rbind (if repo0 = [] then Inr [] else NormalizeCellRepo repo0) (\<lambda>repo.
     let found = ByName s name in
     rbind (case found of
              Some c \<Rightarrow> if parent = None \<or> ctx \<noteq> None then AuthorizeCell ctx tenant (c_ID c) ''jobs.submit'' else Inr ()
            | None \<Rightarrow> Inr ()) (\<lambda>_.
     case existing of
       Some old \<Rightarrow>
         (case found of
            None \<Rightarrow> Inl (ErrExistingJobMismatch ''cell identity or repo differs'')
          | Some c \<Rightarrow>
              if c_ID c \<noteq> rc_CellID old \<or> repo \<noteq> [] \<and> repo \<noteq> rc_CellRepo old
              then Inl (ErrExistingJobMismatch ''cell identity or repo differs'')
              else if \<not> confirmation \<and> c_State c = CellRetired then Inl ErrCellRetired
              else Inr (old\<lparr>rc_Cell := c_Name c\<rparr>))
     | None \<Rightarrow>
         (case found of
            None \<Rightarrow> Inl ErrCellNotFound
          | Some c \<Rightarrow>
              if c_State c = CellRetired then Inl ErrCellRetired
              else if repo \<noteq> [] \<and> repo \<noteq> c_Repo c then Inl ErrCellRepoMismatch
              else Inr (Resolved c))))))"

definition selectNames :: "CellAuthority option \<Rightarrow> gostring \<Rightarrow> gostring \<Rightarrow> CellRegistry \<Rightarrow> gostring list \<Rightarrow> error + gostring list" where
  "selectNames ctx tenant permission s names =
     rmap (\<lambda>name.
       rbind (ValidateCellName name) (\<lambda>_.
       case ByName s name of
         None \<Rightarrow> Inl ErrCellNotFound
       | Some c \<Rightarrow> rbind (AuthorizeCell ctx tenant (c_ID c) permission) (\<lambda>_. Inr (c_ID c)))) names"

definition Select :: "CellAuthority option \<Rightarrow> gostring \<Rightarrow> gostring list option \<Rightarrow> gostring \<Rightarrow> CellRegistry \<Rightarrow> error + gostring list" where
  "Select ctx tenant names permission s =
     rbind (AuthorizeCell ctx tenant [] permission) (\<lambda>_.
     case names of
       Some [] \<Rightarrow> Inl ErrInvalidCell
     | Some (n # ns) \<Rightarrow> selectNames ctx tenant permission s (n # ns)
     | None \<Rightarrow> Inr (filter (\<lambda>cid. AuthorizeCell ctx tenant cid permission = Inr ()) (map fst (cs_Cells s))))"

definition Lookup :: "gostring \<Rightarrow> CellRegistry \<Rightarrow> error + ResolvedCell" where
  "Lookup name s =
     rbind (ValidateCellName name) (\<lambda>_.
     case ByName s name of
       None \<Rightarrow> Inl ErrCellNotFound
     | Some c \<Rightarrow> if c_State c = CellRetired then Inl ErrCellRetired else Inr (Resolved c))"

section \<open>Listing\<close>

text \<open>
  A page token carries a cursor and its HMAC under the registry's key; a token that does not decode
  is \<open>MalformedToken\<close>. \<open>mac\<close> is the signature function.
\<close>

record cursor =
  cu_Tenant :: gostring
  cu_Principal :: gostring
  cu_Name :: gostring
  cu_State :: gostring
  cu_After :: gostring
  cu_ExpiresAt :: int

text \<open>
  A page token as the reader of it finds it: missing, not decodable, or a cursor with a signature.
  The base64 and JSON of its text are not modelled.
\<close>

datatype page_token = NoToken | MalformedToken | SignedToken cursor gostring

record ListCellsRequest =
  lr_TenantID :: gostring
  lr_Name :: gostring
  lr_State :: gostring
  lr_PageToken :: page_token
  lr_PageSize :: int

definition state_string :: "CellState \<Rightarrow> gostring" where
  "state_string st = (case st of CellActive \<Rightarrow> ''ACTIVE'' | CellRetired \<Rightarrow> ''RETIRED'')"

definition checkToken :: "(gostring \<Rightarrow> cursor \<Rightarrow> gostring) \<Rightarrow> int \<Rightarrow> CellRegistry \<Rightarrow> page_token \<Rightarrow> cursor \<Rightarrow> error + cursor" where
  "checkToken mac nowUnix s tok want =
     (case tok of
        NoToken \<Rightarrow> Inr want
      | MalformedToken \<Rightarrow> Inl ErrInvalidCellPageToken
      | SignedToken got sig \<Rightarrow>
          if sig \<noteq> mac (cs_CursorKey s) got then Inl ErrInvalidCellPageToken
          else if cu_ExpiresAt got \<le> nowUnix then Inl ErrInvalidCellPageToken
          else let want' = want\<lparr>cu_After := cu_After got, cu_ExpiresAt := cu_ExpiresAt got\<rparr>
               in if got \<noteq> want' then Inl ErrInvalidCellPageToken else Inr want')"

definition listed :: "CellAuthority option \<Rightarrow> gostring \<Rightarrow> gostring \<Rightarrow> CellRegistry \<Rightarrow> gostring \<times> Cell \<Rightarrow> bool" where
  "listed ctx name st s row \<longleftrightarrow>
     (case ctx of Some a \<Rightarrow> (case a_Cells a of None \<Rightarrow> True | Some ids \<Rightarrow> fst row \<in> set ids) | None \<Rightarrow> True)
     \<and> (st = ''ALL'' \<or> state_string (c_State (snd row)) = st)
     \<and> (name = [] \<or> (case ByName s name of Some found \<Rightarrow> c_ID found = fst row | None \<Rightarrow> False))"

text \<open>
  The loop over the sorted identifiers: the page so far is kept in order, and the first further
  match after a full page sets the next token.
\<close>

fun listLoop :: "(gostring \<times> Cell \<Rightarrow> bool) \<Rightarrow> nat \<Rightarrow> (gostring \<times> Cell) list \<Rightarrow> Cell list \<Rightarrow> Cell list \<times> bool" where
  "listLoop p n [] out = (out, False)"
| "listLoop p n (row # rows) out =
     (if \<not> p row then listLoop p n rows out
      else if length out = n then (out, True)
      else listLoop p n rows (out @ [snd row]))"

definition list_state :: "ListCellsRequest \<Rightarrow> gostring" where
  "list_state r = (if lr_State r = [] then ''ACTIVE'' else lr_State r)"

definition list_size :: "ListCellsRequest \<Rightarrow> int" where
  "list_size r = (if lr_PageSize r = 0 then 100 else lr_PageSize r)"

definition start_cursor :: "CellAuthority option \<Rightarrow> int \<Rightarrow> ListCellsRequest \<Rightarrow> cursor" where
  "start_cursor ctx now r =
     \<lparr>cu_Tenant = lr_TenantID r, cu_Principal = principal_of ctx, cu_Name = lr_Name r,
      cu_State = list_state r, cu_After = [], cu_ExpiresAt = now + 24 * 60 * 60\<rparr>"

definition sign :: "(gostring \<Rightarrow> cursor \<Rightarrow> gostring) \<Rightarrow> CellRegistry \<Rightarrow> cursor \<Rightarrow> page_token" where
  "sign mac s cu = SignedToken cu (mac (cs_CursorKey s) cu)"

definition ListCells :: "(gostring \<Rightarrow> cursor \<Rightarrow> gostring) \<Rightarrow> CellAuthority option \<Rightarrow> int \<Rightarrow>
    ListCellsRequest \<Rightarrow> CellRegistry \<Rightarrow> error + (Cell list \<times> page_token)" where
  "ListCells mac ctx nowUnix r s =
     rbind (AuthorizeCell ctx (lr_TenantID r) [] ''cells.list'') (\<lambda>_.
     if list_state r \<notin> {''ACTIVE'', ''RETIRED'', ''ALL''} then Inl ErrInvalidCell
     else rbind (if lr_Name r \<noteq> [] then ValidateCellName (lr_Name r) else Inr ()) (\<lambda>_.
     if list_size r < 1 \<or> list_size r > 1000 then Inl ErrInvalidCell
     else rbind (checkToken mac nowUnix s (lr_PageToken r) (start_cursor ctx nowUnix r)) (\<lambda>want.
     case listLoop (\<lambda>row. cu_After want < fst row \<and> listed ctx (lr_Name r) (list_state r) s row)
            (nat (list_size r)) (sort_key fst (cs_Cells s)) [] of
       (out, full) \<Rightarrow>
         Inr (out, if full then sign mac s (want\<lparr>cu_After := c_ID (last out)\<rparr>) else NoToken))))"

end
