(* ===== verification/Cell_Properties.thy ===== *)
theory Cell_Properties
  imports Cell_State
begin

text \<open>
  The registry invariant and what its clients rely on: names, aliases and repositories identify one
  cell, a name that has resolved keeps resolving to the same cell, retirement is final, updates are
  guarded by the revision, and following page tokens lists every matching cell once.
\<close>

section \<open>The invariant\<close>

definition cell_ok :: "Cell \<Rightarrow> bool" where
  "cell_ok c \<longleftrightarrow> c_Name c \<notin> set (c_Aliases c) \<and> distinct (c_Aliases c)"

definition apart :: "Cell \<Rightarrow> Cell \<Rightarrow> bool" where
  "apart c d \<longleftrightarrow> c_Repo c \<noteq> c_Repo d \<and> set (cell_names c) \<inter> set (cell_names d) = {}"

definition registry_ok :: "CellRegistry \<Rightarrow> bool" where
  "registry_ok s \<longleftrightarrow>
     distinct (map fst (cs_Cells s))
     \<and> (\<forall>k c. (k, c) \<in> set (cs_Cells s) \<longrightarrow> c_ID c = k \<and> cell_ok c)
     \<and> (\<forall>k c l d. (k, c) \<in> set (cs_Cells s) \<longrightarrow> (l, d) \<in> set (cs_Cells s) \<longrightarrow> k \<noteq> l \<longrightarrow> apart c d)"

lemma apart_sym: "apart c d \<Longrightarrow> apart d c"
  by (auto simp: apart_def)

lemma registry_row:
  "registry_ok s \<Longrightarrow> (k, c) \<in> set (cs_Cells s) \<longleftrightarrow> map_of (cs_Cells s) k = Some c"
  by (simp add: registry_ok_def)

lemma registry_id: "registry_ok s \<Longrightarrow> map_of (cs_Cells s) k = Some c \<Longrightarrow> c_ID c = k \<and> cell_ok c"
  unfolding registry_ok_def by (metis map_of_SomeD)

lemma registry_apart:
  "registry_ok s \<Longrightarrow> map_of (cs_Cells s) k = Some c \<Longrightarrow> map_of (cs_Cells s) l = Some d \<Longrightarrow> k \<noteq> l \<Longrightarrow> apart c d"
  unfolding registry_ok_def by (metis map_of_SomeD)

lemma ByName_iff:
  assumes "registry_ok s"
  shows "ByName s n = Some c \<longleftrightarrow> map_of (cs_Cells s) (c_ID c) = Some c \<and> n \<in> set (cell_names c)"
proof
  assume "ByName s n = Some c"
  then have "c \<in> set (map snd (cs_Cells s))" "n \<in> set (cell_names c)"
    using find_SomeD unfolding ByName_def by fast+
  then obtain k where "(k, c) \<in> set (cs_Cells s)" "n \<in> set (cell_names c)" by auto
  then show "map_of (cs_Cells s) (c_ID c) = Some c \<and> n \<in> set (cell_names c)"
    using assms registry_row[OF assms] registry_id[OF assms] by metis
next
  assume r: "map_of (cs_Cells s) (c_ID c) = Some c \<and> n \<in> set (cell_names c)"
  then have mem: "c \<in> set (map snd (cs_Cells s))" by (metis map_of_SomeD image_eqI list.set_map snd_conv)
  obtain d where d: "ByName s n = Some d"
    using r mem unfolding ByName_def by (metis find_None_iff not_Some_eq)
  then have d': "d \<in> set (map snd (cs_Cells s))" "n \<in> set (cell_names d)"
    using find_SomeD unfolding ByName_def by fast+
  then obtain k where "(k, d) \<in> set (cs_Cells s)" by auto
  then have "map_of (cs_Cells s) k = Some d" using registry_row[OF assms] by simp
  then have "k = c_ID c" using registry_apart[OF assms, of k d "c_ID c" c] r d'(2) by (auto simp: apart_def)
  then show "ByName s n = Some c" using \<open>map_of (cs_Cells s) k = Some d\<close> r d by simp
qed

lemma ByName_None_iff:
  assumes "registry_ok s"
  shows "ByName s n = None \<longleftrightarrow> (\<forall>k c. map_of (cs_Cells s) k = Some c \<longrightarrow> n \<notin> set (cell_names c))"
  using ByName_iff[OF assms] registry_id[OF assms] by (metis not_Some_eq)

lemma unique_apart:
  assumes ok: "registry_ok s" and u: "unique s c = Inr ()" and d: "map_of (cs_Cells s) k = Some d" "k \<noteq> c_ID c"
  shows "apart c d"
proof -
  have id: "c_ID d = k" using registry_id[OF ok d(1)] by simp
  have row: "(k, d) \<in> set (cs_Cells s)" using d(1) by (rule map_of_SomeD)
  have repo: "c_Repo d \<noteq> c_Repo c"
    using u row id d(2) by (auto simp: unique_def list_ex_iff split: if_splits)
  have "n \<notin> set (cell_names d)" if n: "n \<in> set (cell_names c)" for n
  proof
    assume "n \<in> set (cell_names d)"
    then have "ByName s n = Some d" using ByName_iff[OF ok, of n d] d(1) id by simp
    then show False using u n id d(2) by (auto simp: unique_def list_ex_iff split: if_splits)
  qed
  then show ?thesis using repo by (auto simp: apart_def)
qed

lemma put_cell_rows [simp]: "map_of (cs_Cells (put_cell c s)) = (map_of (cs_Cells s))(c_ID c \<mapsto> c)"
  by (simp add: put_cell_def)

lemma registry_okI:
  assumes "distinct (map fst (cs_Cells s))"
    and "\<And>k c. map_of (cs_Cells s) k = Some c \<Longrightarrow> c_ID c = k \<and> cell_ok c"
    and "\<And>k c l d. map_of (cs_Cells s) k = Some c \<Longrightarrow> map_of (cs_Cells s) l = Some d \<Longrightarrow> k \<noteq> l \<Longrightarrow> apart c d"
  shows "registry_ok s"
  using assms unfolding registry_ok_def by (metis map_of_is_SomeI)

lemma put_cell_ok:
  assumes ok: "registry_ok s" and u: "\<And>k d. map_of (cs_Cells s) k = Some d \<Longrightarrow> k \<noteq> c_ID c \<Longrightarrow> apart c d"
    and c: "cell_ok c"
  shows "registry_ok (put_cell c s)"
proof (rule registry_okI)
  show "distinct (map fst (cs_Cells (put_cell c s)))"
    using ok by (simp add: put_cell_def registry_ok_def distinct_update)
  show "c_ID d = k \<and> cell_ok d" if "map_of (cs_Cells (put_cell c s)) k = Some d" for k d
    using that c registry_id[OF ok] by (auto split: if_splits)
  show "apart d d'" if "map_of (cs_Cells (put_cell c s)) k = Some d"
    "map_of (cs_Cells (put_cell c s)) l = Some d'" "k \<noteq> l" for k d l d'
  proof (cases "k = c_ID c")
    case True then show ?thesis using that u[of l d'] by simp
  next
    case False
    then have k: "map_of (cs_Cells s) k = Some d" using that(1) by simp
    show ?thesis
    proof (cases "l = c_ID c")
      case True then show ?thesis using that(2) apart_sym[OF u[OF k False]] by simp
    next
      case l: False then show ?thesis using that registry_apart[OF ok k] by simp
    qed
  qed
qed

section \<open>Operations\<close>

definition extends :: "CellRegistry \<Rightarrow> CellRegistry \<Rightarrow> bool" where
  "extends s s' \<longleftrightarrow>
     (\<forall>k c. map_of (cs_Cells s) k = Some c \<longrightarrow>
        (\<exists>c'. map_of (cs_Cells s') k = Some c' \<and> set (cell_names c) \<subseteq> set (cell_names c')
            \<and> (c_State c = CellRetired \<longrightarrow> c' = c)))"

lemma extends_refl [simp]: "extends s s"
  by (auto simp: extends_def)

lemma extendsD:
  assumes "extends s s'" and "map_of (cs_Cells s) k = Some c"
  obtains c' where "map_of (cs_Cells s') k = Some c'" "set (cell_names c) \<subseteq> set (cell_names c')"
    "c_State c = CellRetired \<longrightarrow> c' = c"
  using assms unfolding extends_def by blast

lemma extends_trans:
  assumes "extends s t" and "extends t u"
  shows "extends s u"
  unfolding extends_def
proof (intro allI impI)
  fix k c assume "map_of (cs_Cells s) k = Some c"
  with assms(1) obtain d where d: "map_of (cs_Cells t) k = Some d" "set (cell_names c) \<subseteq> set (cell_names d)"
    "c_State c = CellRetired \<longrightarrow> d = c" by (rule extendsD)
  from assms(2) d(1) obtain e where "map_of (cs_Cells u) k = Some e" "set (cell_names d) \<subseteq> set (cell_names e)"
    "c_State d = CellRetired \<longrightarrow> e = d" by (rule extendsD)
  with d show "\<exists>c'. map_of (cs_Cells u) k = Some c' \<and> set (cell_names c) \<subseteq> set (cell_names c')
    \<and> (c_State c = CellRetired \<longrightarrow> c' = c)" by auto
qed

lemma put_extends:
  assumes "case map_of (cs_Cells s) (c_ID c) of None \<Rightarrow> True
      | Some old \<Rightarrow> set (cell_names old) \<subseteq> set (cell_names c) \<and> c_State old \<noteq> CellRetired"
  shows "extends s (put_cell c s)"
  using assms by (auto simp: extends_def split: option.splits)

lemma rename_names: "set (cell_names c) \<subseteq> set (cell_names (renameCell n c))"
  by (auto simp: cell_names_def renameCell_def set_insort_key)

lemma rename_ok: "cell_ok c \<Longrightarrow> cell_ok (renameCell n c)"
  by (auto simp: cell_ok_def renameCell_def set_insort_key distinct_insort)

lemma rename_same [simp]: "c_ID (renameCell n c) = c_ID c" "c_State (renameCell n c) = c_State c"
  by (simp_all add: renameCell_def)

lemma applyUpdate_Inr:
  assumes "applyUpdate js r c = Inr c'"
  shows "c_ID c' = c_ID c \<and> c_State c' = c_State c \<and> set (cell_names c) \<subseteq> set (cell_names c')
    \<and> (cell_ok c \<longrightarrow> cell_ok c')"
proof -
  from assms obtain c1 c2 c3 where
    c1: "c1 = c \<or> (\<exists>n. c1 = renameCell n c)"
    and c2: "c2 = c1 \<or> (\<exists>q. c2 = c1\<lparr>c_Repo := q\<rparr>)"
    and c3: "c3 = c2 \<or> (\<exists>d. c3 = c2\<lparr>c_Description := d\<rparr>)"
    and c4: "c' = c3 \<or> (\<exists>m. c' = c3\<lparr>c_Metadata := m\<rparr>)"
    by (auto simp: applyUpdate_def rbind_Inr_iff Let_def split: option.splits) metis+
  have "cell_names c' = cell_names c1" "cell_ok c' = cell_ok c1" "c_ID c' = c_ID c1" "c_State c' = c_State c1"
    using c2 c3 c4 by (auto simp: cell_names_def cell_ok_def)
  moreover have "c_ID c1 = c_ID c \<and> c_State c1 = c_State c \<and> set (cell_names c) \<subseteq> set (cell_names c1)
    \<and> (cell_ok c \<longrightarrow> cell_ok c1)"
    using c1 rename_names rename_ok by auto
  ultimately show ?thesis by simp
qed

lemma Create_cases:
  assumes "Create js ctx newID newRev now req s = Inr (c, s')"
  obtains (replay) "s' = s"
  | (fresh) "unique s c = Inr ()" "c_ID c = newID" "c_Aliases c = []" "c_State c = CellActive"
      "cs_Cells s' = cs_Cells (put_cell c s)"
proof -
  from assms obtain repo where v: "AuthorizeCell ctx (cr_TenantID req) [] ''cells.create'' = Inr ()"
    "ValidateCellName (cr_Name req) = Inr ()" "NormalizeCellRepo (cr_Repo req) = Inr repo"
    "ValidateCellProperties js (cr_Description req) (cr_Metadata req) = Inr ()"
    by (auto simp: Create_def rbind_Inr_iff)
  let ?req = "req\<lparr>cr_Repo := repo, cr_Metadata := canonicalMetadata js (cr_Metadata req)\<rparr>"
  show thesis
  proof (cases "replayCreation s (principal_of ctx) (cr_RequestID ?req) (js_Digest js ?req)")
    case None
    then show thesis using assms v fresh
      by (auto simp: Create_def rbind_Inr_iff Let_def split: if_splits)
  next
    case (Some r)
    then show thesis using assms v replay
      by (cases r) (auto simp: Create_def Let_def split: if_splits)
  qed
qed

lemma Get_row: "Get ctx tenant cid s = Inr c \<Longrightarrow> map_of (cs_Cells s) cid = Some c"
  by (auto simp: Get_def rbind_Inr_iff split: option.splits)

lemma Update_cases:
  assumes "Update js ctx newRev now r s = Inr (c', s')"
  obtains c where "map_of (cs_Cells s) (up_CellID r) = Some c" "c_State c = CellActive"
    "up_IfMatch r = quote_revision (c_Revision c)" "s' = s"
  | c d where "map_of (cs_Cells s) (up_CellID r) = Some c" "c_State c = CellActive"
    "up_IfMatch r = quote_revision (c_Revision c)" "applyUpdate js r c = Inr d" "unique s d = Inr ()"
    "c' = d\<lparr>c_Revision := newRev, c_UpdatedAt := now\<rparr>" "s' = put_cell c' s"
proof -
  from assms obtain c where get: "Get ctx (up_TenantID r) (up_CellID r) s = Inr c"
    and rev: "CheckCellRevision (up_IfMatch r) (c_Revision c) = Inr ()"
    and act: "c_State c = CellActive"
    by (auto simp: Update_def rbind_Inr_iff split: if_splits)
  have m: "up_IfMatch r = quote_revision (c_Revision c)"
    using rev unfolding CheckCellRevision_def by (meson sum.distinct(1))
  from assms get rev act obtain d where d: "applyUpdate js r c = Inr d" "unique s d = Inr ()"
    and out: "if sameCell c d then c' = d \<and> s' = s
              else c' = d\<lparr>c_Revision := newRev, c_UpdatedAt := now\<rparr> \<and> s' = put_cell c' s"
    by (auto simp: Update_def rbind_Inr_iff Let_def split: if_splits)
  show thesis
  proof (cases "sameCell c d")
    case True
    have "s' = s" using out unfolding if_P[OF True] by (rule conjunct2)
    then show thesis by (rule that(1)[OF Get_row[OF get] act m])
  next
    case False
    note out' = out[unfolded if_not_P[OF False]]
    show thesis by (rule that(2)[OF Get_row[OF get] act m d out'[THEN conjunct1] out'[THEN conjunct2]])
  qed
qed

lemma Retire_cases:
  assumes "Retire ctx newRev now busy r s = Inr (c', s')"
  obtains "s' = s" "c_State c' = CellRetired"
  | c where "map_of (cs_Cells s) (rt_CellID r) = Some c" "c_State c = CellActive"
    "busy (c_ID c) = Inr False"
    "c' = c\<lparr>c_State := CellRetired, c_RetiredAt := Some now, c_UpdatedAt := now, c_Revision := newRev\<rparr>"
    "s' = put_cell c' s"
proof -
  from assms obtain c where get: "Get ctx (rt_TenantID r) (rt_CellID r) s = Inr c"
    and auth: "AuthorizeCell ctx (rt_TenantID r) (c_ID c) ''cells.retire'' = Inr ()"
    and rev: "CheckCellRevision (rt_IfMatch r) (c_Revision c) = Inr ()"
    by (auto simp: Retire_def rbind_Inr_iff)
  let ?c = "c\<lparr>c_State := CellRetired, c_RetiredAt := Some now, c_UpdatedAt := now, c_Revision := newRev\<rparr>"
  have out: "(if c_State c = CellRetired then Inr (c, s)
     else rbind (busy (c_ID c)) (\<lambda>b. if b then Inl ErrCellBusy else Inr (?c, put_cell ?c s))) = Inr (c', s')"
    using assms by (simp only: Retire_def get auth rev rbind_simps Let_def)
  show thesis
  proof (cases "c_State c = CellRetired")
    case True
    then have "s' = s" "c' = c" using out by simp_all
    then show thesis using that(1) True by simp
  next
    case False
    then have act: "c_State c = CellActive" by (cases "c_State c") auto
    have b: "busy (c_ID c) = Inr False" and eq: "Inr (?c, put_cell ?c s) = (Inr (c', s') :: error + Cell \<times> CellRegistry)"
      using out False by (auto simp only: rbind_Inr_iff if_False if_True split: if_splits)
    from eq have "c' = ?c" "s' = put_cell c' s" by (metis sum.inject(2) prod.inject)+
    then show thesis by (rule that(2)[OF Get_row[OF get] act b])
  qed
qed

lemma registry_ok_cells: "cs_Cells s = cs_Cells t \<Longrightarrow> registry_ok s = registry_ok t"
  by (simp add: registry_ok_def)

lemma extends_cells: "cs_Cells s' = cs_Cells t \<Longrightarrow> extends s s' = extends s t"
  by (simp add: extends_def)

lemma Create_step:
  assumes "Create js ctx newID newRev now req s = Inr (c, s')" and "registry_ok s"
    and "newID \<notin> fst ` set (cs_Cells s)"
  shows "registry_ok s' \<and> extends s s'"
  using assms(1)
proof (cases rule: Create_cases)
  case replay then show ?thesis using assms(2) by simp
next
  case fresh
  have new: "map_of (cs_Cells s) (c_ID c) = None" using assms(3) fresh(2) by (simp add: map_of_eq_None_notin)
  have "registry_ok (put_cell c s)"
    using assms(2) unique_apart[OF assms(2) fresh(1)] fresh(3) by (intro put_cell_ok) (auto simp: cell_ok_def)
  moreover have "extends s (put_cell c s)" using new by (intro put_extends) simp
  ultimately show ?thesis using registry_ok_cells[OF fresh(5)] extends_cells[OF fresh(5)] by simp
qed

lemma apart_update [simp]:
  "apart (c\<lparr>c_Revision := r\<rparr>) d = apart c d" "apart (c\<lparr>c_UpdatedAt := t\<rparr>) d = apart c d"
  "apart (c\<lparr>c_State := x\<rparr>) d = apart c d" "apart (c\<lparr>c_RetiredAt := y\<rparr>) d = apart c d"
  by (simp_all add: apart_def cell_names_def)

lemma cell_simps [simp]:
  "cell_ok (c\<lparr>c_Revision := r\<rparr>) = cell_ok c" "cell_ok (c\<lparr>c_UpdatedAt := t\<rparr>) = cell_ok c"
  "cell_ok (c\<lparr>c_State := x\<rparr>) = cell_ok c" "cell_ok (c\<lparr>c_RetiredAt := y\<rparr>) = cell_ok c"
  "cell_names (c\<lparr>c_Revision := r\<rparr>) = cell_names c" "cell_names (c\<lparr>c_UpdatedAt := t\<rparr>) = cell_names c"
  "cell_names (c\<lparr>c_State := x\<rparr>) = cell_names c" "cell_names (c\<lparr>c_RetiredAt := y\<rparr>) = cell_names c"
  by (simp_all add: cell_ok_def cell_names_def)

lemma Update_step:
  assumes "Update js ctx newRev now r s = Inr (c', s')" and "registry_ok s"
  shows "registry_ok s' \<and> extends s s'"
  using assms(1)
proof (cases rule: Update_cases)
  case (1 c) then show ?thesis using assms(2) by simp
next
  case (2 c d)
  note d = applyUpdate_Inr[OF 2(4)]
  have id: "c_ID c = up_CellID r" "cell_ok c" using registry_id[OF assms(2) 2(1)] by auto
  have "registry_ok (put_cell c' s)"
    using assms(2) unique_apart[OF assms(2) 2(5)] d id by (intro put_cell_ok) (simp_all add: 2(6))
  moreover have "extends s (put_cell c' s)"
    using 2(1,2) d id by (intro put_extends) (simp add: 2(6))
  ultimately show ?thesis using 2(7) by simp
qed

lemma Retire_step:
  assumes "Retire ctx newRev now busy r s = Inr (c', s')" and "registry_ok s"
  shows "registry_ok s' \<and> extends s s'"
  using assms(1)
proof (cases rule: Retire_cases)
  case 1 then show ?thesis using assms(2) by simp
next
  case (2 c)
  have id: "c_ID c = rt_CellID r" "cell_ok c" using registry_id[OF assms(2) 2(1)] by auto
  have "registry_ok (put_cell c' s)"
    using assms(2) registry_apart[OF assms(2) 2(1)] id by (intro put_cell_ok) (auto simp: 2(4))
  moreover have "extends s (put_cell c' s)"
    using 2(1,2) id by (intro put_extends) (simp add: 2(4))
  ultimately show ?thesis using 2(5) by simp
qed

section \<open>Runs of the registry\<close>

text \<open>A step is a successful request by any caller; identifiers of new cells are fresh.\<close>

inductive registry_step :: "CellRegistry \<Rightarrow> CellRegistry \<Rightarrow> bool" where
  create: "Create js ctx newID newRev now req s = Inr (c, s') \<Longrightarrow> newID \<notin> fst ` set (cs_Cells s) \<Longrightarrow>
     registry_step s s'"
| update: "Update js ctx newRev now r s = Inr (c, s') \<Longrightarrow> registry_step s s'"
| retire: "Retire ctx newRev now busy q s = Inr (c, s') \<Longrightarrow> registry_step s s'"

inductive registry_run :: "CellRegistry \<Rightarrow> CellRegistry \<Rightarrow> bool" where
  start: "registry_run s s"
| step: "registry_run s t \<Longrightarrow> registry_step t u \<Longrightarrow> registry_run s u"

lemma registry_step_ok:
  "registry_step s s' \<Longrightarrow> registry_ok s \<Longrightarrow> registry_ok s' \<and> extends s s'"
  by (induction rule: registry_step.induct) (blast dest: Create_step Update_step Retire_step)+

lemma registry_run_ok:
  "registry_run s s' \<Longrightarrow> registry_ok s \<Longrightarrow> registry_ok s' \<and> extends s s'"
  by (induction rule: registry_run.induct) (simp, blast dest: registry_step_ok intro: extends_trans)

definition NewRegistry :: "gostring \<Rightarrow> CellRegistry" where
  "NewRegistry key = \<lparr>cs_CursorKey = key, cs_Cells = [], cs_Creations = []\<rparr>"

lemma NewRegistry_ok: "registry_ok (NewRegistry key)"
  by (simp add: registry_ok_def NewRegistry_def)

section \<open>Pages\<close>

lemma listLoop_spec:
  "length out \<le> n \<Longrightarrow> listLoop p n rows out =
     (out @ map snd (take (n - length out) (filter p rows)), n - length out < length (filter p rows))"
proof (induction rows arbitrary: out)
  case (Cons row rows)
  show ?case
  proof (cases "p row \<and> length out < n")
    case True
    then have "n - length out = Suc (n - length (out @ [snd row]))" by auto
    then show ?thesis using Cons.IH[of "out @ [snd row]"] True by simp
  next
    case False then show ?thesis using Cons by auto
  qed
qed simp

text \<open>Following page tokens until none is returned, at most \<open>fuel\<close> requests.\<close>

fun drainCells :: "(gostring \<Rightarrow> cursor \<Rightarrow> gostring) \<Rightarrow> CellAuthority option \<Rightarrow> int \<Rightarrow> ListCellsRequest \<Rightarrow>
    CellRegistry \<Rightarrow> nat \<Rightarrow> page_token \<Rightarrow> error + Cell list" where
  "drainCells mac ctx now r s 0 tok = Inl ErrStackExhausted"
| "drainCells mac ctx now r s (Suc fuel) tok =
     rbind (ListCells mac ctx now (r\<lparr>lr_PageToken := tok\<rparr>) s) (\<lambda>(cs, next).
       if next = NoToken then Inr cs
       else rbind (drainCells mac ctx now r s fuel next) (\<lambda>rest. Inr (cs @ rest)))"

definition list_ok :: "CellAuthority option \<Rightarrow> ListCellsRequest \<Rightarrow> bool" where
  "list_ok ctx r \<longleftrightarrow> AuthorizeCell ctx (lr_TenantID r) [] ''cells.list'' = Inr ()
     \<and> list_state r \<in> {''ACTIVE'', ''RETIRED'', ''ALL''}
     \<and> (lr_Name r \<noteq> [] \<longrightarrow> ValidateCellName (lr_Name r) = Inr ())
     \<and> 1 \<le> list_size r \<and> list_size r \<le> 1000"

definition matching :: "CellAuthority option \<Rightarrow> ListCellsRequest \<Rightarrow> CellRegistry \<Rightarrow> gostring \<Rightarrow> (gostring \<times> Cell) list" where
  "matching ctx r s after =
     filter (\<lambda>row. after < fst row \<and> listed ctx (lr_Name r) (list_state r) s row) (sort_key fst (cs_Cells s))"

lemma token_update [simp]:
  "list_state (r\<lparr>lr_PageToken := tok\<rparr>) = list_state r" "list_size (r\<lparr>lr_PageToken := tok\<rparr>) = list_size r"
  "start_cursor ctx now (r\<lparr>lr_PageToken := tok\<rparr>) = start_cursor ctx now r"
  by (simp_all add: list_state_def list_size_def start_cursor_def)

lemma ListCells_page:
  assumes "list_ok ctx r"
    and tok: "tok = NoToken \<and> after = [] \<or> tok = sign mac s ((start_cursor ctx now r)\<lparr>cu_After := after\<rparr>)"
  defines "m \<equiv> matching ctx r s after"
  shows "ListCells mac ctx now (r\<lparr>lr_PageToken := tok\<rparr>) s =
    Inr (map snd (take (nat (list_size r)) m), if nat (list_size r) < length m
         then sign mac s ((start_cursor ctx now r)\<lparr>cu_After := c_ID (last (map snd (take (nat (list_size r)) m)))\<rparr>)
         else NoToken)"
proof -
  have c: "checkToken mac now s tok (start_cursor ctx now r) = Inr ((start_cursor ctx now r)\<lparr>cu_After := after\<rparr>)"
    using tok by (auto simp: checkToken_def sign_def start_cursor_def Let_def)
  have size: "\<not> list_size r < 1" "\<not> 1000 < list_size r" using assms(1) by (auto simp: list_ok_def)
  have st: "list_state r \<in> {''ACTIVE'', ''RETIRED'', ''ALL''}" using assms(1) by (simp only: list_ok_def)
  have nm: "lr_Name r \<noteq> [] \<longrightarrow> ValidateCellName (lr_Name r) = Inr ()"
    using assms(1) by (simp add: list_ok_def)
  have au: "AuthorizeCell ctx (lr_TenantID r) [] ''cells.list'' = Inr ()" using assms(1) by (simp add: list_ok_def)
  have lp: "listLoop (\<lambda>row. after < fst row \<and> listed ctx (lr_Name r) (list_state r) s row)
           (nat (list_size r)) (sort_key fst (cs_Cells s)) [] =
      (map snd (take (nat (list_size r)) m), nat (list_size r) < length m)"
    by (simp add: listLoop_spec matching_def m_def)
  show ?thesis
    unfolding ListCells_def
    using c size st nm au lp by (simp del: insert_iff)
qed

lemma matching_next:
  assumes "registry_ok s" and "n < length (matching ctx r s after)" and "0 < n"
  defines "m \<equiv> matching ctx r s after"
  shows "matching ctx r s (c_ID (last (map snd (take n m)))) = drop n m"
proof -
  let ?C = "sort_key fst (cs_Cells s)"
  have "distinct (map fst (cs_Cells s))" using assms(1) by (simp add: registry_ok_def)
  then have "distinct (map fst ?C)" by (simp add: distinct_map)
  moreover have "sorted (map fst ?C)" by (rule sorted_sort_key)
  ultimately have "sorted_wrt (<) (map fst ?C)" unfolding strict_sorted_iff by (rule conjI[rotated])
  then have "sorted_wrt (\<lambda>x y. fst x < fst y) ?C" unfolding sorted_wrt_map .
  then have sd: "sorted_wrt (\<lambda>x y. fst x < fst y) m" unfolding m_def matching_def by (rule sorted_wrt_filter)
  have lt: "n - 1 < length m" using assms(2,3) m_def by simp
  have last: "last (map snd (take n m)) = snd (m ! (n - 1))"
  proof -
    have "take n m \<noteq> []" "length (take n m) = n" using assms(2,3) m_def by auto
    then show ?thesis using assms(3) by (simp add: last_map last_conv_nth)
  qed
  have "m ! (n - 1) \<in> set (cs_Cells s)"
    using nth_mem[OF lt] unfolding m_def matching_def by simp
  then have id: "c_ID (snd (m ! (n - 1))) = fst (m ! (n - 1))"
    using assms(1) unfolding registry_ok_def by (metis prod.collapse)
  have gt: "after < fst (m ! (n - 1))" using nth_mem[OF lt] unfolding m_def matching_def by simp
  let ?a = "fst (m ! (n - 1))"
  have "matching ctx r s ?a = filter (\<lambda>row. ?a < fst row) m"
    unfolding m_def[unfolded matching_def] matching_def filter_filter
    using gt unfolding m_def matching_def by (intro filter_cong) auto
  also have "\<dots> = filter (\<lambda>row. ?a < fst row) (take n m) @ filter (\<lambda>row. ?a < fst row) (drop n m)"
    by (metis append_take_drop_id filter_append)
  also have "filter (\<lambda>row. ?a < fst row) (take n m) = []"
  proof (rule filter_False, rule ballI)
    fix x assume "x \<in> set (take n m)"
    then obtain i where i: "i < n" "x = m ! i" by (auto simp: in_set_conv_nth)
    show "\<not> ?a < fst x"
    proof (cases "i = n - 1")
      case False
      then have "fst (m ! i) < ?a" using sorted_wrt_nth_less[OF sd, of i "n - 1"] lt i(1) by simp
      then show ?thesis using i(2) by (simp add: order_less_imp_not_less)
    qed (use i in simp)
  qed
  also have "filter (\<lambda>row. ?a < fst row) (drop n m) = drop n m"
  proof (rule filter_True, rule ballI)
    fix x assume "x \<in> set (drop n m)"
    then obtain i where "i < length m - n" "x = m ! (n + i)" by (auto simp: in_set_conv_nth)
    then show "?a < fst x" using sorted_wrt_nth_less[OF sd, of "n - 1" "n + i"] assms(3) by simp
  qed
  finally show ?thesis unfolding last id by simp
qed

lemma drain_from:
  assumes ok: "registry_ok s" "list_ok ctx r"
  shows "tok = NoToken \<and> after = [] \<or> tok = sign mac s ((start_cursor ctx now r)\<lparr>cu_After := after\<rparr>) \<Longrightarrow>
    length (matching ctx r s after) < fuel \<Longrightarrow>
    drainCells mac ctx now r s fuel tok = Inr (map snd (matching ctx r s after))"
proof (induction fuel arbitrary: tok after)
  case (Suc fuel)
  let ?m = "matching ctx r s after" and ?n = "nat (list_size r)"
  have n: "0 < ?n" using ok(2) by (simp add: list_ok_def)
  note page = ListCells_page[OF ok(2) Suc.prems(1)]
  show ?case
  proof (cases "?n < length ?m")
    case False then show ?thesis by (simp add: page)
  next
    case True
    let ?after = "c_ID (last (map snd (take ?n ?m)))"
    have nxt: "matching ctx r s ?after = drop ?n ?m" by (rule matching_next[OF ok(1) True n])
    have "drainCells mac ctx now r s fuel (sign mac s ((start_cursor ctx now r)\<lparr>cu_After := ?after\<rparr>))
        = Inr (map snd (drop ?n ?m))"
      using Suc.IH[of _ ?after] Suc.prems(2) n True nxt by simp
    moreover have "sign mac s cu \<noteq> NoToken" for cu by (simp add: sign_def)
    moreover have "map snd (take ?n ?m) @ map snd (drop ?n ?m) = map snd ?m"
      by (metis append_take_drop_id map_append)
    ultimately show ?thesis using True by (simp add: page)
  qed
qed simp

section \<open>A concrete registry\<close>

definition demo_json :: json_lib where
  "demo_json = \<lparr>js_Valid = (\<lambda>_. True), js_Canonical = (\<lambda>v. v), js_Size = length, js_Digest = cr_Name\<rparr>"

definition demo_admin :: "CellAuthority option" where
  "demo_admin = Some \<lparr>a_Principal = ''root'', a_TenantID = ''*'',
     a_Permissions = [''cells.create'', ''cells.get'', ''cells.update'', ''cells.retire'', ''cells.list'', ''jobs.submit''],
     a_Cells = None\<rparr>"

definition demo_create :: "gostring \<Rightarrow> gostring \<Rightarrow> CreateCellRequest" where
  "demo_create name repo =
     \<lparr>cr_TenantID = ''t'', cr_Name = name, cr_Repo = repo, cr_Description = [], cr_Metadata = [], cr_RequestID = []\<rparr>"

definition demo_cell :: Cell where
  "demo_cell = \<lparr>c_TenantID = ''t'', c_ID = ''id1'', c_Name = ''api'', c_Repo = ''host/api'', c_Description = [],
     c_Metadata = [], c_State = CellActive, c_Aliases = [], c_Revision = ''r1'', c_CreatedAt = 0, c_UpdatedAt = 0,
     c_RetiredAt = None\<rparr>"

definition demo_registry :: CellRegistry where
  "demo_registry = \<lparr>cs_CursorKey = ''k'', cs_Cells = [(''id1'', demo_cell)], cs_Creations = []\<rparr>"

definition demo_rename :: UpdateCellRequest where
  "demo_rename = \<lparr>up_TenantID = ''t'', up_CellID = ''id1'', up_IfMatch = quote_revision ''r1'',
     up_Name = Some ''web'', up_Repo = None, up_Description = None, up_Metadata = None\<rparr>"

definition demo_web :: Cell where
  "demo_web = demo_cell\<lparr>c_Name := ''web'', c_Aliases := [''api''], c_Revision := ''r2'', c_UpdatedAt := 5\<rparr>"

definition demo_renamed :: CellRegistry where
  "demo_renamed = \<lparr>cs_CursorKey = ''k'', cs_Cells = [(''id1'', demo_web)], cs_Creations = []\<rparr>"

lemma demo_created:
  "Create demo_json demo_admin ''id1'' ''r1'' 0 (demo_create ''api'' ''host/api'') (NewRegistry ''k'') =
     Inr (demo_cell, demo_registry)"
  by code_simp

lemma demo_updated:
  "Update demo_json demo_admin ''r2'' 5 demo_rename demo_registry = Inr (demo_web, demo_renamed)"
  by code_simp

lemma demo_create_run: "registry_run (NewRegistry ''k'') demo_registry"
proof -
  have "registry_step (NewRegistry ''k'') demo_registry"
    using demo_created by (rule registry_step.create) (simp add: NewRegistry_def)
  then show ?thesis using registry_run.start registry_run.step by blast
qed

lemma demo_rename_run: "registry_run demo_registry demo_renamed"
  using registry_run.step[OF registry_run.start registry_step.update[OF demo_updated]] .

lemma demo_registry_ok: "registry_ok demo_registry"
  using registry_run_ok[OF demo_create_run NewRegistry_ok] by simp

section \<open>Properties\<close>

text \<open>
  C29. In every reachable registry a name or alias identifies at most one cell and so does a
  repository: \<open>ByName\<close> returns a cell exactly when that cell is registered and carries the name,
  whatever the iteration order, and two different cells never share a repository.
\<close>

theorem registry_identifies:
  assumes "registry_run (NewRegistry key) s"
  shows "(ByName s n = Some c \<longleftrightarrow> map_of (cs_Cells s) (c_ID c) = Some c \<and> n \<in> set (cell_names c))
    \<and> (\<forall>k d l e. map_of (cs_Cells s) k = Some d \<longrightarrow> map_of (cs_Cells s) l = Some e \<longrightarrow> k \<noteq> l \<longrightarrow>
         c_Repo d \<noteq> c_Repo e \<and> set (cell_names d) \<inter> set (cell_names e) = {})"
proof -
  have ok: "registry_ok s" using registry_run_ok[OF assms NewRegistry_ok] by simp
  show ?thesis using ByName_iff[OF ok] registry_apart[OF ok] unfolding apart_def by blast
qed

theorem registry_identifies_witness:
  "registry_run (NewRegistry ''k'') demo_registry \<and> ByName demo_registry ''api'' = Some demo_cell"
proof -
  have "map_of (cs_Cells demo_registry) (c_ID demo_cell) = Some demo_cell \<and> ''api'' \<in> set (cell_names demo_cell)"
    by (simp add: demo_registry_def demo_cell_def cell_names_def)
  then show ?thesis using demo_create_run registry_identifies[OF demo_create_run, of "''api''" demo_cell] by blast
qed

text \<open>
  C30. Names are never reassigned: once a name resolves to a cell, it resolves to the same cell
  identifier after any further creations, renames and retirements, and a retired cell never
  changes again.
\<close>

theorem names_stay_bound:
  assumes "registry_run (NewRegistry key) s" and "registry_run s s'" and "ByName s n = Some c"
  shows "\<exists>c'. ByName s' n = Some c' \<and> c_ID c' = c_ID c \<and> (c_State c = CellRetired \<longrightarrow> c' = c)"
proof -
  have ok: "registry_ok s" using registry_run_ok[OF assms(1) NewRegistry_ok] by simp
  have ok': "registry_ok s'" and ext: "extends s s'" using registry_run_ok[OF assms(2) ok] by simp_all
  have c: "map_of (cs_Cells s) (c_ID c) = Some c" "n \<in> set (cell_names c)"
    using ByName_iff[OF ok] assms(3) by simp_all
  from ext c(1) obtain c' where c': "map_of (cs_Cells s') (c_ID c) = Some c'"
    "set (cell_names c) \<subseteq> set (cell_names c')" "c_State c = CellRetired \<longrightarrow> c' = c" by (rule extendsD)
  have "c_ID c' = c_ID c" using registry_id[OF ok' c'(1)] by simp
  then show ?thesis using c' c(2) ByName_iff[OF ok', of n c'] by auto
qed

theorem names_stay_bound_witness:
  "ByName demo_registry ''api'' = Some demo_cell \<and> registry_run demo_registry demo_renamed
   \<and> (\<exists>c'. ByName demo_renamed ''api'' = Some c' \<and> c_ID c' = ''id1'')"
proof -
  have b: "ByName demo_registry ''api'' = Some demo_cell" by code_simp
  have "c_ID demo_cell = ''id1''" by (simp add: demo_cell_def)
  then show ?thesis using names_stay_bound[OF demo_create_run demo_rename_run b] b demo_rename_run by auto
qed

text \<open>
  C31. Optimistic concurrency: a successful update was made against the cell's current revision, and
  once it has changed the cell, repeating a request with the same precondition is refused.
\<close>

theorem update_guarded:
  assumes "registry_ok s" and "Update js ctx newRev now r s = Inr (c', s')" and "s' \<noteq> s"
    and "map_of (cs_Cells s) (up_CellID r) = Some c" and "newRev \<noteq> c_Revision c"
    and "up_IfMatch r2 = up_IfMatch r" and "up_CellID r2 = up_CellID r"
  shows "up_IfMatch r = quote_revision (c_Revision c) \<and> (\<exists>err. Update js2 ctx2 rev2 now2 r2 s' = Inl err)"
  using assms(2)
proof (cases rule: Update_cases)
  case (1 d) then show ?thesis using assms(3) by simp
next
  case (2 b d)
  have b: "b = c" using 2(1) assms(4) by simp
  have id: "c_ID c' = up_CellID r"
    using applyUpdate_Inr[OF 2(4)] 2(6) registry_id[OF assms(1) 2(1)] by simp
  have row: "map_of (cs_Cells s') (up_CellID r) = Some c'" using 2(7) id by simp
  have "\<exists>err. Update js2 ctx2 rev2 now2 r2 s' = Inl err"
  proof (cases "Update js2 ctx2 rev2 now2 r2 s'")
    case (Inr x)
    obtain c2 s2 where x: "x = (c2, s2)" by fastforce
    from Inr[unfolded x] have "up_IfMatch r2 = quote_revision (c_Revision c')"
      by (cases rule: Update_cases) (use row assms(7) in auto)
    then have "c_Revision c' = c_Revision c" using assms(6) 2(3) b by (simp add: quote_revision_def)
    then show ?thesis using 2(6) assms(5) by simp
  qed blast
  then show ?thesis using 2(3) b by blast
qed

theorem update_guarded_witness:
  "\<exists>err. Update demo_json demo_admin ''r3'' 9 demo_rename demo_renamed = Inl err"
proof -
  have ne: "demo_renamed \<noteq> demo_registry"
    by (simp add: demo_renamed_def demo_registry_def demo_web_def demo_cell_def)
  have row: "map_of (cs_Cells demo_registry) (up_CellID demo_rename) = Some demo_cell"
    by (simp add: demo_registry_def demo_rename_def)
  have "''r2'' \<noteq> c_Revision demo_cell" by (simp add: demo_cell_def)
  from update_guarded[OF demo_registry_ok demo_updated ne row this refl refl, of demo_json demo_admin "''r3''" 9]
  show ?thesis by blast
qed

text \<open>
  C32. Paging is complete and without duplicates: following the page tokens of a valid list request
  returns exactly the cells the caller may see that match the name and state filters, once each and
  in order of their identifiers.
\<close>

theorem list_pages_complete:
  assumes "registry_ok s" and "list_ok ctx r" and "length (cs_Cells s) < fuel"
  shows "drainCells mac ctx now r s fuel NoToken =
    Inr (map snd (filter (\<lambda>row. [] < fst row \<and> listed ctx (lr_Name r) (list_state r) s row) (sort_key fst (cs_Cells s))))"
proof -
  have "length (matching ctx r s []) \<le> length (cs_Cells s)"
    unfolding matching_def by (metis length_filter_le length_sort)
  then show ?thesis using drain_from[OF assms(1,2), of NoToken "[]"] assms(3) by (simp add: matching_def)
qed

theorem list_pages_complete_witness:
  "drainCells (\<lambda>k cu. k) demo_admin 0
     \<lparr>lr_TenantID = ''t'', lr_Name = [], lr_State = [], lr_PageToken = NoToken, lr_PageSize = 1\<rparr> demo_registry 3 NoToken
   = Inr (map snd (cs_Cells demo_registry))"
proof -
  let ?r = "\<lparr>lr_TenantID = ''t'', lr_Name = [], lr_State = [], lr_PageToken = NoToken, lr_PageSize = 1\<rparr>"
  have l: "list_ok demo_admin ?r" by code_simp
  have n: "length (cs_Cells demo_registry) < 3" by code_simp
  have e: "map snd (filter (\<lambda>row. [] < fst row \<and> listed demo_admin (lr_Name ?r) (list_state ?r) demo_registry row)
      (sort_key fst (cs_Cells demo_registry))) = map snd (cs_Cells demo_registry)" by code_simp
  show ?thesis using list_pages_complete[OF demo_registry_ok l n, of "\<lambda>k cu. k" 0] e by simp
qed

text \<open>
  A principal that holds only the permission to update cells cannot update any: \<open>Update\<close> reads
  the cell through \<open>Get\<close>, which demands the separate permission to read cells.
\<close>

theorem update_needs_get:
  assumes "''cells.get'' \<notin> set (a_Permissions a)"
  shows "Update js (Some a) newRev now r s = Inl ErrCellForbidden"
  using assms by (simp add: Update_def Get_def AuthorizeCell_def)

theorem update_needs_get_witness:
  "Update demo_json (Some \<lparr>a_Principal = ''p'', a_TenantID = ''t'', a_Permissions = [''cells.update''], a_Cells = None\<rparr>)
     ''r2'' 5 demo_rename demo_registry = Inl ErrCellForbidden"
  by (rule update_needs_get) simp

end
