(* ===== verification/Delegation_Policy.thy ===== *)
theory Delegation_Policy
  imports Prelude
begin

text \<open>
  The permission language of delegated leases: \<open>pkg/jobdb/delegation.go\<close>, the selectors and the
  validation of \<open>runtime/remote/delegation_token.go\<close> and the subset tests of
  \<open>runtime/remote/attenuation.go\<close>.  An \<open>int64\<close> is an \<open>int\<close> in the signed 64-bit range; the one
  subtraction the code makes on ordinals wraps around explicitly.  The lemmas give the subset tests
  their meaning: one selector is accepted below another exactly when it selects no more.
\<close>

section \<open>Signed 64-bit integers\<close>

definition int64 :: "int \<Rightarrow> bool" where
  "int64 n \<longleftrightarrow> - (2 ^ 63) \<le> n \<and> n < 2 ^ 63"

definition wrap64 :: "int \<Rightarrow> int" where
  "wrap64 n = (n + 2 ^ 63) mod 2 ^ 64 - 2 ^ 63"

lemma wrap64_id [simp]: "int64 n \<Longrightarrow> wrap64 n = n"
  unfolding int64_def wrap64_def by (subst mod_pos_pos_trivial) auto

lemma wrap64_int64: "int64 (wrap64 n)"
proof -
  have "0 \<le> (n + 2 ^ 63) mod 2 ^ 64" "(n + 2 ^ 63) mod 2 ^ 64 < 2 ^ 64" by simp_all
  then show ?thesis unfolding int64_def wrap64_def by simp
qed

section \<open>Selectors\<close>

record DelegationNames =
  dn_Any :: bool
  dn_Names :: "gostring list"

datatype DelegationOrdinalRange = OrdinalRange (r_Start: int) (r_End: int)

record DelegationChapters =
  dc_Any :: bool
  dc_Ordinals :: "int list"
  dc_Ranges :: "DelegationOrdinalRange list"

record DelegationSubmitPermission =
  ds_CellNames :: "DelegationNames option"
  ds_JobTypes :: DelegationNames
  ds_JobIDs :: DelegationNames

record DelegationWritePermission =
  dw_Ordinals :: "int list"
  dw_TaskTypes :: DelegationNames
  dw_ArtifactNames :: DelegationNames

record DelegationPermissions =
  dp_CreateCells :: "DelegationNames option"
  dp_Submit :: "DelegationSubmitPermission option"
  dp_Secrets :: "gostring list"
  dp_Read :: "DelegationChapters option"
  dp_Write :: "DelegationWritePermission option"

text \<open>A composite literal with only \<open>Names\<close> set.\<close>

definition just_names :: "gostring list \<Rightarrow> DelegationNames" where
  "just_names ns = \<lparr>dn_Any = False, dn_Names = ns\<rparr>"

definition namesAllow :: "DelegationNames \<Rightarrow> gostring \<Rightarrow> bool" where
  "namesAllow s name \<longleftrightarrow> dn_Any s \<or> name \<in> set (dn_Names s)"

definition chaptersAllow :: "DelegationChapters option \<Rightarrow> int \<Rightarrow> bool" where
  "chaptersAllow s n = (case s of
      None \<Rightarrow> False
    | Some s \<Rightarrow> if n < 0 then False
        else if dc_Any s \<or> n \<in> set (dc_Ordinals s) then True
        else list_ex (\<lambda>r. r_Start r \<le> n \<and> n \<le> r_End r) (dc_Ranges s))"

definition valid_names :: "DelegationNames \<Rightarrow> bool" where
  "valid_names s \<longleftrightarrow> \<not> (dn_Any s \<and> 0 < length (dn_Names s) \<or> 256 < int (length (dn_Names s)))
    \<and> list_all (\<lambda>n. \<not> (n = [] \<or> 1024 < int (length n))) (dn_Names s)"

definition valid_ordinals :: "int list \<Rightarrow> bool" where
  "valid_ordinals ns \<longleftrightarrow> \<not> 256 < int (length ns) \<and> list_all (\<lambda>n. \<not> n < 0) ns"

definition validateDelegationPolicy :: "DelegationPermissions \<Rightarrow> error + unit" where
  "validateDelegationPolicy p =
     (if (case dp_Submit p of None \<Rightarrow> False | Some s \<Rightarrow>
            \<not> valid_names (ds_JobTypes s) \<or> \<not> valid_names (ds_JobIDs s)
            \<or> (case ds_CellNames s of None \<Rightarrow> False | Some c \<Rightarrow> \<not> valid_names c))
      then Inl (ErrText ''invalid submission selectors'')
      else if (case dp_CreateCells p of None \<Rightarrow> False | Some c \<Rightarrow> \<not> valid_names c)
      then Inl (ErrText ''invalid cell creation selectors'')
      else if \<not> valid_names (just_names (dp_Secrets p))
      then Inl (ErrText ''invalid secret names'')
      else if (case dp_Read p of None \<Rightarrow> False | Some r \<Rightarrow>
            \<not> valid_ordinals (dc_Ordinals r) \<or> 256 < int (length (dc_Ranges r))
            \<or> dc_Any r \<and> (0 < length (dc_Ordinals r) \<or> 0 < length (dc_Ranges r)))
      then Inl (ErrText ''invalid chapter selectors'')
      else if (case dp_Read p of None \<Rightarrow> False | Some r \<Rightarrow>
            list_ex (\<lambda>r. r_Start r < 0 \<or> r_End r < r_Start r) (dc_Ranges r))
      then Inl (ErrText ''invalid chapter range'')
      else if (case dp_Write p of None \<Rightarrow> False | Some w \<Rightarrow>
            \<not> valid_ordinals (dw_Ordinals w) \<or> \<not> valid_names (dw_TaskTypes w) \<or> \<not> valid_names (dw_ArtifactNames w))
      then Inl (ErrText ''invalid chapter write selectors'')
      else Inr ())"

section \<open>Subset tests\<close>

definition namesSubset :: "DelegationNames \<Rightarrow> DelegationNames \<Rightarrow> bool" where
  "namesSubset child parent =
     (if dn_Any parent then True
      else if dn_Any child then False
      else list_all (\<lambda>n. n \<in> set (dn_Names parent)) (dn_Names child))"

definition ordinalsSubset :: "int list \<Rightarrow> int list \<Rightarrow> bool" where
  "ordinalsSubset child parent = list_all (\<lambda>n. n \<in> set parent) child"

text \<open>
  The merging loop of \<open>chapterIntervals\<close>, with the merged intervals kept in reverse so that
  \<open>merged[n-1]\<close> is the head.
\<close>

fun mergeLoop :: "DelegationOrdinalRange list \<Rightarrow> DelegationOrdinalRange list \<Rightarrow> DelegationOrdinalRange list" where
  "mergeLoop merged [] = rev merged"
| "mergeLoop [] (r # rs) = mergeLoop [r] rs"
| "mergeLoop (m # ms) (r # rs) =
     (if r_End m < r_Start r \<and> 1 < wrap64 (r_Start r - r_End m) then mergeLoop (r # m # ms) rs
      else if r_End m < r_End r then mergeLoop (OrdinalRange (r_Start m) (r_End r) # ms) rs
      else mergeLoop (m # ms) rs)"

definition chapterIntervals :: "DelegationChapters \<Rightarrow> DelegationOrdinalRange list" where
  "chapterIntervals p = mergeLoop [] (sort_key r_Start (dc_Ranges p @ map (\<lambda>n. OrdinalRange n n) (dc_Ordinals p)))"

definition chaptersSubset :: "DelegationChapters option \<Rightarrow> DelegationChapters option \<Rightarrow> bool" where
  "chaptersSubset c p = (case c of
      None \<Rightarrow> True
    | Some c \<Rightarrow> (case p of
        None \<Rightarrow> False
      | Some p \<Rightarrow> if dc_Any p then True
          else if dc_Any c then False
          else list_all (\<lambda>r. list_ex (\<lambda>a. r_Start a \<le> r_Start r \<and> r_End r \<le> r_End a) (chapterIntervals p))
                 (chapterIntervals c)))"

definition cellNamesSubset :: "DelegationNames option \<Rightarrow> DelegationNames option \<Rightarrow> bool" where
  "cellNamesSubset c p = (case p of
      None \<Rightarrow> True
    | Some p \<Rightarrow> (case c of None \<Rightarrow> False | Some c \<Rightarrow> namesSubset c p))"

definition permissionsSubset :: "DelegationPermissions \<Rightarrow> DelegationPermissions \<Rightarrow> bool" where
  "permissionsSubset c p =
     (if (case dp_CreateCells c of None \<Rightarrow> False | Some cc \<Rightarrow>
            (case dp_CreateCells p of None \<Rightarrow> True | Some pc \<Rightarrow> \<not> namesSubset cc pc)) then False
      else if (case dp_Submit c of None \<Rightarrow> False | Some cs \<Rightarrow>
            (case dp_Submit p of None \<Rightarrow> True | Some ps \<Rightarrow>
               \<not> namesSubset (ds_JobTypes cs) (ds_JobTypes ps) \<or> \<not> namesSubset (ds_JobIDs cs) (ds_JobIDs ps)
               \<or> \<not> cellNamesSubset (ds_CellNames cs) (ds_CellNames ps))) then False
      else if \<not> namesSubset (just_names (dp_Secrets c)) (just_names (dp_Secrets p))
            \<or> \<not> chaptersSubset (dp_Read c) (dp_Read p) then False
      else if (case dp_Write c of None \<Rightarrow> False | Some cw \<Rightarrow>
            (case dp_Write p of None \<Rightarrow> True | Some pw \<Rightarrow>
               \<not> ordinalsSubset (dw_Ordinals cw) (dw_Ordinals pw)
               \<or> \<not> namesSubset (dw_TaskTypes cw) (dw_TaskTypes pw)
               \<or> \<not> namesSubset (dw_ArtifactNames cw) (dw_ArtifactNames pw))) then False
      else True)"

section \<open>Meaning of the interval computation\<close>

definition covers :: "DelegationOrdinalRange list \<Rightarrow> int \<Rightarrow> bool" where
  "covers rs n \<longleftrightarrow> (\<exists>r\<in>set rs. r_Start r \<le> n \<and> n \<le> r_End r)"

definition range_ok :: "DelegationOrdinalRange \<Rightarrow> bool" where
  "range_ok r \<longleftrightarrow> 0 \<le> r_Start r \<and> r_Start r \<le> r_End r \<and> r_End r < 2 ^ 63"

definition separated :: "DelegationOrdinalRange list \<Rightarrow> bool" where
  "separated rs \<longleftrightarrow> sorted_wrt (\<lambda>a b. r_End a + 1 < r_Start b) rs \<and> (\<forall>r\<in>set rs. range_ok r)"

lemma covers_simps [simp]:
  "\<not> covers [] n"
  "covers (r # rs) n \<longleftrightarrow> r_Start r \<le> n \<and> n \<le> r_End r \<or> covers rs n"
  "covers (rs @ ss) n \<longleftrightarrow> covers rs n \<or> covers ss n"
  "covers (rev rs) n \<longleftrightarrow> covers rs n"
  "covers (sort_key f rs) n \<longleftrightarrow> covers rs n"
  unfolding covers_def by auto

lemma covers_points [simp]: "covers (map (\<lambda>n. OrdinalRange n n) ns) n \<longleftrightarrow> n \<in> set ns"
  unfolding covers_def by auto

lemma merge_gap:
  assumes "range_ok m" "range_ok r"
  shows "(r_End m < r_Start r \<and> 1 < wrap64 (r_Start r - r_End m)) = (r_End m + 1 < r_Start r)"
proof -
  have "int64 (r_Start r - r_End m)" using assms unfolding range_ok_def int64_def by auto
  then show ?thesis by auto
qed

lemma mergeLoop_correct:
  assumes "sorted_wrt (\<lambda>a b. r_Start a \<le> r_Start b) rs" "\<forall>r\<in>set rs. range_ok r"
    and "separated (rev merged)" "merged \<noteq> [] \<longrightarrow> (\<forall>r\<in>set rs. r_Start (hd merged) \<le> r_Start r)"
  shows "separated (mergeLoop merged rs) \<and> (\<forall>n. covers (mergeLoop merged rs) n \<longleftrightarrow> covers merged n \<or> covers rs n)"
  using assms
proof (induction merged rs rule: mergeLoop.induct)
  case (1 merged) then show ?case by simp
next
  case (2 r rs)
  from 2(2) have "\<forall>x\<in>set rs. r_Start r \<le> r_Start x" "sorted_wrt (\<lambda>a b. r_Start a \<le> r_Start b) rs" by simp_all
  moreover have "separated (rev [r])" "\<forall>r\<in>set rs. range_ok r" using 2(3) by (simp_all add: separated_def)
  ultimately show ?case using 2(1) by simp
next
  case (3 m ms r rs)
  have s: "\<forall>x\<in>set rs. r_Start r \<le> r_Start x" "sorted_wrt (\<lambda>a b. r_Start a \<le> r_Start b) rs" using 3(4) by simp_all
  have ok: "range_ok r" "range_ok m" "\<forall>r\<in>set rs. range_ok r" using 3(5,6) by (simp_all add: separated_def)
  have le: "r_Start m \<le> r_Start r" "\<forall>x\<in>set rs. r_Start m \<le> r_Start x" using 3(7) by simp_all
  have sep: "sorted_wrt (\<lambda>a b. r_End a + 1 < r_Start b) (rev ms)" "\<forall>a\<in>set ms. r_End a + 1 < r_Start m \<and> range_ok a"
    using 3(6) by (auto simp: separated_def sorted_wrt_append)
  note gap = merge_gap[OF ok(2,1)]
  consider (new) "r_End m + 1 < r_Start r" | (grow) "\<not> r_End m + 1 < r_Start r" "r_End m < r_End r"
    | (inside) "\<not> r_End m + 1 < r_Start r" "\<not> r_End m < r_End r" by blast
  then show ?case
  proof cases
    case new
    have "separated (rev (r # m # ms))"
      using sep ok(1,2) new by (auto simp: separated_def sorted_wrt_append range_ok_def)
    then show ?thesis using 3(1)[unfolded gap, OF new s(2) ok(3)] s(1) new gap by auto
  next
    case grow
    let ?m = "OrdinalRange (r_Start m) (r_End r)"
    have "range_ok ?m" using ok(1,2) grow(2) by (simp add: range_ok_def)
    then have "separated (rev (?m # ms))" using sep by (auto simp: separated_def sorted_wrt_append)
    moreover have "r_Start m \<le> n \<and> n \<le> r_End r \<longleftrightarrow> r_Start m \<le> n \<and> n \<le> r_End m \<or> r_Start r \<le> n \<and> n \<le> r_End r" for n
      using grow le(1) by auto
    ultimately show ?thesis using 3(2)[unfolded gap, OF grow s(2) ok(3)] le(2) grow gap by auto
  next
    case inside
    then show ?thesis using 3(3)[unfolded gap, OF inside s(2) ok(3) 3(6)] le gap by auto
  qed
qed

definition chapters_ok :: "DelegationChapters \<Rightarrow> bool" where
  "chapters_ok c \<longleftrightarrow> (\<forall>r\<in>set (dc_Ranges c). range_ok r) \<and> (\<forall>n\<in>set (dc_Ordinals c). 0 \<le> n \<and> n < 2 ^ 63)"

lemma chapterIntervals_correct:
  assumes "chapters_ok c"
  shows "separated (chapterIntervals c)" (is ?s)
    and "covers (chapterIntervals c) n \<longleftrightarrow> n \<in> set (dc_Ordinals c) \<or> covers (dc_Ranges c) n" (is ?c)
proof -
  let ?rs = "sort_key r_Start (dc_Ranges c @ map (\<lambda>n. OrdinalRange n n) (dc_Ordinals c))"
  have "sorted (map r_Start ?rs)" by (rule sorted_sort_key)
  then have "sorted_wrt (\<lambda>a b. r_Start a \<le> r_Start b) ?rs" by (simp add: sorted_wrt_map)
  moreover have "\<forall>r\<in>set ?rs. range_ok r" using assms by (auto simp: chapters_ok_def range_ok_def)
  ultimately show ?s ?c using mergeLoop_correct[of ?rs "[]"] by (auto simp: chapterIntervals_def separated_def)
qed

lemma separated_interval:
  assumes "separated ps" "a \<le> b" "\<forall>n. a \<le> n \<and> n \<le> b \<longrightarrow> covers ps n"
  shows "\<exists>p\<in>set ps. r_Start p \<le> a \<and> b \<le> r_End p"
proof -
  obtain p where p: "p \<in> set ps" "r_Start p \<le> a" "a \<le> r_End p" using assms(2,3) unfolding covers_def by blast
  show ?thesis
  proof (cases "b \<le> r_End p")
    case False
    then have "covers ps (r_End p + 1)" using assms(3) p(3) by simp
    then obtain q where q: "q \<in> set ps" "r_Start q \<le> r_End p + 1" "r_End p + 1 \<le> r_End q" unfolding covers_def by blast
    obtain i j where ij: "i < length ps" "j < length ps" "p = ps ! i" "q = ps ! j"
      using p(1) q(1) by (metis in_set_conv_nth)
    have ok: "range_ok p" "range_ok q" using assms(1) p(1) q(1) by (simp_all add: separated_def)
    have srt: "sorted_wrt (\<lambda>a b. r_End a + 1 < r_Start b) ps" using assms(1) by (simp add: separated_def)
    consider "i < j" | "i = j" | "j < i" by linarith
    then show ?thesis
    proof cases
      case 1 then show ?thesis using sorted_wrt_nth_less[OF srt, of i j] ij q by simp
    next
      case 2 then show ?thesis using ij q by simp
    next
      case 3 then show ?thesis using sorted_wrt_nth_less[OF srt, of j i] ij q ok by (simp add: range_ok_def)
    qed
  qed (use p in blast)
qed

lemma chaptersAllow_iff:
  "chaptersAllow (Some c) n \<longleftrightarrow> 0 \<le> n \<and> (dc_Any c \<or> n \<in> set (dc_Ordinals c) \<or> covers (dc_Ranges c) n)"
  by (auto simp: chaptersAllow_def covers_def list_ex_iff)

lemma chaptersAllow_intervals:
  assumes "chapters_ok c" "\<not> dc_Any c"
  shows "chaptersAllow (Some c) n \<longleftrightarrow> covers (chapterIntervals c) n"
  using assms chapterIntervals_correct(2)[OF assms(1), of n]
  by (auto simp: chaptersAllow_iff chapters_ok_def covers_def range_ok_def)

lemma chaptersSubset_sound:
  assumes "case_option True chapters_ok c" "case_option True chapters_ok p" "chaptersSubset c p" "chaptersAllow c n"
  shows "chaptersAllow p n"
proof -
  obtain c' p' where cp: "c = Some c'" "p = Some p'"
    using assms(3,4) by (auto simp: chaptersSubset_def chaptersAllow_def split: option.splits)
  show ?thesis
  proof (cases "dc_Any p'")
    case True then show ?thesis using assms(4) cp by (simp add: chaptersAllow_iff)
  next
    case False
    then have any: "\<not> dc_Any c'" and sub: "\<forall>r\<in>set (chapterIntervals c'). \<exists>a\<in>set (chapterIntervals p').
        r_Start a \<le> r_Start r \<and> r_End r \<le> r_End a"
      using assms(3) cp by (auto simp: chaptersSubset_def list_all_iff list_ex_iff split: if_splits)
    have "covers (chapterIntervals c') n" using assms(1,4) cp any chaptersAllow_intervals by simp
    then have "covers (chapterIntervals p') n" using sub unfolding covers_def by (meson order_trans)
    then show ?thesis using assms(2) cp False chaptersAllow_intervals by simp
  qed
qed

lemma chaptersSubset_complete:
  assumes "chapters_ok c" "chapters_ok p" "dc_Any c \<longrightarrow> dc_Any p"
    and "\<forall>n. chaptersAllow (Some c) n \<longrightarrow> chaptersAllow (Some p) n"
  shows "chaptersSubset (Some c) (Some p)"
proof (cases "dc_Any p")
  case False
  then have any: "\<not> dc_Any c" using assms(3) by simp
  have cov: "covers (chapterIntervals p) n" if "covers (chapterIntervals c) n" for n
    using that assms False any chaptersAllow_intervals by blast
  have "\<exists>a\<in>set (chapterIntervals p). r_Start a \<le> r_Start r \<and> r_End r \<le> r_End a"
    if r: "r \<in> set (chapterIntervals c)" for r
  proof (rule separated_interval[OF chapterIntervals_correct(1)[OF assms(2)]])
    show "r_Start r \<le> r_End r"
      using chapterIntervals_correct(1)[OF assms(1)] r by (simp add: separated_def range_ok_def)
    show "\<forall>n. r_Start r \<le> n \<and> n \<le> r_End r \<longrightarrow> covers (chapterIntervals p) n"
      using cov r unfolding covers_def by blast
  qed
  then show ?thesis using any by (simp add: chaptersSubset_def list_all_iff list_ex_iff)
qed (simp add: chaptersSubset_def)

end
