(* ===== verification/Routes.thy ===== *)
theory Routes
  imports Prelude
begin

text \<open>
  Routes and task coordinates: \<open>pkg/jobdb/route.go\<close> and the coordinates of
  \<open>pkg/jobdb/client_payload.go\<close>.
\<close>

datatype Route = Route (rt_JobType: gostring) (rt_TaskType: gostring)

record TaskWait =
  tw_InputOrdinal :: int
  tw_OutputOrdinal :: int
  tw_InputHash :: gostring
  tw_ResumeJobType :: gostring

definition ValidateIdentifier :: "gostring \<Rightarrow> error + unit" where
  "ValidateIdentifier v =
     (if v = [] \<or> \<not> valid_utf8 v \<or> char_of (0 :: nat) \<in> set v
      then Inl (ErrText ''identifier must be nonempty UTF-8 without U+0000'') else Inr ())"

definition Route_Validate :: "Route \<Rightarrow> error + unit" where
  "Route_Validate r =
     rbind (ValidateIdentifier (rt_JobType r)) (\<lambda>_.
       if rt_TaskType r \<noteq> [] then ValidateIdentifier (rt_TaskType r) else Inr ())"

definition ValidateAlternateRoute :: "Route option \<Rightarrow> duration option \<Rightarrow> TaskWait option \<Rightarrow> error + unit" where
  "ValidateAlternateRoute route after task = (case route of
      None \<Rightarrow> if after \<noteq> None then Inl (ErrText ''alternate route required with alternate delay'') else Inr ()
    | Some r \<Rightarrow> rbind (Route_Validate r) (\<lambda>_.
        if after = None \<or> the after < 0 then Inl (ErrText ''alternate route requires a nonnegative delay'')
        else if rt_TaskType r \<noteq> [] \<and> task = None then Inl (ErrText ''alternate task route requires task coordinates'')
        else Inr ()))"

lemma ValidateAlternateRoute_Inr:
  "ValidateAlternateRoute route after task = Inr () \<longleftrightarrow>
     (case route of None \<Rightarrow> after = None
      | Some r \<Rightarrow> Route_Validate r = Inr () \<and> (\<exists>d\<ge>0. after = Some d) \<and> (rt_TaskType r = [] \<or> task \<noteq> None))"
  by (auto simp: ValidateAlternateRoute_def rbind_Inr_iff split: option.splits)

end
