(* ===== verification/Delegation_Grant.thy ===== *)
theory Delegation_Grant
  imports Delegation_Policy Cell_State Routes
begin

text \<open>
  Lease credentials: the grants of \<open>runtime/remote/attenuation.go\<close>, the owner tokens of
  \<open>runtime/remote/lease_token.go\<close> and the checks of \<open>runtime/remote/delegation_server.go\<close>.  A token
  is its text.  Hashing, base64, the JSON forms of the claims and the macaroon library are the
  operations of the parameter \<open>token_lib\<close>; a random identifier and the clock are arguments.  A
  \<open>time.Time\<close> that the code asks for its location is an instant together with whether that location
  is UTC.
\<close>

section \<open>Claims\<close>

type_synonym zoned = "instant \<times> bool"

record grantParent =
  gp_Cell :: ResolvedCell
  gp_Principal :: "gostring option"
  gp_TenantID :: gostring
  gp_JobID :: gostring
  gp_LeaseID :: gostring
  gp_WorkerID :: gostring
  gp_SchemaHash :: gostring

record leaseTokenClaims =
  lt_Cell :: ResolvedCell
  lt_Audience :: gostring
  lt_Grant :: gostring
  lt_Principal :: "gostring option"
  lt_TenantID :: gostring
  lt_JobID :: gostring
  lt_LeaseID :: gostring
  lt_WorkerID :: gostring
  lt_SchemaHash :: gostring
  lt_LeaseDurationSeconds :: int
  lt_IssuedAt :: int
  lt_ExpiresAt :: int
  lt_ExpiresAtNS :: int

definition parentOf :: "leaseTokenClaims \<Rightarrow> grantParent" where
  "parentOf p = \<lparr>gp_Cell = lt_Cell p, gp_Principal = lt_Principal p, gp_TenantID = lt_TenantID p,
     gp_JobID = lt_JobID p, gp_LeaseID = lt_LeaseID p, gp_WorkerID = lt_WorkerID p, gp_SchemaHash = lt_SchemaHash p\<rparr>"

definition grantParent_claims :: "grantParent \<Rightarrow> leaseTokenClaims" where
  "grantParent_claims p = \<lparr>lt_Cell = gp_Cell p, lt_Audience = [], lt_Grant = [], lt_Principal = gp_Principal p,
     lt_TenantID = gp_TenantID p, lt_JobID = gp_JobID p, lt_LeaseID = gp_LeaseID p, lt_WorkerID = gp_WorkerID p,
     lt_SchemaHash = gp_SchemaHash p, lt_LeaseDurationSeconds = 0, lt_IssuedAt = 0, lt_ExpiresAt = 0, lt_ExpiresAtNS = 0\<rparr>"

record grantRoot =
  gr_Version :: int
  gr_Purpose :: gostring
  gr_Audience :: gostring
  gr_KeyID :: gostring
  gr_ID :: gostring
  gr_Parent :: grantParent
  gr_Ceiling :: gostring

record grantStep =
  st_Kind :: gostring
  st_Version :: int
  st_ID :: gostring
  st_Permissions :: DelegationPermissions
  st_NotAfter :: "zoned option"

record DelegationInfo =
  di_ID :: gostring
  di_Permissions :: DelegationPermissions
  di_NotAfter :: "zoned option"

record CreateDelegationRequest =
  cd_Permissions :: DelegationPermissions
  cd_NotAfter :: "zoned option"

record delegationClaims =
  cl_GoalID :: gostring
  cl_Parent :: leaseTokenClaims
  cl_Grant :: DelegationInfo
  cl_Route :: Route
  cl_ExpiresAt :: instant

definition no_permissions :: DelegationPermissions where
  "no_permissions = \<lparr>dp_CreateCells = None, dp_Submit = None, dp_Secrets = [], dp_Read = None, dp_Write = None\<rparr>"

definition claims_key :: "delegationClaims \<Rightarrow> JobKey" where
  "claims_key c = JobKey (lt_TenantID (cl_Parent c)) (lt_JobID (cl_Parent c))"

definition accessClaims :: "delegationClaims \<Rightarrow> leaseTokenClaims" where
  "accessClaims c = (cl_Parent c)\<lparr>lt_ExpiresAt := cl_ExpiresAt c div 1000000000, lt_ExpiresAtNS := wrap64 (cl_ExpiresAt c)\<rparr>"

definition setExpiry :: "instant \<Rightarrow> delegationClaims \<Rightarrow> delegationClaims" where
  "setExpiry parentExpiry c =
     (case di_NotAfter (cl_Grant c) of
        Some (t, _) \<Rightarrow>
          if parentExpiry = zero_time \<or> t < parentExpiry then c\<lparr>cl_ExpiresAt := t\<rparr>
          else c\<lparr>cl_ExpiresAt := parentExpiry\<rparr>
      | None \<Rightarrow> c\<lparr>cl_ExpiresAt := parentExpiry\<rparr>)"

section \<open>Libraries\<close>

record Caveat =
  cv_Id :: gostring
  cv_VerificationId :: gostring
  cv_Location :: gostring

record Macaroon =
  m_Version :: nat
  m_Location :: gostring
  m_Id :: gostring
  m_Caveats :: "Caveat list"
  m_Signature :: gostring

record token_lib =
  tk_hkdf :: "gostring \<Rightarrow> gostring \<Rightarrow> gostring"
  tk_sha256 :: "gostring \<Rightarrow> gostring"
  tk_hmac :: "gostring \<Rightarrow> gostring \<Rightarrow> gostring"
  tk_base64 :: "gostring \<Rightarrow> gostring"
  tk_unbase64 :: "gostring \<Rightarrow> gostring option"
  tk_root_json :: "grantRoot \<Rightarrow> gostring option"
  tk_json_root :: "gostring \<Rightarrow> grantRoot option"
  tk_step_json :: "grantStep \<Rightarrow> gostring option"
  tk_json_step :: "gostring \<Rightarrow> grantStep option"
  tk_owner_json :: "leaseTokenClaims \<Rightarrow> gostring option"
  tk_json_owner :: "gostring \<Rightarrow> leaseTokenClaims option"
  tk_parent_json :: "grantParent \<Rightarrow> gostring"
  mac_New :: "gostring \<Rightarrow> gostring \<Rightarrow> Macaroon option"
  mac_AddFirstPartyCaveat :: "gostring \<Rightarrow> Macaroon \<Rightarrow> Macaroon option"
  mac_VerifySignature :: "gostring \<Rightarrow> Macaroon \<Rightarrow> bool"
  mac_MarshalBinary :: "Macaroon \<Rightarrow> gostring option"
  mac_UnmarshalBinary :: "gostring \<Rightarrow> Macaroon option"

record leaseTokenSigner =
  sg_key :: gostring
  sg_audience :: gostring

definition ownerTokenPrefix :: gostring where "ownerTokenPrefix = ''jdb-o2.''"
definition delegationTokenPrefix :: gostring where "delegationTokenPrefix = ''jdb-m2.''"
definition maxDelegationTokenBytes :: int where "maxDelegationTokenBytes = 16384"
definition maxOwnerTokenBytes :: int where "maxOwnerTokenBytes = 32768"
definition maxDelegationDepth :: nat where "maxDelegationDepth = 8"
definition grantPurpose :: gostring where "grantPurpose = ''jobdb.delegation.grant.v2''"
definition grantCeiling :: gostring where "grantCeiling = ''jobdb.resource-actions.v2''"

definition isDelegationToken :: "gostring \<Rightarrow> bool" where
  "isDelegationToken t = has_prefix t delegationTokenPrefix"

definition audienceID :: "leaseTokenSigner \<Rightarrow> gostring" where
  "audienceID s = (if sg_audience s \<noteq> [] then sg_audience s else ''jobdb'')"

definition grantKey :: "token_lib \<Rightarrow> leaseTokenSigner \<Rightarrow> gostring" where
  "grantKey lib s = tk_hkdf lib (sg_key s) (grantPurpose @ [char_of (0 :: nat)] @ audienceID s)"

definition lower_hex :: "nat \<Rightarrow> char" where
  "lower_hex n = char_of (if n < 10 then 48 + n else 87 + n)"

definition hex_encode :: "gostring \<Rightarrow> gostring" where
  "hex_encode bs = concat (map (\<lambda>b. [lower_hex (byte b div 16), lower_hex (byte b mod 16)]) bs)"

definition grantKeyID :: "token_lib \<Rightarrow> leaseTokenSigner \<Rightarrow> gostring" where
  "grantKeyID lib s = hex_encode (take 8 (tk_sha256 lib (grantKey lib s)))"

definition decodeCanonical :: "(gostring \<Rightarrow> 'a option) \<Rightarrow> ('a \<Rightarrow> gostring option) \<Rightarrow> gostring \<Rightarrow> error + 'a" where
  "decodeCanonical unmarshal marshal raw = (case unmarshal raw of
      None \<Rightarrow> Inl ErrExecutionLeaseLost
    | Some v \<Rightarrow> if marshal v \<noteq> Some raw then Inl ErrExecutionLeaseLost else Inr v)"

definition decodeTokenBase64 :: "token_lib \<Rightarrow> gostring \<Rightarrow> error + gostring" where
  "decodeTokenBase64 lib encoded = (case tk_unbase64 lib encoded of
      None \<Rightarrow> Inl ErrExecutionLeaseLost
    | Some raw \<Rightarrow> if tk_base64 lib raw \<noteq> encoded then Inl ErrExecutionLeaseLost else Inr raw)"

definition encodeGrant :: "token_lib \<Rightarrow> Macaroon \<Rightarrow> error + gostring" where
  "encodeGrant lib m = (case mac_MarshalBinary lib m of
      None \<Rightarrow> Inl ErrExecutionLeaseLost
    | Some raw \<Rightarrow> (let token = delegationTokenPrefix @ tk_base64 lib raw in
        if maxDelegationTokenBytes < int (length token) then Inl (ErrText ''delegation exceeds token size limit'')
        else Inr token))"

definition newGrant :: "token_lib \<Rightarrow> leaseTokenSigner \<Rightarrow> gostring \<Rightarrow> leaseTokenClaims \<Rightarrow> error + gostring" where
  "newGrant lib s uuid p =
     (let root = \<lparr>gr_Version = 1, gr_Purpose = grantPurpose, gr_Audience = audienceID s, gr_KeyID = grantKeyID lib s,
                  gr_ID = uuid, gr_Parent = parentOf p, gr_Ceiling = grantCeiling\<rparr> in
      case tk_root_json lib root of
        None \<Rightarrow> Inl (ErrText ''marshal'')
      | Some raw \<Rightarrow> (case mac_New lib (grantKey lib s) raw of
          None \<Rightarrow> Inl (ErrText ''macaroon'')
        | Some m \<Rightarrow> encodeGrant lib m))"

section \<open>Decoding a grant\<close>

text \<open>The first instant of year 10000: a later time has a year the decoder refuses.\<close>

definition year_10000 :: instant where
  "year_10000 = 253402300800000000000"

definition rootOK :: "grantRoot \<Rightarrow> bool" where
  "rootOK root \<longleftrightarrow> gr_Version root = 1 \<and> gr_Purpose root = grantPurpose \<and> gr_Ceiling root = grantCeiling
     \<and> gr_ID root \<noteq> [] \<and> gr_Audience root \<noteq> [] \<and> gr_KeyID root \<noteq> []
     \<and> gp_TenantID (gr_Parent root) \<noteq> [] \<and> gp_JobID (gr_Parent root) \<noteq> [] \<and> gp_LeaseID (gr_Parent root) \<noteq> []
     \<and> rc_CellID (gp_Cell (gr_Parent root)) \<noteq> [] \<and> rc_CellRepo (gp_Cell (gr_Parent root)) \<noteq> []
     \<and> ValidateCellName (rc_Cell (gp_Cell (gr_Parent root))) = Inr ()"

definition stepOK :: "grantStep \<Rightarrow> bool" where
  "stepOK step \<longleftrightarrow> st_Kind step = ''restrict'' \<and> st_Version step = 1 \<and> st_ID step \<noteq> [] \<and> int (length (st_ID step)) \<le> 128
     \<and> validateDelegationPolicy (st_Permissions step) = Inr ()
     \<and> (case st_NotAfter step of None \<Rightarrow> True
        | Some (t, utc) \<Rightarrow> t \<noteq> zero_time \<and> \<not> t < zero_time \<and> \<not> year_10000 \<le> t \<and> utc)"

text \<open>The body of the loop over the caveats: \<open>first\<close> is \<open>i = 0\<close>, and \<open>g\<close> is \<open>c.Grant\<close>.\<close>

definition applyCaveat :: "token_lib \<Rightarrow> bool \<Rightarrow> Caveat \<Rightarrow> DelegationInfo \<Rightarrow> error + DelegationInfo" where
  "applyCaveat lib first cv g =
     (if cv_VerificationId cv \<noteq> [] \<or> cv_Location cv \<noteq> [] then Inl ErrExecutionLeaseLost
      else case decodeCanonical (tk_json_step lib) (tk_step_json lib) (cv_Id cv) of
        Inl _ \<Rightarrow> Inl ErrExecutionLeaseLost
      | Inr step \<Rightarrow>
          if \<not> stepOK step then Inl ErrExecutionLeaseLost
          else if \<not> first \<and> \<not> permissionsSubset (st_Permissions step) (di_Permissions g) then Inl ErrExecutionLeaseLost
          else if (case (di_NotAfter g, st_NotAfter step) of
                     (Some (t, _), Some (t', _)) \<Rightarrow> t < t' | _ \<Rightarrow> False) then Inl ErrExecutionLeaseLost
          else Inr \<lparr>di_ID = st_ID step, di_Permissions = st_Permissions step,
                 di_NotAfter = (case st_NotAfter step of None \<Rightarrow> di_NotAfter g | Some t \<Rightarrow> Some t)\<rparr>)"

fun caveatLoop :: "token_lib \<Rightarrow> bool \<Rightarrow> Caveat list \<Rightarrow> DelegationInfo \<Rightarrow> error + DelegationInfo" where
  "caveatLoop lib first [] g = Inr g"
| "caveatLoop lib first (cv # cvs) g = rbind (applyCaveat lib first cv g) (caveatLoop lib False cvs)"

definition decodeGrant :: "token_lib \<Rightarrow> gostring \<Rightarrow> bool \<Rightarrow> error + (Macaroon \<times> grantRoot \<times> delegationClaims)" where
  "decodeGrant lib token allowRoot =
     (if \<not> isDelegationToken token \<or> maxDelegationTokenBytes < int (length token) then Inl ErrExecutionLeaseLost
      else rbind (decodeTokenBase64 lib (trim_prefix token delegationTokenPrefix)) (\<lambda>raw.
        case mac_UnmarshalBinary lib raw of
          None \<Rightarrow> Inl ErrExecutionLeaseLost
        | Some m \<Rightarrow>
            if m_Version m \<noteq> 2 \<or> m_Location m \<noteq> [] then Inl ErrExecutionLeaseLost
            else if mac_MarshalBinary lib m \<noteq> Some raw then Inl ErrExecutionLeaseLost
            else rbind (decodeCanonical (tk_json_root lib) (tk_root_json lib) (m_Id m)) (\<lambda>root.
              if \<not> rootOK root then Inl ErrExecutionLeaseLost
              else if maxDelegationDepth < length (m_Caveats m)
                \<or> \<not> allowRoot \<and> (length (m_Caveats m) = 0 \<or> gp_WorkerID (gr_Parent root) = []) then Inl ErrExecutionLeaseLost
              else rbind (caveatLoop lib True (m_Caveats m)
                      \<lparr>di_ID = [], di_Permissions = no_permissions, di_NotAfter = None\<rparr>) (\<lambda>g.
                Inr (m, root, \<lparr>cl_GoalID = [], cl_Parent = grantParent_claims (gr_Parent root), cl_Grant = g,
                               cl_Route = Route [] [], cl_ExpiresAt = zero_time\<rparr>)))))"

definition verifyGrant ::
  "token_lib \<Rightarrow> leaseTokenSigner \<Rightarrow> gostring \<Rightarrow> bool \<Rightarrow> error + (Macaroon \<times> grantRoot \<times> delegationClaims)" where
  "verifyGrant lib s token allowRoot =
     rbind (decodeGrant lib token allowRoot) (\<lambda>(m, root, c).
       if gr_Audience root \<noteq> audienceID s \<or> gr_KeyID root \<noteq> grantKeyID lib s then Inl ErrExecutionLeaseLost
       else if \<not> mac_VerifySignature lib (grantKey lib s) m then Inl ErrExecutionLeaseLost
       else Inr (m, root, c))"

definition parseDelegation :: "token_lib \<Rightarrow> leaseTokenSigner \<Rightarrow> gostring \<Rightarrow> error + delegationClaims" where
  "parseDelegation lib s token = rbind (verifyGrant lib s token False) (\<lambda>(_, _, c). Inr c)"

section \<open>Attenuating a grant\<close>

definition validateDelegationRequest :: "instant \<Rightarrow> CreateDelegationRequest \<Rightarrow> error + unit" where
  "validateDelegationRequest now req =
     (if (case cd_NotAfter req of None \<Rightarrow> False | Some (t, _) \<Rightarrow> \<not> now < t)
      then Inl (ErrText ''notAfter must be in the future'')
      else validateDelegationPolicy (cd_Permissions req))"

text \<open>The submission cell names a restricted grant passes on when the request names none.\<close>

definition inheritCells :: "bool \<Rightarrow> DelegationPermissions \<Rightarrow> DelegationPermissions \<Rightarrow> DelegationPermissions" where
  "inheritCells restricted req parent =
     (case (dp_Submit req, dp_Submit parent) of
        (Some r, Some p) \<Rightarrow>
          if restricted \<and> ds_CellNames r = None then req\<lparr>dp_Submit := Some (r\<lparr>ds_CellNames := ds_CellNames p\<rparr>)\<rparr> else req
      | _ \<Rightarrow> req)"

text \<open>The deadline of the new restriction: the requested one, or else the one in force, in UTC.\<close>

definition narrowDeadline :: "zoned option \<Rightarrow> zoned option \<Rightarrow> zoned option" where
  "narrowDeadline current requested =
     map_option (\<lambda>(t, _). (t, True))
       (case current of
          None \<Rightarrow> requested
        | Some t \<Rightarrow> (case requested of None \<Rightarrow> Some t | Some t' \<Rightarrow> Some t'))"

text \<open>Adding the restriction to the macaroon and encoding the result.\<close>

definition appendStep ::
  "token_lib \<Rightarrow> Macaroon \<Rightarrow> delegationClaims \<Rightarrow> grantStep \<Rightarrow> error + (gostring \<times> delegationClaims)" where
  "appendStep lib m c step0 = (case tk_step_json lib step0 of
      None \<Rightarrow> Inl (ErrText ''marshal'')
    | Some raw \<Rightarrow> rbind (decodeCanonical (tk_json_step lib) (tk_step_json lib) raw) (\<lambda>step.
        case mac_AddFirstPartyCaveat lib raw m of
          None \<Rightarrow> Inl ErrExecutionLeaseLost
        | Some m' \<Rightarrow> rbind (encodeGrant lib m') (\<lambda>t.
            Inr (t, c\<lparr>cl_Grant := \<lparr>di_ID = st_ID step, di_Permissions = st_Permissions step,
                                   di_NotAfter = st_NotAfter step\<rparr>\<rparr>))))"

definition attenuateGrant ::
  "token_lib \<Rightarrow> instant \<Rightarrow> gostring \<Rightarrow> gostring \<Rightarrow> CreateDelegationRequest \<Rightarrow> error + (gostring \<times> delegationClaims)" where
  "attenuateGrant lib now uuid token req0 =
     rbind (decodeGrant lib token True) (\<lambda>(m, root, c).
       if gp_WorkerID (gr_Parent root) = [] then Inl ErrExecutionLeaseLost
       else let restricted = 0 < length (m_Caveats m);
                req = req0\<lparr>cd_Permissions := inheritCells restricted (cd_Permissions req0) (di_Permissions (cl_Grant c))\<rparr> in
         rbind (validateDelegationRequest now req) (\<lambda>_.
           if maxDelegationDepth \<le> length (m_Caveats m) then Inl (ErrText ''delegation exceeds maximum restriction depth'')
           else if restricted \<and> \<not> permissionsSubset (cd_Permissions req) (di_Permissions (cl_Grant c))
             then Inl ErrLeasePermissionDenied
           else if (case di_NotAfter (cl_Grant c) of None \<Rightarrow> False | Some (t, _) \<Rightarrow>
                      \<not> now < t \<or> (case cd_NotAfter req of None \<Rightarrow> False | Some (t', _) \<Rightarrow> t < t'))
             then Inl ErrLeasePermissionDenied
           else appendStep lib m c
             \<lparr>st_Kind = ''restrict'', st_Version = 1, st_ID = uuid, st_Permissions = cd_Permissions req,
              st_NotAfter = narrowDeadline (di_NotAfter (cl_Grant c)) (cd_NotAfter req)\<rparr>))"

end
