(* ===== verification/Delegation_Server.thy ===== *)
theory Delegation_Server
  imports Delegation_Grant
begin

text \<open>
  Owner credentials (\<open>runtime/remote/lease_token.go\<close>) and the request boundary for delegated
  credentials (\<open>runtime/remote/delegation_server.go\<close>, with the secret filter of
  \<open>runtime/remote/secrets.go\<close>).  The backend is the argument \<open>check\<close>, its
  \<open>ValidateExecutionLeaseByID\<close> (\<open>None\<close> when the runtime has none); one request is handled at one
  instant \<open>now\<close>.  The JSON forms of the request bodies are the operations of \<open>body_lib\<close>.
\<close>

section \<open>Owner credentials\<close>

definition second :: duration where "second = 1000000000"
definition millisecond :: duration where "millisecond = 1000000"
definition defaultLeaseTokenTTL :: duration where "defaultLeaseTokenTTL = 30 * second"
definition leaseTokenExpirySkew :: duration where "leaseTokenExpirySkew = 100 * millisecond"

text \<open>\<open>Time.Sub\<close> saturates at the bounds of a \<open>Duration\<close>; integer division truncates.\<close>

definition time_Sub :: "instant \<Rightarrow> instant \<Rightarrow> duration" where
  "time_Sub a b = max (- (2 ^ 63)) (min (2 ^ 63 - 1) (a - b))"

definition trunc_div :: "int \<Rightarrow> int \<Rightarrow> int" where
  "trunc_div a b = sgn a * sgn b * (\<bar>a\<bar> div \<bar>b\<bar>)"

definition leaseTokenExpiresAt :: "instant \<Rightarrow> instant \<Rightarrow> duration \<Rightarrow> instant" where
  "leaseTokenExpiresAt now leaseExpiresAt fallbackTTL0 =
     (let fallbackTTL = (if fallbackTTL0 \<le> 0 then defaultLeaseTokenTTL else fallbackTTL0) in
      if leaseExpiresAt = zero_time then now + fallbackTTL
      else if \<not> now < leaseExpiresAt then now
      else let remaining = time_Sub leaseExpiresAt now;
               skew = (if remaining \<le> 2 * leaseTokenExpirySkew
                       then (let d = trunc_div remaining 10 in if d \<le> 0 then 1 else d)
                       else leaseTokenExpirySkew);
               expiresAt = leaseExpiresAt - skew in
           if expiresAt < now then now else expiresAt)"

definition mintWithPrincipal ::
  "token_lib \<Rightarrow> leaseTokenSigner \<Rightarrow> instant \<Rightarrow> gostring \<Rightarrow> JobKey \<Rightarrow> gostring \<Rightarrow> gostring \<Rightarrow> gostring \<Rightarrow> instant \<Rightarrow>
   duration \<Rightarrow> gostring option \<Rightarrow> ResolvedCell \<Rightarrow> error + gostring" where
  "mintWithPrincipal lib s now uuid jobKey leaseID workerID schemaHash leaseExpiresAt ttl0 princ cell =
     (if sg_key s = [] then Inl (ErrText ''lease token signer is required'')
      else let ttl = (if ttl0 \<le> 0 then defaultLeaseTokenTTL else ttl0);
               leaseDuration = (if leaseExpiresAt \<noteq> zero_time \<and> now < leaseExpiresAt
                                then time_Sub leaseExpiresAt now else ttl);
               tokenExpiresAt = leaseTokenExpiresAt now leaseExpiresAt ttl;
               claims = \<lparr>lt_Cell = cell, lt_Audience = audienceID s, lt_Grant = [], lt_Principal = princ,
                 lt_TenantID = TenantId jobKey, lt_JobID = JobId jobKey, lt_LeaseID = leaseID, lt_WorkerID = workerID,
                 lt_SchemaHash = schemaHash,
                 lt_LeaseDurationSeconds = trunc_div (wrap64 (leaseDuration + second - 1)) second,
                 lt_IssuedAt = now div second, lt_ExpiresAt = tokenExpiresAt div second,
                 lt_ExpiresAtNS = wrap64 tokenExpiresAt\<rparr> in
        if rc_CellID cell = [] \<or> rc_CellRepo cell = [] \<or> ValidateCellName (rc_Cell cell) \<noteq> Inr ()
        then Inl ErrExecutionLeaseLost
        else rbind (newGrant lib s uuid claims) (\<lambda>grant.
          case tk_owner_json lib (claims\<lparr>lt_Grant := grant\<rparr>) of
            None \<Rightarrow> Inl (ErrText ''marshal'')
          | Some payload \<Rightarrow>
              (let encodedPayload = ownerTokenPrefix @ tk_base64 lib payload;
                   token = encodedPayload @ ''.'' @ tk_base64 lib (tk_hmac lib (sg_key s) encodedPayload) in
               if maxOwnerTokenBytes < int (length token) then Inl (ErrText ''owner credential exceeds token size limit'')
               else Inr token)))"

definition decodeOwner :: "token_lib \<Rightarrow> gostring \<Rightarrow> error + leaseTokenClaims" where
  "decodeOwner lib token =
     (if \<not> has_prefix token ownerTokenPrefix \<or> maxOwnerTokenBytes < int (length token) then Inl ErrExecutionLeaseLost
      else case split_on CHR ''.'' token of
        [_, payload, mac] \<Rightarrow>
          if mac = [] then Inl ErrExecutionLeaseLost
          else rbind (decodeTokenBase64 lib payload) (\<lambda>raw.
            rbind (decodeCanonical (tk_json_owner lib) (tk_owner_json lib) raw) (\<lambda>c.
              if rc_CellID (lt_Cell c) = [] \<or> rc_CellRepo (lt_Cell c) = [] \<or> ValidateCellName (rc_Cell (lt_Cell c)) \<noteq> Inr ()
                \<or> lt_TenantID c = [] \<or> lt_JobID c = [] \<or> lt_LeaseID c = [] \<or> lt_ExpiresAt c = 0
                \<or> lt_Audience c = [] \<or> lt_Grant c = []
              then Inl ErrExecutionLeaseLost else Inr c))
      | _ \<Rightarrow> Inl ErrExecutionLeaseLost)"

definition sameGrantParent :: "token_lib \<Rightarrow> grantParent \<Rightarrow> grantParent \<Rightarrow> bool" where
  "sameGrantParent lib a b \<longleftrightarrow> tk_parent_json lib a = tk_parent_json lib b"

definition parseOwner :: "token_lib \<Rightarrow> leaseTokenSigner \<Rightarrow> gostring \<Rightarrow> error + leaseTokenClaims" where
  "parseOwner lib s token =
     (if sg_key s = [] then Inl (ErrText ''lease token signer is required'')
      else if \<not> has_prefix token ownerTokenPrefix \<or> maxOwnerTokenBytes < int (length token) then Inl ErrExecutionLeaseLost
      else case split_on CHR ''.'' token of
        [prefix, payload, mac] \<Rightarrow>
          rbind (decodeTokenBase64 lib mac) (\<lambda>actual.
            if actual \<noteq> tk_hmac lib (sg_key s) (prefix @ ''.'' @ payload) then Inl ErrExecutionLeaseLost
            else case decodeOwner lib token of
              Inl _ \<Rightarrow> Inl ErrExecutionLeaseLost
            | Inr claims \<Rightarrow>
                if lt_Audience claims \<noteq> audienceID s then Inl ErrExecutionLeaseLost
                else case verifyGrant lib s (lt_Grant claims) True of
                  Inl _ \<Rightarrow> Inl ErrExecutionLeaseLost
                | Inr (m, root, _) \<Rightarrow>
                    if length (m_Caveats m) \<noteq> 0 \<or> \<not> sameGrantParent lib (gr_Parent root) (parentOf claims)
                    then Inl ErrExecutionLeaseLost else Inr claims)
      | _ \<Rightarrow> Inl ErrExecutionLeaseLost)"

definition claims_expiresAt :: "leaseTokenClaims \<Rightarrow> instant" where
  "claims_expiresAt c = (if 0 < lt_ExpiresAtNS c then lt_ExpiresAtNS c else lt_ExpiresAt c * second)"

definition claims_leaseDuration :: "leaseTokenClaims \<Rightarrow> duration" where
  "claims_leaseDuration c =
     (if lt_LeaseDurationSeconds c \<le> 0 then defaultLeaseTokenTTL else wrap64 (lt_LeaseDurationSeconds c * second))"

text \<open>
  \<open>now\<close> is the clock: the callers pass \<open>time.Now\<close>, and for a zero argument the code reads
  the clock itself.
\<close>

definition validateAndParse ::
  "token_lib \<Rightarrow> leaseTokenSigner \<Rightarrow> instant \<Rightarrow> gostring \<Rightarrow> JobKey \<Rightarrow> gostring \<Rightarrow> error + leaseTokenClaims" where
  "validateAndParse lib s now token jobKey leaseID =
     rbind (parseOwner lib s token) (\<lambda>claims.
       if lt_TenantID claims \<noteq> TenantId jobKey \<or> lt_JobID claims \<noteq> JobId jobKey \<or> lt_LeaseID claims \<noteq> leaseID
       then Inl ErrExecutionLeaseLost
       else if \<not> now < claims_expiresAt claims then Inl ErrExecutionLeaseLost
       else Inr claims)"

section \<open>Checking a delegated credential\<close>

record LeaseValidity =
  lv_Cell :: ResolvedCell
  lv_GoalID :: gostring
  lv_ExpiresAt :: instant
  lv_Route :: Route

type_synonym lease_check = "(JobKey \<Rightarrow> gostring \<Rightarrow> gostring \<Rightarrow> error + LeaseValidity) option"

abbreviation delegationDenied :: error where
  "delegationDenied \<equiv> ErrDelegation 403 ''lease_permission_denied''"

definition parentValidity :: "lease_check \<Rightarrow> instant \<Rightarrow> leaseTokenClaims \<Rightarrow> error + LeaseValidity" where
  "parentValidity check now p = (case check of
      None \<Rightarrow> Inl (ErrDelegation 501 ''delegation_not_supported'')
    | Some f \<Rightarrow> (case f (JobKey (lt_TenantID p) (lt_JobID p)) (lt_LeaseID p) (lt_WorkerID p) of
        Inl e \<Rightarrow> if e = ErrExecutionLeaseLost \<or> e = ErrJobNotFound
                 then Inl (ErrDelegation 409 ''execution_lease_lost'')
                 else Inl (ErrDelegation 503 ''delegation_unavailable'')
      | Inr v \<Rightarrow>
          if rc_CellID (lt_Cell p) = [] \<or> rc_CellID (lt_Cell p) \<noteq> rc_CellID (lv_Cell v)
            \<or> rc_CellRepo (lt_Cell p) \<noteq> rc_CellRepo (lv_Cell v) then Inl ErrExecutionLeaseLost
          else if \<not> now < lv_ExpiresAt v then Inl (ErrDelegation 409 ''execution_lease_lost'')
          else Inr v))"

definition checkedDelegation ::
  "token_lib \<Rightarrow> leaseTokenSigner \<Rightarrow> lease_check \<Rightarrow> instant \<Rightarrow> gostring \<Rightarrow> JobKey \<Rightarrow> gostring \<Rightarrow>
   error + (delegationClaims \<times> LeaseValidity)" where
  "checkedDelegation lib s check now token key leaseID = (case parseDelegation lib s token of
      Inl _ \<Rightarrow> Inl (ErrDelegation 401 ''invalid_delegation_credential'')
    | Inr c \<Rightarrow>
        if claims_key c \<noteq> key \<or> lt_LeaseID (cl_Parent c) \<noteq> leaseID
        then Inl (ErrDelegation 401 ''invalid_delegation_credential'')
        else rbind (parentValidity check now (cl_Parent c)) (\<lambda>v.
          if (case di_NotAfter (cl_Grant c) of None \<Rightarrow> False | Some (t, _) \<Rightarrow> \<not> now < t)
          then Inl (ErrDelegation 403 ''delegation_deadline_reached'')
          else Inr ((setExpiry (lv_ExpiresAt v) c)\<lparr>cl_Route := lv_Route v, cl_GoalID := lv_GoalID v,
                      cl_Parent := (cl_Parent c)\<lparr>lt_Cell := lv_Cell v\<rparr>\<rparr>, v)))"

definition validatedLeaseClaims ::
  "token_lib \<Rightarrow> leaseTokenSigner \<Rightarrow> lease_check \<Rightarrow> instant \<Rightarrow> gostring \<Rightarrow> JobKey \<Rightarrow> gostring \<Rightarrow> error + leaseTokenClaims" where
  "validatedLeaseClaims lib s check now token key leaseID =
     (if isDelegationToken token
      then rbind (checkedDelegation lib s check now token key leaseID) (\<lambda>(c, _). Inr (accessClaims c))
      else case validateAndParse lib s now token key leaseID of
          Inl _ \<Rightarrow> Inl ErrExecutionLeaseLost
        | Inr claims \<Rightarrow> Inr claims)"

definition readLeaseClaims ::
  "token_lib \<Rightarrow> leaseTokenSigner \<Rightarrow> lease_check \<Rightarrow> instant \<Rightarrow> gostring \<Rightarrow> JobKey \<Rightarrow> gostring \<Rightarrow>
   error + (leaseTokenClaims \<times> DelegationChapters option)" where
  "readLeaseClaims lib s check now token key leaseID =
     (if isDelegationToken token
      then rbind (checkedDelegation lib s check now token key leaseID) (\<lambda>(c, _).
             if dp_Read (di_Permissions (cl_Grant c)) = None then Inl delegationDenied
             else Inr (accessClaims c, dp_Read (di_Permissions (cl_Grant c))))
      else rbind (validatedLeaseClaims lib s check now token key leaseID) (\<lambda>p.
             rbind (parentValidity check now p) (\<lambda>_.
               Inr (p, Some \<lparr>dc_Any = True, dc_Ordinals = [], dc_Ranges = []\<rparr>))))"

section \<open>The request boundary\<close>

fun parse_digits :: "int \<Rightarrow> gostring \<Rightarrow> int option" where
  "parse_digits acc [] = Some acc"
| "parse_digits acc (c # s) = (if is_digit c then parse_digits (10 * acc + int (byte c) - 48) s else None)"

definition ParseInt64 :: "gostring \<Rightarrow> int option" where
  "ParseInt64 s =
     (let (neg, ds) = (case s of [] \<Rightarrow> (False, [])
                        | c # r \<Rightarrow> if c = CHR ''-'' then (True, r) else if c = CHR ''+'' then (False, r) else (False, s)) in
      if ds = [] then None
      else case parse_digits 0 ds of
          None \<Rightarrow> None
        | Some n \<Rightarrow> (let v = (if neg then - n else n) in if int64 v then Some v else None))"

fun join_slash :: "gostring list \<Rightarrow> gostring" where
  "join_slash [] = []"
| "join_slash [x] = x"
| "join_slash (x # y # xs) = x @ ''/'' @ join_slash (y # xs)"

record WriteChapter =
  wc_Ordinal :: int
  wc_TaskType :: gostring
  wc_TaskOutcome :: bool

record AddChapterBody =
  ab_Chapter :: "(WriteChapter \<times> gostring list) option"
  ab_Artifacts :: "gostring list"

record SubmitBody =
  sb_Cell :: gostring
  sb_JobType :: gostring
  sb_Schema :: bool

record body_lib =
  bl_Name :: "gostring \<Rightarrow> gostring option"
  bl_Cell :: "gostring \<Rightarrow> gostring option"
  bl_Chapter :: "gostring \<Rightarrow> AddChapterBody option"
  bl_Submit :: "gostring \<Rightarrow> SubmitBody option"

datatype verb = MethodGet | MethodPost | MethodPut | MethodOther gostring

record HTTPRequest =
  rq_Method :: verb
  rq_Tokens :: "gostring list"
  rq_Path :: gostring
  rq_Body :: "gostring option"

text \<open>The \<open>switch\<close> over the routes a delegated credential may use.\<close>

definition routeAllowed :: "DelegationPermissions \<Rightarrow> verb \<Rightarrow> gostring list \<Rightarrow> bool" where
  "routeAllowed policy meth p =
     (let suffix = join_slash (drop 8 p) in
      if meth = MethodGet \<and> length p = 8 then True
      else if meth = MethodGet \<and> suffix = ''chapters'' then dp_Read policy \<noteq> None
      else if meth = MethodGet \<and> length p = 10 \<and> p ! 8 = ''chapters''
        then (case ParseInt64 (p ! 9) of None \<Rightarrow> False | Some n \<Rightarrow> chaptersAllow (dp_Read policy) n)
      else if meth = MethodPost \<and> suffix = ''secrets/resolve'' then 0 < length (dp_Secrets policy)
      else if meth = MethodPost \<and> suffix = ''add_chapter'' then dp_Write policy \<noteq> None
      else if meth = MethodPost \<and> suffix = ''cells/resolve'' then dp_Submit policy \<noteq> None
      else if meth = MethodPost \<and> suffix = ''cells/lookup'' then True
      else if meth = MethodPost \<and> suffix = ''cells'' then dp_CreateCells policy \<noteq> None
      else if meth = MethodPost \<and> suffix = ''jobs''
        then (case dp_Submit policy of None \<Rightarrow> False | Some s \<Rightarrow> dn_Any (ds_JobIDs s))
      else if meth = MethodPut \<and> length p = 10 \<and> p ! 8 = ''jobs''
        then (case unescape (p ! 9) of None \<Rightarrow> False
              | Some i \<Rightarrow> (case dp_Submit policy of None \<Rightarrow> False | Some s \<Rightarrow> namesAllow (ds_JobIDs s) i))
      else False)"

definition cellAllowed :: "DelegationSubmitPermission \<Rightarrow> gostring \<Rightarrow> bool" where
  "cellAllowed s cell = (case ds_CellNames s of None \<Rightarrow> True | Some ns \<Rightarrow> namesAllow ns cell)"

definition invalidRequest :: error where
  "invalidRequest = ErrDelegation 400 ''invalid_delegation_request''"

text \<open>The checks of the request body, by route.  Dereferencing an absent permission is not reached.\<close>

definition bodyAllowed :: "body_lib \<Rightarrow> DelegationPermissions \<Rightarrow> gostring \<Rightarrow> gostring \<Rightarrow> error + unit" where
  "bodyAllowed bl policy suffix raw =
     (if suffix = ''cells'' then
        (case bl_Name bl raw of
           None \<Rightarrow> Inl invalidRequest
         | Some name \<Rightarrow>
             if ValidateCellName name \<noteq> Inr () then Inl invalidRequest
             else if \<not> namesAllow (the (dp_CreateCells policy)) name then Inl delegationDenied else Inr ())
      else if suffix = ''cells/resolve'' then
        (case bl_Cell bl raw of
           None \<Rightarrow> Inl invalidRequest
         | Some cell \<Rightarrow>
             if ValidateCellName cell \<noteq> Inr () then Inl invalidRequest
             else if \<not> cellAllowed (the (dp_Submit policy)) cell then Inl delegationDenied else Inr ())
      else if suffix = ''add_chapter'' then
        (case bl_Chapter bl raw of
           None \<Rightarrow> Inl invalidRequest
         | Some body \<Rightarrow> (case ab_Chapter body of
             None \<Rightarrow> Inl invalidRequest
           | Some (chapter, uploads) \<Rightarrow>
               (let w = the (dp_Write policy) in
                if wc_Ordinal chapter \<notin> set (dw_Ordinals w) \<or> \<not> namesAllow (dw_TaskTypes w) (wc_TaskType chapter)
                then Inl delegationDenied
                else if \<not> wc_TaskOutcome chapter then Inl delegationDenied
                else if \<not> list_all (namesAllow (dw_ArtifactNames w)) uploads then Inl delegationDenied
                else if \<not> list_all (\<lambda>a. a \<in> set uploads) (ab_Artifacts body) then Inl delegationDenied
                else Inr ())))
      else
        (case bl_Submit bl raw of
           None \<Rightarrow> Inl invalidRequest
         | Some body \<Rightarrow>
             if \<not> cellAllowed (the (dp_Submit policy)) (sb_Cell body)
               \<or> \<not> namesAllow (ds_JobTypes (the (dp_Submit policy))) (sb_JobType body) \<or> sb_Schema body
             then Inl delegationDenied else Inr ()))"

definition authorizeRequest :: "body_lib \<Rightarrow> DelegationPermissions \<Rightarrow> verb \<Rightarrow> gostring list \<Rightarrow> gostring option \<Rightarrow> error + unit" where
  "authorizeRequest bl policy meth p body =
     (let suffix = join_slash (drop 8 p) in
      if meth = MethodPost \<and> suffix = ''keepalive'' then Inr ()
      else if \<not> routeAllowed policy meth p then Inl delegationDenied
      else if meth = MethodGet \<or> suffix = ''secrets/resolve'' \<or> suffix = ''cells/lookup'' then Inr ()
      else case body of
          None \<Rightarrow> Inl invalidRequest
        | Some raw \<Rightarrow> if 64 * 2 ^ 20 < int (length raw) then Inl invalidRequest else bodyAllowed bl policy suffix raw)"

definition admitDelegated ::
  "token_lib \<Rightarrow> body_lib \<Rightarrow> leaseTokenSigner \<Rightarrow> lease_check \<Rightarrow> instant \<Rightarrow> gostring \<Rightarrow> HTTPRequest \<Rightarrow> error + unit" where
  "admitDelegated lib bl s check now token r =
     (let p = split_slash (rq_Path r) in
      if length p < 8 \<or> p ! 1 \<noteq> ''v1'' \<or> p ! 2 \<noteq> ''tenants'' \<or> p ! 4 \<noteq> ''jobs'' \<or> p ! 6 \<noteq> ''leases'' then Inl delegationDenied
      else case (unescape (p ! 3), unescape (p ! 5), unescape (p ! 7)) of
        (Some tenant, Some job, Some lease) \<Rightarrow>
          rbind (checkedDelegation lib s check now token (JobKey tenant job) lease) (\<lambda>(c, _).
            authorizeRequest bl (di_Permissions (cl_Grant c)) (rq_Method r) p (rq_Body r))
      | _ \<Rightarrow> Inl delegationDenied)"

definition prepareDelegationRequest ::
  "token_lib \<Rightarrow> body_lib \<Rightarrow> leaseTokenSigner \<Rightarrow> lease_check \<Rightarrow> instant \<Rightarrow> HTTPRequest \<Rightarrow> error + unit" where
  "prepareDelegationRequest lib bl s check now r =
     (let token = (case rq_Tokens r of [] \<Rightarrow> [] | t # _ \<Rightarrow> t) in
      if \<not> isDelegationToken token then Inr ()
      else if length (rq_Tokens r) \<noteq> 1 then Inl (ErrDelegation 401 ''invalid_delegation_credential'')
      else admitDelegated lib bl s check now token r)"

text \<open>\<open>ResolveSecretsWithLease\<close>: the names a credential hands on to the backend.\<close>

definition secretNames ::
  "token_lib \<Rightarrow> leaseTokenSigner \<Rightarrow> lease_check \<Rightarrow> instant \<Rightarrow> gostring \<Rightarrow> JobKey \<Rightarrow> gostring \<Rightarrow> gostring list \<Rightarrow>
   error + gostring list" where
  "secretNames lib s check now token key leaseID names =
     (case validatedLeaseClaims lib s check now token key leaseID of
        Inl _ \<Rightarrow> Inl ErrExecutionLeaseLost
      | Inr _ \<Rightarrow>
          if isDelegationToken token
          then rbind (checkedDelegation lib s check now token key leaseID) (\<lambda>(c, _).
                 let allowed = dp_Secrets (di_Permissions (cl_Grant c)) in
                 if length allowed = 0 then Inl delegationDenied
                 else Inr (filter (\<lambda>n. n \<in> set allowed) names))
          else Inr names)"

end
