(* ===== verification/Delegation_Properties.thy ===== *)
theory Delegation_Properties
  imports Delegation_Server
begin

text \<open>
  What a delegated credential can do.  The subset tests are exact for their selectors, every further
  caveat of a grant only narrows the requests the boundary admits, and the permissions a decoded
  grant carries admit exactly the requests all of its restrictions admit.
\<close>

section \<open>Selectors\<close>

definition perm_int64 :: "DelegationPermissions \<Rightarrow> bool" where
  "perm_int64 p \<longleftrightarrow> (case dp_Read p of None \<Rightarrow> True | Some r \<Rightarrow>
     list_all int64 (dc_Ordinals r) \<and> list_all (\<lambda>x. int64 (r_Start x) \<and> int64 (r_End x)) (dc_Ranges r))"

definition policy_ok :: "DelegationPermissions \<Rightarrow> bool" where
  "policy_ok p \<longleftrightarrow> perm_int64 p \<and> validateDelegationPolicy p = Inr ()"

lemma policy_ok_chapters: "policy_ok p \<Longrightarrow> case_option True chapters_ok (dp_Read p)"
  by (auto simp: policy_ok_def perm_int64_def validateDelegationPolicy_def chapters_ok_def range_ok_def int64_def
      valid_ordinals_def list_all_iff list_ex_iff not_less split: if_splits option.splits)

lemma infinite_strings: "\<exists>n :: gostring. n \<notin> set ns"
  using infinite_UNIV_listI by (metis UNIV_eq_I ex_new_if_finite finite_set)

lemma namesSubset_iff: "namesSubset c p \<longleftrightarrow> (\<forall>n. namesAllow c n \<longrightarrow> namesAllow p n)"
  using infinite_strings[of "dn_Names p"] by (auto simp: namesSubset_def namesAllow_def list_all_iff)

lemma permissionsSubsetD:
  assumes "permissionsSubset c p"
  shows "dp_CreateCells c = Some x \<Longrightarrow> \<exists>y. dp_CreateCells p = Some y \<and> namesSubset x y"
    and "dp_Submit c = Some v \<Longrightarrow> \<exists>y. dp_Submit p = Some y \<and> namesSubset (ds_JobTypes v) (ds_JobTypes y)
           \<and> namesSubset (ds_JobIDs v) (ds_JobIDs y) \<and> cellNamesSubset (ds_CellNames v) (ds_CellNames y)"
    and "set (dp_Secrets c) \<subseteq> set (dp_Secrets p)"
    and "chaptersSubset (dp_Read c) (dp_Read p)"
    and "dp_Write c = Some w \<Longrightarrow> \<exists>y. dp_Write p = Some y \<and> ordinalsSubset (dw_Ordinals w) (dw_Ordinals y)
           \<and> namesSubset (dw_TaskTypes w) (dw_TaskTypes y) \<and> namesSubset (dw_ArtifactNames w) (dw_ArtifactNames y)"
  using assms by (auto simp: permissionsSubset_def namesSubset_def just_names_def list_all_iff split: if_splits option.splits)

lemma cellAllowed_mono: "cellNamesSubset (ds_CellNames x) (ds_CellNames y) \<Longrightarrow> cellAllowed x n \<Longrightarrow> cellAllowed y n"
  by (auto simp: cellNamesSubset_def cellAllowed_def namesSubset_iff split: option.splits)

lemma namesSubset_Any: "namesSubset x y \<Longrightarrow> dn_Any x \<Longrightarrow> dn_Any y"
  by (auto simp: namesSubset_def split: if_splits)

section \<open>Requests under a narrower policy\<close>

lemma join_two [simp]: "join_slash [a, b] = a @ ''/'' @ b" by simp

lemma drop8_two: "length p = 10 \<Longrightarrow> drop 8 p = [p ! 8, p ! 9]"
  by (simp add: Cons_nth_drop_Suc [symmetric] numeral_eq_Suc)

lemma if_imp: "(x \<longrightarrow> x') \<Longrightarrow> (y \<longrightarrow> y') \<Longrightarrow> (if b then x else y) \<longrightarrow> (if b then x' else y')"
  by simp

lemma option_imp: "(\<And>n. f n \<longrightarrow> g n) \<Longrightarrow> case_option False f v \<longrightarrow> case_option False g v"
  by (simp split: option.splits)

lemma routeAllowed_mono:
  assumes sub: "permissionsSubset c p" and ok: "policy_ok c" "policy_ok p" and c: "routeAllowed c meth path"
  shows "routeAllowed p meth path"
proof -
  have r: "dp_Read c \<noteq> None \<Longrightarrow> dp_Read p \<noteq> None"
    using permissionsSubsetD(4)[OF sub] by (auto simp: chaptersSubset_def split: option.splits)
  have s: "0 < length (dp_Secrets c) \<Longrightarrow> 0 < length (dp_Secrets p)" using permissionsSubsetD(3)[OF sub] by auto
  have ch: "chaptersAllow (dp_Read c) n \<Longrightarrow> chaptersAllow (dp_Read p) n" for n
    using chaptersSubset_sound[OF policy_ok_chapters[OF ok(1)] policy_ok_chapters[OF ok(2)] permissionsSubsetD(4)[OF sub]] .
  have w: "dp_Write c \<noteq> None \<Longrightarrow> dp_Write p \<noteq> None" using permissionsSubsetD(5)[OF sub] by blast
  have sb: "dp_Submit c \<noteq> None \<Longrightarrow> dp_Submit p \<noteq> None" using permissionsSubsetD(2)[OF sub] by blast
  have cc: "dp_CreateCells c \<noteq> None \<Longrightarrow> dp_CreateCells p \<noteq> None" using permissionsSubsetD(1)[OF sub] by blast
  have any: "case_option False (\<lambda>s. dn_Any (ds_JobIDs s)) (dp_Submit c) \<Longrightarrow>
      case_option False (\<lambda>s. dn_Any (ds_JobIDs s)) (dp_Submit p)"
    using permissionsSubsetD(2)[OF sub] namesSubset_Any by (fastforce split: option.splits)
  have na: "case_option False (\<lambda>s. namesAllow (ds_JobIDs s) i) (dp_Submit c) \<Longrightarrow>
      case_option False (\<lambda>s. namesAllow (ds_JobIDs s) i) (dp_Submit p)" for i
    using permissionsSubsetD(2)[OF sub] namesSubset_iff by (fastforce split: option.splits)
  have "routeAllowed c meth path \<longrightarrow> routeAllowed p meth path"
    unfolding routeAllowed_def Let_def
    by (intro if_imp option_imp) (use r s ch w sb cc any na in simp_all)
  then show ?thesis using c by blast
qed

lemma routeAllowed_needs:
  assumes "routeAllowed c meth path" "meth \<noteq> MethodGet" and sx: "sx = join_slash (drop 8 path)"
    and "sx \<noteq> ''secrets/resolve''" "sx \<noteq> ''cells/lookup''"
  shows "if sx = ''cells'' then dp_CreateCells c \<noteq> None else if sx = ''add_chapter'' then dp_Write c \<noteq> None else dp_Submit c \<noteq> None"
proof -
  have jobs: "length path = 10 \<Longrightarrow> path ! 8 = ''jobs'' \<Longrightarrow> sx \<noteq> ''cells'' \<and> sx \<noteq> ''add_chapter''"
    unfolding sx by (simp add: drop8_two)
  show ?thesis using assms(1,2,4,5) jobs unfolding routeAllowed_def Let_def sx[symmetric]
    by (simp split: if_split_asm option.split_asm)
qed

lemma bodyAllowed_mono:
  assumes sub: "permissionsSubset c p" and c: "bodyAllowed bl c sx raw = Inr ()"
    and need: "if sx = ''cells'' then dp_CreateCells c \<noteq> None else if sx = ''add_chapter'' then dp_Write c \<noteq> None else dp_Submit c \<noteq> None"
  shows "bodyAllowed bl p sx raw = Inr ()"
proof -
  consider (cells) "sx = ''cells''" | (addch) "sx = ''add_chapter''" | (resolve) "sx = ''cells/resolve''"
    | (submit) "sx \<noteq> ''cells''" "sx \<noteq> ''add_chapter''" "sx \<noteq> ''cells/resolve''" by blast
  then show ?thesis
  proof cases
    case cells
    then obtain x y where "dp_CreateCells c = Some x" "dp_CreateCells p = Some y" "namesSubset x y"
      using need permissionsSubsetD(1)[OF sub] by auto
    then show ?thesis using c cells by (auto simp: bodyAllowed_def namesSubset_iff split: option.split_asm if_split_asm)
  next
    case addch
    then obtain x y where w: "dp_Write c = Some x" "dp_Write p = Some y" "ordinalsSubset (dw_Ordinals x) (dw_Ordinals y)"
        "namesSubset (dw_TaskTypes x) (dw_TaskTypes y)" "namesSubset (dw_ArtifactNames x) (dw_ArtifactNames y)"
      using need permissionsSubsetD(5)[OF sub] by auto
    obtain body ch ups where b: "bl_Chapter bl raw = Some body" "ab_Chapter body = Some (ch, ups)"
      "wc_Ordinal ch \<in> set (dw_Ordinals x)" "namesAllow (dw_TaskTypes x) (wc_TaskType ch)" "wc_TaskOutcome ch"
      "list_all (namesAllow (dw_ArtifactNames x)) ups" "list_all (\<lambda>a. a \<in> set ups) (ab_Artifacts body)"
      using c addch w(1) by (auto simp: bodyAllowed_def Let_def split: option.split_asm if_split_asm)
    have "wc_Ordinal ch \<in> set (dw_Ordinals y)" using b(3) w(3) by (auto simp: ordinalsSubset_def list_all_iff)
    moreover have "namesAllow (dw_TaskTypes y) (wc_TaskType ch)" using b(4) w(4) namesSubset_iff by blast
    moreover have "list_all (namesAllow (dw_ArtifactNames y)) ups"
      using b(6) w(5) namesSubset_iff by (auto simp: list_all_iff)
    ultimately show ?thesis using addch b w(2) by (simp add: bodyAllowed_def Let_def)
  next
    case resolve
    then obtain x y where w: "dp_Submit c = Some x" "dp_Submit p = Some y" "cellNamesSubset (ds_CellNames x) (ds_CellNames y)"
      using need permissionsSubsetD(2)[OF sub] by auto
    then show ?thesis using c resolve cellAllowed_mono[OF w(3)]
      by (auto simp: bodyAllowed_def split: option.split_asm if_split_asm)
  next
    case submit
    then obtain x y where w: "dp_Submit c = Some x" "dp_Submit p = Some y" "cellNamesSubset (ds_CellNames x) (ds_CellNames y)"
        "namesSubset (ds_JobTypes x) (ds_JobTypes y)"
      using need permissionsSubsetD(2)[OF sub] by auto
    then show ?thesis using c submit cellAllowed_mono[OF w(3)]
      by (auto simp: bodyAllowed_def namesSubset_iff split: option.split_asm if_split_asm)
  qed
qed

lemma authorizeRequest_mono:
  assumes sub: "permissionsSubset c p" and ok: "policy_ok c" "policy_ok p"
    and c: "authorizeRequest bl c meth path body = Inr ()"
  shows "authorizeRequest bl p meth path body = Inr ()"
proof -
  let ?sx = "join_slash (drop 8 path)"
  consider (alive) "meth = MethodPost" "?sx = ''keepalive''"
    | (plain) "routeAllowed c meth path" "meth = MethodGet \<or> ?sx = ''secrets/resolve'' \<or> ?sx = ''cells/lookup''"
    | (body) raw where "routeAllowed c meth path" "meth \<noteq> MethodGet" "?sx \<noteq> ''secrets/resolve''" "?sx \<noteq> ''cells/lookup''"
        "body = Some raw" "\<not> 64 * 2 ^ 20 < int (length raw)" "bodyAllowed bl c ?sx raw = Inr ()"
    using c unfolding authorizeRequest_def Let_def
    by (simp split: if_split_asm option.split_asm)
  then show ?thesis
  proof cases
    case alive then show ?thesis by (simp add: authorizeRequest_def)
  next
    case plain then show ?thesis using routeAllowed_mono[OF sub ok plain(1)] by (simp add: authorizeRequest_def Let_def)
  next
    case body
    have "bodyAllowed bl p ?sx raw = Inr ()"
      by (rule bodyAllowed_mono[OF sub body(7) routeAllowed_needs[OF body(1,2) refl body(3,4)]])
    then show ?thesis using routeAllowed_mono[OF sub ok body(1)] body by (simp add: authorizeRequest_def Let_def)
  qed
qed

section \<open>Chains of caveats\<close>

abbreviation caveat_step :: "token_lib \<Rightarrow> Caveat \<Rightarrow> error + grantStep" where
  "caveat_step lib cv \<equiv> decodeCanonical (tk_json_step lib) (tk_step_json lib) (cv_Id cv)"

definition json_int64 :: "token_lib \<Rightarrow> bool" where
  "json_int64 lib \<longleftrightarrow> (\<forall>raw step. tk_json_step lib raw = Some step \<longrightarrow> perm_int64 (st_Permissions step))"

definition live :: "instant \<Rightarrow> zoned option \<Rightarrow> bool" where
  "live now t = (case t of None \<Rightarrow> True | Some (t, _) \<Rightarrow> now < t)"

lemma decodeCanonical_Inr: "decodeCanonical f g raw = Inr v \<longleftrightarrow> f raw = Some v \<and> g v = Some raw"
  by (auto simp: decodeCanonical_def split: option.splits)

lemma applyCaveat_cases:
  assumes "applyCaveat lib first cv g = Inr g'"
  obtains step where "caveat_step lib cv = Inr step" "stepOK step" "cv_VerificationId cv = []" "cv_Location cv = []"
    "first \<or> permissionsSubset (st_Permissions step) (di_Permissions g)"
    "\<forall>t z t' z'. di_NotAfter g = Some (t, z) \<longrightarrow> st_NotAfter step = Some (t', z') \<longrightarrow> t' \<le> t"
    "g' = \<lparr>di_ID = st_ID step, di_Permissions = st_Permissions step,
          di_NotAfter = (case st_NotAfter step of None \<Rightarrow> di_NotAfter g | Some t \<Rightarrow> Some t)\<rparr>"
  using assms unfolding applyCaveat_def
  by (force split: if_split_asm sum.split_asm option.split_asm prod.split_asm)

lemma step_policy_ok:
  assumes "json_int64 lib" "caveat_step lib cv = Inr step" "stepOK step"
  shows "policy_ok (st_Permissions step)"
  using assms by (auto simp: policy_ok_def json_int64_def stepOK_def decodeCanonical_Inr)

lemma applyCaveat_live:
  assumes "applyCaveat lib first cv g = Inr g'" "caveat_step lib cv = Inr step"
  shows "live now (di_NotAfter g') \<longleftrightarrow> live now (di_NotAfter g) \<and> live now (st_NotAfter step)"
  using assms(1)
proof (cases rule: applyCaveat_cases)
  case (1 step')
  then have "step' = step" using assms(2) by simp
  then show ?thesis using 1(6,7) by (fastforce simp: live_def split: option.splits)
qed

lemma caveatLoop_conj:
  assumes "json_int64 lib" "caveatLoop lib False cvs g = Inr g'" "policy_ok (di_Permissions g)"
  shows "(authorizeRequest bl (di_Permissions g') meth path body = Inr () \<longleftrightarrow>
      authorizeRequest bl (di_Permissions g) meth path body = Inr () \<and>
      (\<forall>cv\<in>set cvs. \<exists>step. caveat_step lib cv = Inr step \<and> authorizeRequest bl (st_Permissions step) meth path body = Inr ()))
    \<and> (live now (di_NotAfter g') \<longleftrightarrow> live now (di_NotAfter g) \<and>
      (\<forall>cv\<in>set cvs. \<exists>step. caveat_step lib cv = Inr step \<and> live now (st_NotAfter step)))"
  using assms(2,3)
proof (induction cvs arbitrary: g)
  case (Cons cv cvs)
  from Cons.prems(1) obtain g1 where g1: "applyCaveat lib False cv g = Inr g1" "caveatLoop lib False cvs g1 = Inr g'"
    by (auto simp: rbind_Inr_iff)
  from g1(1) obtain step where step: "caveat_step lib cv = Inr step" "stepOK step"
    "permissionsSubset (st_Permissions step) (di_Permissions g)" "di_Permissions g1 = st_Permissions step"
    by (cases rule: applyCaveat_cases) auto
  have ok: "policy_ok (di_Permissions g1)" using step_policy_ok[OF assms(1) step(1,2)] step(4) by simp
  have "authorizeRequest bl (di_Permissions g1) meth path body = Inr () \<Longrightarrow> authorizeRequest bl (di_Permissions g) meth path body = Inr ()"
    using authorizeRequest_mono[OF step(3)] ok Cons.prems(2) step(4) by simp
  then show ?case using Cons.IH[OF g1(2) ok] step(1,4) applyCaveat_live[OF g1(1) step(1)] by auto
qed simp

lemma caveatLoop_append:
  "caveatLoop lib first (xs @ ys) g = rbind (caveatLoop lib first xs g) (caveatLoop lib (first \<and> xs = []) ys)"
  by (induction xs arbitrary: first g) (auto simp: rbind_def split: sum.splits)

lemma caveatLoop_first_ok:
  assumes "json_int64 lib" "caveatLoop lib True cvs g = Inr g'" "cvs \<noteq> []"
  shows "policy_ok (di_Permissions g')"
proof -
  obtain xs cv where cvs: "cvs = xs @ [cv]" using assms(3) by (metis rev_exhaust)
  have "rbind (caveatLoop lib True xs g) (caveatLoop lib (xs = []) [cv]) = Inr g'"
    using assms(2) unfolding cvs caveatLoop_append by simp
  then obtain g1 where "applyCaveat lib (xs = []) cv g1 = Inr g'" by (auto simp: rbind_Inr_iff)
  then show ?thesis using step_policy_ok[OF assms(1)] by (cases rule: applyCaveat_cases) auto
qed

section \<open>Decoded grants\<close>

definition zero_info :: DelegationInfo where
  "zero_info = \<lparr>di_ID = [], di_Permissions = no_permissions, di_NotAfter = None\<rparr>"

lemma decodeGrant_cases:
  assumes "decodeGrant lib t allowRoot = Inr (m, root, c)"
  obtains g raw where "isDelegationToken t" "int (length t) \<le> maxDelegationTokenBytes"
    "decodeTokenBase64 lib (trim_prefix t delegationTokenPrefix) = Inr raw"
    "mac_UnmarshalBinary lib raw = Some m" "mac_MarshalBinary lib m = Some raw" "m_Version m = 2" "m_Location m = []"
    "decodeCanonical (tk_json_root lib) (tk_root_json lib) (m_Id m) = Inr root" "rootOK root"
    "length (m_Caveats m) \<le> maxDelegationDepth" "allowRoot \<or> m_Caveats m \<noteq> [] \<and> gp_WorkerID (gr_Parent root) \<noteq> []"
    "caveatLoop lib True (m_Caveats m) zero_info = Inr g"
    "c = \<lparr>cl_GoalID = [], cl_Parent = grantParent_claims (gr_Parent root), cl_Grant = g,
          cl_Route = Route [] [], cl_ExpiresAt = zero_time\<rparr>"
  using assms unfolding decodeGrant_def zero_info_def[symmetric]
  by (auto simp: rbind_Inr_iff not_less split: if_split_asm option.split_asm)

lemma decodeGrant_intro:
  assumes "isDelegationToken t" "int (length t) \<le> maxDelegationTokenBytes"
    "decodeTokenBase64 lib (trim_prefix t delegationTokenPrefix) = Inr raw"
    "mac_UnmarshalBinary lib raw = Some m" "mac_MarshalBinary lib m = Some raw" "m_Version m = 2" "m_Location m = []"
    "decodeCanonical (tk_json_root lib) (tk_root_json lib) (m_Id m) = Inr root" "rootOK root"
    "length (m_Caveats m) \<le> maxDelegationDepth" "m_Caveats m \<noteq> []" "gp_WorkerID (gr_Parent root) \<noteq> []"
    "caveatLoop lib True (m_Caveats m) zero_info = Inr g"
  shows "decodeGrant lib t allowRoot = Inr (m, root, \<lparr>cl_GoalID = [], cl_Parent = grantParent_claims (gr_Parent root),
     cl_Grant = g, cl_Route = Route [] [], cl_ExpiresAt = zero_time\<rparr>)"
  using assms unfolding decodeGrant_def zero_info_def[symmetric] by (simp add: rbind_def)

lemma verifyGrant_iff:
  "verifyGrant lib s t allowRoot = Inr (m, root, c) \<longleftrightarrow>
     decodeGrant lib t allowRoot = Inr (m, root, c) \<and> gr_Audience root = audienceID s \<and> gr_KeyID root = grantKeyID lib s
     \<and> mac_VerifySignature lib (grantKey lib s) m"
  by (auto simp: verifyGrant_def rbind_Inr_iff split: if_split_asm)

lemma checkedDelegation_verified:
  assumes "verifyGrant lib s t False = Inr (m, root, c)"
  shows "checkedDelegation lib s check now t key leaseID =
    (if claims_key c \<noteq> key \<or> lt_LeaseID (cl_Parent c) \<noteq> leaseID
     then Inl (ErrDelegation 401 ''invalid_delegation_credential'')
     else rbind (parentValidity check now (cl_Parent c)) (\<lambda>v.
       if \<not> live now (di_NotAfter (cl_Grant c)) then Inl (ErrDelegation 403 ''delegation_deadline_reached'')
       else Inr ((setExpiry (lv_ExpiresAt v) c)\<lparr>cl_Route := lv_Route v, cl_GoalID := lv_GoalID v,
                   cl_Parent := (cl_Parent c)\<lparr>lt_Cell := lv_Cell v\<rparr>\<rparr>, v)))"
proof -
  have "(case di_NotAfter (cl_Grant c) of None \<Rightarrow> False | Some (t, _) \<Rightarrow> \<not> now < t) = (\<not> live now (di_NotAfter (cl_Grant c)))"
    by (auto simp: live_def split: option.splits)
  then show ?thesis using assms unfolding checkedDelegation_def parseDelegation_def by (simp add: rbind_def)
qed

lemma setExpiry_grant [simp]: "cl_Grant (setExpiry e c) = cl_Grant c"
  by (auto simp: setExpiry_def split: option.splits)

lemma admitDelegated_iff:
  assumes "verifyGrant lib s t False = Inr (m, root, c)"
  shows "admitDelegated lib bl s check now t r = Inr () \<longleftrightarrow>
    (let p = split_slash (rq_Path r) in
     \<not> (length p < 8 \<or> p ! 1 \<noteq> ''v1'' \<or> p ! 2 \<noteq> ''tenants'' \<or> p ! 4 \<noteq> ''jobs'' \<or> p ! 6 \<noteq> ''leases'')
     \<and> unescape (p ! 3) = Some (lt_TenantID (cl_Parent c)) \<and> unescape (p ! 5) = Some (lt_JobID (cl_Parent c))
     \<and> unescape (p ! 7) = Some (lt_LeaseID (cl_Parent c))
     \<and> (\<exists>v. parentValidity check now (cl_Parent c) = Inr v) \<and> live now (di_NotAfter (cl_Grant c))
     \<and> authorizeRequest bl (di_Permissions (cl_Grant c)) (rq_Method r) p (rq_Body r) = Inr ())"
  unfolding admitDelegated_def Let_def
  by (auto simp: checkedDelegation_verified[OF assms] rbind_Inr_iff claims_key_def split: option.split_asm if_split_asm)

lemma grant_narrows:
  assumes lib: "json_int64 lib"
    and t: "verifyGrant lib s t False = Inr (m, root, c)" and t': "verifyGrant lib s t' False = Inr (m', root', c')"
    and ext: "m_Id m' = m_Id m" "m_Caveats m' = m_Caveats m @ extra"
  shows "cl_Parent c' = cl_Parent c" (is ?a) and "live now (di_NotAfter (cl_Grant c')) \<Longrightarrow> live now (di_NotAfter (cl_Grant c))" (is "?b \<Longrightarrow> _")
    and "authorizeRequest bl (di_Permissions (cl_Grant c')) meth path body = Inr () \<Longrightarrow>
         authorizeRequest bl (di_Permissions (cl_Grant c)) meth path body = Inr ()" (is "?c \<Longrightarrow> _")
proof -
  from t have "decodeGrant lib t False = Inr (m, root, c)" by (simp add: verifyGrant_iff)
  then obtain g where g: "decodeCanonical (tk_json_root lib) (tk_root_json lib) (m_Id m) = Inr root" "m_Caveats m \<noteq> []"
      "caveatLoop lib True (m_Caveats m) zero_info = Inr g" "cl_Grant c = g" "cl_Parent c = grantParent_claims (gr_Parent root)"
    by (cases rule: decodeGrant_cases) auto
  from t' have "decodeGrant lib t' False = Inr (m', root', c')" by (simp add: verifyGrant_iff)
  then obtain g' where g': "decodeCanonical (tk_json_root lib) (tk_root_json lib) (m_Id m') = Inr root'"
      "caveatLoop lib True (m_Caveats m') zero_info = Inr g'" "cl_Grant c' = g'" "cl_Parent c' = grantParent_claims (gr_Parent root')"
    by (cases rule: decodeGrant_cases) auto
  show ?a using g g' ext by simp
  have "caveatLoop lib False extra g = Inr g'"
    using g'(2) g(2,3) unfolding ext(2) caveatLoop_append by (simp add: rbind_def)
  note conj = caveatLoop_conj[OF lib this caveatLoop_first_ok[OF lib g(3,2)], of bl meth path body now]
  show "live now (di_NotAfter (cl_Grant c))" if ?b using conj that g(4) g'(3) by simp
  show "authorizeRequest bl (di_Permissions (cl_Grant c)) meth path body = Inr ()" if ?c using conj that g(4) g'(3) by simp
qed

section \<open>A concrete library\<close>

text \<open>
  Bytes are spelled out as bits, marshalled values are table entries, and a signature is the key
  followed by everything that was signed.
\<close>

definition bit_char :: "bool \<Rightarrow> char" where "bit_char b = (if b then CHR ''1'' else CHR ''0'')"

fun demo_bits :: "char \<Rightarrow> gostring" where
  "demo_bits (Char a b c d e f g h) = map bit_char [a, b, c, d, e, f, g, h]"

fun demo_unbits :: "gostring \<Rightarrow> gostring option" where
  "demo_unbits [] = Some []"
| "demo_unbits (a # b # c # d # e # f # g # h # s) =
     map_option (\<lambda>t. Char (a = CHR ''1'') (b = CHR ''1'') (c = CHR ''1'') (d = CHR ''1'') (e = CHR ''1'') (f = CHR ''1'')
       (g = CHR ''1'') (h = CHR ''1'') # t) (demo_unbits s)"
| "demo_unbits _ = None"

definition demo_target :: ResolvedCell where
  "demo_target = \<lparr>rc_Cell = ''api'', rc_CellID = ''c1'', rc_CellRepo = ''host/api''\<rparr>"

definition demo_parent :: grantParent where
  "demo_parent = \<lparr>gp_Cell = demo_target, gp_Principal = None, gp_TenantID = ''t'', gp_JobID = ''j'', gp_LeaseID = ''l'',
     gp_WorkerID = ''w'', gp_SchemaHash = []\<rparr>"

definition demo_root :: grantRoot where
  "demo_root = \<lparr>gr_Version = 1, gr_Purpose = grantPurpose, gr_Audience = ''jobdb'', gr_KeyID = ''64'', gr_ID = ''u0'',
     gr_Parent = demo_parent, gr_Ceiling = grantCeiling\<rparr>"

definition demo_reads :: "DelegationOrdinalRange list \<Rightarrow> DelegationPermissions" where
  "demo_reads rs = no_permissions\<lparr>dp_Read := Some \<lparr>dc_Any = False, dc_Ordinals = [], dc_Ranges = rs\<rparr>\<rparr>"

definition demo_step1 :: grantStep where
  "demo_step1 = \<lparr>st_Kind = ''restrict'', st_Version = 1, st_ID = ''u1'', st_Permissions = demo_reads [OrdinalRange 0 4, OrdinalRange 5 9],
     st_NotAfter = None\<rparr>"

definition demo_step2 :: grantStep where
  "demo_step2 = \<lparr>st_Kind = ''restrict'', st_Version = 1, st_ID = ''u2'', st_Permissions = demo_reads [OrdinalRange 3 6],
     st_NotAfter = Some (90000000000, True)\<rparr>"

definition demo_caveat :: "gostring \<Rightarrow> Caveat" where
  "demo_caveat raw = \<lparr>cv_Id = raw, cv_VerificationId = [], cv_Location = []\<rparr>"

definition demo_mac :: "gostring list \<Rightarrow> Macaroon" where
  "demo_mac cvs = \<lparr>m_Version = 2, m_Location = [], m_Id = ''R'', m_Caveats = map demo_caveat cvs, m_Signature = ''kR'' @ concat cvs\<rparr>"

definition demo_token :: "gostring \<Rightarrow> gostring" where
  "demo_token raw = delegationTokenPrefix @ concat (map demo_bits raw)"

definition demo_owner :: leaseTokenClaims where
  "demo_owner = \<lparr>lt_Cell = demo_target, lt_Audience = ''jobdb'', lt_Grant = demo_token ''M0'', lt_Principal = None, lt_TenantID = ''t'',
     lt_JobID = ''j'', lt_LeaseID = ''l'', lt_WorkerID = ''w'', lt_SchemaHash = [], lt_LeaseDurationSeconds = 31, lt_IssuedAt = 10,
     lt_ExpiresAt = 40, lt_ExpiresAtNS = 40000000000\<rparr>"

definition demo_lib :: token_lib where
  "demo_lib = \<lparr>tk_hkdf = (\<lambda>k _. k), tk_sha256 = (\<lambda>_. ''d''), tk_hmac = (\<lambda>_ _. ''h''),
     tk_base64 = (\<lambda>x. concat (map demo_bits x)), tk_unbase64 = demo_unbits,
     tk_root_json = (\<lambda>r. if r = demo_root then Some ''R'' else None),
     tk_json_root = (\<lambda>x. if x = ''R'' then Some demo_root else None),
     tk_step_json = (\<lambda>s. if s = demo_step1 then Some ''S1'' else if s = demo_step2 then Some ''S2'' else None),
     tk_json_step = (\<lambda>x. if x = ''S1'' then Some demo_step1 else if x = ''S2'' then Some demo_step2 else None),
     tk_owner_json = (\<lambda>c. if c = demo_owner then Some ''O'' else None),
     tk_json_owner = (\<lambda>x. if x = ''O'' then Some demo_owner else None),
     tk_parent_json = (\<lambda>p. gp_LeaseID p),
     mac_New = (\<lambda>k i. Some \<lparr>m_Version = 2, m_Location = [], m_Id = i, m_Caveats = [], m_Signature = k @ i\<rparr>),
     mac_AddFirstPartyCaveat = (\<lambda>raw m. Some (m\<lparr>m_Caveats := m_Caveats m @ [demo_caveat raw], m_Signature := m_Signature m @ raw\<rparr>)),
     mac_VerifySignature = (\<lambda>k m. m_Signature m = k @ m_Id m @ concat (map cv_Id (m_Caveats m))),
     mac_MarshalBinary = (\<lambda>m. if m = demo_mac [] then Some ''M0'' else if m = demo_mac [''S1''] then Some ''M1''
        else if m = demo_mac [''S1'', ''S2''] then Some ''M2'' else None),
     mac_UnmarshalBinary = (\<lambda>x. if x = ''M0'' then Some (demo_mac []) else if x = ''M1'' then Some (demo_mac [''S1''])
        else if x = ''M2'' then Some (demo_mac [''S1'', ''S2'']) else None)\<rparr>"

definition demo_signer :: leaseTokenSigner where
  "demo_signer = \<lparr>sg_key = ''k'', sg_audience = []\<rparr>"

definition demo_check :: lease_check where
  "demo_check = Some (\<lambda>_ _ _. Inr \<lparr>lv_Cell = demo_target, lv_GoalID = ''g'', lv_ExpiresAt = 60000000000, lv_Route = Route ''a'' []\<rparr>)"

definition demo_bodies :: body_lib where
  "demo_bodies = \<lparr>bl_Name = (\<lambda>_. None), bl_Cell = (\<lambda>_. None), bl_Chapter = (\<lambda>_. None), bl_Submit = (\<lambda>_. None)\<rparr>"

definition demo_get :: "gostring \<Rightarrow> HTTPRequest" where
  "demo_get n = \<lparr>rq_Method = MethodGet, rq_Tokens = [], rq_Path = ''/v1/tenants/t/jobs/j/leases/l/chapters/'' @ n, rq_Body = None\<rparr>"

definition demo_claims :: "DelegationInfo \<Rightarrow> delegationClaims" where
  "demo_claims g = \<lparr>cl_GoalID = [], cl_Parent = grantParent_claims demo_parent, cl_Grant = g, cl_Route = Route [] [], cl_ExpiresAt = zero_time\<rparr>"

definition demo_info :: "grantStep \<Rightarrow> DelegationInfo" where
  "demo_info s = \<lparr>di_ID = st_ID s, di_Permissions = st_Permissions s, di_NotAfter = st_NotAfter s\<rparr>"

lemma demo_verified:
  "verifyGrant demo_lib demo_signer (demo_token ''M0'') True = Inr (demo_mac [], demo_root, demo_claims zero_info)"
  "verifyGrant demo_lib demo_signer (demo_token ''M1'') False = Inr (demo_mac [''S1''], demo_root, demo_claims (demo_info demo_step1))"
  "verifyGrant demo_lib demo_signer (demo_token ''M2'') False = Inr (demo_mac [''S1'', ''S2''], demo_root, demo_claims (demo_info demo_step2))"
  by code_simp+

lemma demo_steps_int64: "\<forall>raw step. tk_json_step demo_lib raw = Some step \<longrightarrow> perm_int64 (st_Permissions step)"
proof -
  have "perm_int64 (st_Permissions demo_step1)" "perm_int64 (st_Permissions demo_step2)" by code_simp+
  then show ?thesis by (auto simp: demo_lib_def)
qed

lemma demo_policies: "policy_ok (st_Permissions demo_step1)" "policy_ok (st_Permissions demo_step2)"
  by code_simp+

section \<open>Properties\<close>

text \<open>
  C24. Adding caveats to a delegated credential never adds authority: whatever caveats a holder
  appends to an authenticated grant, with or without the library, a request the boundary admits
  under the longer chain is admitted under the shorter one, at the same instant and against the
  same backend.
\<close>

theorem caveats_only_narrow:
  assumes "\<forall>raw step. tk_json_step lib raw = Some step \<longrightarrow> perm_int64 (st_Permissions step)"
    and "verifyGrant lib s t False = Inr (m, root, c)" and "verifyGrant lib s t' False = Inr (m', root', c')"
    and "m_Id m' = m_Id m" and "m_Caveats m' = m_Caveats m @ extra"
    and "prepareDelegationRequest lib bl s check now (r\<lparr>rq_Tokens := [t']\<rparr>) = Inr ()"
  shows "prepareDelegationRequest lib bl s check now (r\<lparr>rq_Tokens := [t]\<rparr>) = Inr ()"
proof -
  have lib: "json_int64 lib" using assms(1) by (simp add: json_int64_def)
  have del: "isDelegationToken t" "isDelegationToken t'"
    using assms(2,3) by (auto simp: verifyGrant_iff elim: decodeGrant_cases)
  have adm: "admitDelegated lib bl s check now t' (r\<lparr>rq_Tokens := [t']\<rparr>) = Inr ()"
    using assms(6) del(2) by (simp add: prepareDelegationRequest_def)
  note n = grant_narrows[OF lib assms(2-5)]
  have "admitDelegated lib bl s check now t (r\<lparr>rq_Tokens := [t]\<rparr>) = Inr ()"
    using adm n unfolding admitDelegated_iff[OF assms(2)] admitDelegated_iff[OF assms(3)] Let_def by simp
  then show ?thesis using del(1) by (simp add: prepareDelegationRequest_def)
qed

theorem caveats_only_narrow_witness:
  "prepareDelegationRequest demo_lib demo_bodies demo_signer demo_check 20000000000 ((demo_get ''4'')\<lparr>rq_Tokens := [demo_token ''M2'']\<rparr>) = Inr ()
   \<and> prepareDelegationRequest demo_lib demo_bodies demo_signer demo_check 20000000000 ((demo_get ''4'')\<lparr>rq_Tokens := [demo_token ''M1'']\<rparr>) = Inr ()"
proof -
  have r: "prepareDelegationRequest demo_lib demo_bodies demo_signer demo_check 20000000000
      ((demo_get ''4'')\<lparr>rq_Tokens := [demo_token ''M2'']\<rparr>) = Inr ()" by code_simp
  have "m_Id (demo_mac [''S1'', ''S2'']) = m_Id (demo_mac [''S1''])"
    "m_Caveats (demo_mac [''S1'', ''S2'']) = m_Caveats (demo_mac [''S1'']) @ [demo_caveat ''S2'']" by (simp_all add: demo_mac_def)
  from caveats_only_narrow[OF demo_steps_int64 demo_verified(2,3) this r] r show ?thesis by blast
qed

text \<open>
  C25. The permissions and the deadline a decoded grant carries are the conjunction of all its
  restrictions: a request is authorised exactly when every caveat's own permissions authorise it,
  and the grant is live exactly when every caveat's deadline lies ahead.
\<close>

theorem grant_is_conjunction:
  assumes "\<forall>raw step. tk_json_step lib raw = Some step \<longrightarrow> perm_int64 (st_Permissions step)"
    and "verifyGrant lib s t False = Inr (m, root, c)"
  shows "(authorizeRequest bl (di_Permissions (cl_Grant c)) meth path body = Inr () \<longleftrightarrow>
      (\<forall>cv\<in>set (m_Caveats m). \<exists>step. decodeCanonical (tk_json_step lib) (tk_step_json lib) (cv_Id cv) = Inr step
         \<and> authorizeRequest bl (st_Permissions step) meth path body = Inr ()))
    \<and> (live now (di_NotAfter (cl_Grant c)) \<longleftrightarrow>
      (\<forall>cv\<in>set (m_Caveats m). \<exists>step. decodeCanonical (tk_json_step lib) (tk_step_json lib) (cv_Id cv) = Inr step
         \<and> live now (st_NotAfter step)))"
proof -
  have lib: "json_int64 lib" using assms(1) by (simp add: json_int64_def)
  from assms(2) have "decodeGrant lib t False = Inr (m, root, c)" by (simp add: verifyGrant_iff)
  then obtain cv cvs where g: "m_Caveats m = cv # cvs" "caveatLoop lib True (m_Caveats m) zero_info = Inr (cl_Grant c)"
    by (cases rule: decodeGrant_cases) (auto simp: neq_Nil_conv)
  then obtain g1 where g1: "applyCaveat lib True cv zero_info = Inr g1" "caveatLoop lib False cvs g1 = Inr (cl_Grant c)"
    by (auto simp: rbind_Inr_iff)
  from g1(1) obtain step where step: "caveat_step lib cv = Inr step" "stepOK step" "di_Permissions g1 = st_Permissions step"
    by (cases rule: applyCaveat_cases) auto
  have ok: "policy_ok (di_Permissions g1)" using step_policy_ok[OF lib step(1,2)] step(3) by simp
  have "live now (di_NotAfter g1) \<longleftrightarrow> live now (st_NotAfter step)"
    using applyCaveat_live[OF g1(1) step(1), of now] by (simp add: zero_info_def live_def)
  then show ?thesis using caveatLoop_conj[OF lib g1(2) ok, of bl meth path body now] g(1) step(1,3) by auto
qed

theorem grant_is_conjunction_witness:
  "\<not> live 95000000000 (di_NotAfter (cl_Grant (demo_claims (demo_info demo_step2))))
   \<and> (\<exists>cv\<in>set (m_Caveats (demo_mac [''S1'', ''S2''])). \<forall>step.
        decodeCanonical (tk_json_step demo_lib) (tk_step_json demo_lib) (cv_Id cv) = Inr step \<longrightarrow> \<not> live 95000000000 (st_NotAfter step))"
proof -
  have "\<not> live 95000000000 (di_NotAfter (cl_Grant (demo_claims (demo_info demo_step2))))" by code_simp
  then show ?thesis using grant_is_conjunction[OF demo_steps_int64 demo_verified(3), of demo_bodies MethodGet "[]" None 95000000000]
    by blast
qed

text \<open>
  C26. The subset test on chapter selectors is exact: for validated selectors of 64-bit ordinals that
  do not ask for all chapters, it accepts a child below a parent if and only if every chapter the
  child may read is one the parent may read.
\<close>

theorem chapters_subset_exact:
  assumes "policy_ok c" and "policy_ok p" and "dp_Read c = Some cr" and "dp_Read p = Some pr" and "\<not> dc_Any cr"
  shows "chaptersSubset (dp_Read c) (dp_Read p) \<longleftrightarrow> (\<forall>n. chaptersAllow (dp_Read c) n \<longrightarrow> chaptersAllow (dp_Read p) n)"
proof -
  note ok = policy_ok_chapters[OF assms(1)] policy_ok_chapters[OF assms(2)]
  show ?thesis
    using chaptersSubset_sound[OF ok] chaptersSubset_complete[of cr pr] ok assms(3-5) by auto
qed

theorem chapters_subset_exact_witness:
  "chaptersSubset (dp_Read (st_Permissions demo_step2)) (dp_Read (st_Permissions demo_step1))
   \<and> {n. chaptersAllow (dp_Read (st_Permissions demo_step2)) n} \<subseteq> {n. chaptersAllow (dp_Read (st_Permissions demo_step1)) n}"
proof -
  have sub: "chaptersSubset (dp_Read (st_Permissions demo_step2)) (dp_Read (st_Permissions demo_step1))" by code_simp
  have r: "dp_Read (st_Permissions demo_step2) = Some \<lparr>dc_Any = False, dc_Ordinals = [], dc_Ranges = [OrdinalRange 3 6]\<rparr>"
    "dp_Read (st_Permissions demo_step1) = Some \<lparr>dc_Any = False, dc_Ordinals = [], dc_Ranges = [OrdinalRange 0 4, OrdinalRange 5 9]\<rparr>"
    by (simp_all add: demo_step1_def demo_step2_def demo_reads_def)
  from chapters_subset_exact[OF demo_policies(2,1) r] sub show ?thesis by (simp add: subset_iff)
qed

end
