(* ===== verification/Delegation_Tokens.thy ===== *)
theory Delegation_Tokens
  imports Delegation_Properties
begin

text \<open>
  Round trips of the credentials: a grant narrowed by \<open>attenuateGrant\<close> verifies with exactly the
  permissions asked for, and an owner credential that \<open>mintWithPrincipal\<close> issues is accepted until
  it expires, which is before its lease does.  The laws of the libraries the code calls are
  collected in \<open>lib_ok\<close>, and a small concrete library satisfies them.
\<close>

section \<open>Laws of the libraries\<close>

definition names_text :: "DelegationNames \<Rightarrow> bool" where
  "names_text n = list_all valid_utf8 (dn_Names n)"

definition perm_text :: "DelegationPermissions \<Rightarrow> bool" where
  "perm_text p \<longleftrightarrow> pred_option names_text (dp_CreateCells p) \<and> list_all valid_utf8 (dp_Secrets p)
     \<and> pred_option (\<lambda>s. names_text (ds_JobTypes s) \<and> names_text (ds_JobIDs s) \<and> pred_option names_text (ds_CellNames s)) (dp_Submit p)
     \<and> pred_option (\<lambda>w. names_text (dw_TaskTypes w) \<and> names_text (dw_ArtifactNames w)) (dp_Write p)"

definition step_text :: "grantStep \<Rightarrow> bool" where
  "step_text s \<longleftrightarrow> valid_utf8 (st_Kind s) \<and> valid_utf8 (st_ID s) \<and> perm_text (st_Permissions s)"

definition parent_text :: "grantParent \<Rightarrow> bool" where
  "parent_text p \<longleftrightarrow> list_all valid_utf8 [gp_TenantID p, gp_JobID p, gp_LeaseID p, gp_WorkerID p, gp_SchemaHash p,
       rc_Cell (gp_Cell p), rc_CellID (gp_Cell p), rc_CellRepo (gp_Cell p)] \<and> pred_option valid_utf8 (gp_Principal p)"

definition root_text :: "grantRoot \<Rightarrow> bool" where
  "root_text r \<longleftrightarrow> list_all valid_utf8 [gr_Purpose r, gr_Audience r, gr_KeyID r, gr_ID r, gr_Ceiling r] \<and> parent_text (gr_Parent r)"

definition owner_text :: "leaseTokenClaims \<Rightarrow> bool" where
  "owner_text c \<longleftrightarrow> list_all valid_utf8 [lt_Audience c, lt_Grant c] \<and> parent_text (parentOf c)"

text \<open>
  Base64 text decodes to its bytes and is ASCII without dots; a digest is not empty; marshalled JSON and
  macaroons decode to what was marshalled (JSON for values whose strings are valid UTF-8); decoded
  ordinals are 64-bit; a caveat is appended and the library authenticates what it built.
\<close>

definition lib_ok :: "token_lib \<Rightarrow> bool" where
  "lib_ok lib \<longleftrightarrow>
     (\<forall>x. tk_unbase64 lib (tk_base64 lib x) = Some x \<and> CHR ''.'' \<notin> set (tk_base64 lib x) \<and> (tk_base64 lib x = [] \<longrightarrow> x = [])
        \<and> (\<forall>c\<in>set (tk_base64 lib x). byte c < 128))
   \<and> (\<forall>k x. tk_hmac lib k x \<noteq> []) \<and> (\<forall>x. tk_sha256 lib x \<noteq> [])
   \<and> (\<forall>step raw. tk_step_json lib step = Some raw \<longrightarrow> step_text step \<longrightarrow> tk_json_step lib raw = Some step)
   \<and> (\<forall>root raw. tk_root_json lib root = Some raw \<longrightarrow> root_text root \<longrightarrow> tk_json_root lib raw = Some root)
   \<and> (\<forall>c raw. tk_owner_json lib c = Some raw \<longrightarrow> owner_text c \<longrightarrow> tk_json_owner lib raw = Some c)
   \<and> (\<forall>m raw. mac_MarshalBinary lib m = Some raw \<longrightarrow> mac_UnmarshalBinary lib raw = Some m)
   \<and> (\<forall>k i m. mac_New lib k i = Some m \<longrightarrow> m_Version m = 2 \<and> m_Location m = [] \<and> m_Id m = i \<and> m_Caveats m = []
        \<and> mac_VerifySignature lib k m)
   \<and> (\<forall>raw m m'. mac_AddFirstPartyCaveat lib raw m = Some m' \<longrightarrow> m_Version m' = m_Version m \<and> m_Location m' = m_Location m
        \<and> m_Id m' = m_Id m \<and> m_Caveats m' = m_Caveats m @ [\<lparr>cv_Id = raw, cv_VerificationId = [], cv_Location = []\<rparr>]
        \<and> (\<forall>k. mac_VerifySignature lib k m \<longrightarrow> mac_VerifySignature lib k m'))"

lemma lib_okD:
  assumes "lib_ok lib"
  shows "tk_unbase64 lib (tk_base64 lib x) = Some x" "CHR ''.'' \<notin> set (tk_base64 lib x)" "tk_base64 lib x = [] \<Longrightarrow> x = []"
    and "tk_hmac lib k x \<noteq> []" "tk_sha256 lib x \<noteq> []"
    and "tk_step_json lib step = Some raw \<Longrightarrow> step_text step \<Longrightarrow> tk_json_step lib raw = Some step"
    and "tk_root_json lib root = Some raw \<Longrightarrow> root_text root \<Longrightarrow> tk_json_root lib raw = Some root"
    and "tk_owner_json lib c = Some raw \<Longrightarrow> owner_text c \<Longrightarrow> tk_json_owner lib raw = Some c"
    and "mac_MarshalBinary lib m = Some raw \<Longrightarrow> mac_UnmarshalBinary lib raw = Some m"
    and "mac_New lib k i = Some m \<Longrightarrow> m_Version m = 2 \<and> m_Location m = [] \<and> m_Id m = i \<and> m_Caveats m = [] \<and> mac_VerifySignature lib k m"
    and "mac_AddFirstPartyCaveat lib raw m = Some m' \<Longrightarrow> m_Version m' = m_Version m \<and> m_Location m' = m_Location m
        \<and> m_Id m' = m_Id m \<and> m_Caveats m' = m_Caveats m @ [\<lparr>cv_Id = raw, cv_VerificationId = [], cv_Location = []\<rparr>]"
    and "mac_AddFirstPartyCaveat lib raw m = Some m' \<Longrightarrow> mac_VerifySignature lib k m \<Longrightarrow> mac_VerifySignature lib k m'"
    and "c' \<in> set (tk_base64 lib x) \<Longrightarrow> byte c' < 128"
  using assms unfolding lib_ok_def by blast+

section \<open>Encoding\<close>

lemma encodeGrant_decodes:
  assumes lib: "lib_ok lib" and t: "encodeGrant lib m = Inr t"
  obtains raw where "isDelegationToken t" "int (length t) \<le> maxDelegationTokenBytes" "mac_MarshalBinary lib m = Some raw"
    "mac_UnmarshalBinary lib raw = Some m" "decodeTokenBase64 lib (trim_prefix t delegationTokenPrefix) = Inr raw"
proof -
  from t obtain raw where raw: "mac_MarshalBinary lib m = Some raw" "t = delegationTokenPrefix @ tk_base64 lib raw"
    "int (length t) \<le> maxDelegationTokenBytes"
    by (auto simp: encodeGrant_def Let_def split: option.splits if_splits)
  have "trim_prefix t delegationTokenPrefix = tk_base64 lib raw" "isDelegationToken t"
    by (simp_all add: raw(2) trim_prefix_def has_prefix_def isDelegationToken_def)
  moreover have "decodeTokenBase64 lib (tk_base64 lib raw) = Inr raw"
    by (simp add: decodeTokenBase64_def lib_okD(1)[OF lib])
  ultimately show thesis using that raw lib_okD(9)[OF lib raw(1)] by simp
qed

lemma decodeGrant_encoded:
  assumes lib: "lib_ok lib" and t: "encodeGrant lib m = Inr t" and m: "m_Version m = 2" "m_Location m = []"
    and root: "decodeCanonical (tk_json_root lib) (tk_root_json lib) (m_Id m) = Inr root" "rootOK root"
    and cv: "length (m_Caveats m) \<le> maxDelegationDepth" "allowRoot \<or> m_Caveats m \<noteq> [] \<and> gp_WorkerID (gr_Parent root) \<noteq> []"
    and g: "caveatLoop lib True (m_Caveats m) zero_info = Inr g"
  shows "decodeGrant lib t allowRoot = Inr (m, root, \<lparr>cl_GoalID = [], cl_Parent = grantParent_claims (gr_Parent root),
     cl_Grant = g, cl_Route = Route [] [], cl_ExpiresAt = zero_time\<rparr>)"
proof -
  from encodeGrant_decodes[OF lib t] obtain raw where raw: "isDelegationToken t" "int (length t) \<le> maxDelegationTokenBytes"
    "mac_MarshalBinary lib m = Some raw" "mac_UnmarshalBinary lib raw = Some m"
    "decodeTokenBase64 lib (trim_prefix t delegationTokenPrefix) = Inr raw" .
  show ?thesis unfolding decodeGrant_def zero_info_def[symmetric]
    using raw m root cv g by (auto simp: rbind_def)
qed

section \<open>Narrowing a grant\<close>

lemma attenuateGrant_cases:
  assumes "attenuateGrant lib now uuid t req = Inr (t', c')"
  obtains m root c perms where "decodeGrant lib t True = Inr (m, root, c)" "gp_WorkerID (gr_Parent root) \<noteq> []"
    "perms = inheritCells (m_Caveats m \<noteq> []) (cd_Permissions req) (di_Permissions (cl_Grant c))"
    "validateDelegationPolicy perms = Inr ()" "live now (cd_NotAfter req)" "length (m_Caveats m) < maxDelegationDepth"
    "m_Caveats m = [] \<or> permissionsSubset perms (di_Permissions (cl_Grant c))"
    "live now (di_NotAfter (cl_Grant c))"
    "\<forall>a z b y. di_NotAfter (cl_Grant c) = Some (a, z) \<longrightarrow> cd_NotAfter req = Some (b, y) \<longrightarrow> b \<le> a"
    "appendStep lib m c \<lparr>st_Kind = ''restrict'', st_Version = 1, st_ID = uuid, st_Permissions = perms,
       st_NotAfter = narrowDeadline (di_NotAfter (cl_Grant c)) (cd_NotAfter req)\<rparr> = Inr (t', c')"
proof -
  from assms obtain m root c where d: "decodeGrant lib t True = Inr (m, root, c)" and w: "gp_WorkerID (gr_Parent root) \<noteq> []"
    by (auto simp: attenuateGrant_def rbind_Inr_iff split: if_split_asm)
  let ?perms = "inheritCells (m_Caveats m \<noteq> []) (cd_Permissions req) (di_Permissions (cl_Grant c))"
  have v: "validateDelegationRequest now (req\<lparr>cd_Permissions := ?perms\<rparr>) = Inr ()"
    and n: "\<not> maxDelegationDepth \<le> length (m_Caveats m)"
    and sub: "m_Caveats m = [] \<or> permissionsSubset ?perms (di_Permissions (cl_Grant c))"
    and dl: "\<not> (case di_NotAfter (cl_Grant c) of None \<Rightarrow> False | Some (t, _) \<Rightarrow>
               \<not> now < t \<or> (case cd_NotAfter req of None \<Rightarrow> False | Some (t', _) \<Rightarrow> t < t'))"
    and rest: "appendStep lib m c \<lparr>st_Kind = ''restrict'', st_Version = 1, st_ID = uuid, st_Permissions = ?perms,
       st_NotAfter = narrowDeadline (di_NotAfter (cl_Grant c)) (cd_NotAfter req)\<rparr> = Inr (t', c')"
    using assms w unfolding attenuateGrant_def d by (auto simp: rbind_Inr_iff Let_def cong: option.case_cong split: if_split_asm)
  have "validateDelegationPolicy ?perms = Inr ()" "live now (cd_NotAfter req)"
    using v by (auto simp: validateDelegationRequest_def live_def split: option.splits if_splits)
  moreover have "live now (di_NotAfter (cl_Grant c))"
    "\<forall>a z b y. di_NotAfter (cl_Grant c) = Some (a, z) \<longrightarrow> cd_NotAfter req = Some (b, y) \<longrightarrow> b \<le> a"
    using dl by (auto simp: live_def split: option.split_asm)
  ultimately show thesis using that[OF d w refl _ _ _ sub _ _ rest] n by auto
qed

lemma narrowDeadline_cases:
  "narrowDeadline a b = (case b of Some (t, _) \<Rightarrow> Some (t, True) | None \<Rightarrow> map_option (\<lambda>(t, _). (t, True)) a)"
  by (auto simp: narrowDeadline_def split: option.splits)

lemma appendStep_cases:
  assumes "appendStep lib m c step0 = Inr (t', c')"
  obtains raw step m' where "tk_step_json lib step0 = Some raw" "decodeCanonical (tk_json_step lib) (tk_step_json lib) raw = Inr step"
    "mac_AddFirstPartyCaveat lib raw m = Some m'" "encodeGrant lib m' = Inr t'"
    "c' = c\<lparr>cl_Grant := \<lparr>di_ID = st_ID step, di_Permissions = st_Permissions step, di_NotAfter = st_NotAfter step\<rparr>\<rparr>"
  using assms by (auto simp: appendStep_def rbind_Inr_iff split: option.split_asm)

lemma inheritCells_text: "perm_text p \<Longrightarrow> perm_text q \<Longrightarrow> perm_text (inheritCells b p q)"
  by (auto simp: inheritCells_def perm_text_def split: option.splits)

lemma appendStep_applies:
  assumes lib: "lib_ok lib" and app: "appendStep lib m c step = Inr (t', c')" and tx: "step_text step" and ok: "stepOK step"
    and sub: "m_Caveats m = [] \<or> permissionsSubset (st_Permissions step) (di_Permissions (cl_Grant c))"
    and dl: "\<forall>a z. di_NotAfter (cl_Grant c) = Some (a, z) \<longrightarrow> (\<exists>b y. st_NotAfter step = Some (b, y) \<and> b \<le> a)"
  obtains raw m' where "mac_AddFirstPartyCaveat lib raw m = Some m'" "encodeGrant lib m' = Inr t'"
    "c' = c\<lparr>cl_Grant := \<lparr>di_ID = st_ID step, di_Permissions = st_Permissions step, di_NotAfter = st_NotAfter step\<rparr>\<rparr>"
    "applyCaveat lib (m_Caveats m = []) \<lparr>cv_Id = raw, cv_VerificationId = [], cv_Location = []\<rparr> (cl_Grant c) = Inr (cl_Grant c')"
  using app
proof (cases rule: appendStep_cases)
  case (1 raw step' m')
  have step': "step' = step" using 1(1,2) lib_okD(6)[OF lib 1(1) tx] by (simp add: decodeCanonical_Inr)
  have "\<not> (case (di_NotAfter (cl_Grant c), st_NotAfter step) of (Some (t, _), Some (t', _)) \<Rightarrow> t < t' | _ \<Rightarrow> False)"
    using dl by (auto split: option.splits)
  moreover have "(case st_NotAfter step of None \<Rightarrow> di_NotAfter (cl_Grant c) | Some t \<Rightarrow> Some t) = st_NotAfter step"
    using dl by (cases "di_NotAfter (cl_Grant c)") (auto split: option.splits)
  ultimately have "applyCaveat lib (m_Caveats m = []) \<lparr>cv_Id = raw, cv_VerificationId = [], cv_Location = []\<rparr> (cl_Grant c)
      = Inr (cl_Grant c')"
    using 1(2,5) sub ok by (simp add: applyCaveat_def step')
  then show thesis using that 1(3,4,5) step' by blast
qed

lemma attenuated_verifies:
  assumes lib: "lib_ok lib" and v: "verifyGrant lib s t True = Inr (m0, root0, c0)"
    and att: "attenuateGrant lib now uuid t req = Inr (t', c')"
    and uuid: "uuid \<noteq> []" "int (length uuid) \<le> 128" "valid_utf8 uuid"
    and tx: "perm_text (cd_Permissions req)" "perm_text (di_Permissions (cl_Grant c0))"
    and year: "zero_time \<le> now" "\<forall>d z. cd_NotAfter req = Some (d, z) \<longrightarrow> d < year_10000"
       "\<forall>d z. di_NotAfter (cl_Grant c0) = Some (d, z) \<longrightarrow> d < year_10000"
  shows "\<exists>m'. verifyGrant lib s t' False = Inr (m', root0, c') \<and> m_Id m' = m_Id m0 \<and> (\<exists>cv. m_Caveats m' = m_Caveats m0 @ [cv])
     \<and> di_ID (cl_Grant c') = uuid
     \<and> di_Permissions (cl_Grant c') = inheritCells (m_Caveats m0 \<noteq> []) (cd_Permissions req) (di_Permissions (cl_Grant c0))
     \<and> map_option fst (di_NotAfter (cl_Grant c')) = map_option fst (narrowDeadline (di_NotAfter (cl_Grant c0)) (cd_NotAfter req))"
  using att
proof (cases rule: attenuateGrant_cases)
  case (1 m root c perms)
  have d: "decodeGrant lib t True = Inr (m0, root0, c0)" and sig: "gr_Audience root0 = audienceID s" "gr_KeyID root0 = grantKeyID lib s"
    "mac_VerifySignature lib (grantKey lib s) m0" using v by (simp_all add: verifyGrant_iff)
  then have eq: "m = m0" "root = root0" "c = c0" using 1(1) by simp_all
  let ?step = "\<lparr>st_Kind = ''restrict'', st_Version = 1, st_ID = uuid, st_Permissions = perms,
       st_NotAfter = narrowDeadline (di_NotAfter (cl_Grant c0)) (cd_NotAfter req)\<rparr>"
  have st: "step_text ?step"
    using inheritCells_text[OF tx] uuid(3) 1(3) eq by (simp add: step_text_def)
  have ok: "stepOK ?step"
    using 1(4,5,8) uuid year unfolding stepOK_def narrowDeadline_cases eq
    by (auto simp: live_def split: option.splits)
  have dl: "\<forall>a z. di_NotAfter (cl_Grant c0) = Some (a, z) \<longrightarrow> (\<exists>b y. st_NotAfter ?step = Some (b, y) \<and> b \<le> a)"
    using 1(9) eq by (auto simp: narrowDeadline_cases split: option.splits)
  have sub: "m_Caveats m0 = [] \<or> permissionsSubset (st_Permissions ?step) (di_Permissions (cl_Grant c0))"
    using 1(7) eq by simp
  have app: "appendStep lib m0 c0 ?step = Inr (t', c')" using 1(10) eq by simp
  obtain raw m' where m': "mac_AddFirstPartyCaveat lib raw m0 = Some m'" "encodeGrant lib m' = Inr t'"
    "c' = c0\<lparr>cl_Grant := \<lparr>di_ID = st_ID ?step, di_Permissions = st_Permissions ?step, di_NotAfter = st_NotAfter ?step\<rparr>\<rparr>"
    "applyCaveat lib (m_Caveats m0 = []) \<lparr>cv_Id = raw, cv_VerificationId = [], cv_Location = []\<rparr> (cl_Grant c0) = Inr (cl_Grant c')"
    by (rule appendStep_applies[OF lib app st ok sub dl])
  have n: "length (m_Caveats m0) < maxDelegationDepth" and w: "gp_WorkerID (gr_Parent root0) \<noteq> []"
    and perms: "perms = inheritCells (m_Caveats m0 \<noteq> []) (cd_Permissions req) (di_Permissions (cl_Grant c0))"
    using 1(2,3,6) eq by simp_all
  note add = lib_okD(11)[OF lib m'(1)]
  from d show ?thesis
  proof (cases rule: decodeGrant_cases)
    case (1 g raw0)
    have "caveatLoop lib True (m_Caveats m') zero_info = Inr (cl_Grant c')"
      using 1(12,13) m'(4) add by (simp add: caveatLoop_append rbind_def)
    then have "decodeGrant lib t' False = Inr (m', root0, c')"
      using decodeGrant_encoded[OF lib m'(2), of root0 False "cl_Grant c'"] add 1(6-9,13) m'(3) n w by simp
    moreover have "mac_VerifySignature lib (grantKey lib s) m'" by (rule lib_okD(12)[OF lib m'(1) sig(3)])
    ultimately show ?thesis using sig add m'(3) perms by (auto simp: verifyGrant_iff)
  qed
qed

section \<open>Owner credentials\<close>

lemma leaseTokenExpiresAt_bounds:
  assumes "now < e" "e \<noteq> zero_time"
  shows "now \<le> leaseTokenExpiresAt now e ttl" "leaseTokenExpiresAt now e ttl < e"
    "e - leaseTokenExpiresAt now e ttl \<le> leaseTokenExpirySkew"
  using assms
  by (auto simp: leaseTokenExpiresAt_def Let_def time_Sub_def trunc_div_def leaseTokenExpirySkew_def millisecond_def)

lemma leaseTokenExpiresAt_ge: "now \<le> leaseTokenExpiresAt now e ttl"
  by (auto simp: leaseTokenExpiresAt_def Let_def defaultLeaseTokenTTL_def second_def)

lemma split_on_none: "c \<notin> set s \<Longrightarrow> split_on c s = [s]"
  by (induction s) auto

lemma split_on_append: "c \<notin> set a \<Longrightarrow> split_on c (a @ c # b) = a # split_on c b"
  by (induction a) auto

lemma ascii_valid: "(\<forall>c\<in>set s. byte c < 128) \<Longrightarrow> valid_utf8 s"
  by (induction s rule: valid_utf8.induct) auto

lemma byte_less: "byte c < 256"
  by (metis of_char_mod_256 mod_less_divisor zero_less_numeral)

lemma lower_hex_ascii: "n < 16 \<Longrightarrow> byte (lower_hex n) < 128"
  by (simp add: lower_hex_def)

lemma hex_encode_ascii: "c \<in> set (hex_encode bs) \<Longrightarrow> byte c < 128"
proof -
  have "byte b div 16 < 16" for b using byte_less[of b] by (simp add: less_mult_imp_div_less)
  then show "c \<in> set (hex_encode bs) \<Longrightarrow> byte c < 128" by (auto simp: hex_encode_def lower_hex_ascii)
qed

lemma newGrant_verifies:
  assumes lib: "lib_ok lib" and g: "newGrant lib s uuid p = Inr t" and uuid: "uuid \<noteq> []" "valid_utf8 uuid"
    and tx: "parent_text (parentOf p)" "valid_utf8 (audienceID s)"
    and ids: "lt_TenantID p \<noteq> []" "lt_JobID p \<noteq> []" "lt_LeaseID p \<noteq> []" "rc_CellID (lt_Cell p) \<noteq> []" "rc_CellRepo (lt_Cell p) \<noteq> []"
      "ValidateCellName (rc_Cell (lt_Cell p)) = Inr ()"
  shows "\<exists>m root c. verifyGrant lib s t True = Inr (m, root, c) \<and> m_Caveats m = [] \<and> gr_Parent root = parentOf p"
proof -
  let ?root = "\<lparr>gr_Version = 1, gr_Purpose = grantPurpose, gr_Audience = audienceID s, gr_KeyID = grantKeyID lib s,
                  gr_ID = uuid, gr_Parent = parentOf p, gr_Ceiling = grantCeiling\<rparr>"
  from g obtain raw m where m: "tk_root_json lib ?root = Some raw" "mac_New lib (grantKey lib s) raw = Some m" "encodeGrant lib m = Inr t"
    by (auto simp: newGrant_def Let_def split: option.splits)
  have kid: "valid_utf8 (grantKeyID lib s)" by (rule ascii_valid) (auto simp: grantKeyID_def hex_encode_ascii)
  have kne: "grantKeyID lib s \<noteq> []"
    using lib_okD(5)[OF lib, of "grantKey lib s"] by (cases "tk_sha256 lib (grantKey lib s)") (auto simp: grantKeyID_def hex_encode_def)
  have "valid_utf8 grantPurpose" "valid_utf8 grantCeiling"
    unfolding grantPurpose_def grantCeiling_def by (rule ascii_valid, simp)+
  then have "tk_json_root lib raw = Some ?root" using lib_okD(7)[OF lib m(1)] tx uuid kid by (simp add: root_text_def)
  then have dr: "decodeCanonical (tk_json_root lib) (tk_root_json lib) (m_Id m) = Inr ?root"
    using lib_okD(10)[OF lib m(2)] m(1) by (simp add: decodeCanonical_Inr)
  have "audienceID s \<noteq> []" by (auto simp: audienceID_def)
  then have rok: "rootOK ?root" using uuid ids kne by (simp add: rootOK_def parentOf_def)
  note nw = lib_okD(10)[OF lib m(2)]
  show ?thesis
    using decodeGrant_encoded[OF lib m(3) _ _ dr rok, of True zero_info] nw by (auto simp: verifyGrant_iff)
qed

lemma owner_split:
  assumes lib: "lib_ok lib"
  shows "split_on CHR ''.'' (ownerTokenPrefix @ tk_base64 lib x @ ''.'' @ tk_base64 lib y) = [''jdb-o2'', tk_base64 lib x, tk_base64 lib y]"
proof -
  show ?thesis
    using split_on_append[OF lib_okD(2)[OF lib], of x] split_on_none[OF lib_okD(2)[OF lib], of y]
    by (simp add: ownerTokenPrefix_def)
qed

lemma decodeTokenBase64_encoded: "lib_ok lib \<Longrightarrow> decodeTokenBase64 lib (tk_base64 lib x) = Inr x"
  by (simp add: decodeTokenBase64_def lib_okD(1))

lemma mint_cases:
  assumes "mintWithPrincipal lib s now uuid key leaseID workerID schemaHash leaseExpiresAt ttl princ cell = Inr token"
  obtains claims grant payload where "sg_key s \<noteq> []" "rc_CellID cell \<noteq> []" "rc_CellRepo cell \<noteq> []" "ValidateCellName (rc_Cell cell) = Inr ()"
    "newGrant lib s uuid claims = Inr grant" "tk_owner_json lib (claims\<lparr>lt_Grant := grant\<rparr>) = Some payload"
    "token = ownerTokenPrefix @ tk_base64 lib payload @ ''.'' @ tk_base64 lib (tk_hmac lib (sg_key s) (ownerTokenPrefix @ tk_base64 lib payload))"
    "int (length token) \<le> maxOwnerTokenBytes"
    "parentOf claims = \<lparr>gp_Cell = cell, gp_Principal = princ, gp_TenantID = TenantId key, gp_JobID = JobId key, gp_LeaseID = leaseID,
       gp_WorkerID = workerID, gp_SchemaHash = schemaHash\<rparr>" "lt_Audience claims = audienceID s"
    "lt_ExpiresAt claims = leaseTokenExpiresAt now leaseExpiresAt ttl div second"
    "lt_ExpiresAtNS claims = wrap64 (leaseTokenExpiresAt now leaseExpiresAt ttl)"
proof -
  have norm: "leaseTokenExpiresAt now leaseExpiresAt (if ttl \<le> 0 then defaultLeaseTokenTTL else ttl) = leaseTokenExpiresAt now leaseExpiresAt ttl"
    by (simp add: leaseTokenExpiresAt_def Let_def defaultLeaseTokenTTL_def second_def)
  show thesis
    using assms unfolding mintWithPrincipal_def Let_def norm
    by (auto simp: rbind_Inr_iff parentOf_def not_less split: if_split_asm option.split_asm intro!: that)
qed

lemma parent_fields:
  assumes "parentOf c = parentOf d"
  shows "lt_Cell c = lt_Cell d" "lt_TenantID c = lt_TenantID d" "lt_JobID c = lt_JobID d" "lt_LeaseID c = lt_LeaseID d" "lt_WorkerID c = lt_WorkerID d"
  using assms by (simp_all add: parentOf_def)

lemma minted_parses:
  assumes lib: "lib_ok lib"
    and mint: "mintWithPrincipal lib s now uuid key leaseID workerID schemaHash leaseExpiresAt ttl princ cell = Inr token"
    and uuid: "uuid \<noteq> []" "valid_utf8 uuid" and ids: "TenantId key \<noteq> []" "JobId key \<noteq> []" "leaseID \<noteq> []"
    and tx: "valid_utf8 (audienceID s)" "parent_text \<lparr>gp_Cell = cell, gp_Principal = princ, gp_TenantID = TenantId key, gp_JobID = JobId key,
       gp_LeaseID = leaseID, gp_WorkerID = workerID, gp_SchemaHash = schemaHash\<rparr>"
    and now: "second \<le> now" "leaseTokenExpiresAt now leaseExpiresAt ttl < 2 ^ 63"
  shows "\<exists>claims. parseOwner lib s token = Inr claims \<and> lt_TenantID claims = TenantId key \<and> lt_JobID claims = JobId key
    \<and> lt_LeaseID claims = leaseID \<and> lt_WorkerID claims = workerID \<and> claims_expiresAt claims = leaseTokenExpiresAt now leaseExpiresAt ttl"
  using mint
proof (cases rule: mint_cases)
  case (1 claims grant payload)
  let ?c = "claims\<lparr>lt_Grant := grant\<rparr>" and ?e = "leaseTokenExpiresAt now leaseExpiresAt ttl"
  have f: "lt_Cell claims = cell" "lt_TenantID claims = TenantId key" "lt_JobID claims = JobId key" "lt_LeaseID claims = leaseID"
    "lt_WorkerID claims = workerID" "parentOf ?c = parentOf claims" using 1(9) by (simp_all add: parentOf_def)
  obtain m root c where g: "verifyGrant lib s grant True = Inr (m, root, c)" "m_Caveats m = []" "gr_Parent root = parentOf claims"
    using newGrant_verifies[OF lib 1(5) uuid _ tx(1)] f ids 1(2-4,9) tx(2) by auto
  have gtok: "isDelegationToken grant" "valid_utf8 grant"
  proof -
    obtain m where "encodeGrant lib m = Inr grant" using 1(5) by (auto simp: newGrant_def Let_def split: option.splits)
    then obtain raw where "grant = delegationTokenPrefix @ tk_base64 lib raw"
      by (auto simp: encodeGrant_def Let_def split: option.splits if_splits)
    then show "isDelegationToken grant" "valid_utf8 grant"
      using lib_okD(13)[OF lib] by (auto simp: isDelegationToken_def has_prefix_def delegationTokenPrefix_def intro!: ascii_valid)
  qed
  have "grant \<noteq> []" using gtok(1) by (auto simp: isDelegationToken_def has_prefix_def delegationTokenPrefix_def)
  have e: "second \<le> ?e" using now(1) leaseTokenExpiresAt_ge[of now leaseExpiresAt ttl] by simp
  then have sec: "0 < ?e div second" by (simp add: second_def pos_imp_zdiv_pos_iff)
  have ns: "wrap64 ?e = ?e" using e now(2) by (intro wrap64_id) (simp add: int64_def second_def)
  have owner: "decodeCanonical (tk_json_owner lib) (tk_owner_json lib) payload = Inr ?c"
    using lib_okD(8)[OF lib 1(6)] 1(6,9,10) f(6) tx gtok(2) by (simp add: decodeCanonical_Inr owner_text_def)
  note split = owner_split[OF lib, of payload "tk_hmac lib (sg_key s) (ownerTokenPrefix @ tk_base64 lib payload)"]
  have mac: "tk_base64 lib (tk_hmac lib k x) \<noteq> []" for k x using lib_okD(3,4)[OF lib] by blast
  have pre: "has_prefix token ownerTokenPrefix" using 1(7) by (simp add: has_prefix_def)
  have aud: "audienceID s \<noteq> []" by (auto simp: audienceID_def)
  have "decodeOwner lib token = Inr ?c"
    unfolding decodeOwner_def using pre 1(2-4,8,10,11) split 1(7) mac owner f ids sec aud \<open>grant \<noteq> []\<close>
    by (simp add: decodeTokenBase64_encoded[OF lib] rbind_def)
  then have "parseOwner lib s token = Inr ?c"
    unfolding parseOwner_def using pre 1(1,7,8,10) split g f(6)
    by (simp add: decodeTokenBase64_encoded[OF lib] rbind_def sameGrantParent_def ownerTokenPrefix_def)
  moreover have "claims_expiresAt ?c = ?e" using 1(12) ns e by (simp add: claims_expiresAt_def second_def)
  ultimately show ?thesis using f by simp
qed

section \<open>The concrete library satisfies the laws\<close>

lemma demo_unbits_bits [simp]: "demo_unbits (demo_bits c @ s) = map_option (\<lambda>t. c # t) (demo_unbits s)"
  by (cases c) (simp add: bit_char_def)

lemma demo_unbits_concat [simp]: "demo_unbits (concat (map demo_bits x)) = Some x"
  by (induction x) simp_all

lemma demo_bits_set: "c \<in> set (demo_bits b) \<Longrightarrow> c = CHR ''0'' \<or> c = CHR ''1''"
  by (cases b) (auto simp: bit_char_def)

lemma demo_bits_nonempty [simp]: "demo_bits b \<noteq> []"
  by (cases b) simp

lemma demo_lib_ok: "lib_ok demo_lib"
proof -
  have c: "c = CHR ''0'' \<or> c = CHR ''1''" if "c \<in> set (concat (map demo_bits x))" for c x
    using that demo_bits_set by fastforce
  have b64: "tk_unbase64 demo_lib (tk_base64 demo_lib x) = Some x \<and> CHR ''.'' \<notin> set (tk_base64 demo_lib x)
      \<and> (tk_base64 demo_lib x = [] \<longrightarrow> x = []) \<and> (\<forall>c\<in>set (tk_base64 demo_lib x). byte c < 128)" for x
    using c[of _ x] by (cases x) (fastforce simp: demo_lib_def)+
  show ?thesis unfolding lib_ok_def
    using b64 by (simp add: demo_lib_def demo_caveat_def)
qed

section \<open>Properties\<close>

text \<open>
  C27. Narrowing round trip: the credential \<open>attenuateGrant\<close> derives from an authenticated grant is
  authenticated by the server, carries one more caveat under the same root, and decodes to exactly
  the claims the client was told, whose permissions are the requested ones (with the cell names the
  parent passes on) and whose deadline is the requested one or else the parent's.
\<close>

theorem attenuate_roundtrip:
  assumes "lib_ok lib" and "verifyGrant lib s t True = Inr (m, root, c)"
    and "attenuateGrant lib now uuid t req = Inr (t', c')"
    and "uuid \<noteq> []" and "int (length uuid) \<le> 128" and "valid_utf8 uuid"
    and "perm_text (cd_Permissions req)" and "perm_text (di_Permissions (cl_Grant c))"
    and "zero_time \<le> now" and "\<forall>d z. cd_NotAfter req = Some (d, z) \<longrightarrow> d < year_10000"
    and "\<forall>d z. di_NotAfter (cl_Grant c) = Some (d, z) \<longrightarrow> d < year_10000"
  shows "\<exists>m' cv. verifyGrant lib s t' False = Inr (m', root, c') \<and> m_Id m' = m_Id m \<and> m_Caveats m' = m_Caveats m @ [cv]
     \<and> di_ID (cl_Grant c') = uuid
     \<and> di_Permissions (cl_Grant c') = inheritCells (m_Caveats m \<noteq> []) (cd_Permissions req) (di_Permissions (cl_Grant c))
     \<and> map_option fst (di_NotAfter (cl_Grant c')) = map_option fst (narrowDeadline (di_NotAfter (cl_Grant c)) (cd_NotAfter req))"
  using attenuated_verifies[OF assms] by blast

theorem attenuate_roundtrip_witness:
  "attenuateGrant demo_lib 20000000000 ''u2'' (demo_token ''M1'')
     \<lparr>cd_Permissions = demo_reads [OrdinalRange 3 6], cd_NotAfter = Some (90000000000, False)\<rparr>
   = Inr (demo_token ''M2'', demo_claims (demo_info demo_step2))
   \<and> (\<exists>m'. verifyGrant demo_lib demo_signer (demo_token ''M2'') False = Inr (m', demo_root, demo_claims (demo_info demo_step2)))"
proof -
  let ?req = "\<lparr>cd_Permissions = demo_reads [OrdinalRange 3 6], cd_NotAfter = Some (90000000000, False)\<rparr>"
  have v: "verifyGrant demo_lib demo_signer (demo_token ''M1'') True = Inr (demo_mac [''S1''], demo_root, demo_claims (demo_info demo_step1))"
    by code_simp
  have a: "attenuateGrant demo_lib 20000000000 ''u2'' (demo_token ''M1'') ?req = Inr (demo_token ''M2'', demo_claims (demo_info demo_step2))"
    by code_simp
  have t: "perm_text (cd_Permissions ?req)" "perm_text (di_Permissions (cl_Grant (demo_claims (demo_info demo_step1))))"
    by (simp_all add: perm_text_def demo_claims_def demo_info_def demo_step1_def demo_reads_def no_permissions_def)
  have y: "zero_time \<le> 20000000000" "\<forall>d z. cd_NotAfter ?req = Some (d, z) \<longrightarrow> d < year_10000"
    "\<forall>d z. di_NotAfter (cl_Grant (demo_claims (demo_info demo_step1))) = Some (d, z) \<longrightarrow> d < year_10000"
    by (simp_all add: zero_time_def year_10000_def demo_claims_def demo_info_def demo_step1_def)
  have u: "''u2'' \<noteq> []" "int (length ''u2'') \<le> 128" "valid_utf8 ''u2''" by code_simp+
  from attenuate_roundtrip[OF demo_lib_ok v a u t y] a show ?thesis by blast
qed

text \<open>
  C28. An owner credential issued for a live lease is accepted for exactly that job, lease and worker
  at every instant before the credential expires, and refused from then on; the credential expires
  before the lease does and no more than the configured skew earlier.
\<close>

theorem mint_validates:
  assumes "lib_ok lib"
    and "mintWithPrincipal lib s now uuid key leaseID workerID schemaHash leaseExpiresAt ttl princ cell = Inr token"
    and "uuid \<noteq> []" and "valid_utf8 uuid" and "TenantId key \<noteq> []" and "JobId key \<noteq> []" and "leaseID \<noteq> []"
    and "valid_utf8 (audienceID s)" and "parent_text \<lparr>gp_Cell = cell, gp_Principal = princ, gp_TenantID = TenantId key, gp_JobID = JobId key,
       gp_LeaseID = leaseID, gp_WorkerID = workerID, gp_SchemaHash = schemaHash\<rparr>"
    and "second \<le> now" and "now < leaseExpiresAt" and "leaseExpiresAt < 2 ^ 63"
  shows "\<exists>e. (\<forall>now2. (\<exists>claims. validateAndParse lib s now2 token key leaseID = Inr claims \<and> lt_WorkerID claims = workerID) \<longleftrightarrow> now2 < e)
    \<and> now \<le> e \<and> e < leaseExpiresAt \<and> leaseExpiresAt - e \<le> leaseTokenExpirySkew"
proof -
  have z: "leaseExpiresAt \<noteq> zero_time" using assms(10,11) by (simp add: zero_time_def second_def)
  let ?e = "leaseTokenExpiresAt now leaseExpiresAt ttl"
  note b = leaseTokenExpiresAt_bounds[OF assms(11) z, of ttl]
  have "?e < 2 ^ 63" using b(2) assms(12) by simp
  from minted_parses[OF assms(1-10) this] obtain claims where c: "parseOwner lib s token = Inr claims" "lt_TenantID claims = TenantId key"
      "lt_JobID claims = JobId key" "lt_LeaseID claims = leaseID" "lt_WorkerID claims = workerID" "claims_expiresAt claims = ?e" by blast
  then have "(\<exists>claims. validateAndParse lib s now2 token key leaseID = Inr claims \<and> lt_WorkerID claims = workerID) \<longleftrightarrow> now2 < ?e" for now2
    by (simp add: validateAndParse_def rbind_def)
  then show ?thesis using b by blast
qed

theorem mint_validates_witness:
  "\<exists>token e. mintWithPrincipal demo_lib demo_signer 10000000000 ''u0'' (JobKey ''t'' ''j'') ''l'' ''w'' [] 40100000000 0 None demo_target
       = Inr token
     \<and> (\<forall>now2. (\<exists>claims. validateAndParse demo_lib demo_signer now2 token (JobKey ''t'' ''j'') ''l'' = Inr claims \<and> lt_WorkerID claims = ''w'')
          \<longleftrightarrow> now2 < e)"
proof -
  let ?mint = "mintWithPrincipal demo_lib demo_signer 10000000000 ''u0'' (JobKey ''t'' ''j'') ''l'' ''w'' [] 40100000000 0 None demo_target"
  have "\<not> isl ?mint" by code_simp
  then obtain token where m: "?mint = Inr token" by (cases ?mint) auto
  have u: "''u0'' \<noteq> []" "valid_utf8 ''u0''" "TenantId (JobKey ''t'' ''j'') \<noteq> []" "JobId (JobKey ''t'' ''j'') \<noteq> []" "''l'' \<noteq> []"
    "valid_utf8 (audienceID demo_signer)" by code_simp+
  have p: "parent_text \<lparr>gp_Cell = demo_target, gp_Principal = None, gp_TenantID = TenantId (JobKey ''t'' ''j''),
      gp_JobID = JobId (JobKey ''t'' ''j''), gp_LeaseID = ''l'', gp_WorkerID = ''w'', gp_SchemaHash = []\<rparr>"
  proof -
    have "list_all valid_utf8 [''t'', ''j'', ''l'', ''w'', [], ''api'', ''c1'', ''host/api'']" by code_simp
    then show ?thesis by (simp only: parent_text_def demo_target_def grantParent.simps ResolvedCell.simps JobKey.sel option.pred_inject)
  qed
  have n: "second \<le> 10000000000" "(10000000000 :: instant) < 40100000000" "(40100000000 :: instant) < 2 ^ 63" by (simp_all add: second_def)
  from mint_validates[OF demo_lib_ok m u p n] m show ?thesis by blast
qed

end
