(* ===== verification/Client_Payload.thy ===== *)
theory Client_Payload
  imports Routes Delegation_Policy
begin

text \<open>
  Client payloads: \<open>pkg/jobdb/clientpayload/payload.go\<close> and the task coordinates of
  \<open>pkg/jobdb/client_payload.go\<close>.  A decoded JSON value keeps its numbers as text, and an object is an
  association list with distinct names, Go's \<open>map[string]any\<close>.  Decoding and encoding JSON text are
  the parameter \<open>payload_lib\<close>.  A payload is \<open>None\<close> for a nil \<open>RawMessage\<close>.
\<close>

datatype Json = JNull | JBool bool | JNum gostring | JStr gostring | JArr "Json list" | JObj "(gostring \<times> Json) list"

record PayloadUpdate =
  cu_Mode :: gostring
  cu_Value :: "gostring option"
  cu_ExpectedRevision :: "int option"

record payload_lib =
  pl_parse :: "gostring \<Rightarrow> error + Json"
  pl_marshal :: "Json \<Rightarrow> error + gostring"

section \<open>Merge patches\<close>

definition field :: "(gostring \<times> Json) list \<Rightarrow> gostring \<Rightarrow> Json" where
  "field dst k = (case map_of dst k of None \<Rightarrow> JNull | Some v \<Rightarrow> v)"

definition obj_fields :: "Json \<Rightarrow> (gostring \<times> Json) list" where
  "obj_fields target = (case target of JObj d \<Rightarrow> d | _ \<Rightarrow> [])"

fun merge :: "Json \<Rightarrow> Json \<Rightarrow> Json"
  and mergeFields :: "(gostring \<times> Json) list \<Rightarrow> (gostring \<times> Json) list \<Rightarrow> (gostring \<times> Json) list" where
  "merge target (JObj obj) = JObj (mergeFields obj (obj_fields target))"
| "merge target patch = patch"
| "mergeFields [] dst = dst"
| "mergeFields ((k, v) # obj) dst =
     mergeFields obj (if v = JNull then AList.delete k dst else AList.update k (merge (field dst k) v) dst)"

section \<open>Updates\<close>

definition ValidateUpdate :: "payload_lib \<Rightarrow> PayloadUpdate option \<Rightarrow> bool \<Rightarrow> error + unit" where
  "ValidateUpdate lib u initial = (case u of
      None \<Rightarrow> Inr ()
    | Some u \<Rightarrow>
        if initial \<and> cu_ExpectedRevision u \<noteq> None then Inl ErrInvalidClientPayload
        else if \<not> initial \<and> (case cu_ExpectedRevision u of None \<Rightarrow> True | Some r \<Rightarrow> r < 0) then Inl ErrInvalidClientPayload
        else if cu_Mode u = ''patch'' \<and> cu_Value u = None then Inl ErrInvalidClientPayload
        else if cu_Mode u \<noteq> ''patch'' \<and> cu_Mode u \<noteq> ''reset'' then Inl ErrInvalidClientPayload
        else case cu_Value u of
            None \<Rightarrow> Inr ()
          | Some raw \<Rightarrow> rbind (pl_parse lib raw) (\<lambda>_. Inr ()))"

definition applyValue :: "payload_lib \<Rightarrow> gostring option \<Rightarrow> PayloadUpdate \<Rightarrow> error + gostring option" where
  "applyValue lib current u =
     (if cu_Mode u = ''reset'' then Inr (cu_Value u)
      else rbind (pl_parse lib (case cu_Value u of None \<Rightarrow> [] | Some raw \<Rightarrow> raw)) (\<lambda>patch.
        rbind (case current of None \<Rightarrow> Inr JNull | Some raw \<Rightarrow> pl_parse lib raw) (\<lambda>target.
          rbind (pl_marshal lib (merge target patch)) (\<lambda>out.
            rbind (pl_parse lib out) (\<lambda>_. Inr (Some out))))))"

definition Apply :: "payload_lib \<Rightarrow> gostring option \<Rightarrow> int \<Rightarrow> PayloadUpdate option \<Rightarrow> error + (gostring option \<times> int)" where
  "Apply lib current revision u =
     rbind (ValidateUpdate lib u False) (\<lambda>_. case u of
        None \<Rightarrow> Inr (current, revision)
      | Some u \<Rightarrow>
          if Some revision \<noteq> cu_ExpectedRevision u then Inl ErrConflict
          else if revision = 2 ^ 63 - 1 then Inl ErrConflict
          else rbind (applyValue lib current u) (\<lambda>value. Inr (value, wrap64 (revision + 1))))"

definition Initial :: "payload_lib \<Rightarrow> PayloadUpdate option \<Rightarrow> error + (gostring option \<times> int)" where
  "Initial lib u =
     rbind (ValidateUpdate lib u True) (\<lambda>_. case u of
        None \<Rightarrow> Inr (None, 0)
      | Some u \<Rightarrow> rbind (applyValue lib None u) (\<lambda>value.
          if value = None then Inr (None, 0) else Inr (value, 1)))"

definition RescheduleTaskWait :: "Route \<Rightarrow> TaskWait option \<Rightarrow> error + TaskWait option" where
  "RescheduleTaskWait nxt task =
     rbind (Route_Validate nxt) (\<lambda>_.
       if rt_TaskType nxt = [] then
         (if task \<noteq> None then Inl (ErrText ''job route cannot have task coordinates'') else Inr None)
       else case task of
           None \<Rightarrow> Inl (ErrText ''task route requires complete task coordinates'')
         | Some t \<Rightarrow>
             if tw_InputOrdinal t < 0 \<or> tw_OutputOrdinal t < 0 \<or> tw_InputHash t = []
               \<or> ValidateIdentifier (tw_ResumeJobType t) \<noteq> Inr ()
             then Inl (ErrText ''task route requires complete task coordinates'') else Inr (Some t))"

section \<open>Canonical numbers\<close>

text \<open>\<open>strings.IndexAny(s, "eE")\<close> with the text before and after the first match.\<close>

fun cut_exp :: "gostring \<Rightarrow> (gostring \<times> gostring) option" where
  "cut_exp [] = None"
| "cut_exp (c # s) = (if c = CHR ''e'' \<or> c = CHR ''E'' then Some ([], s) else map_option (\<lambda>(a, b). (c # a, b)) (cut_exp s))"

fun cut_dot :: "gostring \<Rightarrow> (gostring \<times> gostring) option" where
  "cut_dot [] = None"
| "cut_dot (c # s) = (if c = CHR ''.'' then Some ([], s) else map_option (\<lambda>(a, b). (c # a, b)) (cut_dot s))"

definition digit_val :: "char \<Rightarrow> nat" where
  "digit_val c = byte c - 48"

definition digits_val :: "gostring \<Rightarrow> nat" where
  "digits_val s = foldl (\<lambda>n c. 10 * n + digit_val c) 0 s"

text \<open>\<open>big.Int.SetString(s, 10)\<close> on a decimal with an optional minus sign.\<close>

definition big_int :: "gostring \<Rightarrow> int" where
  "big_int s = (case s of c # r \<Rightarrow> if c = CHR ''-'' then - int (digits_val r) else int (digits_val s) | [] \<Rightarrow> 0)"

definition digit_char :: "nat \<Rightarrow> char" where
  "digit_char n = char_of (48 + n)"

fun nat_text :: "nat \<Rightarrow> gostring" where
  "nat_text n = (if n < 10 then [digit_char n] else nat_text (n div 10) @ [digit_char (n mod 10)])"

declare nat_text.simps [simp del]

definition int_text :: "int \<Rightarrow> gostring" where
  "int_text i = (if i < 0 then CHR ''-'' # nat_text (nat (- i)) else nat_text (nat i))"

definition trim_prefix1 :: "char \<Rightarrow> gostring \<Rightarrow> gostring" where
  "trim_prefix1 c s = (case s of x # r \<Rightarrow> if x = c then r else s | [] \<Rightarrow> [])"

definition normalNumber :: "gostring \<Rightarrow> gostring" where
  "normalNumber s0 =
     (let neg = (case s0 of c # _ \<Rightarrow> c = CHR ''-'' | [] \<Rightarrow> False);
          s1 = trim_prefix1 CHR ''-'' s0;
          (s2, e1) = (case cut_exp s1 of Some (a, b) \<Rightarrow> (a, big_int (trim_prefix1 CHR ''+'' b)) | None \<Rightarrow> (s1, 0));
          (s3, e2) = (case cut_dot s2 of Some (a, b) \<Rightarrow> (a @ b, e1 - int (length b)) | None \<Rightarrow> (s2, e1));
          s4 = dropWhile (\<lambda>c. c = CHR ''0'') s3 in
      if s4 = [] then ''0''
      else let s5 = rev (dropWhile (\<lambda>c. c = CHR ''0'') (rev s4));
               e3 = e2 + int (length s4 - length s5) in
           (if neg then CHR ''-'' # s5 else s5) @ ''e'' @ int_text e3)"

text \<open>The canonical text that \<open>Digest\<close> hashes; \<open>quote\<close> stands for \<open>json.Marshal\<close> of a string.\<close>

definition join_with :: "gostring \<Rightarrow> gostring list \<Rightarrow> gostring" where
  "join_with sep xs = (case xs of [] \<Rightarrow> [] | x # r \<Rightarrow> x @ concat (map (\<lambda>y. sep @ y) r))"

fun canonical_text :: "(gostring \<Rightarrow> gostring) \<Rightarrow> Json \<Rightarrow> gostring" where
  "canonical_text quote JNull = ''null''"
| "canonical_text quote (JBool b) = (if b then ''true'' else ''false'')"
| "canonical_text quote (JStr s) = quote s"
| "canonical_text quote (JNum s) = normalNumber s"
| "canonical_text quote (JArr xs) = ''['' @ join_with '','' (map (canonical_text quote) xs) @ '']''"
| "canonical_text quote (JObj kvs) =
     ''{'' @ join_with '','' (map snd (sort_key fst (map (\<lambda>(k, v). (k, quote k @ '':'' @ canonical_text quote v)) kvs))) @ ''}''"

section \<open>Merging\<close>

fun json_ok :: "Json \<Rightarrow> bool" where
  "json_ok (JArr xs) = list_all json_ok xs"
| "json_ok (JObj kvs) \<longleftrightarrow> distinct (map fst kvs) \<and> list_all (\<lambda>(_, v). json_ok v) kvs"
| "json_ok _ = True"

lemma delete_distinct: "distinct (map fst al) \<Longrightarrow> distinct (map fst (AList.delete k al))"
  by (induction al) (auto simp: AList.delete_eq)

lemma map_of_delete [simp]: "map_of (AList.delete k al) k' = (if k' = k then None else map_of al k')"
  by (simp add: AList.delete_conv')

lemma mergeFields_distinct: "distinct (map fst dst) \<Longrightarrow> distinct (map fst (mergeFields obj dst))"
  by (induction obj arbitrary: dst) (auto simp: AList.distinct_update delete_distinct split: prod.splits)

lemma mergeFields_lookup:
  "distinct (map fst obj) \<Longrightarrow> map_of (mergeFields obj dst) k =
     (case map_of obj k of None \<Rightarrow> map_of dst k | Some v \<Rightarrow> if v = JNull then None else Some (merge (field dst k) v))"
proof (induction obj arbitrary: dst)
  case (Cons kv obj)
  obtain k0 v where kv: "kv = (k0, v)" by fastforce
  have "k0 \<notin> dom (map_of obj)" using Cons.prems kv by (simp add: dom_map_of_conv_image_fst)
  then have "map_of obj k0 = None" by blast
  then show ?case using Cons kv by (auto simp: field_def split: option.splits)
qed simp

lemma update_same: "distinct (map fst al) \<Longrightarrow> map_of al k = Some v \<Longrightarrow> AList.update k v al = al"
  by (induction al) (auto simp: map_of_eq_None_notin split: if_splits)

lemma delete_absent: "map_of al k = None \<Longrightarrow> AList.delete k al = al"
  by (induction al) (auto simp: AList.delete_eq split: if_splits)

lemma mergeFields_stable:
  assumes "distinct (map fst dst)"
    and "\<And>k v. (k, v) \<in> set obj \<Longrightarrow> v = JNull \<Longrightarrow> map_of dst k = None"
    and "\<And>k v. (k, v) \<in> set obj \<Longrightarrow> v \<noteq> JNull \<Longrightarrow> \<exists>t. map_of dst k = Some t \<and> merge t v = t"
  shows "mergeFields obj dst = dst"
  using assms
proof (induction obj)
  case (Cons kv obj)
  obtain k v where kv: "kv = (k, v)" by fastforce
  have "(if v = JNull then AList.delete k dst else AList.update k (merge (field dst k) v) dst) = dst"
  proof (cases "v = JNull")
    case True then show ?thesis using Cons.prems(2)[of k v] kv by (simp add: delete_absent)
  next
    case False
    then obtain t where "map_of dst k = Some t" "merge t v = t" using Cons.prems(3)[of k v] kv by auto
    then show ?thesis using False Cons.prems(1) by (simp add: field_def update_same)
  qed
  then show ?case using Cons kv by auto
qed simp

lemma merge_idem: "json_ok t \<Longrightarrow> json_ok p \<Longrightarrow> merge (merge t p) p = merge t p"
proof (induction p arbitrary: t)
  case (JObj obj)
  have d: "distinct (map fst obj)" using JObj.prems(2) by simp
  have df: "distinct (map fst (obj_fields t))" using JObj.prems(1) by (cases t) (auto simp: obj_fields_def)
  have fld: "json_ok (field (obj_fields t) k)" for k
    using JObj.prems(1) by (cases t) (auto simp: obj_fields_def field_def list_all_iff split: option.splits dest!: map_of_SomeD)
  have "mergeFields obj (mergeFields obj (obj_fields t)) = mergeFields obj (obj_fields t)"
  proof (rule mergeFields_stable[OF mergeFields_distinct[OF df]])
    fix k v assume kv: "(k, v) \<in> set obj"
    then have m: "map_of obj k = Some v" using d by simp
    show "v = JNull \<Longrightarrow> map_of (mergeFields obj (obj_fields t)) k = None" using m by (simp add: mergeFields_lookup[OF d])
    have "json_ok v" using kv JObj.prems(2) by (auto simp: list_all_iff)
    then have "merge (merge (field (obj_fields t) k) v) v = merge (field (obj_fields t) k) v"
      using JObj.IH[OF kv, of v] fld by simp
    then show "v \<noteq> JNull \<Longrightarrow> \<exists>t'. map_of (mergeFields obj (obj_fields t)) k = Some t' \<and> merge t' v = t'"
      using m by (simp add: mergeFields_lookup[OF d])
  qed
  then show ?case by (simp add: obj_fields_def)
qed simp_all

end
