(* ===== verification/Payload_Properties.thy ===== *)
theory Payload_Properties
  imports Client_Payload
begin

text \<open>
  Client payloads: an update is a compare-and-swap on the revision, a merge patch follows the rules of
  JSON merge patch and is idempotent, and the canonical number text that the digest hashes identifies
  exactly the decimal value of a JSON number.
\<close>

section \<open>Decimal texts\<close>

definition all_digits :: "gostring \<Rightarrow> bool" where
  "all_digits s = list_all (\<lambda>c. 48 \<le> byte c \<and> byte c \<le> 57) s"

text \<open>A JSON number: sign, integer digits, fraction digits and exponent.\<close>

record json_number =
  jn_neg :: bool
  jn_int :: gostring
  jn_frac :: "gostring option"
  jn_exp :: "(char \<times> gostring \<times> gostring) option"

definition number_ok :: "json_number \<Rightarrow> bool" where
  "number_ok n \<longleftrightarrow> all_digits (jn_int n) \<and> jn_int n \<noteq> []
     \<and> (case jn_frac n of None \<Rightarrow> True | Some f \<Rightarrow> all_digits f \<and> f \<noteq> [])
     \<and> (case jn_exp n of None \<Rightarrow> True
        | Some (c, sg, ds) \<Rightarrow> c \<in> {CHR ''e'', CHR ''E''} \<and> sg \<in> {[], ''+'', ''-''} \<and> all_digits ds \<and> ds \<noteq> [])"

definition number_text :: "json_number \<Rightarrow> gostring" where
  "number_text n = (if jn_neg n then ''-'' else []) @ jn_int n
     @ (case jn_frac n of None \<Rightarrow> [] | Some f \<Rightarrow> ''.'' @ f)
     @ (case jn_exp n of None \<Rightarrow> [] | Some (c, sg, ds) \<Rightarrow> c # sg @ ds)"

definition frac_of :: "json_number \<Rightarrow> gostring" where
  "frac_of n = (case jn_frac n of None \<Rightarrow> [] | Some f \<Rightarrow> f)"

definition exp_of :: "json_number \<Rightarrow> int" where
  "exp_of n = (case jn_exp n of None \<Rightarrow> 0
     | Some (_, sg, ds) \<Rightarrow> if sg = ''-'' then - int (digits_val ds) else int (digits_val ds))"

text \<open>The value is mantissa times ten to the scale.\<close>

definition mantissa :: "json_number \<Rightarrow> int" where
  "mantissa n = (if jn_neg n then - 1 else 1) * int (digits_val (jn_int n @ frac_of n))"

definition scale :: "json_number \<Rightarrow> int" where
  "scale n = exp_of n - int (length (frac_of n))"

definition same_value :: "int \<Rightarrow> int \<Rightarrow> int \<Rightarrow> int \<Rightarrow> bool" where
  "same_value m e m' e' \<longleftrightarrow> m * 10 ^ nat (e - min e e') = m' * 10 ^ nat (e' - min e e')"

lemma digits_val_append: "digits_val (s @ t) = digits_val s * 10 ^ length t + digits_val t"
proof (induction t rule: rev_induct)
  case (snoc c t)
  have "digits_val (s @ t @ [c]) = 10 * digits_val (s @ t) + digit_val c" by (simp add: digits_val_def)
  moreover have "digits_val (t @ [c]) = 10 * digits_val t + digit_val c" by (simp add: digits_val_def)
  ultimately show ?case using snoc by (simp add: algebra_simps)
qed (simp add: digits_val_def)

lemma digits_val_Cons: "digits_val (c # t) = digit_val c * 10 ^ length t + digits_val t"
  using digits_val_append[of "[c]" t] by (simp add: digits_val_def)

lemma zeros_val: "list_all (\<lambda>c. c = CHR ''0'') z \<Longrightarrow> digits_val z = 0"
  by (induction z) (auto simp: digits_val_Cons digit_val_def digits_val_def[of "[]"])

lemma digits_val_bound: "all_digits s \<Longrightarrow> digits_val s < 10 ^ length s"
proof (induction s rule: rev_induct)
  case (snoc c s)
  then have "digits_val s < 10 ^ length s" "digit_val c < 10" by (auto simp: all_digits_def digit_val_def)
  then show ?case by (simp add: digits_val_append digits_val_Cons digits_val_def[of "[]"])
qed (simp add: digits_val_def)

lemma digit_val_inj: "48 \<le> byte c \<Longrightarrow> byte c \<le> 57 \<Longrightarrow> 48 \<le> byte d \<Longrightarrow> byte d \<le> 57 \<Longrightarrow> digit_val c = digit_val d \<Longrightarrow> c = d"
  by (metis digit_val_def diff_diff_cancel diff_add of_char_eq_iff)

text \<open>Digit strings of the same length, or without leading zeros, are determined by their value.\<close>

lemma digits_val_inj:
  "length s = length t \<Longrightarrow> all_digits s \<Longrightarrow> all_digits t \<Longrightarrow> digits_val s = digits_val t \<Longrightarrow> s = t"
proof (induction s arbitrary: t rule: rev_induct)
  case (snoc c s)
  then obtain d t' where t: "t = t' @ [d]" by (metis append_butlast_last_id length_0_conv length_append_singleton old.nat.distinct(2))
  have b: "digit_val c < 10" "digit_val d < 10" using snoc.prems t by (auto simp: all_digits_def digit_val_def)
  have "digits_val s * 10 + digit_val c = digits_val t' * 10 + digit_val d"
    using snoc.prems(4) t by (simp add: digits_val_append digits_val_Cons digits_val_def[of "[]"])
  then have "digits_val s = digits_val t'" "digit_val c = digit_val d" using b by presburger+
  then show ?case using snoc t by (auto simp: all_digits_def intro: digit_val_inj)
qed simp

definition no_lead :: "gostring \<Rightarrow> bool" where
  "no_lead s \<longleftrightarrow> all_digits s \<and> s \<noteq> [] \<and> hd s \<noteq> CHR ''0''"

lemma no_lead_bounds:
  assumes "no_lead s"
  shows "10 ^ (length s - 1) \<le> digits_val s" "digits_val s < 10 ^ length s"
proof -
  obtain c t where s: "s = c # t" "c \<noteq> CHR ''0''" using assms by (cases s) (auto simp: no_lead_def)
  have "byte c \<noteq> byte CHR ''0''" using s(2) of_char_eq_iff by blast
  then have "byte c \<noteq> 48" by simp
  then have "1 \<le> digit_val c" using assms s by (auto simp: no_lead_def all_digits_def digit_val_def)
  then show "10 ^ (length s - 1) \<le> digits_val s" by (simp add: s digits_val_Cons add_increasing2)
  show "digits_val s < 10 ^ length s" using assms digits_val_bound by (simp add: no_lead_def)
qed

lemma no_lead_inj:
  assumes "no_lead s" "no_lead t" "digits_val s = digits_val t"
  shows "s = t"
proof -
  have "length s = length t"
  proof (rule ccontr)
    assume ne: "length s \<noteq> length t"
    have *: False if "no_lead a" "no_lead b" "digits_val a = digits_val b" "length a < length b" for a b
    proof -
      have "(10 :: nat) ^ length a \<le> 10 ^ (length b - 1)" using that(4) by (intro power_increasing) auto
      then show False using no_lead_bounds(2)[OF that(1)] no_lead_bounds(1)[OF that(2)] that(3) by linarith
    qed
    show False using *[OF assms] *[OF assms(2,1) assms(3)[symmetric]] ne by linarith
  qed
  then show ?thesis using digits_val_inj assms by (simp add: no_lead_def)
qed

section \<open>The normal form\<close>

text \<open>Trimming zeros on both sides gives the mantissa without leading or trailing zeros.\<close>

definition trim_right0 :: "gostring \<Rightarrow> gostring" where
  "trim_right0 s = rev (dropWhile (\<lambda>c. c = CHR ''0'') (rev s))"

lemma dropWhile_zeros:
  assumes "all_digits s"
  shows "digits_val (dropWhile (\<lambda>c. c = CHR ''0'') s) = digits_val s"
    and "dropWhile (\<lambda>c. c = CHR ''0'') s = [] \<longleftrightarrow> digits_val s = 0"
    and "dropWhile (\<lambda>c. c = CHR ''0'') s \<noteq> [] \<Longrightarrow> no_lead (dropWhile (\<lambda>c. c = CHR ''0'') s)"
proof -
  let ?d = "dropWhile (\<lambda>c. c = CHR ''0'') s" and ?z = "takeWhile (\<lambda>c. c = CHR ''0'') s"
  have z: "digits_val ?z = 0" by (rule zeros_val) (metis list_all_iff set_takeWhileD)
  have "digits_val (?z @ ?d) = digits_val ?d" using z by (simp only: digits_val_append mult_zero_left add_0)
  then show v: "digits_val ?d = digits_val s" by simp
  have ad: "all_digits ?d" using assms set_dropWhileD by (fastforce simp: all_digits_def list_all_iff)
  show nl: "no_lead ?d" if "?d \<noteq> []" using that ad hd_dropWhile[OF that] by (simp add: no_lead_def)
  show "?d = [] \<longleftrightarrow> digits_val s = 0"
  proof (cases "?d = []")
    case True
    have "digits_val ?d = 0" unfolding True by (simp add: digits_val_def)
    then show ?thesis using v True by simp
  next
    case False
    have "1 \<le> (10 :: nat) ^ (length ?d - 1)" by simp
    then have "1 \<le> digits_val ?d" using no_lead_bounds(1)[OF nl[OF False]] by linarith
    then show ?thesis using False v by simp
  qed
qed

lemma trim_right0_split:
  "s = trim_right0 s @ replicate (length s - length (trim_right0 s)) CHR ''0''"
proof -
  let ?z = "takeWhile (\<lambda>c. c = CHR ''0'') (rev s)"
  have "rev s = ?z @ rev (trim_right0 s)" by (simp add: trim_right0_def)
  then have s: "s = trim_right0 s @ rev ?z" by (metis rev_append rev_rev_ident)
  have z: "?z = replicate (length ?z) CHR ''0''"
    by (rule replicate_length_same[symmetric]) (metis set_takeWhileD)
  have "length ?z = length s - length (trim_right0 s)" using arg_cong[OF s, of length] by simp
  then show ?thesis using s z by (metis rev_replicate)
qed

lemma trim_right0_props:
  assumes "no_lead s"
  shows "no_lead (trim_right0 s)" "\<not> 10 dvd digits_val (trim_right0 s)"
    "digits_val s = digits_val (trim_right0 s) * 10 ^ (length s - length (trim_right0 s))"
proof -
  let ?t = "trim_right0 s" and ?n = "length s - length (trim_right0 s)"
  note sp = trim_right0_split[of s]
  have pos: "digits_val s \<noteq> 0" using no_lead_bounds(1)[OF assms] by (metis not_one_le_zero one_le_numeral one_le_power order_trans)
  have "digits_val (replicate ?n CHR ''0'') = 0" by (rule zeros_val) (simp add: list_all_iff)
  then have v: "digits_val s = digits_val ?t * 10 ^ ?n" using arg_cong[OF sp, of digits_val] by (simp add: digits_val_append)
  then show "digits_val s = digits_val ?t * 10 ^ ?n" .
  have ne: "?t \<noteq> []" using v pos by (auto simp: digits_val_def)
  have "all_digits (?t @ replicate ?n CHR ''0'')" using assms sp by (simp add: no_lead_def)
  then have ad: "all_digits ?t" by (simp add: all_digits_def)
  have "hd (?t @ replicate ?n CHR ''0'') = hd ?t" using ne by simp
  then have "hd ?t = hd s" using sp by simp
  then show "no_lead ?t" using ad ne assms by (simp add: no_lead_def)
  have last: "last ?t \<noteq> CHR ''0''"
    using ne hd_dropWhile[of "\<lambda>c. c = CHR ''0''" "rev s"] by (simp add: trim_right0_def last_rev)
  have "byte (last ?t) \<noteq> byte CHR ''0''" using last of_char_eq_iff by blast
  then have "byte (last ?t) \<noteq> 48" by simp
  moreover have "48 \<le> byte (last ?t)" "byte (last ?t) \<le> 57" using ad ne by (auto simp: all_digits_def list_all_iff)
  ultimately have "0 < digit_val (last ?t)" "digit_val (last ?t) < 10" by (auto simp: digit_val_def)
  moreover have "digits_val ?t = 10 * digits_val (butlast ?t) + digit_val (last ?t)"
    using digits_val_append[of "butlast ?t" "[last ?t]"] ne by (simp add: digits_val_Cons digits_val_def[of "[]"])
  ultimately show "\<not> 10 dvd digits_val ?t" by (simp add: dvd_add_right_iff nat_dvd_not_less)
qed

lemma ten_normal_unique:
  fixes m m' :: int
  assumes "m * 10 ^ a = m' * 10 ^ b" "\<not> 10 dvd m" "\<not> 10 dvd m'"
  shows "m = m' \<and> a = b"
proof -
  have *: "a = b" if eq: "m * 10 ^ a = m' * 10 ^ b" and nd: "\<not> 10 dvd m" "\<not> 10 dvd m'" "a \<le> b" for m m' :: int and a b
  proof (rule ccontr)
    assume "a \<noteq> b"
    then have "a < b" using nd(3) by simp
    then obtain k where k: "b = Suc (a + k)" using less_imp_Suc_add by blast
    have "m * 10 ^ a = m' * 10 * 10 ^ k * 10 ^ a" using eq unfolding k power_Suc power_add by (simp only: ac_simps)
    then have "m = m' * 10 * 10 ^ k" by simp
    then show False using nd(1) by simp
  qed
  have "a = b" using *[OF assms] *[OF assms(1)[symmetric] assms(3,2)] by linarith
  then show ?thesis using assms(1) by simp
qed

lemma same_value_normal:
  assumes "\<not> 10 dvd m" "\<not> 10 dvd m'"
  shows "same_value m e m' e' \<longleftrightarrow> m = m' \<and> e = e'"
proof
  assume "same_value m e m' e'"
  then have "m = m' \<and> nat (e - min e e') = nat (e' - min e e')" using ten_normal_unique[OF _ assms] by (simp add: same_value_def)
  then show "m = m' \<and> e = e'" by auto
qed (simp add: same_value_def)

lemma same_value_scale: "same_value (m * 10 ^ k) e m' e' \<longleftrightarrow> same_value m (e + int k) m' e'"
proof -
  define a where "a = min e e'" define b where "b = min (e + int k) e'"
  have b: "a \<le> b" by (simp add: a_def b_def)
  have l: "k + nat (e - a) = nat (e + int k - b) + nat (b - a)" "nat (e' - a) = nat (e' - b) + nat (b - a)"
    by (auto simp: a_def b_def min_def)
  have p: "m * 10 ^ k * 10 ^ nat (e - a) = m * 10 ^ nat (e + int k - b) * 10 ^ nat (b - a)"
    by (metis l(1) mult.assoc power_add)
  have q: "m' * 10 ^ nat (e' - a) = m' * 10 ^ nat (e' - b) * 10 ^ nat (b - a)" by (metis l(2) mult.assoc power_add)
  show ?thesis unfolding same_value_def a_def[symmetric] b_def[symmetric] p q by simp
qed

lemma same_value_sym: "same_value m e m' e' \<longleftrightarrow> same_value m' e' m e"
  unfolding same_value_def by (metis min.commute)

section \<open>Texts\<close>

lemma digit_char_byte: "n < 10 \<Longrightarrow> byte (digit_char n) = 48 + n"
  by (simp add: digit_char_def)

lemma nat_text_digits: "all_digits (nat_text n) \<and> nat_text n \<noteq> [] \<and> digits_val (nat_text n) = n"
proof (induction n rule: nat_text.induct)
  case (1 n)
  show ?case
  proof (cases "n < 10")
    case True
    then show ?thesis
      by (simp add: nat_text.simps[of n] all_digits_def digit_char_byte digits_val_Cons digit_val_def digits_val_def[of "[]"])
  next
    case False
    have m: "n mod 10 < 10" by simp
    have b: "byte (digit_char (n mod 10)) = 48 + n mod 10" by (rule digit_char_byte[OF m])
    have t: "nat_text n = nat_text (n div 10) @ [digit_char (n mod 10)]" using False by (simp add: nat_text.simps[of n])
    show ?thesis using 1[OF False] m unfolding t
      by (simp add: all_digits_def b digits_val_append digits_val_Cons digit_val_def digits_val_def[of "[]"])
  qed
qed

lemma not_digit: "all_digits s \<Longrightarrow> c \<in> set s \<Longrightarrow> c \<noteq> CHR ''-'' \<and> c \<noteq> CHR ''+'' \<and> c \<noteq> CHR ''.'' \<and> c \<noteq> CHR ''e'' \<and> c \<noteq> CHR ''E''"
  by (auto simp: all_digits_def list_all_iff)

lemma int_text_inj: "int_text i = int_text j \<Longrightarrow> i = j"
proof -
  assume eq: "int_text i = int_text j"
  have ne: "nat_text a \<noteq> CHR ''-'' # x" for a x
    using not_digit[of "nat_text a" "CHR ''-''"] nat_text_digits[of a] by auto
  have v: "a = b" if "nat_text a = nat_text b" for a b using that nat_text_digits by metis
  show "i = j"
  proof (cases "i < 0"; cases "j < 0")
    assume "i < 0" "j < 0"
    then show ?thesis using v[of "nat (- i)" "nat (- j)"] eq by (simp add: int_text_def)
  next
    assume "\<not> i < 0" "\<not> j < 0"
    then show ?thesis using v[of "nat i" "nat j"] eq by (simp add: int_text_def)
  next
    assume "i < 0" "\<not> j < 0"
    then show ?thesis using ne[of "nat j"] eq[symmetric] by (simp add: int_text_def)
  next
    assume "\<not> i < 0" "j < 0"
    then show ?thesis using ne[of "nat i"] eq by (simp add: int_text_def)
  qed
qed

lemma cut_exp_digits: "\<forall>c\<in>set s. c \<noteq> CHR ''e'' \<and> c \<noteq> CHR ''E'' \<Longrightarrow> cut_exp s = None"
  "\<forall>c\<in>set s. c \<noteq> CHR ''e'' \<and> c \<noteq> CHR ''E'' \<Longrightarrow> x = CHR ''e'' \<or> x = CHR ''E'' \<Longrightarrow> cut_exp (s @ x # t) = Some (s, t)"
  by (induction s) auto

lemma cut_dot_digits: "\<forall>c\<in>set s. c \<noteq> CHR ''.'' \<Longrightarrow> cut_dot s = None"
  "\<forall>c\<in>set s. c \<noteq> CHR ''.'' \<Longrightarrow> cut_dot (s @ CHR ''.'' # t) = Some (s, t)"
  by (induction s) auto

lemma big_int_digits:
  assumes "all_digits ds" "ds \<noteq> []"
  shows "big_int (trim_prefix1 CHR ''+'' (''+'' @ ds)) = int (digits_val ds)"
    "big_int (trim_prefix1 CHR ''+'' (''-'' @ ds)) = - int (digits_val ds)"
    "big_int (trim_prefix1 CHR ''+'' ds) = int (digits_val ds)"
proof -
  obtain c t where ds: "ds = c # t" using assms(2) by (cases ds) auto
  have "c \<noteq> CHR ''-''" "c \<noteq> CHR ''+''" using not_digit[OF assms(1), of c] ds by auto
  then show "big_int (trim_prefix1 CHR ''+'' (''+'' @ ds)) = int (digits_val ds)"
    "big_int (trim_prefix1 CHR ''+'' (''-'' @ ds)) = - int (digits_val ds)"
    "big_int (trim_prefix1 CHR ''+'' ds) = int (digits_val ds)"
    by (simp_all add: ds big_int_def trim_prefix1_def)
qed

lemma normalNumber_text:
  assumes ok: "number_ok n"
  shows "normalNumber (number_text n) =
    (let s = dropWhile (\<lambda>c. c = CHR ''0'') (jn_int n @ frac_of n); t = trim_right0 s in
     if s = [] then ''0''
     else (if jn_neg n then CHR ''-'' # t else t) @ ''e'' @ int_text (scale n + int (length s - length t)))"
proof -
  let ?f = "case jn_frac n of None \<Rightarrow> [] | Some f \<Rightarrow> ''.'' @ f"
  let ?x = "case jn_exp n of None \<Rightarrow> [] | Some (c, sg, ds) \<Rightarrow> c # sg @ ds"
  have ip: "all_digits (jn_int n)" "jn_int n \<noteq> []" using ok by (simp_all add: number_ok_def)
  have fr: "all_digits (frac_of n)" using ok by (auto simp: number_ok_def frac_of_def all_digits_def split: option.splits)
  have hd: "jn_int n @ r \<noteq> [] \<and> hd (jn_int n @ r) \<noteq> CHR ''-''" for r using not_digit[OF ip(1)] ip(2) by (cases "jn_int n") auto
  then have neg: "(case number_text n of c # _ \<Rightarrow> c = CHR ''-'' | [] \<Rightarrow> False) = jn_neg n"
    and s1: "trim_prefix1 CHR ''-'' (number_text n) = jn_int n @ ?f @ ?x"
    using hd[of "?f @ ?x"] by (cases "jn_int n"; auto simp: number_text_def trim_prefix1_def)+
  have plain: "\<forall>c\<in>set (jn_int n @ ?f). c \<noteq> CHR ''e'' \<and> c \<noteq> CHR ''E''"
    using not_digit[OF ip(1)] not_digit[OF fr] by (auto simp: frac_of_def split: option.splits)
  have e1: "(case cut_exp (jn_int n @ ?f @ ?x) of Some (a, b) \<Rightarrow> (a, big_int (trim_prefix1 CHR ''+'' b)) | None \<Rightarrow> (jn_int n @ ?f @ ?x, 0))
      = (jn_int n @ ?f, exp_of n)"
  proof (cases "jn_exp n")
    case None then show ?thesis using cut_exp_digits(1)[OF plain] by (simp add: exp_of_def)
  next
    case (Some x)
    obtain c sg ds where x: "x = (c, sg, ds)" by (cases x) auto
    have o: "c = CHR ''e'' \<or> c = CHR ''E''" "sg \<in> {[], ''+'', ''-''}" "all_digits ds" "ds \<noteq> []"
      using ok Some x by (auto simp: number_ok_def)
    have "cut_exp (jn_int n @ ?f @ ?x) = Some (jn_int n @ ?f, sg @ ds)"
      using cut_exp_digits(2)[OF plain o(1), of "sg @ ds"] Some x by simp
    then show ?thesis using big_int_digits[OF o(3,4)] o(2) Some x by (auto simp: exp_of_def)
  qed
  have nodot: "\<forall>c\<in>set (jn_int n). c \<noteq> CHR ''.''" using not_digit[OF ip(1)] by blast
  have e2: "(case cut_dot (jn_int n @ ?f) of Some (a, b) \<Rightarrow> (a @ b, exp_of n - int (length b)) | None \<Rightarrow> (jn_int n @ ?f, exp_of n))
      = (jn_int n @ frac_of n, scale n)"
    using cut_dot_digits(1)[OF nodot] cut_dot_digits(2)[OF nodot] by (cases "jn_frac n") (auto simp: frac_of_def scale_def)
  show ?thesis unfolding normalNumber_def neg s1 e1 e2 Let_def prod.case trim_right0_def by simp
qed

lemma exp_split: "all_digits a \<Longrightarrow> all_digits b \<Longrightarrow> a @ CHR ''e'' # x = b @ CHR ''e'' # y \<Longrightarrow> a = b \<and> x = y"
proof (induction a arbitrary: b)
  case Nil then show ?case using not_digit[of b "CHR ''e''"] by (cases b) auto
next
  case (Cons c a)
  have "c \<noteq> CHR ''e''" using not_digit[OF Cons.prems(1), of c] by simp
  then obtain b' where b: "b = c # b'" using Cons.prems(3) by (cases b) auto
  show ?case using Cons.IH[of b'] Cons.prems b by (auto simp: all_digits_def)
qed

text \<open>What \<open>normalNumber\<close> computes, as a number: sign, trimmed digits and exponent.\<close>

lemma normal_form:
  assumes "number_ok n"
  obtains "mantissa n = 0" "normalNumber (number_text n) = ''0''"
  | t e where "no_lead t" "\<not> 10 dvd digits_val t"
      "normalNumber (number_text n) = (if jn_neg n then CHR ''-'' # t else t) @ ''e'' @ int_text e"
      "\<And>m' e'. same_value (mantissa n) (scale n) m' e' \<longleftrightarrow> same_value ((if jn_neg n then - 1 else 1) * int (digits_val t)) e m' e'"
proof -
  let ?d = "jn_int n @ frac_of n" let ?s = "dropWhile (\<lambda>c. c = CHR ''0'') ?d"
  have ad: "all_digits ?d" using assms by (auto simp: number_ok_def frac_of_def all_digits_def split: option.splits)
  note dz = dropWhile_zeros[OF ad]
  show thesis
  proof (cases "?s = []")
    case True
    then have "mantissa n = 0" using dz(2) by (simp add: mantissa_def)
    then show ?thesis using that(1) True normalNumber_text[OF assms] by (simp add: Let_def)
  next
    case False
    let ?t = "trim_right0 ?s"
    note tr = trim_right0_props[OF dz(3)[OF False]]
    let ?k = "length ?s - length ?t"
    have m: "mantissa n = (if jn_neg n then - 1 else 1) * int (digits_val ?t) * 10 ^ ?k"
      using tr(3) dz(1) by (simp add: mantissa_def)
    show ?thesis
    proof (rule that(2)[OF tr(1,2)])
      show "normalNumber (number_text n) = (if jn_neg n then CHR ''-'' # ?t else ?t) @ ''e'' @ int_text (scale n + int ?k)"
        unfolding normalNumber_text[OF assms] Let_def if_not_P[OF False] ..
      show "same_value (mantissa n) (scale n) m' e' \<longleftrightarrow>
          same_value ((if jn_neg n then - 1 else 1) * int (digits_val ?t)) (scale n + int ?k) m' e'" for m' e'
        unfolding m by (rule same_value_scale)
    qed
  qed
qed

lemma same_value_zero: "same_value 0 e m' e' \<longleftrightarrow> m' = 0" "same_value m e 0 e' \<longleftrightarrow> m = 0"
  by (auto simp: same_value_def)

lemma signed_digits:
  assumes "no_lead t" "no_lead u" "(if a then - 1 else 1) * int (digits_val t) = (if b then - 1 else 1) * int (digits_val u)"
  shows "a = b \<and> t = u"
proof -
  have p: "0 < digits_val x" if "no_lead x" for x
    using no_lead_bounds(1)[OF that] by (metis gr0I le_zero_eq power_not_zero zero_neq_numeral)
  have "a = b" "digits_val t = digits_val u" using assms(3) p[OF assms(1)] p[OF assms(2)] by (auto split: if_splits)
  then show ?thesis using no_lead_inj[OF assms(1,2)] by simp
qed

section \<open>Properties\<close>

text \<open>A canonical text other than \<open>0\<close> determines the sign, the digits and the exponent.\<close>

lemma normal_text_inj:
  assumes "no_lead t" "no_lead u" and "(if p then CHR ''-'' # t else t) @ ''e'' @ int_text e = (if q then CHR ''-'' # u else u) @ ''e'' @ int_text f"
  shows "p = q \<and> t = u \<and> e = f"
proof -
  have d: "all_digits t" "all_digits u" "t \<noteq> []" "u \<noteq> []" using assms(1,2) by (auto simp: no_lead_def)
  have h: "t \<noteq> CHR ''-'' # x" "u \<noteq> CHR ''-'' # x" for x using not_digit[OF d(1), of "CHR ''-''"] not_digit[OF d(2), of "CHR ''-''"] by auto
  have sg: "p = q" using assms(3) h d(3,4) by (cases t; cases u) (auto split: if_splits)
  have "t @ CHR ''e'' # int_text e = u @ CHR ''e'' # int_text f" using assms(3) unfolding sg by (cases q) simp_all
  from exp_split[OF d(1,2) this] show ?thesis using sg int_text_inj by blast
qed

lemma normal_nonzero:
  assumes "no_lead t" "\<not> 10 dvd digits_val t" "normalNumber (number_text n) = (if jn_neg n then CHR ''-'' # t else t) @ ''e'' @ int_text e"
    and "\<And>m' e'. same_value (mantissa n) (scale n) m' e' \<longleftrightarrow> same_value ((if jn_neg n then - 1 else 1) * int (digits_val t)) e m' e'"
  shows "normalNumber (number_text n) \<noteq> ''0'' \<and> mantissa n \<noteq> 0"
proof
  show "normalNumber (number_text n) \<noteq> ''0''" using assms(1,3) by (cases t) (auto simp: no_lead_def)
  show "mantissa n \<noteq> 0" using assms(4)[of 0 0] assms(2) by (auto simp: same_value_zero split: if_split_asm)
qed

text \<open>
  C36. The canonical number text of the digest is exact: two JSON numbers have the same canonical
  text if and only if they denote the same decimal value, whatever their spelling (leading zeros of
  the exponent, fraction or exponent form, trailing zeros, signed zero).
\<close>

theorem normal_number_exact:
  assumes "number_ok a" and "number_ok b"
  shows "normalNumber (number_text a) = normalNumber (number_text b) \<longleftrightarrow>
    same_value (mantissa a) (scale a) (mantissa b) (scale b)"
  using assms(1)
proof (cases rule: normal_form)
  case 1
  note A = 1
  from assms(2) show ?thesis
  proof (cases rule: normal_form)
    case 1 then show ?thesis using A by (simp add: same_value_zero)
  next
    case (2 u f) show ?thesis using A normal_nonzero[OF 2] by (simp add: same_value_zero) metis
  qed
next
  case (2 t e)
  note A = 2
  from assms(2) show ?thesis
  proof (cases rule: normal_form)
    case 1 show ?thesis using 1 normal_nonzero[OF A] by (simp add: same_value_zero)
  next
    case (2 u f)
    let ?m = "(if jn_neg a then - 1 else 1) * int (digits_val t)" and ?m' = "(if jn_neg b then - 1 else 1) * int (digits_val u)"
    have nd: "\<not> 10 dvd ?m" "\<not> 10 dvd ?m'" using A(2) 2(2) by (auto simp: int_dvd_int_iff[of 10, simplified])
    have "same_value (mantissa a) (scale a) (mantissa b) (scale b) \<longleftrightarrow> same_value ?m e ?m' f"
      using A(4) 2(4) same_value_sym by metis
    also have "\<dots> \<longleftrightarrow> ?m = ?m' \<and> e = f" by (rule same_value_normal[OF nd])
    also have "\<dots> \<longleftrightarrow> jn_neg a = jn_neg b \<and> t = u \<and> e = f" using signed_digits[OF A(1) 2(1), of "jn_neg a" "jn_neg b"] by metis
    also have "\<dots> \<longleftrightarrow> normalNumber (number_text a) = normalNumber (number_text b)"
      unfolding A(3) 2(3) by (rule iffI[OF _ normal_text_inj[OF A(1) 2(1)]]) simp_all
    finally show ?thesis by simp
  qed
qed

theorem normal_number_exact_witness:
  "normalNumber ''12.50e+1'' = normalNumber ''125'' \<and> normalNumber ''-0.0'' = ''0''
   \<and> same_value 1250 (- 1) 125 0"
proof -
  let ?a = "\<lparr>jn_neg = False, jn_int = ''12'', jn_frac = Some ''50'', jn_exp = Some (CHR ''e'', ''+'', ''1'')\<rparr>"
  let ?b = "\<lparr>jn_neg = False, jn_int = ''125'', jn_frac = None, jn_exp = None\<rparr>"
  have ok: "number_ok ?a" "number_ok ?b" by (simp_all add: number_ok_def all_digits_def)
  have t: "number_text ?a = ''12.50e+1''" "number_text ?b = ''125''" by (simp_all add: number_text_def)
  have m: "mantissa ?a = 1250" "scale ?a = - 1" "mantissa ?b = 125" "scale ?b = 0"
    by (simp_all add: mantissa_def scale_def exp_of_def frac_of_def digits_val_def digit_val_def)
  have v: "same_value 1250 (- 1) 125 0" by (simp add: same_value_def)
  have "normalNumber ''12.50e+1'' = normalNumber ''125''"
    using normal_number_exact[OF ok, unfolded t m] v by blast
  moreover have "normalNumber ''-0.0'' = ''0''" by code_simp
  ultimately show ?thesis using v by blast
qed

text \<open>
  C35. A merge patch obeys JSON merge patch: for every name, the result has the target's value if the
  patch does not mention the name, no value if the patch says null, and otherwise the patch's value
  merged into the target's; and applying the same patch twice is applying it once.
\<close>

theorem merge_patch_laws:
  assumes "json_ok target" and "json_ok (JObj obj)"
  shows "map_of (obj_fields (merge target (JObj obj))) k =
      (case map_of obj k of
         None \<Rightarrow> map_of (obj_fields target) k
       | Some v \<Rightarrow> if v = JNull then None else Some (merge (field (obj_fields target) k) v))
    \<and> merge (merge target (JObj obj)) (JObj obj) = merge target (JObj obj)"
proof -
  have "obj_fields (merge target (JObj obj)) = mergeFields obj (obj_fields target)" by (simp add: obj_fields_def)
  then show ?thesis using mergeFields_lookup[of obj "obj_fields target" k] merge_idem[OF assms] assms(2) by simp
qed

theorem merge_patch_laws_witness:
  "merge (JObj [(''a'', JNum ''1''), (''b'', JNull)]) (JObj [(''a'', JNull), (''c'', JObj [(''d'', JStr ''x''), (''e'', JNull)])])
     = JObj [(''b'', JNull), (''c'', JObj [(''d'', JStr ''x'')])]
   \<and> map_of (obj_fields (merge (JObj [(''a'', JNum ''1''), (''b'', JNull)]) (JObj [(''a'', JNull)]))) ''a'' = None"
proof -
  have "json_ok (JObj [(''a'', JNum ''1''), (''b'', JNull)])" "json_ok (JObj [(''a'', JNull)])" by simp_all
  from merge_patch_laws[OF this, of "''a''"] show ?thesis by (simp add: obj_fields_def field_def)
qed

text \<open>
  C34. A client payload update is a compare-and-swap: it takes effect only on the revision it names,
  moves the revision to the next one without overflow, and any later update that names the same
  revision is refused as a conflict.
\<close>

theorem payload_cas:
  assumes "Apply lib current revision (Some u) = Inr (value, revision')" and "int64 revision"
    and "cu_ExpectedRevision u2 = cu_ExpectedRevision u"
  shows "cu_ExpectedRevision u = Some revision \<and> revision' = revision + 1 \<and> int64 revision'
    \<and> \<not> isl (ValidateUpdate lib (Some u) False)
    \<and> (\<exists>err. Apply lib value revision' (Some u2) = Inl err)"
proof -
  have a: "cu_ExpectedRevision u = Some revision" "revision \<noteq> 2 ^ 63 - 1" "revision' = wrap64 (revision + 1)"
    "ValidateUpdate lib (Some u) False = Inr ()"
    using assms(1) by (auto simp: Apply_def rbind_Inr_iff split: if_split_asm)
  have i: "int64 (revision + 1)" using assms(2) a(2) by (auto simp: int64_def)
  then have r: "revision' = revision + 1" using a(3) by simp
  have "Apply lib value revision' (Some u2) \<noteq> Inr x" for x
    using assms(3) a(1) r by (auto simp: Apply_def rbind_Inr_iff)
  then have "\<exists>err. Apply lib value revision' (Some u2) = Inl err" by (metis Inl_Inr_False sumE)
  then show ?thesis using a r i by simp
qed

theorem payload_cas_witness:
  "Apply \<lparr>pl_parse = (\<lambda>_. Inr JNull), pl_marshal = (\<lambda>_. Inr ''null'')\<rparr> None 4
      (Some \<lparr>cu_Mode = ''reset'', cu_Value = Some ''1'', cu_ExpectedRevision = Some 4\<rparr>) = Inr (Some ''1'', 5)
   \<and> (\<exists>err. Apply \<lparr>pl_parse = (\<lambda>_. Inr JNull), pl_marshal = (\<lambda>_. Inr ''null'')\<rparr> (Some ''1'') 5
      (Some \<lparr>cu_Mode = ''reset'', cu_Value = None, cu_ExpectedRevision = Some 4\<rparr>) = Inl err)"
proof -
  have a: "Apply \<lparr>pl_parse = (\<lambda>_. Inr JNull), pl_marshal = (\<lambda>_. Inr ''null'')\<rparr> None 4
      (Some \<lparr>cu_Mode = ''reset'', cu_Value = Some ''1'', cu_ExpectedRevision = Some 4\<rparr>) = Inr (Some ''1'', 5)"
    by (simp add: Apply_def ValidateUpdate_def applyValue_def rbind_def int64_def)
  have "int64 4" by (simp add: int64_def)
  from payload_cas[OF a this, of "\<lparr>cu_Mode = ''reset'', cu_Value = None, cu_ExpectedRevision = Some 4\<rparr>"] a show ?thesis by simp
qed

end
