(* ===== verification/Schedule_Trigger.thy ===== *)
theory Schedule_Trigger
  imports Client_Payload Cell_Repo
begin

text \<open>
  When a schedule fires (\<open>pkg/jobdb/schedule_trigger.go\<close>) and the failure policy of
  \<open>pkg/jobdb/schedule.go\<close>.  The clock fields of an instant are those of package \<open>time\<close>: the
  proleptic Gregorian calendar at the offset of a location.  The time zone database is a parameter
  that gives, for the name of a location, its offset in seconds at every instant.
\<close>

type_synonym zones = "gostring \<Rightarrow> (instant \<Rightarrow> int) option"

record ScheduleTrigger =
  tr_Kind :: gostring
  tr_Expression :: gostring
  tr_Timezone :: gostring
  tr_StartAt :: "instant option"
  tr_EndAt :: "instant option"
  tr_Interval :: duration

section \<open>Package time\<close>

definition minute :: duration where
  "minute = 60000000000"

text \<open>\<open>Time.Truncate(time.Minute)\<close> counts from the zero time.\<close>

definition truncateMinute :: "instant \<Rightarrow> instant" where
  "truncateMinute t = t - (t - zero_time) mod minute"

definition local_seconds :: "(instant \<Rightarrow> int) \<Rightarrow> instant \<Rightarrow> int" where
  "local_seconds zone t = t div 1000000000 + zone t"

text \<open>Year, month and day of a day counted from January 1, 1970, in years that begin in March.\<close>

definition civil :: "int \<Rightarrow> int \<times> int \<times> int" where
  "civil days =
     (let z = days + 719468; era = z div 146097; doe = z mod 146097;
          yoe = (doe - doe div 1460 + doe div 36524 - doe div 146096) div 365;
          doy = doe - (365 * yoe + yoe div 4 - yoe div 100);
          mp = (5 * doy + 2) div 153;
          month = (if mp < 10 then mp + 3 else mp - 9)
      in (yoe + 400 * era + (if month \<le> 2 then 1 else 0), month, doy - (153 * mp + 2) div 5 + 1))"

section \<open>Package strings and strconv\<close>

fun word :: "gostring \<Rightarrow> gostring \<times> gostring" where
  "word [] = ([], [])"
| "word (c # s) = (if leading_space (c # s) then ([], c # s) else let (w, r) = word s in (c # w, r))"

lemma word_length: "length (snd (word s)) \<le> length s"
  by (induction s) (simp_all add: split_def Let_def)

lemma trim_left_length: "length (trim_left s) \<le> length s"
proof (induction s rule: length_induct)
  case (1 s)
  have ih: "length t < length s \<Longrightarrow> length (trim_left t) \<le> length s" for t using 1 by (meson le_trans less_imp_le)
  show ?case
  proof (cases s)
    case (Cons a t)
    then show ?thesis using ih[of t] ih[of "tl t"] ih[of "tl (tl t)"]
      by (simp only: trim_left.simps(2) split: if_split list.split) (auto simp del: trim_left.simps)
  qed simp
qed

text \<open>\<open>strings.Fields\<close>: a trimmed text does not begin with a space.\<close>

function split_fields :: "gostring \<Rightarrow> gostring list" where
  "split_fields s = (case trim_left s of [] \<Rightarrow> [] | c # r \<Rightarrow> (c # fst (word r)) # split_fields (snd (word r)))"
  by pat_completeness auto
termination
proof (relation "measure length")
  fix s c r assume "trim_left s = c # r"
  then show "(snd (word r), s) \<in> measure length" using trim_left_length[of s] word_length[of r] by simp
qed simp

declare split_fields.simps [simp del]

text \<open>\<open>strconv.Atoi\<close>: an optional sign and decimal digits, in the range of \<open>int\<close>.\<close>

definition Atoi :: "gostring \<Rightarrow> int option" where
  "Atoi s =
     (let digits = (case s of c # r \<Rightarrow> if c = CHR ''-'' \<or> c = CHR ''+'' then r else s | [] \<Rightarrow> []);
          n = (if has_prefix s ''-'' then - int (digits_val digits) else int (digits_val digits))
      in if digits \<noteq> [] \<and> list_all is_digit digits \<and> int64 n then Some n else None)"

section \<open>Cron expressions\<close>

record cronSpec =
  cron_minutes :: "int set"
  cron_hours :: "int set"
  cron_days :: "int set"
  cron_months :: "int set"
  cron_weekdays :: "int set"

definition cronRange :: "gostring \<Rightarrow> int \<Rightarrow> int \<Rightarrow> error + (int \<times> int)" where
  "cronRange part lo hi =
     (if part = ''*'' then Inr (lo, hi)
      else if CHR ''-'' \<in> set part then
        (case split_on (CHR ''-'') part of
           [a, b] \<Rightarrow>
             (case Atoi a of
                None \<Rightarrow> Inl (ErrText ''invalid range start'')
              | Some start \<Rightarrow>
                  (case Atoi b of
                     None \<Rightarrow> Inl (ErrText ''invalid range end'')
                   | Some stop \<Rightarrow>
                       if start > stop then Inl (ErrText ''range start greater than end'')
                       else if start < lo \<or> stop > hi then Inl (ErrText ''range out of bounds'')
                       else Inr (start, stop)))
         | _ \<Rightarrow> Inl (ErrText ''invalid range''))
      else case Atoi part of
          None \<Rightarrow> Inl (ErrText ''invalid value'')
        | Some v \<Rightarrow> if v < lo \<or> v > hi then Inl (ErrText ''value out of bounds'') else Inr (v, v))"

text \<open>
  The loop over the values of a segment. Its counter wraps around, so that it is written as a loop
  that might not end; \<open>None\<close> would be a loop that does not.
\<close>

partial_function (option) cronLoop :: "int \<Rightarrow> int \<Rightarrow> int \<Rightarrow> bool \<Rightarrow> int set \<Rightarrow> int set option" where
  "cronLoop v stop step sundayAlias out =
     (if v \<le> stop then cronLoop (wrap64 (v + step)) stop step sundayAlias (insert (if sundayAlias \<and> v = 7 then 0 else v) out)
      else Some out)"

declare cronLoop.simps [code]

definition cronStep :: "gostring \<Rightarrow> error + (gostring \<times> int)" where
  "cronStep part =
     (if CHR ''/'' \<in> set part then
        (case split_on (CHR ''/'') part of
           [a, b] \<Rightarrow>
             (case Atoi b of
                None \<Rightarrow> Inl (ErrText ''invalid step'')
              | Some n \<Rightarrow> if n \<le> 0 then Inl (ErrText ''invalid step'') else Inr (a, n))
         | _ \<Rightarrow> Inl (ErrText ''invalid step''))
      else Inr (part, 1))"

text \<open>A field comes from \<open>split_fields\<close>, so that trimming its segments changes nothing.\<close>

definition parseCronField :: "gostring \<Rightarrow> int \<Rightarrow> int \<Rightarrow> bool \<Rightarrow> error + int set" where
  "parseCronField fld lo hi sundayAlias =
     rbind (rfold (\<lambda>part out.
         if part = [] then Inl (ErrText ''empty segment'')
         else rbind (cronStep part) (\<lambda>(part, step).
           rbind (cronRange part lo hi) (\<lambda>(start, stop).
             case cronLoop start stop step sundayAlias out of None \<Rightarrow> Inl ErrDeadlock | Some out \<Rightarrow> Inr out)))
       (split_on (CHR '','') fld) {}) (\<lambda>out.
     if out = {} then Inl (ErrText ''empty field'') else Inr out)"

definition parseCronSpec :: "gostring \<Rightarrow> error + cronSpec" where
  "parseCronSpec expr = (case split_fields expr of
      [m, h, d, mo, w] \<Rightarrow>
        rbind (parseCronField m 0 59 False) (\<lambda>minutes.
        rbind (parseCronField h 0 23 False) (\<lambda>hours.
        rbind (parseCronField d 1 31 False) (\<lambda>days.
        rbind (parseCronField mo 1 12 False) (\<lambda>months.
        rbind (parseCronField w 0 7 True) (\<lambda>weekdays.
          Inr \<lparr>cron_minutes = minutes, cron_hours = hours, cron_days = days, cron_months = months, cron_weekdays = weekdays\<rparr>)))))
    | _ \<Rightarrow> Inl (ErrText ''cron expression must have five fields''))"

definition cronMatches :: "(instant \<Rightarrow> int) \<Rightarrow> cronSpec \<Rightarrow> instant \<Rightarrow> bool" where
  "cronMatches zone s t =
     (let secs = local_seconds zone t; days = secs div 86400; (_, month, day) = civil days
      in secs mod 3600 div 60 \<in> cron_minutes s \<and> secs mod 86400 div 3600 \<in> cron_hours s \<and> day \<in> cron_days s
         \<and> month \<in> cron_months s \<and> (days + 4) mod 7 \<in> cron_weekdays s)"

section \<open>Fire times\<close>

definition search_window :: nat where
  "search_window = 366 * 24 * 60 * 5"

fun cronSearch :: "(instant \<Rightarrow> bool) \<Rightarrow> instant \<Rightarrow> nat \<Rightarrow> instant \<Rightarrow> error + instant option" where
  "cronSearch matches stop 0 cursor = Inl (ErrText ''no cron fire time found within search window'')"
| "cronSearch matches stop (Suc n) cursor =
     (if stop \<noteq> zero_time \<and> stop < cursor then Inr None
      else if matches cursor then Inr (Some cursor)
      else cronSearch matches stop n (cursor + minute))"

definition cronLocation :: "zones \<Rightarrow> gostring \<Rightarrow> error + (instant \<Rightarrow> int)" where
  "cronLocation tz name =
     (if blank name then Inr (\<lambda>_. 0)
      else case tz name of None \<Rightarrow> Inl (ErrText ''load schedule timezone'') | Some zone \<Rightarrow> Inr zone)"

definition cronStart :: "ScheduleTrigger \<Rightarrow> instant \<Rightarrow> instant" where
  "cronStart trigger after =
     (let cursor = truncateMinute after + minute
      in case tr_StartAt trigger of None \<Rightarrow> cursor | Some at \<Rightarrow> if cursor < at then truncateMinute at else cursor)"

definition past_end :: "ScheduleTrigger \<Rightarrow> instant \<Rightarrow> bool" where
  "past_end trigger t = (case tr_EndAt trigger of None \<Rightarrow> False | Some stop \<Rightarrow> stop < t)"

definition NextScheduleFire :: "zones \<Rightarrow> ScheduleTrigger \<Rightarrow> instant \<Rightarrow> error + instant option" where
  "NextScheduleFire tz trigger after =
     (if tr_Kind trigger = ''interval'' then
        if tr_Interval trigger \<le> 0 then Inl (ErrText ''interval trigger requires a positive interval'')
        else let next_at = after + tr_Interval trigger;
                 fire = (case tr_StartAt trigger of None \<Rightarrow> next_at | Some at \<Rightarrow> if next_at < at then at else next_at)
             in Inr (if past_end trigger fire then None else Some fire)
      else if tr_Kind trigger = ''cron'' then
        rbind (parseCronSpec (tr_Expression trigger)) (\<lambda>spec.
        rbind (cronLocation tz (tr_Timezone trigger)) (\<lambda>zone.
          cronSearch (cronMatches zone spec) (case tr_EndAt trigger of None \<Rightarrow> zero_time | Some stop \<Rightarrow> stop) search_window
            (cronStart trigger after)))
      else Inl (ErrText ''unsupported trigger kind''))"

definition InitialScheduleFire :: "zones \<Rightarrow> ScheduleTrigger \<Rightarrow> instant \<Rightarrow> error + instant option" where
  "InitialScheduleFire tz trigger now =
     (if tr_Kind trigger = ''interval'' then
        let fire = (case tr_StartAt trigger of None \<Rightarrow> now | Some at \<Rightarrow> if now < at then at else now)
        in Inr (if past_end trigger fire then None else Some fire)
      else if tr_Kind trigger = ''cron'' then
        NextScheduleFire tz trigger
          (case tr_StartAt trigger of None \<Rightarrow> now - 1 | Some at \<Rightarrow> if now < at then at - minute else now - 1)
      else Inl (ErrText ''unsupported trigger kind''))"

section \<open>Failure policy and identifiers\<close>

record ScheduleFailurePolicy =
  fp_MinSuccessPercent :: int
  fp_WindowSize :: int
  fp_MaxSequentialFailures :: int

definition AppendScheduleFailureBit :: "gostring \<Rightarrow> bool \<Rightarrow> int \<Rightarrow> gostring" where
  "AppendScheduleFailureBit bits success windowSize =
     (let kept = (if list_all (\<lambda>c. c = CHR ''0'' \<or> c = CHR ''1'') bits then bits else []);
          out = kept @ (if success then ''1'' else ''0'')
      in if windowSize > 0 \<and> int (length out) > windowSize then drop (length out - nat windowSize) out else out)"

definition ScheduleFailurePolicyViolated :: "gostring \<Rightarrow> ScheduleFailurePolicy \<Rightarrow> bool" where
  "ScheduleFailurePolicyViolated bits policy =
     (bits \<noteq> []
      \<and> (fp_MaxSequentialFailures policy > 0
           \<and> int (length (takeWhile (\<lambda>c. c = CHR ''0'') (rev bits))) \<ge> fp_MaxSequentialFailures policy
         \<or> fp_MinSuccessPercent policy > 0
           \<and> (let successes = int (length (filter (\<lambda>c. c = CHR ''1'') bits));
                  total = successes + int (length (filter (\<lambda>c. c = CHR ''0'') bits))
              in total > 0 \<and> successes * 100 < fp_MinSuccessPercent policy * total)))"

definition NormalizeScheduleOverlapPolicy :: "gostring \<Rightarrow> gostring" where
  "NormalizeScheduleOverlapPolicy policy = (if policy = [] then ''serial'' else policy)"

text \<open>A number in decimal, with zeros in front up to a width.\<close>

definition padded :: "nat \<Rightarrow> int \<Rightarrow> gostring" where
  "padded width n = (let d = nat_text (nat n) in replicate (width - length d) (CHR ''0'') @ d)"

text \<open>Evaluation counts in integers, which are binary, and not in natural numbers.\<close>

function int_digits :: "int \<Rightarrow> gostring" where
  "int_digits i = (if i < 10 then [digit_char (nat i)] else int_digits (i div 10) @ [digit_char (nat (i mod 10))])"
  by pat_completeness auto
termination by (relation "measure nat") (auto simp: nat_less_iff)

declare int_digits.simps [simp del]

lemma nat_text_digits_of: "0 \<le> i \<Longrightarrow> nat_text (nat i) = int_digits i"
proof (induction i rule: int_digits.induct)
  case (1 i)
  have "nat i div 10 = nat (i div 10)" "nat i mod 10 = nat (i mod 10)" using 1(2) by (simp_all add: nat_div_distrib nat_mod_distrib)
  moreover have "nat i < 10 \<longleftrightarrow> i < 10" using 1(2) by linarith
  ultimately show ?case using 1 by (subst nat_text.simps, subst int_digits.simps) auto
qed

lemma padded_code [code]:
  "padded width n = (let d = int_digits (max n 0) in replicate (width - length d) (CHR ''0'') @ d)"
  unfolding padded_def nat_text_digits_of[of "max n 0", simplified, symmetric] by (simp add: max_def)

definition ScheduleRunID :: "instant \<Rightarrow> gostring" where
  "ScheduleRunID t =
     (let secs = t div 1000000000; (y, mo, d) = civil (secs div 86400)
      in padded 4 y @ padded 2 mo @ padded 2 d @ ''T'' @ padded 2 (secs mod 86400 div 3600) @ padded 2 (secs mod 3600 div 60)
         @ padded 2 (secs mod 60) @ padded 9 (t mod 1000000000) @ ''Z'')"

definition ScheduleRunJobID :: "gostring \<Rightarrow> int \<Rightarrow> instant \<Rightarrow> gostring" where
  "ScheduleRunJobID scheduleID generation scheduledAt =
     ''jobdbsched_'' @ scheduleID @ ''_g'' @ int_text generation @ ''_run_'' @ ScheduleRunID scheduledAt"

definition ScheduleManualJobID :: "gostring \<Rightarrow> gostring \<Rightarrow> instant \<Rightarrow> gostring" where
  "ScheduleManualJobID scheduleID requestID now =
     ''jobdbsched_'' @ scheduleID @ ''_manual_'' @ (if requestID = [] then ScheduleRunID now else requestID)"

end
