(* ===== verification/Schedule_Properties.thy ===== *)
theory Schedule_Properties
  imports Schedule_Trigger
begin

text \<open>
  The loops of the cron code end, and the search for the next fire time returns the first due
  minute that the expression matches.
\<close>

section \<open>The loop over the values of a segment\<close>

lemma wrap64_over: "2 ^ 63 \<le> n \<Longrightarrow> n < 2 ^ 64 \<Longrightarrow> wrap64 n = n - 2 ^ 64"
  unfolding wrap64_def using minus_mod_self2[of "n + 2 ^ 63" "2 ^ 64"] mod_pos_pos_trivial[of "n + 2 ^ 63 - 2 ^ 64" "2 ^ 64"] by simp

lemma cronLoop_stop: "stop < v \<Longrightarrow> cronLoop v stop step alias out = Some out"
  by (subst cronLoop.simps) simp

lemma cronLoop_go:
  assumes "\<And>out1. v \<le> stop \<Longrightarrow> \<exists>out'. cronLoop (wrap64 (v + step)) stop step alias out1 = Some out'"
  shows "\<exists>out'. cronLoop v stop step alias out = Some out'"
  using assms by (cases "v \<le> stop") (subst cronLoop.simps, auto simp: cronLoop_stop)

lemma cronLoop_up:
  assumes "0 < step" and "stop + step < 2 ^ 63" and "- (2 ^ 63) \<le> v"
  shows "\<exists>out'. cronLoop v stop step alias out = Some out'"
  using assms(3)
proof (induction "nat (stop + 1 - v)" arbitrary: v out rule: less_induct)
  case less
  show ?case
  proof (rule cronLoop_go)
    fix out1 assume v: "v \<le> stop"
    have "wrap64 (v + step) = v + step" using assms(1,2) v less.prems by (intro wrap64_id) (simp add: int64_def)
    then show "\<exists>out'. cronLoop (wrap64 (v + step)) stop step alias out1 = Some out'"
      using less.hyps[of "v + step" out1] assms(1) v less.prems by simp
  qed
qed

text \<open>A step so large that the counter wraps around lowers it every second time.\<close>

lemma cronLoop_wraps:
  assumes "stop < 2 ^ 61" and "2 ^ 63 \<le> stop + step" and "step < 2 ^ 63" and "0 \<le> v"
  shows "\<exists>out'. cronLoop v stop step alias out = Some out'"
  using assms(4)
proof (induction "nat v" arbitrary: v out rule: less_induct)
  case less
  show ?case
  proof (rule cronLoop_go)
    fix out1 assume v: "v \<le> stop"
    show "\<exists>out'. cronLoop (wrap64 (v + step)) stop step alias out1 = Some out'"
    proof (cases "2 ^ 63 \<le> v + step")
      case True
      let ?v2 = "v + 2 * step - 2 ^ 64"
      have "wrap64 (v + step) = v + step - 2 ^ 64" using True v assms by (intro wrap64_over) auto
      moreover have "wrap64 (v + step - 2 ^ 64 + step) = ?v2" using True v assms less.prems by (subst wrap64_id) (auto simp: int64_def)
      moreover have "\<exists>out'. cronLoop ?v2 stop step alias out2 = Some out'" for out2
      proof (cases "0 \<le> ?v2")
        case True then show ?thesis using assms v less.prems by (intro less.hyps) auto
      next
        case False
        then have "wrap64 (?v2 + step) = ?v2 + step" "stop < ?v2 + step"
          using \<open>2 ^ 63 \<le> v + step\<close> v assms less.prems by (auto intro!: wrap64_id simp: int64_def)
        then show ?thesis by - (rule cronLoop_go, simp add: cronLoop_stop)
      qed
      ultimately show ?thesis by - (rule cronLoop_go, simp)
    next
      case False
      then have "wrap64 (v + step) = v + step" "stop < v + step"
        using assms v less.prems by (auto intro!: wrap64_id simp: int64_def)
      then show ?thesis by (simp add: cronLoop_stop)
    qed
  qed
qed

lemma cronLoop_ends:
  assumes "0 < step" and "step < 2 ^ 63" and "0 \<le> v" and "stop < 2 ^ 61"
  shows "\<exists>out'. cronLoop v stop step alias out = Some out'"
  using cronLoop_up[of step stop v] cronLoop_wraps[of stop step v] assms by (cases "stop + step < 2 ^ 63") auto

text \<open>The values of a segment with a step that does not wrap around.\<close>

lemma cronLoop_values:
  assumes "0 < step" and "stop + step < 2 ^ 63" and "- (2 ^ 63) \<le> v" and "cronLoop v stop step False out = Some out'"
  shows "out' = out \<union> {x. x \<le> stop \<and> (\<exists>k. x = v + int k * step)}"
  using assms(3,4)
proof (induction "nat (stop + 1 - v)" arbitrary: v out rule: less_induct)
  case less
  show ?case
  proof (cases "v \<le> stop")
    case True
    have w: "wrap64 (v + step) = v + step" using assms(1,2) True less.prems by (intro wrap64_id) (simp add: int64_def)
    then have "cronLoop (v + step) stop step False (insert v out) = Some out'" using less.prems(2) True by (subst (asm) cronLoop.simps) simp
    then have "out' = insert v out \<union> {x. x \<le> stop \<and> (\<exists>k. x = v + step + int k * step)}"
      using less.hyps[of "v + step" "insert v out"] assms(1) True less.prems by simp
    moreover have "(\<exists>k. x = v + int k * step) \<longleftrightarrow> x = v \<or> (\<exists>k. x = v + step + int k * step)" for x
    proof -
      have "(\<exists>k. x = v + int k * step) \<longleftrightarrow> x = v + int 0 * step \<or> (\<exists>k. x = v + int (Suc k) * step)" by (metis not0_implies_Suc)
      then show ?thesis by (simp add: algebra_simps)
    qed
    ultimately show ?thesis using True by auto
  next
    case False
    moreover have "0 \<le> int k * step" for k using assms(1) by simp
    ultimately have "\<not> v + int k * step \<le> stop" for k by (smt (verit))
    then have "{x. x \<le> stop \<and> (\<exists>k. x = v + int k * step)} = {}" by auto
    moreover have "out = out'" using False less.prems(2) by (simp add: cronLoop_stop)
    ultimately show ?thesis by blast
  qed
qed

section \<open>The search for a fire time\<close>

lemma cronSearch_Some:
  "cronSearch matches stop n c = Inr (Some f) \<longleftrightarrow>
     (\<exists>k < n. f = c + int k * minute \<and> matches f \<and> (stop = zero_time \<or> f \<le> stop) \<and> (\<forall>j < k. \<not> matches (c + int j * minute)))"
proof (induction n arbitrary: c)
  case (Suc n)
  have shift: "c + minute + int k * minute = c + int (Suc k) * minute" for k by (simp add: algebra_simps)
  have "0 \<le> int k * minute" for k by (simp add: minute_def)
  then have late: "stop \<noteq> zero_time \<Longrightarrow> stop < c \<Longrightarrow> \<not> c + int k * minute \<le> stop" for k by (smt (verit))
  show ?case
  proof (cases "stop \<noteq> zero_time \<and> stop < c")
    case True then show ?thesis using late by auto
  next
    case now: False
    show ?thesis
    proof (cases "matches c")
      case True
      have "(\<forall>j < k. \<not> matches (c + int j * minute)) \<longleftrightarrow> k = 0" for k using True by (cases k) (auto intro: exI[of _ 0])
      then show ?thesis using True now by auto
    next
      case False
      have "(\<exists>k < Suc n. f = c + int k * minute \<and> matches f \<and> (stop = zero_time \<or> f \<le> stop) \<and> (\<forall>j < k. \<not> matches (c + int j * minute)))
        \<longleftrightarrow> (\<exists>k < n. f = c + int (Suc k) * minute \<and> matches f \<and> (stop = zero_time \<or> f \<le> stop) \<and> (\<forall>j < Suc k. \<not> matches (c + int j * minute)))"
        using False by (subst Ex_less_Suc2) auto
      also have "\<dots> \<longleftrightarrow> cronSearch matches stop n (c + minute) = Inr (Some f)"
        using False by (simp add: Suc.IH shift All_less_Suc2)
      finally show ?thesis unfolding cronSearch.simps if_not_P[OF now] if_not_P[OF False] by (rule sym)
    qed
  qed
qed simp

text \<open>
  The minutes at which a trigger may fire after an instant: those after it and not before the minute
  of the start.
\<close>

definition fire_due :: "ScheduleTrigger \<Rightarrow> instant \<Rightarrow> instant \<Rightarrow> bool" where
  "fire_due trigger after t \<longleftrightarrow>
     (t - zero_time) mod minute = 0 \<and> after < t \<and> (case tr_StartAt trigger of None \<Rightarrow> True | Some at \<Rightarrow> truncateMinute at \<le> t)"

lemma truncateMinute_le: "truncateMinute t \<le> t" and truncateMinute_gt: "t < truncateMinute t + minute"
  unfolding truncateMinute_def by (simp_all add: minute_def)

lemma truncateMinute_multiple: "\<exists>q. truncateMinute t = zero_time + q * minute"
proof
  show "truncateMinute t = zero_time + ((t - zero_time) div minute) * minute"
    using div_mult_mod_eq[of "t - zero_time" minute] unfolding truncateMinute_def by linarith
qed

lemma multiple_less: "q * minute < r * minute + minute \<longleftrightarrow> q \<le> r"
proof -
  have "q * minute < r * minute + minute \<longleftrightarrow> q * minute < (r + 1) * minute" by (simp add: algebra_simps)
  also have "\<dots> \<longleftrightarrow> q < r + 1" by (rule mult_less_cancel_right_pos) (simp add: minute_def)
  finally show ?thesis by auto
qed

text \<open>In minutes since the zero time, with \<open>a\<close> for the instant of the request and \<open>s\<close> for the start of the trigger.\<close>

lemma cronStart_minutes:
  assumes a: "truncateMinute after = zero_time + a * minute"
    and s: "case tr_StartAt trigger of None \<Rightarrow> s = a | Some at \<Rightarrow> truncateMinute at = zero_time + s * minute"
  shows "cronStart trigger after = zero_time + max (a + 1) s * minute"
proof (cases "tr_StartAt trigger")
  case (Some at)
  have m: "0 < minute" by (simp add: minute_def)
  from Some have at: "zero_time + s * minute \<le> at" "at < zero_time + s * minute + minute"
    using s truncateMinute_le[of at] truncateMinute_gt[of at] by simp_all
  show ?thesis
  proof (cases "truncateMinute after + minute < at")
    case True
    then have "(a + 1) * minute < s * minute + minute" using a at(2) by (simp add: algebra_simps)
    then show ?thesis using Some True s by (simp add: cronStart_def multiple_less max_def)
  next
    case False
    then have "s * minute < (a + 1) * minute + minute" using a at(1) m by (simp add: algebra_simps)
    then show ?thesis using Some False a unfolding multiple_less by (simp add: cronStart_def max_def algebra_simps)
  qed
qed (use s a in \<open>simp add: cronStart_def algebra_simps\<close>)

lemma later_minute:
  assumes "truncateMinute after = zero_time + a * minute"
  shows "after < zero_time + q * minute \<longleftrightarrow> a + 1 \<le> q"
proof -
  have m: "0 < minute" by (simp add: minute_def)
  have "after < zero_time + q * minute \<longleftrightarrow> \<not> q * minute < a * minute + minute"
    using truncateMinute_le[of after] truncateMinute_gt[of after] assms multiple_less[of q a] mult_right_mono[of q a minute]
      mult_right_mono[of "a + 1" q minute] m by (smt (verit) distrib_right mult_1)
  then show ?thesis unfolding multiple_less by auto
qed

lemma cronStart_due: "fire_due trigger after t \<longleftrightarrow> (\<exists>k. t = cronStart trigger after + int k * minute)"
proof -
  obtain a where a: "truncateMinute after = zero_time + a * minute" using truncateMinute_multiple by blast
  obtain s where s: "case tr_StartAt trigger of None \<Rightarrow> s = a | Some at \<Rightarrow> truncateMinute at = zero_time + s * minute"
    using truncateMinute_multiple by (cases "tr_StartAt trigger") auto
  note c = cronStart_minutes[OF a s] and late = later_minute[OF a]
  have st: "(case tr_StartAt trigger of None \<Rightarrow> True | Some at \<Rightarrow> truncateMinute at \<le> zero_time + q * minute) \<and> a + 1 \<le> q
      \<longleftrightarrow> max (a + 1) s \<le> q" for q
    using s by (cases "tr_StartAt trigger") (auto simp: minute_def)
  show ?thesis
  proof
    assume d: "fire_due trigger after t"
    then have "minute dvd t - zero_time" by (auto simp: fire_due_def)
    then obtain q where "t - zero_time = minute * q" by (rule dvdE)
    then have q: "t = zero_time + q * minute" by (simp add: algebra_simps)
    then have "max (a + 1) s \<le> q" using d late[of q] st[of q] by (simp add: fire_due_def)
    then show "\<exists>k. t = cronStart trigger after + int k * minute"
      using q c by (intro exI[of _ "nat (q - max (a + 1) s)"]) (simp add: algebra_simps)
  next
    assume "\<exists>k. t = cronStart trigger after + int k * minute"
    then obtain k where t: "t = zero_time + (max (a + 1) s + int k) * minute" using c by (auto simp: algebra_simps)
    then show "fire_due trigger after t" using late[of "max (a + 1) s + int k"] st[of "max (a + 1) s + int k"] by (simp add: fire_due_def)
  qed
qed

section \<open>Properties\<close>

text \<open>
  C17. The next fire time of a cron schedule is exact.  \<open>NextScheduleFire\<close> returns an instant if and
  only if it is the first due minute that the expression matches in the location of the schedule,
  it is not after the end of the schedule, and it lies in the search window.
\<close>

theorem next_cron_fire:
  assumes "tr_Kind trigger = ''cron''" and "parseCronSpec (tr_Expression trigger) = Inr spec"
    and "cronLocation tz (tr_Timezone trigger) = Inr zone"
  shows "NextScheduleFire tz trigger after = Inr (Some f) \<longleftrightarrow>
    fire_due trigger after f \<and> cronMatches zone spec f \<and> (\<forall>g < f. fire_due trigger after g \<longrightarrow> \<not> cronMatches zone spec g)
    \<and> (\<forall>stop. tr_EndAt trigger = Some stop \<and> stop \<noteq> zero_time \<longrightarrow> f \<le> stop)
    \<and> f < cronStart trigger after + int search_window * minute"
proof -
  let ?c = "cronStart trigger after" and ?m = "cronMatches zone spec"
  let ?stop = "case tr_EndAt trigger of None \<Rightarrow> zero_time | Some stop \<Rightarrow> stop"
  have less: "?c + int j * minute < ?c + int k * minute \<longleftrightarrow> j < k" for j k by (simp add: minute_def)
  have e: "?stop = zero_time \<or> f \<le> ?stop \<longleftrightarrow> (\<forall>stop. tr_EndAt trigger = Some stop \<and> stop \<noteq> zero_time \<longrightarrow> f \<le> stop)"
    by (cases "tr_EndAt trigger") auto
  have first: "(\<forall>j < k. \<not> ?m (?c + int j * minute)) \<longleftrightarrow> (\<forall>g < ?c + int k * minute. fire_due trigger after g \<longrightarrow> \<not> ?m g)" for k
    unfolding cronStart_due using less by blast
  have "NextScheduleFire tz trigger after = Inr (Some f) \<longleftrightarrow> cronSearch ?m ?stop search_window ?c = Inr (Some f)"
    using assms by (simp add: NextScheduleFire_def)
  also have "\<dots> \<longleftrightarrow> (\<exists>k. f = ?c + int k * minute \<and> f < ?c + int search_window * minute) \<and> ?m f \<and> (?stop = zero_time \<or> f \<le> ?stop)
      \<and> (\<forall>g < f. fire_due trigger after g \<longrightarrow> \<not> ?m g)"
    unfolding cronSearch_Some using less first by blast
  finally show ?thesis unfolding e cronStart_due by blast
qed

definition demo_trigger :: ScheduleTrigger where
  "demo_trigger = \<lparr>tr_Kind = ''cron'', tr_Expression = ''1 0 1 1 4'', tr_Timezone = [], tr_StartAt = None, tr_EndAt = None, tr_Interval = 0\<rparr>"

theorem next_cron_fire_witness: "NextScheduleFire (\<lambda>_. None) demo_trigger 0 = Inr (Some minute)"
proof -
  let ?s = "\<lparr>cron_minutes = {1}, cron_hours = {0}, cron_days = {1}, cron_months = {1}, cron_weekdays = {4}\<rparr>"
  have "parseCronSpec (tr_Expression demo_trigger) = Inr ?s" by code_simp
  moreover have "cronLocation (\<lambda>_. None) (tr_Timezone demo_trigger) = Inr (\<lambda>_. 0)" by (simp add: cronLocation_def demo_trigger_def)
  moreover have "cronMatches (\<lambda>_. 0) ?s minute" by code_simp
  moreover have s: "cronStart demo_trigger 0 = minute" by code_simp
  moreover have "fire_due demo_trigger 0 minute" unfolding cronStart_due s by (rule exI[of _ 0]) simp
  moreover have "g < minute \<Longrightarrow> \<not> fire_due demo_trigger 0 g" for g unfolding cronStart_due s by (auto simp: minute_def)
  ultimately show ?thesis
    using next_cron_fire[of demo_trigger ?s "\<lambda>_. None" "\<lambda>_. 0" 0 minute] by (simp add: demo_trigger_def minute_def search_window_def)
qed

end
