(* ===== verification/Toy_State.thy ===== *)
theory Toy_State
  imports Goal_Properties Cell_Properties Client_Payload Delegation_Server Schedule_Trigger
begin

text \<open>
  The state of the in-process runtime (\<open>runtime/toy/internal/toyimpl\<close>): job records with their
  leases, chapters, artifacts, cells, goals, reservations and schedules, and the functions that
  project a record's scheduling status.  Every critical section of the engine's mutex is one
  operation on the record \<open>ToyEngine\<close>; the clock, generated identifiers and iteration orders of Go
  maps are arguments.  Fields that only feed the run views (\<open>result\<close>, \<open>err\<close>, \<open>finished\<close> and the
  record's own chapter map) are left out, as are the mutexes.
\<close>

section \<open>Chapters\<close>

record StoredArtifact =
  sa_Name :: gostring
  sa_Digest :: gostring
  sa_Size :: int

record AppErrorPayload =
  ae_Message :: gostring
  ae_Attrs :: "(gostring \<times> Json) list"

datatype ChapterOutcome =
    ApplicationOutputOutcome gostring
  | AppErrorOutcome AppErrorPayload
  | SystemErrorOutcome gostring
  | TimeoutOutcome gostring

datatype ChapterBody =
    JobStartChapter gostring
  | JobAttemptOutcomeChapter ChapterOutcome
  | TaskAttemptOutcomeChapter ChapterOutcome
  | RestartExtraChapter gostring
  | ExecutionChapter gostring

record Chapter =
  ch_Ordinal :: int
  ch_TaskType :: gostring
  ch_Body :: ChapterBody
  ch_InputHash :: gostring
  ch_CreatedAt :: instant
  ch_Metadata :: gostring
  ch_Artifacts :: "StoredArtifact list"

definition too_large_code :: gostring where
  "too_large_code = ''chapter_application_payload_too_large''"

definition ChapterPayloadFailure :: "Chapter \<Rightarrow> bool" where
  "ChapterPayloadFailure ch = (case ch_Body ch of
      JobAttemptOutcomeChapter (AppErrorOutcome err) \<Rightarrow> map_of (ae_Attrs err) ''code'' = Some (JStr too_large_code)
    | _ \<Rightarrow> False)"

definition PayloadFailureChapter :: "(gostring \<Rightarrow> Json) \<Rightarrow> Chapter \<Rightarrow> gostring \<Rightarrow> Chapter" where
  "PayloadFailureChapter stats ch failure =
     \<lparr>ch_Ordinal = ch_Ordinal ch, ch_TaskType = ch_TaskType ch,
      ch_Body = JobAttemptOutcomeChapter (AppErrorOutcome
        \<lparr>ae_Message = failure, ae_Attrs = [(''code'', JStr too_large_code), (''nonRetryable'', JBool True), (''payloadSize'', stats failure)]\<rparr>),
      ch_InputHash = [], ch_CreatedAt = ch_CreatedAt ch, ch_Metadata = [], ch_Artifacts = []\<rparr>"

section \<open>Job records\<close>

datatype JobStatus =
    JobStatusReady
  | JobStatusExpired
  | JobStatusPendingJobs
  | JobStatusAwaitingFuture
  | JobStatusActive
  | JobStatusCrashConcern
  | JobStatusCancelled
  | JobStatusCompleted

definition DefaultThreshold :: int where
  "DefaultThreshold = 5"

record workerTaskWait =
  wt_InputStep :: int
  wt_OutputStep :: int
  wt_Next :: gostring
  wt_InputHash :: gostring

text \<open>The JSON of a worker payload is decoded where it is stored; a run policy is kept as its text.\<close>

record workerJobPayload =
  wp_RunPolicy :: gostring
  wp_TaskWait :: "workerTaskWait option"

record jobRecord =
  jr_cell :: ResolvedCell
  jr_key :: JobKey
  jr_goalID :: gostring
  jr_dependencyWaitID :: gostring
  jr_hidden :: bool
  jr_clientPayload :: "gostring option"
  jr_clientPayloadRevision :: int
  jr_initialPayloadDigest :: gostring
  jr_leaseExpiresAt :: instant
  jr_leaseWorkerID :: gostring
  jr_status :: JobStatus
  jr_cancelled :: bool
  jr_jobType :: gostring
  jr_createdAt :: instant
  jr_archived :: "instant option"
  jr_payload :: workerJobPayload
  jr_metadata :: gostring
  jr_completionDetail :: gostring
  jr_completionStatus :: gostring
  jr_route :: Route
  jr_alternateRoute :: "Route option"
  jr_alternateAt :: instant
  jr_step :: int
  jr_waitFor :: "gostring list"
  jr_availableAt :: instant
  jr_waitDeadline :: instant
  jr_leased :: bool
  jr_leaseID :: gostring
  jr_consecutiveExpirations :: int

section \<open>The engine\<close>

record Preparation =
  pp_Cell :: gostring
  pp_CellRepo :: gostring
  pp_Target :: ResolvedCell
  pp_ParentJobID :: gostring
  pp_Key :: JobKey
  pp_RequestID :: gostring
  pp_PriorJobID :: gostring
  pp_ShareGoal :: bool
  pp_Descriptor :: gostring
  pp_Dependencies :: "Dependency list"

record Prepared =
  pd_Target :: ResolvedCell
  pd_Key :: JobKey
  pd_GoalID :: gostring
  pd_Published :: bool

record preparedGoalJob =
  pg_Request :: Preparation
  pg_GoalID :: gostring

datatype ScheduleKey = ScheduleKey (sk_TenantId: gostring) (sk_ScheduleId: gostring)

datatype ScheduleState = ScheduleStateActive | ScheduleStatePaused | ScheduleStateArchived | ScheduleStateFailurePaused

text \<open>
  The first fields of a target are those of a resolved cell. Task data are their bytes and the names
  and bytes of their artifacts; \<open>None\<close> is a nil interface.
\<close>

record ScheduleTarget = ResolvedCell +
  st_ClientPayloadUpdate :: "PayloadUpdate option"
  st_JobType :: gostring
  st_Data :: "(gostring \<times> (gostring \<times> gostring) list) option"
  st_RunPolicy :: gostring
  st_Metadata :: gostring

text \<open>The tenant and the identifier that a \<open>ScheduleInfo\<close> repeats are those of its key.\<close>

record toyScheduleRecord =
  si_PauseReason :: gostring
  si_Key :: ScheduleKey
  si_State :: ScheduleState
  si_EffectiveState :: ScheduleState
  si_Generation :: int
  si_SpecHash :: gostring
  si_Trigger :: ScheduleTrigger
  si_Target :: ScheduleTarget
  si_OverlapPolicy :: gostring
  si_FailurePolicy :: ScheduleFailurePolicy
  si_NextFireAt :: "instant option"
  si_NextJobKey :: "JobKey option"
  si_CreatedAt :: instant
  si_UpdatedAt :: instant

datatype runtimeArtifactKey = runtimeArtifactKey (ra_jobKey: JobKey) (ra_ordinal: int) (ra_name: gostring)

text \<open>
  \<open>te_cursorKeys\<close> is the random key that the registry of a tenant draws when it is first used;
  until then the tenant has no row in \<open>te_cells\<close>.
\<close>

record ToyEngine =
  te_cells :: "(gostring \<times> CellRegistry) list"
  te_cursorKeys :: "gostring \<Rightarrow> gostring"
  te_goals :: Memory
  te_preparedGoals :: "(JobKey \<times> preparedGoalJob) list"
  te_goalRequests :: "GoalKey \<rightharpoonup> JobKey"
  te_jobRecords :: "(JobKey \<times> jobRecord) list"
  te_schedules :: "(ScheduleKey \<times> toyScheduleRecord) list"
  te_runtimeChapters :: "(JobKey \<times> (int \<times> Chapter) list) list"
  te_runtimeArtifacts :: "runtimeArtifactKey \<rightharpoonup> gostring"

type_synonym 'a outcome = "ToyEngine \<times> (error + 'a)"

definition getJobRecord :: "ToyEngine \<Rightarrow> JobKey \<Rightarrow> jobRecord option" where
  "getJobRecord e key = map_of (te_jobRecords e) key"

definition put_job :: "JobKey \<Rightarrow> jobRecord \<Rightarrow> ToyEngine \<Rightarrow> ToyEngine" where
  "put_job key r e = e\<lparr>te_jobRecords := AList.update key r (te_jobRecords e)\<rparr>"

definition cellsLocked :: "ToyEngine \<Rightarrow> gostring \<Rightarrow> CellRegistry" where
  "cellsLocked e tenant = (case map_of (te_cells e) tenant of None \<Rightarrow> NewRegistry (te_cursorKeys e tenant) | Some s \<Rightarrow> s)"

definition put_cells :: "gostring \<Rightarrow> CellRegistry \<Rightarrow> ToyEngine \<Rightarrow> ToyEngine" where
  "put_cells tenant s e = e\<lparr>te_cells := AList.update tenant s (te_cells e)\<rparr>"

section \<open>The goal engine's view of the jobs\<close>

definition goalJob :: "JobKey \<Rightarrow> jobRecord \<Rightarrow> Job" where
  "goalJob k r =
     \<lparr>j_Key = k, j_GoalID = jr_goalID r, j_Terminal = (jr_archived r \<noteq> None \<or> jr_cancelled r),
      j_Success = (jr_archived r \<noteq> None \<and> (jr_completionStatus r = ''success'' \<or> jr_completionStatus r = ''succeeded'')),
      j_CreatedAt = jr_createdAt r\<rparr>"

definition goal_table :: "ToyEngine \<Rightarrow> (JobKey \<times> Job) list" where
  "goal_table e = map (\<lambda>(k, r). (k, goalJob k r)) (te_jobRecords e)"

text \<open>
  \<open>initGoalsLocked\<close>: the goal store reads jobs through callbacks on the live job table, so the
  callbacks are those of the current table whatever table they were created with.
\<close>

definition goal_view :: "ToyEngine \<Rightarrow> Memory" where
  "goal_view e = (te_goals e)\<lparr>LookupJob := tableLookup (goal_table e), PrimaryJobs := tablePrimary (goal_table e)\<rparr>"

text \<open>
  The goal rows that \<open>Complete\<close> has written before an error are dropped here and kept by the code;
  on a consistent store \<open>Complete\<close> does not fail.
\<close>

definition completeGoals :: "instant \<Rightarrow> nat \<Rightarrow> JobKey \<Rightarrow> ToyEngine \<Rightarrow> unit outcome" where
  "completeGoals now depth key e = (case Complete (memory_engine now depth) key (goal_view e) of
      Inl err \<Rightarrow> (e, Inl err)
    | Inr goals \<Rightarrow> (e\<lparr>te_goals := goals\<rparr>, Inr ()))"

section \<open>Scheduling status\<close>

definition currentStatus :: "instant \<Rightarrow> jobRecord \<Rightarrow> JobStatus" where
  "currentStatus now r =
     (if jr_leased r \<and> \<not> now < jr_leaseExpiresAt r \<and> jr_archived r = None \<and> \<not> jr_cancelled r then
        (if jr_consecutiveExpirations r \<ge> DefaultThreshold then JobStatusCrashConcern else JobStatusReady)
      else jr_status r)"

definition dependencyReadyLocked :: "ToyEngine \<Rightarrow> instant \<Rightarrow> jobRecord \<Rightarrow> error + bool" where
  "dependencyReadyLocked e now r =
     (if jr_dependencyWaitID r = [] then Inr True
      else rbind (Memory_Wait (goal_view e) (DependencyWaitKey (jr_key r) (jr_dependencyWaitID r))) (\<lambda>w.
        Inr (w_State w \<noteq> DependencyPending \<or> expired now w)))"

text \<open>
  The loop over \<open>waitFor\<close>. It locks the record of each listed job while the caller holds the lock
  of the record it projects, so a record that lists itself blocks forever.
\<close>

fun waitsComplete :: "ToyEngine \<Rightarrow> gostring \<Rightarrow> JobKey \<Rightarrow> gostring list \<Rightarrow> error + bool" where
  "waitsComplete e tenant self [] = Inr True"
| "waitsComplete e tenant self (jobID # ids) =
     (case getJobRecord e (JobKey tenant jobID) of
        None \<Rightarrow> waitsComplete e tenant self ids
      | Some dep \<Rightarrow>
          if JobKey tenant jobID = self then Inl ErrDeadlock
          else if jr_status dep \<noteq> JobStatusCompleted \<and> jr_status dep \<noteq> JobStatusCancelled then Inr False
          else waitsComplete e tenant self ids)"

definition legacyStatus :: "ToyEngine \<Rightarrow> gostring \<Rightarrow> instant \<Rightarrow> jobRecord \<Rightarrow> JobStatus \<Rightarrow> error + JobStatus" where
  "legacyStatus e tenant now r status0 =
     (let status = (if status0 = JobStatusAwaitingFuture \<and> jr_availableAt r \<noteq> zero_time \<and> \<not> now < jr_availableAt r
                    then JobStatusReady else status0)
      in if status = JobStatusPendingJobs \<and> jr_waitFor r \<noteq> [] then
           rbind (waitsComplete e tenant (jr_key r) (jr_waitFor r)) (\<lambda>complete.
             Inr (if complete \<or> jr_waitDeadline r \<noteq> zero_time \<and> \<not> now < jr_waitDeadline r then
                    (if jr_availableAt r \<noteq> zero_time \<and> now < jr_availableAt r then JobStatusAwaitingFuture else JobStatusReady)
                  else status))
         else Inr status)"

definition availableStatusLocked :: "ToyEngine \<Rightarrow> gostring \<Rightarrow> instant \<Rightarrow> jobRecord \<Rightarrow> error + JobStatus" where
  "availableStatusLocked e tenant now r =
     (let status = currentStatus now r
      in if jr_archived r = None \<and> \<not> jr_cancelled r \<and> \<not> (jr_leased r \<and> now < jr_leaseExpiresAt r) then
           (if dependencyReadyLocked e now r \<noteq> Inr True then Inr JobStatusPendingJobs
            else legacyStatus e tenant now r
                   (if jr_dependencyWaitID r \<noteq> [] \<and> status = JobStatusPendingJobs then JobStatusReady else status))
         else legacyStatus e tenant now r status)"

definition advanceRecordStateLocked :: "ToyEngine \<Rightarrow> gostring \<Rightarrow> instant \<Rightarrow> jobRecord \<Rightarrow> error + jobRecord" where
  "advanceRecordStateLocked e tenant now r =
     rbind (availableStatusLocked e tenant now r) (\<lambda>status.
       let r1 = (if jr_leased r \<and> \<not> now < jr_leaseExpiresAt r \<and> jr_archived r = None \<and> \<not> jr_cancelled r
                 then r\<lparr>jr_leased := False\<rparr> else r);
           r2 = (if jr_status r = JobStatusPendingJobs \<and> status \<noteq> JobStatusPendingJobs
                 then r1\<lparr>jr_waitDeadline := zero_time, jr_waitFor := []\<rparr> else r1)
       in Inr (r2\<lparr>jr_status := status\<rparr>))"

definition effectiveRoute :: "instant \<Rightarrow> jobRecord \<Rightarrow> Route" where
  "effectiveRoute now r = (case jr_alternateRoute r of
      Some alt \<Rightarrow> if \<not> now < jr_alternateAt r then alt else jr_route r
    | None \<Rightarrow> jr_route r)"

definition leaseLive :: "instant \<Rightarrow> gostring \<Rightarrow> gostring \<Rightarrow> jobRecord \<Rightarrow> bool" where
  "leaseLive now leaseID workerID r \<longleftrightarrow>
     leaseID \<noteq> [] \<and> jr_leaseID r = leaseID \<and> jr_leaseWorkerID r = workerID \<and> jr_leased r
     \<and> now < jr_leaseExpiresAt r \<and> \<not> jr_cancelled r \<and> jr_archived r = None"

end
