(* ===== verification/Toy_Lease.thy ===== *)
theory Toy_Lease
  imports Toy_State
begin

text \<open>
  Leases of the in-process runtime (\<open>toyimpl/runtime.go\<close>, \<open>lease_transport.go\<close>): acquisition by
  polling and by key, renewal, validation, completion and rescheduling.  An operation returns the
  state it leaves with its result, also when it fails.  An operation that gives up the engine's
  mutex in between is composed of one definition per critical section, so that a step relation can
  interleave others.  The preflight of scheduled
  occurrences that follows an acquisition is in \<open>Toy_Schedules\<close>.
\<close>

text \<open>
  What the runtime calls and this library does not define: chapter validation against size limits
  and JSON schemas, the schema hash of stored metadata, SHA-256, JSON validity, the encoding of
  chapter metadata, the record of an execution protocol, the text naming what differs between two
  descriptors of a preparation, and the payload codec.
\<close>

record runtime_lib =
  lb_payload :: payload_lib
  lb_size :: "Chapter \<Rightarrow> error + unit"
  lb_ordinary :: "gostring \<Rightarrow> gostring \<Rightarrow> Chapter \<Rightarrow> error + unit"
  lb_last :: "gostring \<Rightarrow> gostring \<Rightarrow> Chapter \<Rightarrow> error + unit"
  lb_schemaHash :: "gostring \<Rightarrow> gostring"
  lb_sha256 :: "gostring \<Rightarrow> gostring"
  lb_jsonValid :: "gostring \<Rightarrow> bool"
  lb_metadata :: "int \<Rightarrow> gostring \<Rightarrow> instant \<Rightarrow> gostring \<Rightarrow> gostring \<Rightarrow> error + gostring"
  lb_completion :: "Chapter \<Rightarrow> gostring \<Rightarrow> int \<Rightarrow> gostring \<Rightarrow> error + gostring option"
  lb_stats :: "gostring \<Rightarrow> Json"
  lb_mismatch :: "gostring \<Rightarrow> gostring \<Rightarrow> gostring"

section \<open>Acquisition\<close>

record PollWorkRequest =
  pw_TenantId :: gostring
  pw_Routes :: "Route list"
  pw_CellNames :: "gostring list option"
  pw_Limit :: int
  pw_WorkerID :: gostring
  pw_LeaseDuration :: duration

record GetJobLeaseRequest =
  gl_JobKey :: JobKey
  gl_Routes :: "Route list"
  gl_WorkerID :: gostring
  gl_LeaseDuration :: duration

record runtimeLease =
  ls_jobKey :: JobKey
  ls_leaseID :: gostring
  ls_workerID :: gostring
  ls_route :: Route
  ls_payload :: workerJobPayload
  ls_clientPayload :: "gostring option"
  ls_clientPayloadRevision :: int
  ls_expiresAt :: instant
  ls_duration :: duration
  ls_schemaHash :: gostring

definition toyLeaseDurationOrDefault :: "duration \<Rightarrow> duration" where
  "toyLeaseDurationOrDefault d = (if d \<le> 0 then 30 * 1000000000 else d)"

text \<open>The update of a record that both acquisitions make, and the lease they hand out.\<close>

definition acquireRecord :: "instant \<Rightarrow> gostring \<Rightarrow> gostring \<Rightarrow> duration \<Rightarrow> jobRecord \<Rightarrow> jobRecord" where
  "acquireRecord now leaseID worker d r =
     (let r1 = (case jr_alternateRoute r of
           Some alt \<Rightarrow> if \<not> now < jr_alternateAt r then r\<lparr>jr_route := alt, jr_alternateRoute := None\<rparr> else r
         | None \<Rightarrow> r)
      in r1\<lparr>jr_leased := True, jr_status := JobStatusActive,
            jr_consecutiveExpirations := (if jr_leaseID r \<noteq> [] then wrap64 (jr_consecutiveExpirations r + 1) else 0),
            jr_leaseID := leaseID, jr_leaseWorkerID := worker,
            jr_leaseExpiresAt := now + toyLeaseDurationOrDefault d\<rparr>)"

definition leaseOf :: "runtime_lib \<Rightarrow> JobKey \<Rightarrow> duration \<Rightarrow> jobRecord \<Rightarrow> runtimeLease" where
  "leaseOf lib key d r =
     \<lparr>ls_jobKey = key, ls_leaseID = jr_leaseID r, ls_workerID = jr_leaseWorkerID r, ls_route = jr_route r,
      ls_payload = jr_payload r, ls_clientPayload = jr_clientPayload r,
      ls_clientPayloadRevision = jr_clientPayloadRevision r, ls_expiresAt = jr_leaseExpiresAt r,
      ls_duration = toyLeaseDurationOrDefault d, ls_schemaHash = lb_schemaHash lib (jr_metadata r)\<rparr>"

text \<open>
  The loop over the job table in the order \<open>keys\<close>. \<open>matches\<close> is the comparison of stored metadata
  with the predicates of the request; the leases handed out take their identifiers from \<open>fresh\<close>.
\<close>

fun pollLoop :: "runtime_lib \<Rightarrow> (gostring \<Rightarrow> error + bool) \<Rightarrow> (nat \<Rightarrow> gostring) \<Rightarrow> instant \<Rightarrow> PollWorkRequest \<Rightarrow>
   gostring list \<Rightarrow> JobKey list \<Rightarrow> ToyEngine \<Rightarrow> runtimeLease list \<Rightarrow> runtimeLease list outcome" where
  "pollLoop lib matches fresh now req allowed [] e out = (e, Inr out)"
| "pollLoop lib matches fresh now req allowed (key # keys) e out =
     (case getJobRecord e key of
        None \<Rightarrow> pollLoop lib matches fresh now req allowed keys e out
      | Some r \<Rightarrow>
          if TenantId key \<noteq> pw_TenantId req \<or> rc_CellID (jr_cell r) \<notin> set allowed
          then pollLoop lib matches fresh now req allowed keys e out
          else case advanceRecordStateLocked e (TenantId key) now r of
              Inl err \<Rightarrow> (e, Inl err)
            | Inr r1 \<Rightarrow>
                let e1 = put_job key r1 e in
                if jr_leased r1 \<or> jr_status r1 \<noteq> JobStatusReady \<or> effectiveRoute now r1 \<notin> set (pw_Routes req)
                then pollLoop lib matches fresh now req allowed keys e1 out
                else case matches (jr_metadata r1) of
                    Inl err \<Rightarrow> (e1, Inl err)
                  | Inr match \<Rightarrow>
                      if \<not> match then pollLoop lib matches fresh now req allowed keys e1 out
                      else let r2 = acquireRecord now (fresh (length out)) (pw_WorkerID req) (pw_LeaseDuration req) r1;
                               e2 = put_job key r2 e1;
                               out' = out @ [leaseOf lib key (pw_LeaseDuration req) r2]
                           in if int (length out') \<ge> (if pw_Limit req \<le> 0 then 1 else pw_Limit req) then (e2, Inr out')
                              else pollLoop lib matches fresh now req allowed keys e2 out')"

definition checkRoutes :: "Route list \<Rightarrow> error + unit" where
  "checkRoutes routes = rfold (\<lambda>route _. Route_Validate route) routes ()"

definition pollAcquire :: "runtime_lib \<Rightarrow> CellAuthority option \<Rightarrow> (gostring \<Rightarrow> error + bool) \<Rightarrow> (nat \<Rightarrow> gostring) \<Rightarrow> JobKey list \<Rightarrow>
   instant \<Rightarrow> PollWorkRequest \<Rightarrow> ToyEngine \<Rightarrow> runtimeLease list outcome" where
  "pollAcquire lib ctx matches fresh keys now req e =
     (case checkRoutes (pw_Routes req) of
        Inl err \<Rightarrow> (e, Inl err)
      | Inr _ \<Rightarrow>
          if pw_LeaseDuration req < 0 then (e, Inl (ErrText ''lease duration must be >= 0''))
          else if pw_TenantId req = [] then (e, Inl (ErrText ''tenant_id is required for PollWork''))
          else case Select ctx (pw_TenantId req) (pw_CellNames req) ''jobs.acquire'' (cellsLocked e (pw_TenantId req)) of
              Inl err \<Rightarrow> (e, Inl err)
            | Inr allowed \<Rightarrow> pollLoop lib matches fresh now req allowed keys e [])"

definition getJobLeaseAcquire :: "runtime_lib \<Rightarrow> CellAuthority option \<Rightarrow> gostring \<Rightarrow> instant \<Rightarrow> GetJobLeaseRequest \<Rightarrow>
   ToyEngine \<Rightarrow> runtimeLease option outcome" where
  "getJobLeaseAcquire lib ctx fresh now req e =
     (case checkRoutes (gl_Routes req) of
        Inl err \<Rightarrow> (e, Inl err)
      | Inr _ \<Rightarrow>
          if gl_LeaseDuration req < 0 then (e, Inl (ErrText ''lease duration must be >= 0''))
          else if gl_Routes req = [] then (e, Inl (ErrText ''at least one route is required''))
          else case getJobRecord e (gl_JobKey req) of
              None \<Rightarrow> (e, Inr None)
            | Some r \<Rightarrow>
                case AuthorizeCell ctx (TenantId (gl_JobKey req)) (rc_CellID (jr_cell r)) ''jobs.acquire'' of
                  Inl err \<Rightarrow> (e, Inl err)
                | Inr _ \<Rightarrow>
                    if map_option c_State (map_of (cs_Cells (cellsLocked e (TenantId (gl_JobKey req)))) (rc_CellID (jr_cell r)))
                         \<noteq> Some CellActive then (e, Inl ErrCellRetired)
                    else case advanceRecordStateLocked e (TenantId (gl_JobKey req)) now r of
                        Inl err \<Rightarrow> (e, Inl err)
                      | Inr r1 \<Rightarrow>
                          let e1 = put_job (gl_JobKey req) r1 e in
                          if jr_leased r1 \<or> jr_status r1 \<noteq> JobStatusReady \<or> effectiveRoute now r1 \<notin> set (gl_Routes req)
                          then (e1, Inr None)
                          else let r2 = acquireRecord now fresh (gl_WorkerID req) (gl_LeaseDuration req) r1
                               in (put_job (gl_JobKey req) r2 e1, Inr (Some (leaseOf lib (gl_JobKey req) (gl_LeaseDuration req) r2))))"

section \<open>Renewal and validation\<close>

definition KeepAliveLeaseByIDWithExpiry :: "instant \<Rightarrow> JobKey \<Rightarrow> gostring \<Rightarrow> gostring \<Rightarrow> duration \<Rightarrow> ToyEngine \<Rightarrow> instant outcome" where
  "KeepAliveLeaseByIDWithExpiry now key leaseID worker d e = (case getJobRecord e key of
      None \<Rightarrow> (e, Inl ErrJobNotFound)
    | Some r \<Rightarrow>
        if \<not> leaseLive now leaseID worker r then (e, Inl ErrExecutionLeaseLost)
        else let expiry = now + toyLeaseDurationOrDefault d
             in (put_job key (r\<lparr>jr_leaseExpiresAt := expiry\<rparr>) e, Inr expiry))"

definition ValidateExecutionLeaseByID :: "instant \<Rightarrow> ToyEngine \<Rightarrow> JobKey \<Rightarrow> gostring \<Rightarrow> gostring \<Rightarrow> error + LeaseValidity" where
  "ValidateExecutionLeaseByID now e key leaseID worker = (case getJobRecord e key of
      None \<Rightarrow> Inl ErrExecutionLeaseLost
    | Some r \<Rightarrow>
        if worker = [] \<or> \<not> leaseLive now leaseID worker r then Inl ErrExecutionLeaseLost
        else Inr \<lparr>lv_Cell = jr_cell r, lv_GoalID = jr_goalID r, lv_ExpiresAt = jr_leaseExpiresAt r, lv_Route = jr_route r\<rparr>)"

definition RenewExecutionLeaseByID :: "runtime_lib \<Rightarrow> instant \<Rightarrow> JobKey \<Rightarrow> gostring \<Rightarrow> gostring \<Rightarrow> duration \<Rightarrow> ToyEngine \<Rightarrow> runtimeLease outcome" where
  "RenewExecutionLeaseByID lib now key leaseID worker d e = (case getJobRecord e key of
      None \<Rightarrow> (e, Inl ErrExecutionLeaseLost)
    | Some r \<Rightarrow>
        if worker = [] \<or> \<not> leaseLive now leaseID worker r then (e, Inl ErrExecutionLeaseLost)
        else let r1 = r\<lparr>jr_leaseExpiresAt := now + toyLeaseDurationOrDefault d\<rparr>
             in (put_job key r1 e, Inr (leaseOf lib key d r1)))"

end
