(* ===== verification/Toy_Chapters.thy ===== *)
theory Toy_Chapters
  imports Toy_Lease
begin

text \<open>
  Chapters and artifacts of the in-process runtime (\<open>toyimpl/runtime.go\<close>, \<open>internal/leaseauth\<close>):
  leased writes, the chapter that ends a job, the completion of an external task, and reads.
  A chapter body is a value of its Go type, never a nil pointer, so every body has a wire form.
\<close>

section \<open>Lease claims\<close>

record Claims =
  lc_TenantID :: gostring
  lc_JobID :: gostring
  lc_LeaseID :: gostring
  lc_WorkerID :: gostring
  lc_SchemaHash :: gostring
  lc_ExpiresAt :: instant

definition Matches :: "Claims \<Rightarrow> JobKey \<Rightarrow> gostring \<Rightarrow> bool" where
  "Matches c key leaseID \<longleftrightarrow> lc_TenantID c = TenantId key \<and> lc_JobID c = JobId key \<and> lc_LeaseID c = leaseID"

definition Authorize :: "Claims option \<Rightarrow> instant \<Rightarrow> JobKey \<Rightarrow> gostring \<Rightarrow> error + bool" where
  "Authorize claims now key leaseID = (case claims of
      None \<Rightarrow> Inr False
    | Some c \<Rightarrow>
        if \<not> Matches c key leaseID then Inl ErrExecutionLeaseLost
        else if lc_ExpiresAt c \<noteq> zero_time \<and> \<not> now < lc_ExpiresAt c then Inl ErrExecutionLeaseLost
        else Inr True)"

section \<open>Reads\<close>

definition GetChapter :: "ToyEngine \<Rightarrow> JobKey \<Rightarrow> int \<Rightarrow> error + Chapter" where
  "GetChapter e key ordinal = (case getJobRecord e key of
      None \<Rightarrow> Inl ErrJobNotFound
    | Some _ \<Rightarrow> (case map_of (te_runtimeChapters e) key of
        None \<Rightarrow> Inl ErrChapterNotFound
      | Some chapters \<Rightarrow> (case map_of chapters ordinal of None \<Rightarrow> Inl ErrChapterNotFound | Some ch \<Rightarrow> Inr ch)))"

definition ListChapters :: "ToyEngine \<Rightarrow> JobKey \<Rightarrow> int \<Rightarrow> int option \<Rightarrow> error + Chapter list" where
  "ListChapters e key start until = (case getJobRecord e key of
      None \<Rightarrow> Inl ErrJobNotFound
    | Some _ \<Rightarrow>
        if start < 0 then Inl (ErrText ''start ordinal must be >= 0'')
        else (case map_of (te_runtimeChapters e) key of
          None \<Rightarrow> Inl ErrJobNotFound
        | Some chapters \<Rightarrow>
            Inr (map snd (takeWhile (\<lambda>(n, _). case until of None \<Rightarrow> True | Some m \<Rightarrow> \<not> n > m)
                   (filter (\<lambda>(n, _). \<not> n < start) (sort_key fst chapters))))))"

definition existingRuntimeChapter :: "ToyEngine \<Rightarrow> JobKey \<Rightarrow> int \<Rightarrow> Chapter option" where
  "existingRuntimeChapter e key ordinal = Option.bind (map_of (te_runtimeChapters e) key) (\<lambda>chapters. map_of chapters ordinal)"

section \<open>Artifact uploads\<close>

record ArtifactUpload =
  au_Name :: gostring
  au_Open :: "(error + gostring) option"

definition put_artifact :: "JobKey \<Rightarrow> int \<Rightarrow> gostring \<Rightarrow> gostring \<Rightarrow> ToyEngine \<Rightarrow> ToyEngine" where
  "put_artifact key ordinal name bytes e =
     e\<lparr>te_runtimeArtifacts := (te_runtimeArtifacts e)(runtimeArtifactKey key ordinal name \<mapsto> bytes)\<rparr>"

fun uploadLoop :: "runtime_lib \<Rightarrow> JobKey \<Rightarrow> int \<Rightarrow> ArtifactUpload list \<Rightarrow> ToyEngine \<Rightarrow> StoredArtifact list \<Rightarrow> StoredArtifact list outcome" where
  "uploadLoop lib key ordinal [] e stored = (e, Inr stored)"
| "uploadLoop lib key ordinal (item # items) e stored = (case au_Open item of
      None \<Rightarrow> (e, Inl (ErrText ''artifact missing opener''))
    | Some (Inl err) \<Rightarrow> (e, Inl err)
    | Some (Inr bytes) \<Rightarrow>
        uploadLoop lib key ordinal items (put_artifact key ordinal (au_Name item) bytes e)
          (stored @ [\<lparr>sa_Name = au_Name item, sa_Digest = lb_sha256 lib bytes, sa_Size = int (length bytes)\<rparr>]))"

fun descriptorLoop :: "StoredArtifact list \<Rightarrow> StoredArtifact list \<Rightarrow> error + unit" where
  "descriptorLoop (a # existing) (b # computed) =
     (if sa_Name a \<noteq> sa_Name b then Inl (ErrText ''chapter artifact name does not match uploaded artifact'')
      else if sa_Size a \<noteq> 0 \<and> sa_Size a \<noteq> sa_Size b then Inl (ErrText ''chapter artifact size does not match uploaded size'')
      else if sa_Digest a \<noteq> [] \<and> sa_Digest a \<noteq> sa_Digest b then Inl (ErrText ''chapter artifact digest does not match uploaded digest'')
      else descriptorLoop existing computed)"
| "descriptorLoop _ _ = Inr ()"

definition validateStoredArtifactDescriptors :: "StoredArtifact list \<Rightarrow> StoredArtifact list \<Rightarrow> error + unit" where
  "validateStoredArtifactDescriptors existing computed =
     (if existing = [] then Inr ()
      else if length existing \<noteq> length computed then Inl (ErrText ''chapter artifact metadata count does not match uploads'')
      else descriptorLoop existing computed)"

definition prepareChapterWrite :: "runtime_lib \<Rightarrow> JobKey \<Rightarrow> int \<Rightarrow> Chapter \<Rightarrow> ArtifactUpload list \<Rightarrow> ToyEngine \<Rightarrow> Chapter outcome" where
  "prepareChapterWrite lib key ordinal chapter uploads e = (case lb_size lib chapter of
      Inl err \<Rightarrow> (e, Inl err)
    | Inr _ \<Rightarrow>
        if uploads = [] then
          (e, if ch_Artifacts chapter \<noteq> [] then Inl (ErrText ''put chapter with artifact descriptors but no artifact uploads'')
              else Inr chapter)
        else (case uploadLoop lib key ordinal uploads e [] of
            (e1, Inl err) \<Rightarrow> (e1, Inl err)
          | (e1, Inr stored) \<Rightarrow>
              (e1, rbind (validateStoredArtifactDescriptors (ch_Artifacts chapter) stored) (\<lambda>_.
                 Inr (chapter\<lparr>ch_Artifacts := stored\<rparr>)))))"

section \<open>Appending\<close>

definition put_chapter :: "JobKey \<Rightarrow> (int \<times> Chapter) list \<Rightarrow> int \<Rightarrow> Chapter \<Rightarrow> ToyEngine \<Rightarrow> ToyEngine" where
  "put_chapter key chapters ordinal ch e =
     e\<lparr>te_runtimeChapters := AList.update key (AList.update ordinal ch chapters) (te_runtimeChapters e)\<rparr>"

definition storeRuntimeChapter :: "JobKey \<Rightarrow> int \<Rightarrow> Chapter \<Rightarrow> ToyEngine \<Rightarrow> unit outcome" where
  "storeRuntimeChapter key ordinal chapter e = (case map_of (te_runtimeChapters e) key of
      None \<Rightarrow> (e, Inl ErrJobNotFound)
    | Some chapters \<Rightarrow>
        if ordinal < 0 then (e, Inl (ErrText ''chapter ordinal must be >= 0''))
        else if ch_Ordinal chapter \<noteq> ordinal then (e, Inl (ErrText ''chapter ordinal does not match target ordinal''))
        else if map_of chapters ordinal \<noteq> None then (e, Inl ErrConflict)
        else if ordinal > 0 \<and> map_of chapters (ordinal - 1) = None then (e, Inl ErrConflict)
        else (put_chapter key chapters ordinal chapter e, Inr ()))"

record PutChapterRequest =
  pc_LeaseID :: gostring
  pc_JobKey :: JobKey
  pc_Ordinal :: int
  pc_Chapter :: Chapter
  pc_ArtifactUploads :: "ArtifactUpload list"

text \<open>The checks of \<open>PutChapter\<close> under the record's lock, before anything is written.\<close>

definition putChapterCheck :: "Claims option \<Rightarrow> instant \<Rightarrow> PutChapterRequest \<Rightarrow> ToyEngine \<Rightarrow> error + unit" where
  "putChapterCheck claims now req e =
     (if pc_LeaseID req = [] then Inl (ErrText ''lease id is required for PutChapter'')
      else if pc_Ordinal req < 0 then Inl (ErrText ''chapter ordinal must be >= 0'')
      else if ch_Ordinal (pc_Chapter req) \<noteq> pc_Ordinal req then Inl (ErrText ''chapter ordinal does not match target ordinal'')
      else case getJobRecord e (pc_JobKey req) of
          None \<Rightarrow> Inl ErrJobNotFound
        | Some r \<Rightarrow>
            rbind (Authorize claims now (pc_JobKey req) (pc_LeaseID req)) (\<lambda>_.
              if leaseLive now (pc_LeaseID req) (case claims of None \<Rightarrow> jr_leaseWorkerID r | Some c \<Rightarrow> lc_WorkerID c) r
              then Inr () else Inl ErrExecutionLeaseLost))"

definition putSchemaHash :: "runtime_lib \<Rightarrow> Claims option \<Rightarrow> PutChapterRequest \<Rightarrow> ToyEngine \<Rightarrow> gostring" where
  "putSchemaHash lib claims req e =
     (let h = (case claims of Some c \<Rightarrow> if Matches c (pc_JobKey req) (pc_LeaseID req) then lc_SchemaHash c else [] | None \<Rightarrow> [])
      in if h \<noteq> [] then h
         else case getJobRecord e (pc_JobKey req) of None \<Rightarrow> [] | Some r \<Rightarrow> lb_schemaHash lib (jr_metadata r))"

definition PutChapter :: "runtime_lib \<Rightarrow> Claims option \<Rightarrow> instant \<Rightarrow> PutChapterRequest \<Rightarrow> ToyEngine \<Rightarrow> unit outcome" where
  "PutChapter lib claims now req e = (case putChapterCheck claims now req e of
      Inl err \<Rightarrow> (e, Inl err)
    | Inr _ \<Rightarrow> (case prepareChapterWrite lib (pc_JobKey req) (pc_Ordinal req) (pc_Chapter req) (pc_ArtifactUploads req) e of
        (e1, Inl err) \<Rightarrow> (e1, Inl err)
      | (e1, Inr chapter) \<Rightarrow>
          (case lb_ordinary lib (TenantId (pc_JobKey req)) (putSchemaHash lib claims req e1) chapter of
             Inl err \<Rightarrow> (e1, Inl err)
           | Inr _ \<Rightarrow> storeRuntimeChapter (pc_JobKey req) (pc_Ordinal req) chapter e1)))"

end
