(* ===== verification/Toy_Complete.thy ===== *)
theory Toy_Complete
  imports Toy_Chapters
begin

text \<open>
  How an execution ends in the in-process runtime (\<open>toyimpl/runtime.go\<close>): completion of a leased
  job with its final chapter, rescheduling, and the completion of an external task by a caller
  that holds no lease.
\<close>

section \<open>Completion\<close>

record CompleteExecutionRequest =
  ce_ClientPayloadUpdate :: "PayloadUpdate option"
  ce_Status :: gostring
  ce_Detail :: gostring
  ce_Chapter :: "Chapter option"
  ce_ArtifactUploads :: "ArtifactUpload list"

definition is_job_outcome :: "Chapter \<Rightarrow> bool" where
  "is_job_outcome ch = (case ch_Body ch of JobAttemptOutcomeChapter _ \<Rightarrow> True | _ \<Rightarrow> False)"

text \<open>The checks before the final chapter is written; the result is the schema hash of the job.\<close>

definition completeCheck :: "runtime_lib \<Rightarrow> instant \<Rightarrow> JobKey \<Rightarrow> gostring \<Rightarrow> gostring \<Rightarrow> CompleteExecutionRequest \<Rightarrow> ToyEngine \<Rightarrow> error + gostring" where
  "completeCheck lib now key leaseID worker req e = (case ce_Chapter req of
      None \<Rightarrow> Inl (ErrText ''complete lease requires final chapter'')
    | Some ch \<Rightarrow>
        if \<not> is_job_outcome ch then Inl (ErrText ''complete lease chapter must be a job attempt outcome'')
        else case getJobRecord e key of
            None \<Rightarrow> Inl ErrJobNotFound
          | Some r \<Rightarrow>
              if \<not> leaseLive now leaseID worker r then Inl ErrExecutionLeaseLost
              else rbind (Apply (lb_payload lib) (jr_clientPayload r) (jr_clientPayloadRevision r) (ce_ClientPayloadUpdate req)) (\<lambda>_.
                Inr (lb_schemaHash lib (jr_metadata r))))"

definition ensureCompletionChapter :: "runtime_lib \<Rightarrow> JobKey \<Rightarrow> gostring \<Rightarrow> Chapter \<Rightarrow> ArtifactUpload list \<Rightarrow> ToyEngine \<Rightarrow> Chapter outcome" where
  "ensureCompletionChapter lib key schemaHash ch uploads e =
     (if ch_Ordinal ch < 0 then (e, Inl (ErrText ''chapter ordinal must be >= 0''))
      else case existingRuntimeChapter e key (ch_Ordinal ch) of
          Some existing \<Rightarrow>
            (case (if uploads \<noteq> [] then prepareChapterWrite lib key (ch_Ordinal ch) ch uploads e else (e, Inr ch)) of
               (e1, Inl err) \<Rightarrow> (e1, Inl err)
             | (e1, Inr candidate) \<Rightarrow> (e1, if existing \<noteq> candidate then Inl ErrConflict else Inr existing))
        | None \<Rightarrow>
            (case prepareChapterWrite lib key (ch_Ordinal ch) ch uploads e of
               (e1, Inl err) \<Rightarrow> (e1, Inl err)
             | (e1, Inr chapter) \<Rightarrow>
                 (case lb_last lib (TenantId key) schemaHash chapter of
                    Inl err \<Rightarrow> (e1, Inl err)
                  | Inr _ \<Rightarrow> (case storeRuntimeChapter key (ch_Ordinal ch) chapter e1 of
                      (e2, Inl err) \<Rightarrow> (e2, Inl err)
                    | (e2, Inr _) \<Rightarrow> (e2, Inr chapter)))))"

definition completedRecord :: "instant \<Rightarrow> gostring option \<Rightarrow> int \<Rightarrow> CompleteExecutionRequest \<Rightarrow> jobRecord \<Rightarrow> jobRecord" where
  "completedRecord now value revision req r =
     r\<lparr>jr_clientPayload := value, jr_clientPayloadRevision := revision, jr_leased := False, jr_leaseID := [],
       jr_archived := Some now, jr_completionDetail := ce_Detail req,
       jr_completionStatus := (if ce_Status req = [] \<or> ce_Status req = ''succeeded'' then ''success'' else ce_Status req),
       jr_status := (if ce_Status req = ''cancelled'' then JobStatusCancelled else JobStatusCompleted),
       jr_cancelled := (ce_Status req = ''cancelled'' \<or> jr_cancelled r)\<rparr>"

definition completeFinish :: "runtime_lib \<Rightarrow> nat \<Rightarrow> instant \<Rightarrow> JobKey \<Rightarrow> gostring \<Rightarrow> gostring \<Rightarrow> CompleteExecutionRequest \<Rightarrow> ToyEngine \<Rightarrow> unit outcome" where
  "completeFinish lib depth now key leaseID worker req e = (case getJobRecord e key of
      None \<Rightarrow> (e, Inl ErrJobNotFound)
    | Some r \<Rightarrow>
        if \<not> leaseLive now leaseID worker r then (e, Inl ErrExecutionLeaseLost)
        else case Apply (lb_payload lib) (jr_clientPayload r) (jr_clientPayloadRevision r) (ce_ClientPayloadUpdate req) of
            Inl err \<Rightarrow> (e, Inl err)
          | Inr (value, revision) \<Rightarrow>
              completeGoals now depth key (put_job key (completedRecord now value revision req r) e))"

definition payloadFailedRecord :: "instant \<Rightarrow> gostring \<Rightarrow> jobRecord \<Rightarrow> jobRecord" where
  "payloadFailedRecord now detail r =
     r\<lparr>jr_archived := Some now, jr_status := JobStatusCompleted, jr_completionStatus := ''failed_app'',
       jr_completionDetail := detail, jr_leased := False, jr_leaseID := [], jr_alternateRoute := None,
       jr_payload := (jr_payload r)\<lparr>wp_TaskWait := None\<rparr>\<rparr>"

text \<open>An assignment to a chapter of a job without a chapter map panics in Go.\<close>

definition completePayloadFailure :: "nat \<Rightarrow> instant \<Rightarrow> JobKey \<Rightarrow> gostring \<Rightarrow> gostring \<Rightarrow> Chapter \<Rightarrow> CompleteExecutionRequest \<Rightarrow> ToyEngine \<Rightarrow> unit outcome" where
  "completePayloadFailure depth now key leaseID worker ch req e =
     (if ce_ArtifactUploads req \<noteq> [] \<or> ce_ClientPayloadUpdate req \<noteq> None
      then (e, Inl (ErrText ''payload failure cannot carry uploads or client updates''))
      else case getJobRecord e key of
          None \<Rightarrow> (e, Inl ErrJobNotFound)
        | Some r \<Rightarrow>
            if \<not> leaseLive now leaseID worker r then (e, Inl ErrExecutionLeaseLost)
            else let chapters = (case map_of (te_runtimeChapters e) key of None \<Rightarrow> [] | Some cs \<Rightarrow> cs)
                 in if ch_Ordinal ch \<noteq> int (length chapters) then (e, Inl ErrConflict)
                    else if map_of (te_runtimeChapters e) key = None then (e, Inl (ErrText ''assignment to entry in nil map''))
                    else completeGoals now depth key
                           (put_job key (payloadFailedRecord now (ce_Detail req) r) (put_chapter key chapters (ch_Ordinal ch) ch e)))"

definition completeLease :: "runtime_lib \<Rightarrow> nat \<Rightarrow> instant \<Rightarrow> JobKey \<Rightarrow> gostring \<Rightarrow> gostring \<Rightarrow> CompleteExecutionRequest \<Rightarrow> ToyEngine \<Rightarrow> unit outcome" where
  "completeLease lib depth now key leaseID worker req e = (case ce_Chapter req of
      None \<Rightarrow> (e, Inl (ErrText ''complete lease requires final chapter''))
    | Some ch \<Rightarrow>
        if ChapterPayloadFailure ch then completePayloadFailure depth now key leaseID worker ch req e
        else case completeCheck lib now key leaseID worker req e of
            Inl err \<Rightarrow> (e, Inl err)
          | Inr schemaHash \<Rightarrow>
              (case ensureCompletionChapter lib key schemaHash ch (ce_ArtifactUploads req) e of
                 (e1, Inl err) \<Rightarrow> (e1, Inl err)
               | (e1, Inr _) \<Rightarrow> completeFinish lib depth now key leaseID worker req e1))"

section \<open>Rescheduling\<close>

record RescheduleExecutionRequest =
  rr_DependencyWait :: "DependencyWait option"
  rr_NextRoute :: Route
  rr_WaitUntil :: "instant option"
  rr_WaitForJobIDs :: "gostring list"
  rr_TaskWait :: "TaskWait option"
  rr_ClientPayloadUpdate :: "PayloadUpdate option"
  rr_AlternateRoute :: "Route option"
  rr_AlternateAfter :: "duration option"

definition ValidateDependencyReschedule :: "RescheduleExecutionRequest \<Rightarrow> error + unit" where
  "ValidateDependencyReschedule r =
     (if rr_DependencyWait r = None then Inr ()
      else if rr_WaitForJobIDs r \<noteq> [] \<or> rr_WaitUntil r \<noteq> None \<or> rr_AlternateRoute r \<noteq> None \<or> rr_AlternateAfter r \<noteq> None
      then Inl ErrInvalidDependency
      else ValidateDependencyWait (rr_DependencyWait r) False)"

text \<open>The goal state a reschedule commits: the consumer's other waits closed, the new one registered.\<close>

definition rescheduleGoals :: "nat \<Rightarrow> instant \<Rightarrow> JobKey \<Rightarrow> gostring \<Rightarrow> DependencyWait option \<Rightarrow> Memory \<Rightarrow> error + Memory" where
  "rescheduleGoals depth now key old wait s =
     rbind (if old \<noteq> [] \<and> map_option dw_WaitID wait \<noteq> Some old
            then CloseConsumer (memory_engine now depth) key s else Inr s) (\<lambda>s1.
       case wait of
         None \<Rightarrow> Inr s1
       | Some w \<Rightarrow> rbind (Register (memory_engine now depth) key w False s1) (\<lambda>(_, s2). Inr s2))"

definition rescheduledRecord :: "instant \<Rightarrow> gostring option \<Rightarrow> int \<Rightarrow> TaskWait option \<Rightarrow> RescheduleExecutionRequest \<Rightarrow> jobRecord \<Rightarrow> jobRecord" where
  "rescheduledRecord now value revision task req r =
     (let wait = map_option (\<lambda>t. \<lparr>wt_InputStep = tw_InputOrdinal t, wt_OutputStep = tw_OutputOrdinal t,
                                  wt_Next = tw_ResumeJobType t, wt_InputHash = tw_InputHash t\<rparr>) task;
          future = (case rr_WaitUntil req of None \<Rightarrow> False | Some at \<Rightarrow> now < at)
      in r\<lparr>jr_dependencyWaitID := (case rr_DependencyWait req of None \<Rightarrow> [] | Some w \<Rightarrow> dw_WaitID w),
           jr_clientPayload := value, jr_clientPayloadRevision := revision, jr_leased := False, jr_leaseID := [],
           jr_consecutiveExpirations := 0, jr_route := rr_NextRoute req, jr_alternateRoute := rr_AlternateRoute req,
           jr_alternateAt := (case rr_AlternateAfter req of None \<Rightarrow> jr_alternateAt r | Some d \<Rightarrow> now + d),
           jr_payload := (jr_payload r)\<lparr>wp_TaskWait := wait\<rparr>, jr_waitFor := rr_WaitForJobIDs req,
           jr_availableAt := (if rr_WaitForJobIDs req = [] \<and> future then the (rr_WaitUntil req) else zero_time),
           jr_waitDeadline := (if rr_WaitForJobIDs req \<noteq> [] \<and> rr_WaitUntil req \<noteq> None then the (rr_WaitUntil req) else zero_time),
           jr_step := (case wait of None \<Rightarrow> 0 | Some w \<Rightarrow> wt_OutputStep w),
           jr_status := (if rr_WaitForJobIDs req \<noteq> [] then JobStatusPendingJobs
                         else if future then JobStatusAwaitingFuture else JobStatusReady)\<rparr>)"

definition rescheduleLease :: "runtime_lib \<Rightarrow> nat \<Rightarrow> instant \<Rightarrow> JobKey \<Rightarrow> gostring \<Rightarrow> gostring \<Rightarrow> RescheduleExecutionRequest \<Rightarrow> ToyEngine \<Rightarrow> unit outcome" where
  "rescheduleLease lib depth now key leaseID worker req e = (case getJobRecord e key of
      None \<Rightarrow> (e, Inl ErrJobNotFound)
    | Some r \<Rightarrow>
        if \<not> leaseLive now leaseID worker r then (e, Inl ErrExecutionLeaseLost)
        else case rbind (ValidateDependencyReschedule req) (\<lambda>_.
               rbind (RescheduleTaskWait (rr_NextRoute req) (rr_TaskWait req)) (\<lambda>task.
               rbind (ValidateAlternateRoute (rr_AlternateRoute req) (rr_AlternateAfter req) task) (\<lambda>_.
               rbind (Apply (lb_payload lib) (jr_clientPayload r) (jr_clientPayloadRevision r) (rr_ClientPayloadUpdate req)) (\<lambda>(value, revision).
               rbind (rescheduleGoals depth now key (jr_dependencyWaitID r) (rr_DependencyWait req) (goal_view e)) (\<lambda>goals.
                 Inr (goals, rescheduledRecord now value revision task req r)))))) of
            Inl err \<Rightarrow> (e, Inl err)
          | Inr (goals, r1) \<Rightarrow> (put_job key r1 (e\<lparr>te_goals := goals\<rparr>), Inr ()))"

section \<open>External tasks\<close>

record TaskData =
  td_Data :: "error + gostring"
  td_Artifacts :: "error + (gostring \<times> (error + gostring)) list"

record CompleteTaskIfWaitingRequest =
  ct_JobKey :: JobKey
  ct_Route :: Route
  ct_ResumeJobType :: gostring
  ct_InputOrdinal :: int
  ct_OutputOrdinal :: int
  ct_InputHash :: gostring
  ct_Data :: "TaskData option"

text \<open>The comparison of the wait a record is parked on with the request's coordinates.\<close>

definition taskMatches :: "CompleteTaskIfWaitingRequest \<Rightarrow> jobRecord \<Rightarrow> error + workerTaskWait" where
  "taskMatches req r = (case wp_TaskWait (jr_payload r) of
      None \<Rightarrow> Inl ErrConflict
    | Some wait \<Rightarrow>
        if jr_route r \<noteq> ct_Route req then Inl ErrConflict
        else if ct_ResumeJobType req \<noteq> [] \<and> wt_Next wait \<noteq> ct_ResumeJobType req then Inl ErrConflict
        else if ct_InputOrdinal req \<noteq> 0 \<and> wt_InputStep wait \<noteq> ct_InputOrdinal req then Inl ErrConflict
        else if wt_OutputStep wait \<noteq> ct_OutputOrdinal req then Inl ErrConflict
        else if ct_InputHash req \<noteq> [] \<and> wt_InputHash wait \<noteq> ct_InputHash req then Inl ErrConflict
        else Inr wait)"

text \<open>The first critical section: what the caller must find unchanged when it publishes.\<close>

definition taskSnapshot :: "instant \<Rightarrow> CompleteTaskIfWaitingRequest \<Rightarrow> ToyEngine \<Rightarrow> (workerJobPayload \<times> Route \<times> workerTaskWait) outcome" where
  "taskSnapshot now req e = (case Route_Validate (ct_Route req) of
      Inl err \<Rightarrow> (e, Inl err)
    | Inr _ \<Rightarrow>
        if rt_TaskType (ct_Route req) = [] then (e, Inl (ErrText ''task route required''))
        else case getJobRecord e (ct_JobKey req) of
            None \<Rightarrow> (e, Inl ErrJobNotFound)
          | Some r \<Rightarrow> (case advanceRecordStateLocked e (TenantId (ct_JobKey req)) now r of
              Inl err \<Rightarrow> (e, Inl err)
            | Inr r1 \<Rightarrow>
                (put_job (ct_JobKey req) r1 e,
                 if jr_status r1 \<noteq> JobStatusReady \<or> jr_archived r1 \<noteq> None \<or> jr_cancelled r1 then Inl ErrConflict
                 else rbind (taskMatches req r1) (\<lambda>wait. Inr (jr_payload r1, jr_route r1, wait)))))"

fun collectArtifacts :: "runtime_lib \<Rightarrow> (gostring \<times> (error + gostring)) list \<Rightarrow> (gostring \<times> gostring) list \<Rightarrow> StoredArtifact list \<Rightarrow>
   error + ((gostring \<times> gostring) list \<times> StoredArtifact list)" where
  "collectArtifacts lib [] pending stored = Inr (pending, stored)"
| "collectArtifacts lib ((name, content) # arts) pending stored =
     (if name = [] then Inl (ErrText ''artifact name is required'')
      else if map_of pending name \<noteq> None then Inl (ErrText ''duplicate artifact name'')
      else rbind content (\<lambda>bytes. collectArtifacts lib arts (AList.update name bytes pending)
             (stored @ [\<lparr>sa_Name = name, sa_Digest = lb_sha256 lib bytes, sa_Size = int (length bytes)\<rparr>])))"

text \<open>
  The chapter of the task's outcome with its artifacts, built outside the locks. An outcome beyond
  the size limit becomes a terminal failure chapter without artifacts, with the failure's message.
\<close>

definition taskChapter :: "runtime_lib \<Rightarrow> instant \<Rightarrow> CompleteTaskIfWaitingRequest \<Rightarrow> workerJobPayload \<Rightarrow> Route \<Rightarrow> workerTaskWait \<Rightarrow> ToyEngine \<Rightarrow>
   error + (Chapter \<times> (gostring \<times> gostring) list \<times> gostring option)" where
  "taskChapter lib now req payload route wait e = (case ct_Data req of
      None \<Rightarrow> Inl (ErrText ''task data is required'')
    | Some td \<Rightarrow>
        rbind (td_Data td) (\<lambda>bytes.
        if \<not> lb_jsonValid lib bytes then Inl (ErrText ''task data must be valid JSON'')
        else rbind (td_Artifacts td) (\<lambda>arts.
        rbind (collectArtifacts lib arts [] []) (\<lambda>(pending, stored).
        rbind (lb_metadata lib (wt_OutputStep wait) (rt_TaskType route) now (wt_InputHash wait) (wp_RunPolicy payload)) (\<lambda>md.
        let plain = \<lparr>ch_Ordinal = wt_OutputStep wait, ch_TaskType = rt_TaskType route,
                     ch_Body = TaskAttemptOutcomeChapter (ApplicationOutputOutcome bytes), ch_InputHash = wt_InputHash wait,
                     ch_CreatedAt = now, ch_Metadata = md, ch_Artifacts = stored\<rparr> in
        rbind (GetChapter e (ct_JobKey req) (wt_InputStep wait)) (\<lambda>input.
        rbind (lb_completion lib input (ct_InputHash req) (ct_InputOrdinal req) bytes) (\<lambda>completion.
        let chapter = (case completion of None \<Rightarrow> plain | Some raw \<Rightarrow> plain\<lparr>ch_Body := ExecutionChapter raw\<rparr>);
            schemaHash = (case getJobRecord e (ct_JobKey req) of None \<Rightarrow> [] | Some r \<Rightarrow> lb_schemaHash lib (jr_metadata r))
        in case lb_ordinary lib (TenantId (ct_JobKey req)) schemaHash chapter of
             Inr _ \<Rightarrow> Inr (chapter, pending, None)
           | Inl (ErrPayloadTooLarge failure) \<Rightarrow> Inr (PayloadFailureChapter (lb_stats lib) chapter failure, [], Some failure)
           | Inl err \<Rightarrow> Inl err)))))))"

definition put_artifacts :: "JobKey \<Rightarrow> int \<Rightarrow> (gostring \<times> gostring) list \<Rightarrow> ToyEngine \<Rightarrow> ToyEngine" where
  "put_artifacts key ordinal pending e = foldl (\<lambda>e (name, bytes). put_artifact key ordinal name bytes e) e pending"

definition taskFailedRecord :: "instant \<Rightarrow> gostring \<Rightarrow> workerJobPayload \<Rightarrow> workerTaskWait \<Rightarrow> jobRecord \<Rightarrow> jobRecord" where
  "taskFailedRecord now failure payload wait r =
     r\<lparr>jr_archived := Some now, jr_status := JobStatusCompleted, jr_completionStatus := ''failed_app'',
       jr_completionDetail := failure, jr_route := Route (wt_Next wait) [], jr_alternateRoute := None,
       jr_payload := \<lparr>wp_RunPolicy = wp_RunPolicy payload, wp_TaskWait = None\<rparr>, jr_step := wt_OutputStep wait\<rparr>"

definition resumedRecord :: "gostring \<Rightarrow> workerJobPayload \<Rightarrow> workerTaskWait \<Rightarrow> jobRecord \<Rightarrow> jobRecord" where
  "resumedRecord resume payload wait r =
     r\<lparr>jr_route := Route (if resume \<noteq> [] then resume else wt_Next wait) [], jr_alternateRoute := None,
       jr_payload := \<lparr>wp_RunPolicy = wp_RunPolicy payload, wp_TaskWait = None\<rparr>, jr_status := JobStatusReady,
       jr_leased := False, jr_leaseID := [], jr_step := wt_OutputStep wait, jr_consecutiveExpirations := 0\<rparr>"

text \<open>
  The second critical section. It advances the record again, and publishes the chapter, its
  artifacts and the scheduler transition only if the record is still parked on the same wait.
\<close>

definition taskPublish :: "nat \<Rightarrow> instant \<Rightarrow> JobKey \<Rightarrow> gostring \<Rightarrow> workerJobPayload \<Rightarrow> Route \<Rightarrow> workerTaskWait \<Rightarrow>
   Chapter \<Rightarrow> (gostring \<times> gostring) list \<Rightarrow> gostring option \<Rightarrow> ToyEngine \<Rightarrow> unit outcome" where
  "taskPublish depth now key resume payload route wait chapter pending failure e = (case getJobRecord e key of
      None \<Rightarrow> (e, Inl ErrJobNotFound)
    | Some r \<Rightarrow> (case advanceRecordStateLocked e (TenantId key) now r of
        Inl err \<Rightarrow> (e, Inl err)
      | Inr r1 \<Rightarrow>
          let e1 = put_job key r1 e in
          if jr_leased r1 \<or> currentStatus now r1 \<noteq> JobStatusReady \<or> jr_archived r1 \<noteq> None \<or> jr_cancelled r1
             \<or> jr_route r1 \<noteq> route \<or> jr_payload r1 \<noteq> payload then (e1, Inl ErrConflict)
          else case map_of (te_runtimeChapters e1) key of
              None \<Rightarrow> (e1, Inl ErrJobNotFound)
            | Some chapters \<Rightarrow>
                if map_of chapters (wt_OutputStep wait) \<noteq> None then (e1, Inl ErrConflict)
                else if map_of chapters (wt_OutputStep wait - 1) = None then (e1, Inl ErrConflict)
                else let e2 = put_artifacts key (wt_OutputStep wait) pending (put_chapter key chapters (wt_OutputStep wait) chapter e1)
                     in case failure of
                          None \<Rightarrow> (put_job key (resumedRecord resume payload wait r1) e2, Inr ())
                        | Some msg \<Rightarrow>
                            (case completeGoals now depth key (put_job key (taskFailedRecord now msg payload wait r1) e2) of
                               (e3, Inl err) \<Rightarrow> (e3, Inl err)
                             | (e3, Inr _) \<Rightarrow> (e3, Inl (ErrPayloadTooLarge msg)))))"

definition CompleteTaskIfWaiting :: "runtime_lib \<Rightarrow> nat \<Rightarrow> instant \<Rightarrow> CompleteTaskIfWaitingRequest \<Rightarrow> ToyEngine \<Rightarrow> unit outcome" where
  "CompleteTaskIfWaiting lib depth now req e = (case taskSnapshot now req e of
      (e1, Inl err) \<Rightarrow> (e1, Inl err)
    | (e1, Inr (payload, route, wait)) \<Rightarrow>
        (case taskChapter lib now req payload route wait e1 of
           Inl err \<Rightarrow> (e1, Inl err)
         | Inr (chapter, pending, failure) \<Rightarrow>
             taskPublish depth now (ct_JobKey req) (ct_ResumeJobType req) payload route wait chapter pending failure e1))"

end
