(* ===== verification/Toy_Submit.thy ===== *)
theory Toy_Submit
  imports Toy_Complete
begin

text \<open>
  Submission to the in-process runtime (\<open>toyimpl/goals.go\<close>, \<open>cells.go\<close> and the publication at the
  end of \<open>submitJobWithParent\<close>): a preparation reserves the identities of a job and its goal, and
  the publication inserts the job, its goal, its dependency wait and its first chapter together.
\<close>

section \<open>Calling context\<close>

record LeaseProof =
  lp_JobKey :: JobKey
  lp_LeaseID :: gostring
  lp_WorkerID :: gostring

record call_ctx =
  cx_Authority :: "CellAuthority option"
  cx_Lease :: "LeaseProof option"
  cx_Schedule :: "ScheduleKey option"

record JobHandle =
  jh_Target :: ResolvedCell
  jh_GoalID :: gostring
  jh_JobKey :: JobKey

definition cellHandleLocked :: "ToyEngine \<Rightarrow> JobKey \<Rightarrow> jobRecord \<Rightarrow> JobHandle" where
  "cellHandleLocked e key r =
     \<lparr>jh_Target = (case map_of (cs_Cells (cellsLocked e (TenantId key))) (rc_CellID (jr_cell r)) of
         None \<Rightarrow> jr_cell r | Some c \<Rightarrow> (jr_cell r)\<lparr>rc_Cell := c_Name c\<rparr>),
      jh_GoalID = jr_goalID r, jh_JobKey = key\<rparr>"

section \<open>The target cell\<close>

definition cellParentLocked :: "instant \<Rightarrow> call_ctx \<Rightarrow> gostring \<Rightarrow> ToyEngine \<Rightarrow> error + Cell option" where
  "cellParentLocked now cx tenant e = (case cx_Lease cx of
      None \<Rightarrow> Inr None
    | Some p \<Rightarrow>
        if TenantId (lp_JobKey p) \<noteq> tenant then Inl ErrCellForbidden
        else case getJobRecord e (lp_JobKey p) of
            None \<Rightarrow> Inl ErrExecutionLeaseLost
          | Some r \<Rightarrow>
              if lp_WorkerID p = [] \<or> \<not> leaseLive now (lp_LeaseID p) (lp_WorkerID p) r then Inl ErrExecutionLeaseLost
              else case map_of (cs_Cells (cellsLocked e tenant)) (rc_CellID (jr_cell r)) of
                  None \<Rightarrow> Inl ErrExecutionLeaseLost
                | Some c \<Rightarrow> if c_State c \<noteq> CellActive then Inl ErrExecutionLeaseLost else Inr (Some c))"

definition scheduleCell :: "call_ctx \<Rightarrow> Preparation \<Rightarrow> ToyEngine \<Rightarrow> error + Cell option" where
  "scheduleCell cx req e = (case cx_Schedule cx of
      None \<Rightarrow> Inr None
    | Some key \<Rightarrow>
        if sk_TenantId key \<noteq> TenantId (pp_Key req) then Inl ErrCellForbidden
        else case map_of (te_schedules e) key of
            None \<Rightarrow> Inl ErrCellNotFound
          | Some sched \<Rightarrow>
              if si_State sched = ScheduleStateArchived then Inl ErrCellNotFound
              else case map_of (cs_Cells (cellsLocked e (sk_TenantId key))) (rc_CellID (si_Target sched)) of
                  None \<Rightarrow> Inl ErrCellNotFound
                | Some c \<Rightarrow>
                    if c_Repo c \<noteq> rc_CellRepo (si_Target sched) \<or> pp_CellRepo req \<noteq> rc_CellRepo (si_Target sched)
                    then Inl ErrCellRepoMismatch else Inr (Some c))"

definition existingCell :: "Preparation \<Rightarrow> ToyEngine \<Rightarrow> error + (ResolvedCell option \<times> bool)" where
  "existingCell req e =
     (let own = (case getJobRecord e (pp_Key req) of
           Some r \<Rightarrow> if rc_CellID (jr_cell r) \<noteq> [] then Some (jr_cell r) else None
         | None \<Rightarrow> None)
      in if own \<noteq> None then Inr (own, True)
         else if pp_PriorJobID req = [] then Inr (None, False)
         else case getJobRecord e (JobKey (TenantId (pp_Key req)) (pp_PriorJobID req)) of
             None \<Rightarrow> Inl ErrJobNotFound
           | Some r \<Rightarrow> Inr (Some (jr_cell r), False))"

definition prepareCellLocked :: "instant \<Rightarrow> call_ctx \<Rightarrow> Preparation \<Rightarrow> ToyEngine \<Rightarrow> error + ResolvedCell" where
  "prepareCellLocked now cx req e =
     rbind (scheduleCell cx req e) (\<lambda>scheduled.
     rbind (cellParentLocked now cx (TenantId (pp_Key req)) e) (\<lambda>parent.
     rbind (existingCell req e) (\<lambda>(existing, confirmation).
       Resolve (cx_Authority cx) (TenantId (pp_Key req)) (pp_Cell req) (pp_CellRepo req)
         (if scheduled \<noteq> None then scheduled else parent) existing confirmation (cellsLocked e (TenantId (pp_Key req))))))"

definition publishCellLocked :: "instant \<Rightarrow> call_ctx \<Rightarrow> JobKey \<Rightarrow> ToyEngine \<Rightarrow> error + (ResolvedCell \<times> CellRegistry)" where
  "publishCellLocked now cx key e = (case map_of (te_preparedGoals e) key of
      None \<Rightarrow> Inl ErrInvalidCell
    | Some p \<Rightarrow>
        rbind (prepareCellLocked now cx (pg_Request p) e) (\<lambda>target.
          if rc_CellID target \<noteq> rc_CellID (pp_Target (pg_Request p)) then Inl (ErrExistingJobMismatch ''cell identity differs'')
          else if rc_CellRepo target \<noteq> rc_CellRepo (pp_Target (pg_Request p)) then Inl ErrCellRepoMismatch
          else Inr (target, cellsLocked e (TenantId key))))"

section \<open>Preparation\<close>

definition requestedKey :: "Preparation \<Rightarrow> ToyEngine \<Rightarrow> error + JobKey" where
  "requestedKey req e =
     (if pp_RequestID req = [] then Inr (pp_Key req)
      else case te_goalRequests e (GoalKey (TenantId (pp_Key req)) (pp_RequestID req)) of
          None \<Rightarrow> Inr (pp_Key req)
        | Some key \<Rightarrow>
            if JobId (pp_Key req) \<noteq> [] \<and> pp_Key req \<noteq> key then Inl (ErrExistingJobMismatch ''destination differs'')
            else Inr key)"

definition sharedGoal :: "Preparation \<Rightarrow> JobKey \<Rightarrow> gostring \<Rightarrow> ToyEngine \<Rightarrow> error + gostring" where
  "sharedGoal req key newGoal e =
     (if \<not> pp_ShareGoal req then Inr newGoal
      else case getJobRecord e (JobKey (TenantId key) (pp_PriorJobID req)) of
          None \<Rightarrow> Inl ErrJobNotFound
        | Some source \<Rightarrow>
            rbind (Memory_Goal (goal_view e) (GoalKey (TenantId key) (jr_goalID source))) (\<lambda>g.
              if g_State g \<noteq> GoalOpen then Inl ErrGoalConflict else Inr (jr_goalID source)))"

text \<open>\<open>newKey\<close> is what the identifier generator returns, \<open>newGoal\<close> a generated identifier.\<close>

definition PrepareJob :: "runtime_lib \<Rightarrow> instant \<Rightarrow> call_ctx \<Rightarrow> error + JobKey \<Rightarrow> gostring \<Rightarrow> Preparation \<Rightarrow> ToyEngine \<Rightarrow> Prepared outcome" where
  "PrepareJob lib now cx newKey newGoal req0 e = (case rbind (requestedKey req0 e) (\<lambda>requested.
       rbind (prepareCellLocked now cx (req0\<lparr>pp_Key := requested\<rparr>) e) (\<lambda>target. Inr (requested, target))) of
      Inl err \<Rightarrow> (e, Inl err)
    | Inr (requested, target) \<Rightarrow>
        let req = req0\<lparr>pp_Key := requested, pp_Target := target\<rparr> in
        (case map_of (te_preparedGoals e) requested of
           Some old \<Rightarrow>
             (e, if rc_CellRepo (pp_Target (pg_Request old)) \<noteq> rc_CellRepo target \<or> rc_CellID (pp_Target (pg_Request old)) \<noteq> rc_CellID target
                 then Inl (ErrExistingJobMismatch ''cell differs'')
                 else if pp_Descriptor (pg_Request old) \<noteq> pp_Descriptor req \<or> pp_RequestID (pg_Request old) \<noteq> pp_RequestID req
                 then Inl (ErrExistingJobMismatch (lb_mismatch lib (pp_Descriptor (pg_Request old)) (pp_Descriptor req)))
                 else Inr \<lparr>pd_Target = target, pd_Key = requested, pd_GoalID = pg_GoalID old,
                           pd_Published = (getJobRecord e requested \<noteq> None)\<rparr>)
         | None \<Rightarrow>
             (case rbind (if JobId requested = [] then newKey else Inr requested) (\<lambda>key.
                rbind (JobKey_Validate key) (\<lambda>_. rbind (sharedGoal req key newGoal e) (\<lambda>goalID. Inr (key, goalID)))) of
                Inl err \<Rightarrow> (e, Inl err)
              | Inr (key, goalID) \<Rightarrow>
                  (e\<lparr>te_preparedGoals := AList.update key \<lparr>pg_Request = req\<lparr>pp_Key := key\<rparr>, pg_GoalID = goalID\<rparr> (te_preparedGoals e),
                     te_goalRequests := (if pp_RequestID req = [] then te_goalRequests e
                       else (te_goalRequests e)(GoalKey (TenantId requested) (pp_RequestID req) \<mapsto> key))\<rparr>,
                   Inr \<lparr>pd_Target = target, pd_Key = key, pd_GoalID = goalID, pd_Published = False\<rparr>))))"

definition DiscardJobPreparation :: "JobKey \<Rightarrow> ToyEngine \<Rightarrow> ToyEngine" where
  "DiscardJobPreparation key e =
     (if getJobRecord e key \<noteq> None then e
      else case map_of (te_preparedGoals e) key of
          None \<Rightarrow> e
        | Some p \<Rightarrow>
            e\<lparr>te_preparedGoals := AList.delete key (te_preparedGoals e),
              te_goalRequests := (if pp_RequestID (pg_Request p) = [] then te_goalRequests e
                else (te_goalRequests e)(GoalKey (TenantId key) (pp_RequestID (pg_Request p)) := None))\<rparr>)"

section \<open>Publication\<close>

definition newGoalInfo :: "ResolvedCell \<Rightarrow> GoalKey \<Rightarrow> instant \<Rightarrow> GoalInfo" where
  "newGoalInfo target gk createdAt =
     \<lparr>g_Cell = rc_Cell target, g_CellID = rc_CellID target, g_CellRepo = rc_CellRepo target, g_GoalKey = gk,
      g_State = GoalOpen, g_Revision = 1, g_SuccessfulJobID = [], g_Failure = None,
      g_CreatedAt = createdAt, g_UpdatedAt = createdAt, g_ClosedAt = None\<rparr>"

text \<open>The goal state that a publication commits, computed on a copy that sees the new job.\<close>

definition publishedGoals :: "nat \<Rightarrow> instant \<Rightarrow> JobKey \<Rightarrow> preparedGoalJob \<Rightarrow> jobRecord \<Rightarrow> Memory \<Rightarrow> error + Memory" where
  "publishedGoals depth now key p r s =
     (let gk = GoalKey (TenantId key) (pg_GoalID p) in
      rbind (if pp_ShareGoal (pg_Request p)
             then rbind (Memory_Goal s gk) (\<lambda>g. if g_State g \<noteq> GoalOpen then Inl ErrGoalConflict else Inr s)
             else Memory_SaveGoal s (newGoalInfo (jr_cell r) gk (jr_createdAt r))) (\<lambda>s1.
      rbind (if pp_Dependencies (pg_Request p) \<noteq> []
             then rbind (Register (memory_engine now depth) key
                    \<lparr>dw_WaitID = ''submission'', dw_Dependencies = pp_Dependencies (pg_Request p), dw_Deadline = None\<rparr> True s1) (\<lambda>(_, s2). Inr s2)
             else Inr s1) (\<lambda>s2.
      rbind (CheckCycle (memory_engine now depth) (TenantId key) (goal_target (pg_GoalID p)) s2) (\<lambda>_. Inr s2))))"

text \<open>The new job is already in the table when \<open>publishGoalLocked\<close> runs; it fills in the record.\<close>

definition publishGoalLocked :: "nat \<Rightarrow> instant \<Rightarrow> call_ctx \<Rightarrow> JobKey \<Rightarrow> jobRecord \<Rightarrow> ToyEngine \<Rightarrow> error + ToyEngine" where
  "publishGoalLocked depth now cx key r e = (case map_of (te_preparedGoals e) key of
      None \<Rightarrow> Inl ErrInvalidCell
    | Some p \<Rightarrow>
        rbind (publishCellLocked now cx key e) (\<lambda>(target, cells).
          let r1 = r\<lparr>jr_cell := target, jr_goalID := pg_GoalID p, jr_key := key\<rparr>;
              e1 = put_job key r1 e
          in rbind (publishedGoals depth now key p r1 (goal_view e1)) (\<lambda>goals.
               Inr (put_cells (TenantId key) cells (put_job key
                 (if pp_Dependencies (pg_Request p) \<noteq> [] then r1\<lparr>jr_dependencyWaitID := ''submission''\<rparr> else r1)
                 (e1\<lparr>te_goals := goals\<rparr>))))))"

text \<open>What the checks before the publication have established about the submitted job.\<close>

record Submission =
  sb_JobType :: gostring
  sb_ClientPayload :: "gostring option"
  sb_ClientPayloadRevision :: int
  sb_InitialPayloadDigest :: gostring
  sb_Metadata :: gostring
  sb_RunPolicy :: gostring
  sb_AvailableAt :: "instant option"
  sb_Start :: Chapter

definition newRecord :: "instant \<Rightarrow> Submission \<Rightarrow> jobRecord" where
  "newRecord now sb =
     (let availableAt = (case sb_AvailableAt sb of None \<Rightarrow> now | Some at \<Rightarrow> at)
      in \<lparr>jr_cell = \<lparr>rc_Cell = [], rc_CellID = [], rc_CellRepo = []\<rparr>, jr_key = JobKey [] [], jr_goalID = [],
          jr_dependencyWaitID = [], jr_hidden = False, jr_clientPayload = sb_ClientPayload sb,
          jr_clientPayloadRevision = sb_ClientPayloadRevision sb, jr_initialPayloadDigest = sb_InitialPayloadDigest sb,
          jr_leaseExpiresAt = zero_time, jr_leaseWorkerID = [],
          jr_status = (if now < availableAt then JobStatusAwaitingFuture else JobStatusReady), jr_cancelled = False,
          jr_jobType = sb_JobType sb, jr_createdAt = now, jr_archived = None,
          jr_payload = \<lparr>wp_RunPolicy = sb_RunPolicy sb, wp_TaskWait = None\<rparr>, jr_metadata = sb_Metadata sb,
          jr_completionDetail = [], jr_completionStatus = [], jr_route = Route (sb_JobType sb) [],
          jr_alternateRoute = None, jr_alternateAt = zero_time, jr_step = 0, jr_waitFor = [],
          jr_availableAt = availableAt, jr_waitDeadline = zero_time, jr_leased = False, jr_leaseID = [],
          jr_consecutiveExpirations = 0\<rparr>)"

definition insertJob :: "nat \<Rightarrow> instant \<Rightarrow> call_ctx \<Rightarrow> JobKey \<Rightarrow> Submission \<Rightarrow> ToyEngine \<Rightarrow> JobHandle outcome" where
  "insertJob depth now cx key sb e = (case getJobRecord e key of
      Some existing \<Rightarrow> (e, Inr (cellHandleLocked e key existing))
    | None \<Rightarrow>
        (case publishGoalLocked depth now cx key (newRecord now sb) (put_job key (newRecord now sb) e) of
           Inl err \<Rightarrow> (e, Inl err)
         | Inr e1 \<Rightarrow>
             (put_chapter key (case map_of (te_runtimeChapters e1) key of None \<Rightarrow> [] | Some cs \<Rightarrow> cs) 0 (sb_Start sb) e1,
              case getJobRecord e1 key of
                None \<Rightarrow> Inl ErrJobNotFound
              | Some r \<Rightarrow> Inr \<lparr>jh_Target = jr_cell r, jh_GoalID = jr_goalID r, jh_JobKey = key\<rparr>)))"

end
