(* ===== verification/Toy_Admin.thy ===== *)
theory Toy_Admin
  imports Toy_Submit
begin

text \<open>
  Administration of the in-process runtime (\<open>toyimpl/runtime.go\<close>, \<open>crash_concern.go\<close>,
  \<open>delete_jobs.go\<close>, \<open>goals.go\<close>, \<open>cells.go\<close>): cancelling and deleting jobs, clearing a crash
  concern, goals, and the cells of a tenant.  Requests come with a live context.
\<close>

section \<open>Jobs\<close>

definition cancelledRecord :: "instant \<Rightarrow> gostring \<Rightarrow> jobRecord \<Rightarrow> jobRecord" where
  "cancelledRecord now reason r =
     r\<lparr>jr_cancelled := True, jr_completionStatus := ''cancelled'', jr_completionDetail := reason,
       jr_status := JobStatusCancelled, jr_archived := Some now, jr_leased := False, jr_leaseID := []\<rparr>"

definition CancelJob :: "nat \<Rightarrow> instant \<Rightarrow> JobKey \<Rightarrow> gostring \<Rightarrow> ToyEngine \<Rightarrow> unit outcome" where
  "CancelJob depth now key reason e = (case getJobRecord e key of
      None \<Rightarrow> (e, Inl ErrJobNotFound)
    | Some r \<Rightarrow>
        if jr_archived r \<noteq> None then (e, Inr ())
        else completeGoals now depth key (put_job key (cancelledRecord now reason r) e))"

definition clearedRecord :: "instant \<Rightarrow> jobRecord \<Rightarrow> jobRecord" where
  "clearedRecord now r =
     r\<lparr>jr_consecutiveExpirations := 0,
       jr_status := (if jr_status r \<noteq> JobStatusCrashConcern then jr_status r
         else if jr_waitFor r \<noteq> [] then JobStatusPendingJobs
         else if now < jr_availableAt r then JobStatusAwaitingFuture else JobStatusReady)\<rparr>"

definition ClearCrashConcern :: "instant \<Rightarrow> JobKey \<Rightarrow> ToyEngine \<Rightarrow> unit outcome" where
  "ClearCrashConcern now key e =
     (if blank (TenantId key) \<or> blank (JobId key) then (e, Inl ErrInvalidCrashConcernRequest)
      else case getJobRecord e key of
          None \<Rightarrow> (e, Inl ErrJobNotFound)
        | Some r \<Rightarrow>
            if jr_archived r \<noteq> None \<or> jr_cancelled r \<or> jr_hidden r \<or> jr_leased r \<and> now < jr_leaseExpiresAt r
            then (e, Inl ErrConflict)
            else (put_job key (clearedRecord now r) e, Inr ()))"

record DeleteJobsRequest =
  dj_TenantID :: gostring
  dj_JobIDs :: "gostring list"
  dj_CreatedBefore :: "instant option"
  dj_Filtered :: bool
  dj_All :: bool
  dj_DryRun :: bool

text \<open>
  \<open>dj_Filtered\<close> says whether the request has metadata predicates, which are the parameter
  \<open>matches\<close> of the deletion; predicates that do not parse are refused before it is called.
\<close>

definition DeleteJobsRequest_Validate :: "DeleteJobsRequest \<Rightarrow> error + unit" where
  "DeleteJobsRequest_Validate r =
     (let filtered = dj_JobIDs r \<noteq> [] \<or> dj_CreatedBefore r \<noteq> None \<or> dj_Filtered r in
      if blank (dj_TenantID r) \<or> list_ex blank (dj_JobIDs r)
         \<or> (case dj_CreatedBefore r of None \<Rightarrow> False | Some at \<Rightarrow> at = zero_time \<or> \<not> int64 at)
         \<or> filtered = dj_All r
      then Inl ErrInvalidJobDeletion else Inr ())"

definition deletedRecord :: "instant \<Rightarrow> jobRecord \<Rightarrow> jobRecord" where
  "deletedRecord now r0 =
     (let r = r0\<lparr>jr_hidden := True\<rparr>;
          r1 = (if jr_archived r = None
                then r\<lparr>jr_cancelled := True, jr_archived := Some now, jr_status := JobStatusCancelled,
                       jr_completionStatus := ''cancelled'', jr_completionDetail := ''job deleted''\<rparr> else r)
      in r1\<lparr>jr_leased := False, jr_leaseID := [], jr_leaseWorkerID := [], jr_leaseExpiresAt := zero_time\<rparr>)"

definition selected :: "(gostring \<Rightarrow> error + bool) \<Rightarrow> DeleteJobsRequest \<Rightarrow> ToyEngine \<Rightarrow> JobKey \<Rightarrow> error + bool" where
  "selected matches req e key = (case getJobRecord e key of
      None \<Rightarrow> Inr False
    | Some r \<Rightarrow>
        if TenantId key \<noteq> dj_TenantID req \<or> dj_JobIDs req \<noteq> [] \<and> JobId key \<notin> set (dj_JobIDs req)
           \<or> jr_hidden r \<or> (case dj_CreatedBefore req of None \<Rightarrow> False | Some at \<Rightarrow> \<not> jr_createdAt r < at)
        then Inr False else matches (jr_metadata r))"

fun matchLoop :: "(JobKey \<Rightarrow> error + bool) \<Rightarrow> JobKey list \<Rightarrow> error + JobKey list" where
  "matchLoop p [] = Inr []"
| "matchLoop p (key # keys) = rbind (p key) (\<lambda>b. rbind (matchLoop p keys) (\<lambda>rest. Inr (if b then key # rest else rest)))"

fun deleteLoop :: "nat \<Rightarrow> instant \<Rightarrow> JobKey list \<Rightarrow> ToyEngine \<Rightarrow> unit outcome" where
  "deleteLoop depth now [] e = (e, Inr ())"
| "deleteLoop depth now (key # keys) e = (case getJobRecord e key of
      None \<Rightarrow> deleteLoop depth now keys e
    | Some r \<Rightarrow>
        (case completeGoals now depth (jr_key r) (put_job key (deletedRecord now r) e) of
           (e1, Inl err) \<Rightarrow> (e1, Inl err)
         | (e1, Inr _) \<Rightarrow> deleteLoop depth now keys e1))"

text \<open>The result is the number of matched jobs; \<open>keys\<close> is the iteration order of the job table.\<close>

definition DeleteJobs :: "nat \<Rightarrow> instant \<Rightarrow> (gostring \<Rightarrow> error + bool) \<Rightarrow> JobKey list \<Rightarrow> DeleteJobsRequest \<Rightarrow> ToyEngine \<Rightarrow> nat outcome" where
  "DeleteJobs depth now matches keys req e = (case rbind (DeleteJobsRequest_Validate req) (\<lambda>_. matchLoop (selected matches req e) keys) of
      Inl err \<Rightarrow> (e, Inl err)
    | Inr found \<Rightarrow>
        if dj_DryRun req then (e, Inr (length found))
        else case deleteLoop depth now found e of
            (e1, Inl err) \<Rightarrow> (e1, Inl err)
          | (e1, Inr _) \<Rightarrow> (e1, Inr (length found)))"

section \<open>Goals\<close>

definition GetGoal :: "GoalKey \<Rightarrow> ToyEngine \<Rightarrow> error + GoalInfo" where
  "GetGoal k e = rbind (GoalKey_Validate k) (\<lambda>_. Memory_Goal (goal_view e) k)"

definition AddGoalCandidate :: "nat \<Rightarrow> instant \<Rightarrow> AddGoalCandidateRequest \<Rightarrow> ToyEngine \<Rightarrow> GoalCandidateInfo outcome" where
  "AddGoalCandidate depth now req e = (case Add (memory_engine now depth) req (goal_view e) of
      Inl err \<Rightarrow> (e, Inl err)
    | Inr (out, goals) \<Rightarrow> (e\<lparr>te_goals := goals\<rparr>, Inr out))"

definition FailGoal :: "nat \<Rightarrow> instant \<Rightarrow> FailGoalRequest \<Rightarrow> ToyEngine \<Rightarrow> GoalInfo outcome" where
  "FailGoal depth now req e = (case Fail (memory_engine now depth) req (goal_view e) of
      Inl err \<Rightarrow> (e, Inl err)
    | Inr (out, goals) \<Rightarrow> (e\<lparr>te_goals := goals\<rparr>, Inr out))"

definition GetDependencyWait :: "nat \<Rightarrow> instant \<Rightarrow> DependencyWaitKey \<Rightarrow> ToyEngine \<Rightarrow> error + DependencyWaitInfo" where
  "GetDependencyWait depth now key e = (case getJobRecord e (wk_JobKey key) of
      None \<Rightarrow> Inl ErrJobNotFound
    | Some _ \<Rightarrow> rbind (Memory_Wait (goal_view e) key) (Evaluate (memory_engine now depth) (goal_view e)))"

definition otherGoalsLocked :: "JobKey \<Rightarrow> ToyEngine \<Rightarrow> gostring list" where
  "otherGoalsLocked key e =
     sort (map (\<lambda>(k, _). GoalID (ck_Goal k))
       (filter (\<lambda>(k, _). g_TenantId (ck_Goal k) = TenantId key \<and> ck_JobID k = JobId key) (Extras (te_goals e))))"

section \<open>Cells\<close>

definition CreateCell :: "json_lib \<Rightarrow> CellAuthority option \<Rightarrow> gostring \<Rightarrow> gostring \<Rightarrow> instant \<Rightarrow> CreateCellRequest \<Rightarrow> ToyEngine \<Rightarrow> Cell outcome" where
  "CreateCell js ctx newID newRev now req e = (case Create js ctx newID newRev now req (cellsLocked e (cr_TenantID req)) of
      Inl err \<Rightarrow> (e, Inl err)
    | Inr (c, s) \<Rightarrow> (put_cells (cr_TenantID req) s e, Inr c))"

definition pauseSchedules :: "gostring \<Rightarrow> gostring \<Rightarrow> ToyEngine \<Rightarrow> ToyEngine" where
  "pauseSchedules tenant cid e =
     e\<lparr>te_schedules := map (\<lambda>(key, rec).
         (key, if sk_TenantId key = tenant \<and> rc_CellID (si_Target rec) = cid \<and> si_State rec = ScheduleStateActive
               then rec\<lparr>si_State := ScheduleStatePaused, si_EffectiveState := ScheduleStatePaused, si_PauseReason := ''cell_repo_mismatch''\<rparr>
               else rec)) (te_schedules e)\<rparr>"

definition UpdateCell :: "json_lib \<Rightarrow> CellAuthority option \<Rightarrow> gostring \<Rightarrow> instant \<Rightarrow> UpdateCellRequest \<Rightarrow> ToyEngine \<Rightarrow> Cell outcome" where
  "UpdateCell js ctx newRev now req e =
     (let s0 = cellsLocked e (up_TenantID req); old = map_of (cs_Cells s0) (up_CellID req) in
      case Update js ctx newRev now req s0 of
        Inl err \<Rightarrow> (e, Inl err)
      | Inr (c, s) \<Rightarrow>
          let e1 = put_cells (up_TenantID req) s e
          in (if (case old of None \<Rightarrow> [] | Some o0 \<Rightarrow> c_Repo o0) \<noteq> c_Repo c then pauseSchedules (up_TenantID req) (c_ID c) e1 else e1, Inr c))"

definition recordBusy :: "instant \<Rightarrow> jobRecord \<Rightarrow> bool" where
  "recordBusy now r \<longleftrightarrow> jr_archived r = None \<and> \<not> jr_cancelled r \<or> jr_leased r \<and> now < jr_leaseExpiresAt r"

fun jobsBusy :: "instant \<Rightarrow> gostring \<Rightarrow> gostring \<Rightarrow> Memory \<Rightarrow> (JobKey \<times> jobRecord) list \<Rightarrow> error + bool" where
  "jobsBusy now tenant cid goals [] = Inr False"
| "jobsBusy now tenant cid goals ((key, r) # rows) =
     (if TenantId key \<noteq> tenant \<or> rc_CellID (jr_cell r) \<noteq> cid then jobsBusy now tenant cid goals rows
      else if recordBusy now r then Inr True
      else rbind (Memory_Goal goals (GoalKey (TenantId key) (jr_goalID r))) (\<lambda>g.
             if g_State g = GoalOpen then Inr True else jobsBusy now tenant cid goals rows))"

text \<open>
  The callback of \<open>RetireCell\<close>. The goal rows are a Go map that the model keeps as a function, so
  the loop over them asks the rows of the goals \<open>gkeys\<close>, which list the map's keys.
\<close>

definition cellBusy :: "instant \<Rightarrow> GoalKey list \<Rightarrow> gostring \<Rightarrow> ToyEngine \<Rightarrow> gostring \<Rightarrow> error + bool" where
  "cellBusy now gkeys tenant e cid =
     rbind (jobsBusy now tenant cid (goal_view e) (te_jobRecords e)) (\<lambda>busy.
       Inr (busy
         \<or> list_ex (\<lambda>k. case GoalRows (te_goals e) k of None \<Rightarrow> False
                       | Some g \<Rightarrow> g_TenantId k = tenant \<and> g_CellID g = cid \<and> g_State g = GoalOpen) gkeys
         \<or> list_ex (\<lambda>(key, p). TenantId key = tenant \<and> rc_CellID (pp_Target (pg_Request p)) = cid \<and> getJobRecord e key = None) (te_preparedGoals e)
         \<or> list_ex (\<lambda>(key, s). sk_TenantId key = tenant \<and> si_State s = ScheduleStateActive \<and> rc_CellID (si_Target s) = cid) (te_schedules e)))"

definition RetireCell :: "CellAuthority option \<Rightarrow> gostring \<Rightarrow> instant \<Rightarrow> GoalKey list \<Rightarrow> RetireCellRequest \<Rightarrow> ToyEngine \<Rightarrow> Cell outcome" where
  "RetireCell ctx newRev now gkeys req e =
     (case Retire ctx newRev now (cellBusy now gkeys (rt_TenantID req) e) req (cellsLocked e (rt_TenantID req)) of
        Inl err \<Rightarrow> (e, Inl err)
      | Inr (c, s) \<Rightarrow> (put_cells (rt_TenantID req) s e, Inr c))"

section \<open>Cells through a lease\<close>

definition ResolveCellWithLeaseByID :: "instant \<Rightarrow> CellAuthority option \<Rightarrow> LeaseProof \<Rightarrow> gostring \<Rightarrow> ToyEngine \<Rightarrow> error + ResolvedCell" where
  "ResolveCellWithLeaseByID now ctx p name e =
     (let tenant = TenantId (lp_JobKey p) in
      rbind (cellParentLocked now \<lparr>cx_Authority = ctx, cx_Lease = Some p, cx_Schedule = None\<rparr> tenant e) (\<lambda>parent.
        if ByName (cellsLocked e tenant) name = None then Inl ErrCellNotFound
        else Resolve ctx tenant name [] parent None False (cellsLocked e tenant)))"

definition LookupCellWithLeaseByID :: "instant \<Rightarrow> LeaseProof \<Rightarrow> gostring \<Rightarrow> ToyEngine \<Rightarrow> error + ResolvedCell" where
  "LookupCellWithLeaseByID now p name e =
     rbind (cellParentLocked now \<lparr>cx_Authority = None, cx_Lease = Some p, cx_Schedule = None\<rparr> (TenantId (lp_JobKey p)) e) (\<lambda>_.
       Lookup name (cellsLocked e (TenantId (lp_JobKey p))))"

text \<open>\<open>quote\<close> formats the job, lease and worker of the proof with \<open>%q\<close>.\<close>

definition CreateWithLease :: "json_lib \<Rightarrow> (LeaseProof \<Rightarrow> gostring) \<Rightarrow> gostring \<Rightarrow> gostring \<Rightarrow> instant \<Rightarrow> LeaseProof \<Rightarrow>
   CreateCellRequest \<Rightarrow> CellRegistry \<Rightarrow> error + (Cell \<times> CellRegistry)" where
  "CreateWithLease js quote newID newRev now p req s =
     (if cr_TenantID req \<noteq> [] \<and> cr_TenantID req \<noteq> TenantId (lp_JobKey p) then Inl ErrCellForbidden
      else Create js (Some \<lparr>a_Principal = quote p, a_TenantID = TenantId (lp_JobKey p), a_Permissions = [''cells.create''], a_Cells = None\<rparr>)
             newID newRev now (req\<lparr>cr_TenantID := TenantId (lp_JobKey p)\<rparr>) s)"

definition CreateCellWithLeaseByID :: "json_lib \<Rightarrow> (LeaseProof \<Rightarrow> gostring) \<Rightarrow> gostring \<Rightarrow> gostring \<Rightarrow> instant \<Rightarrow> LeaseProof \<Rightarrow>
   CreateCellRequest \<Rightarrow> ToyEngine \<Rightarrow> Cell outcome" where
  "CreateCellWithLeaseByID js quote newID newRev now p req e =
     (let tenant = TenantId (lp_JobKey p) in
      case rbind (cellParentLocked now \<lparr>cx_Authority = None, cx_Lease = Some p, cx_Schedule = None\<rparr> tenant e) (\<lambda>_.
             CreateWithLease js quote newID newRev now p req (cellsLocked e tenant)) of
        Inl err \<Rightarrow> (e, Inl err)
      | Inr (c, s) \<Rightarrow> (put_cells tenant s e, Inr c))"

end
