(* ===== verification/Toy_Goals.thy ===== *)
theory Toy_Goals
  imports Toy_Admin
begin

text \<open>
  Referential integrity of the goal rows, and its consequence that \<open>Complete\<close> never fails on them.
  The runtime archives a job first and completes it on the live goal rows after, so a completion
  that failed half-way would leave an archived job with unsettled waits.  Lemmas of this theory are
  about \<open>Memory\<close> and about the view of it that the runtime's job table gives.
\<close>

section \<open>Frames\<close>

definition frame :: "Memory \<Rightarrow> Memory \<Rightarrow> bool" where
  "frame s u \<longleftrightarrow> Extras u = Extras s \<and> LookupJob u = LookupJob s \<and> dom (GoalRows s) \<subseteq> dom (GoalRows u)"

lemma frame_refl [simp]: "frame s s"
  by (simp add: frame_def)

lemma frame_trans: "frame s t \<Longrightarrow> frame t u \<Longrightarrow> frame s u"
  by (auto simp: frame_def)

lemma SaveWait_frame: "Memory_SaveWait s w = Inr u \<Longrightarrow> frame s u"
  by (auto simp: frame_def Memory_SaveWait_def)

lemma SaveGoal_frame: "Memory_SaveGoal s g = Inr u \<Longrightarrow> frame s u"
  by (auto simp: frame_def Memory_SaveGoal_def)

lemma memory_store_more [simp]:
  "store_SaveWait memory_store = Memory_SaveWait" "store_SaveGoal memory_store = Memory_SaveGoal"
  "store_TargetWaits memory_store = Memory_TargetWaits" "store_ConsumerWaits memory_store = Memory_ConsumerWaits"
  "store_Goals memory_store = Memory_Goals" "store_InsertCandidate memory_store = Memory_InsertCandidate"
  by (simp_all add: memory_store_def)

lemma rfold_frame:
  assumes "rfold f xs s = Inr t" and "\<And>x u v. f x u = Inr v \<Longrightarrow> frame u v"
  shows "frame s t"
  by (rule rfold_invariant[OF assms(1), where P = "frame s"]) (auto intro: frame_trans assms(2))

lemma SettleTarget_frame: "SettleTarget (memory_engine now depth) tenant t s = Inr u \<Longrightarrow> frame s u"
  unfolding SettleTarget_def by (auto simp: rbind_Inr_iff dest: SaveWait_frame elim!: rfold_frame)

lemma CloseConsumer_frame: "CloseConsumer (memory_engine now depth) key s = Inr u \<Longrightarrow> frame s u"
  unfolding CloseConsumer_def by (auto simp: rbind_Inr_iff dest: SaveWait_frame elim!: rfold_frame split: if_split_asm)

lemma resolve_frame: "resolve (memory_engine now depth) g jobID s = Inr (g', u) \<Longrightarrow> frame s u"
  by (auto simp: resolve_def Let_def rbind_Inr_iff split: if_splits dest!: SaveGoal_frame SettleTarget_frame intro: frame_trans)

lemma resolveGoal_frame: "resolveGoal (memory_engine now depth) jobID gk s = Inr u \<Longrightarrow> frame s u"
  by (auto simp: resolveGoal_def rbind_Inr_iff dest: resolve_frame)

section \<open>Integrity\<close>

definition goal_exists :: "Memory \<Rightarrow> GoalKey \<Rightarrow> bool" where
  "goal_exists s gk \<longleftrightarrow> GoalRows s gk \<noteq> None"

definition job_exists :: "Memory \<Rightarrow> JobKey \<Rightarrow> bool" where
  "job_exists s k \<longleftrightarrow> (\<exists>j. LookupJob s k = Inr j)"

definition target_exists :: "Memory \<Rightarrow> gostring \<Rightarrow> DependencyTarget \<Rightarrow> bool" where
  "target_exists s tenant t \<longleftrightarrow>
     (if t_GoalID t \<noteq> [] then goal_exists s (GoalKey tenant (t_GoalID t)) else job_exists s (JobKey tenant (t_JobID t)))"

definition extras_ok :: "Memory \<Rightarrow> bool" where
  "extras_ok s \<longleftrightarrow> (\<forall>p \<in> fst ` set (Extras s). goal_exists s (ck_Goal p) \<and> job_exists s (JobKey (g_TenantId (ck_Goal p)) (ck_JobID p)))"

definition wait_refs :: "Memory \<Rightarrow> DependencyWaitInfo \<Rightarrow> bool" where
  "wait_refs s w \<longleftrightarrow> job_exists s (w_JobKey w) \<and> (\<forall>t. pending_on t w \<longrightarrow> target_exists s (TenantId (w_JobKey w)) t)"

definition waits_refs :: "Memory \<Rightarrow> bool" where
  "waits_refs s \<longleftrightarrow> (\<forall>k w. Memory_Wait s k = Inr w \<longrightarrow> wait_refs s w)"

definition goals_refs :: "Memory \<Rightarrow> bool" where
  "goals_refs s \<longleftrightarrow> (\<forall>k j. LookupJob s k = Inr j \<longrightarrow> goal_exists s (GoalKey (TenantId k) (j_GoalID j)))"

definition refs_ok :: "Memory \<Rightarrow> bool" where
  "refs_ok s \<longleftrightarrow> extras_ok s \<and> waits_refs s \<and> goals_refs s"

lemma goal_exists_iff: "goal_exists s gk \<longleftrightarrow> (\<exists>g. Memory_Goal s gk = Inr g)"
  by (auto simp: goal_exists_def Memory_Goal_def split: option.splits)

lemma frame_exists:
  assumes "frame s u"
  shows "goal_exists s gk \<Longrightarrow> goal_exists u gk" "job_exists u k = job_exists s k"
    "target_exists s tenant t \<Longrightarrow> target_exists u tenant t" "wait_refs s w \<Longrightarrow> wait_refs u w"
    "extras_ok s \<Longrightarrow> extras_ok u" "goals_refs s \<Longrightarrow> goals_refs u"
proof -
  have g: "goal_exists s gk \<Longrightarrow> goal_exists u gk" for gk using assms by (auto simp: frame_def goal_exists_def)
  have j: "job_exists u k = job_exists s k" for k using assms by (simp add: frame_def job_exists_def)
  have t: "target_exists s tenant t \<Longrightarrow> target_exists u tenant t" for tenant t
    using g j by (simp add: target_exists_def split: if_split_asm)
  show "goal_exists s gk \<Longrightarrow> goal_exists u gk" "job_exists u k = job_exists s k"
    "target_exists s tenant t \<Longrightarrow> target_exists u tenant t" by (fact g j t)+
  show "wait_refs s w \<Longrightarrow> wait_refs u w" using t j by (simp add: wait_refs_def)
  show "extras_ok s \<Longrightarrow> extras_ok u" using g j assms by (simp add: extras_ok_def frame_def)
  show "goals_refs s \<Longrightarrow> goals_refs u" using g assms by (simp add: goals_refs_def frame_def)
qed

lemma shrinks_waits_refs:
  assumes "shrinks memory_store s u" and "frame s u" and "waits_refs s"
  shows "waits_refs u"
  unfolding waits_refs_def
proof (intro allI impI)
  fix k w' assume w': "Memory_Wait u k = Inr w'"
  have sh: "Memory_Wait u k = Inr w' \<Longrightarrow> \<exists>w. Memory_Wait s k = Inr w"
    "Memory_Wait s k = Inr w \<Longrightarrow> \<exists>w'. Memory_Wait u k = Inr w' \<and> wait_le w w'" for w
    using assms(1) unfolding shrinks_def evolves_def memory_store_simps by blast+
  from sh(1)[OF w'] obtain w where w: "Memory_Wait s k = Inr w" ..
  from sh(2)[OF w] w' have wl: "wait_le w w'" by simp
  then have "w_JobKey w' = w_JobKey w" by (simp add: wait_le_def wait_key_def)
  with wait_le_pending(2)[OF wl] have le: "pending_on t w' \<Longrightarrow> pending_on t w" "w_JobKey w' = w_JobKey w" for t by simp_all
  have "wait_refs s w" using assms(3) w by (auto simp: waits_refs_def)
  then have "wait_refs u w" by (rule frame_exists(4)[OF assms(2)])
  then show "wait_refs u w'" using le by (auto simp: wait_refs_def)
qed

lemma shrinks_refs:
  "shrinks memory_store s u \<Longrightarrow> frame s u \<Longrightarrow> refs_ok s \<Longrightarrow> refs_ok u"
  using shrinks_waits_refs frame_exists(5,6) by (auto simp: refs_ok_def)

section \<open>Completion never fails\<close>

lemma rmap_total: "(\<And>x. x \<in> set xs \<Longrightarrow> \<exists>y. f x = Inr y) \<Longrightarrow> \<exists>ys. rmap f xs = Inr ys"
  by (induction xs) (auto simp: rbind_Inr_iff)

lemma rfold_total:
  assumes "P s" and "\<And>x u. x \<in> set xs \<Longrightarrow> P u \<Longrightarrow> \<exists>v. f x u = Inr v \<and> P v"
  shows "\<exists>t. rfold f xs s = Inr t \<and> P t"
  using assms
proof (induction xs arbitrary: s)
  case (Cons x xs)
  from Cons.prems(2)[of x s] Cons.prems(1) obtain v where v: "f x s = Inr v" "P v" by auto
  have "\<exists>t. rfold f xs v = Inr t \<and> P t" by (rule Cons.IH[OF v(2)]) (use Cons.prems(2) in auto)
  with v show ?case by (simp add: rbind_Inr_iff)
qed simp

lemma Candidates_total:
  assumes "extras_ok s"
  shows "\<exists>js. Memory_Candidates s gk = Inr js"
proof -
  have "\<exists>js. rmap (\<lambda>pair. LookupJob s (JobKey (g_TenantId gk) (ck_JobID pair))) (filter (\<lambda>pair. ck_Goal pair = gk) (map fst (Extras s))) = Inr js"
    by (rule rmap_total) (use assms in \<open>auto simp: extras_ok_def job_exists_def\<close>)
  then show ?thesis by (auto simp: Memory_Candidates_def rbind_Inr_iff)
qed

lemma evaluateDep_total:
  assumes "extras_ok s" and "target_exists s tenant (d_Target d)"
  shows "\<exists>d'. evaluateDep (memory_engine now depth) s tenant d = Inr d'"
proof (cases "t_GoalID (d_Target d) \<noteq> []")
  case True
  then obtain g where g: "Memory_Goal s (GoalKey tenant (t_GoalID (d_Target d))) = Inr g"
    using assms(2) by (auto simp: target_exists_def goal_exists_iff)
  obtain js where "Memory_Candidates s (g_GoalKey g) = Inr js" using Candidates_total[OF assms(1)] by blast
  then show ?thesis using True g by (auto simp: evaluateDep_def evaluateGoal_def split: GoalState.splits)
next
  case False
  then show ?thesis using assms(2) by (auto simp: target_exists_def job_exists_def evaluateDep_def evaluateJob_def)
qed

lemma evaluateLoop_total:
  assumes "extras_ok s" and "\<And>d. d \<in> set ds \<Longrightarrow> d_State d = DependencyPending \<Longrightarrow> target_exists s tenant (d_Target d)"
  shows "\<not> isl (evaluateLoop (memory_engine now depth) s tenant i ds)"
  using assms(2)
proof (induction ds arbitrary: i)
  case (Cons d ds)
  obtain es failed all where out: "evaluateLoop (memory_engine now depth) s tenant (Suc i) ds = Inr (es, failed, all)"
    using Cons.IH[of "Suc i"] Cons.prems by (cases "evaluateLoop (memory_engine now depth) s tenant (Suc i) ds") auto
  show ?case
  proof (cases "d_State d = DependencyPending")
    case True
    then obtain d' where "evaluateDep (memory_engine now depth) s tenant d = Inr d'"
      using evaluateDep_total[OF assms(1) Cons.prems[of d]] by auto
    then show ?thesis using out by (simp add: True)
  qed (simp add: out)
qed simp

lemma Evaluate_total:
  assumes "extras_ok s" and "wait_refs s w"
  shows "\<exists>w'. Evaluate (memory_engine now depth) s w = Inr w'"
proof -
  have "target_exists s (TenantId (w_JobKey w)) (d_Target d)"
    if "d \<in> set (w_Dependencies w)" "d_State d = DependencyPending" for d
    using that assms(2) by (auto simp: wait_refs_def pending_on_def)
  from evaluateLoop_total[OF assms(1) this]
  have "\<not> isl (evaluateLoop (memory_engine now depth) s (TenantId (w_JobKey w)) 0 (w_Dependencies w))" .
  then have "\<not> isl (Evaluate (memory_engine now depth) s w)"
    by (cases "evaluateLoop (memory_engine now depth) s (TenantId (w_JobKey w)) 0 (w_Dependencies w)") (auto simp: Evaluate_def)
  then show ?thesis by (cases "Evaluate (memory_engine now depth) s w") auto
qed

lemma SaveWait_total: "\<exists>u. Memory_SaveWait s w = Inr u \<and> frame s u"
  using SaveWait_frame[of s w] by (simp add: Memory_SaveWait_def)

text \<open>A loop that evaluates stored waits and saves them succeeds and keeps the frame.\<close>

lemma save_loop_total:
  assumes "extras_ok s" and "waits_refs s" and "\<And>w. w \<in> set ws \<Longrightarrow> Memory_Wait s (wait_key w) = Inr w"
    and "\<And>w u w'. w \<in> set ws \<Longrightarrow> Evaluate (memory_engine now depth) u w = Inr w' \<Longrightarrow> \<exists>v. f w u = Inr v \<and> frame u v"
  shows "\<exists>t. rfold f ws s = Inr t"
proof -
  have "\<exists>v. f w u = Inr v \<and> frame s v" if w: "w \<in> set ws" and fr: "frame s u" for w u
  proof -
    have "wait_refs s w" using assms(2,3) w by (auto simp: waits_refs_def)
    then obtain w' where "Evaluate (memory_engine now depth) u w = Inr w'"
      using Evaluate_total frame_exists(4,5)[OF fr] assms(1) by blast
    from assms(4)[OF w this] show ?thesis using frame_trans[OF fr] by blast
  qed
  then have "\<exists>t. rfold f ws s = Inr t \<and> frame s t" by (intro rfold_total[where P = "frame s"]) auto
  then show ?thesis by blast
qed

lemma SettleTarget_total:
  assumes "memory_inv s" and "extras_ok s" and "waits_refs s"
  shows "\<exists>u. SettleTarget (memory_engine now depth) tenant t s = Inr u"
proof -
  obtain ws where ws: "Memory_TargetWaits s tenant t = Inr ws" by (simp add: Memory_TargetWaits_def)
  have st: "Memory_Wait s (wait_key w) = Inr w" if "w \<in> set ws" for w
    using mem.target_set[OF assms(1)] ws that by simp
  have "\<exists>t. rfold (\<lambda>w s. rbind (Evaluate (memory_engine now depth) s w) (Memory_SaveWait s)) ws s = Inr t"
  proof (rule save_loop_total[OF assms(2,3) st])
    show "\<exists>v. rbind (Evaluate (memory_engine now depth) u w) (Memory_SaveWait u) = Inr v \<and> frame u v"
      if "Evaluate (memory_engine now depth) u w = Inr w'" for w u w'
      using that SaveWait_total[of u w'] by simp
  qed
  then show ?thesis using ws by (simp add: SettleTarget_def)
qed

lemma CloseConsumer_total:
  assumes "memory_inv s" and "extras_ok s" and "waits_refs s"
  shows "\<exists>u. CloseConsumer (memory_engine now depth) key s = Inr u"
proof -
  obtain ws where ws: "Memory_ConsumerWaits s key = Inr ws" by (simp add: Memory_ConsumerWaits_def)
  have st: "Memory_Wait s (wait_key w) = Inr w" "w_State w = DependencyPending" if "w \<in> set ws" for w
    using mem.consumer_set[OF assms(1)] ws that by auto
  define f where "f = (\<lambda>w s. if w_State w = DependencyPending then
                 rbind (Evaluate (memory_engine now depth) s w) (\<lambda>w.
                   Memory_SaveWait s (closePending
                     (if w_State w = DependencyPending then w\<lparr>w_State := DependencyCancelled\<rparr> else w)))
               else Inr s)"
  have "\<exists>t. rfold f ws s = Inr t"
  proof (rule save_loop_total[OF assms(2,3) st(1)])
    fix w u w' assume "w \<in> set ws" "Evaluate (memory_engine now depth) u w = Inr w'"
    then show "\<exists>v. f w u = Inr v \<and> frame u v"
      using SaveWait_total[of u] st(2) by (simp add: f_def)
  qed
  then show ?thesis using ws unfolding CloseConsumer_def f_def memory_engine_simps memory_store_more by simp
qed

lemma resolveGoal_total:
  assumes "memory_inv s" and "refs_ok s" and "goal_exists s gk"
  shows "\<exists>u. resolveGoal (memory_engine now depth) jobID gk s = Inr u"
proof -
  obtain g where g: "Memory_Goal s gk = Inr g" using assms(3) by (auto simp: goal_exists_iff)
  have "\<exists>out. resolve (memory_engine now depth) g jobID s = Inr out"
  proof (cases "g_State g = GoalOpen")
    case True
    define g' where "g' = g\<lparr>g_State := GoalSucceeded, g_SuccessfulJobID := jobID, g_Revision := 2, g_UpdatedAt := now, g_ClosedAt := Some now\<rparr>"
    obtain s1 where s1: "Memory_SaveGoal s g' = Inr s1" by (simp add: Memory_SaveGoal_def)
    have inv: "memory_inv s1" using mem.save_goal_inv[OF assms(1)] s1 by simp
    have k: "g_GoalKey g = gk" using mem.goal_key[OF assms(1), of gk g] g by simp
    have sh: "shrinks memory_store s s1"
      using me.save_goal_step(2)[OF assms(1), of g' s1 g] s1 g k True by (simp add: g'_def)
    have "refs_ok s1" by (rule shrinks_refs[OF sh SaveGoal_frame[OF s1] assms(2)])
    then obtain u where "SettleTarget (memory_engine now depth) (g_TenantId (g_GoalKey g')) (goal_target (GoalID (g_GoalKey g'))) s1 = Inr u"
      using SettleTarget_total[OF inv] unfolding refs_ok_def by blast
    then show ?thesis using True s1 by (simp add: resolve_def Let_def g'_def)
  qed (simp add: resolve_def)
  then show ?thesis using g by (auto simp: resolveGoal_def)
qed

lemma Complete_total:
  assumes "memory_inv s" and "refs_ok s" and "LookupJob s key = Inr j"
  shows "\<exists>u. Complete (memory_engine now depth) key s = Inr u"
proof -
  let ?P = "\<lambda>u. memory_inv u \<and> refs_ok u \<and> frame s u"
  define st1 where "st1 = (if j_Success j then rbind (Memory_Goals s key) (\<lambda>goals.
                rfold (resolveGoal (memory_engine now depth) (JobId (j_Key j))) (sort_key GoalID goals) s)
            else Inr s)"
  have "\<exists>s1. st1 = Inr s1 \<and> ?P s1"
  proof (cases "j_Success j")
    case True
    obtain gks where gks: "Memory_Goals s key = Inr gks" using assms(3) by (simp add: Memory_Goals_def)
    have ex: "goal_exists s gk" if "gk \<in> set gks" for gk
      using that gks assms(2,3) by (auto simp: Memory_Goals_def refs_ok_def goals_refs_def extras_ok_def)
    have step: "\<exists>v. resolveGoal (memory_engine now depth) (JobId (j_Key j)) gk u = Inr v \<and> ?P v"
      if "gk \<in> set (sort_key GoalID gks)" "?P u" for gk u
    proof -
      have u: "memory_inv u" "refs_ok u" "frame s u" using that(2) by auto
      have "goal_exists u gk" using ex frame_exists(1)[OF u(3)] that(1) by simp
      from resolveGoal_total[OF u(1,2) this] obtain v where v: "resolveGoal (memory_engine now depth) (JobId (j_Key j)) gk u = Inr v" by blast
      note rs = me.resolveGoal_step[OF v u(1)] and fr = resolveGoal_frame[OF v]
      show ?thesis using v rs(1) shrinks_refs[OF rs(2) fr u(2)] frame_trans[OF u(3) fr] by blast
    qed
    have "\<exists>s1. rfold (resolveGoal (memory_engine now depth) (JobId (j_Key j))) (sort_key GoalID gks) s = Inr s1 \<and> ?P s1"
      by (rule rfold_total[where P = ?P]) (use assms step in auto)
    then show ?thesis using gks True by (simp add: st1_def)
  qed (use assms in \<open>simp add: st1_def\<close>)
  then obtain s1 where s1: "st1 = Inr s1" "memory_inv s1" "refs_ok s1" by blast
  then obtain s2 where s2: "CloseConsumer (memory_engine now depth) key s1 = Inr s2"
    using CloseConsumer_total unfolding refs_ok_def by blast
  note c = me.CloseConsumer_advances[OF s2 s1(2)]
  have "refs_ok s2" by (rule shrinks_refs[OF advances_shrinks[OF c(2)] CloseConsumer_frame[OF s2] s1(3)])
  then obtain s3 where "SettleTarget (memory_engine now depth) (TenantId key) (job_target (JobId key)) s2 = Inr s3"
    using SettleTarget_total[OF c(1)] unfolding refs_ok_def by blast
  then show ?thesis using s1(1) s2 assms(3) by (cases "j_Success j") (simp_all add: Complete_def st1_def)
qed

section \<open>Healthy goal rows\<close>

text \<open>
  Consistent rows whose references exist, whose waits are well formed, and where no wait is pending
  on a decided target. Every operation of the goal engine keeps them healthy; \<open>Complete\<close> also
  restores them when only the completed job has been decided without settling it.
\<close>

definition healthy :: "Memory \<Rightarrow> bool" where
  "healthy s \<longleftrightarrow> memory_inv s \<and> refs_ok s \<and> wf_waits memory_store s \<and> stale memory_store s = {}"

lemma healthy_keeps:
  "healthy s \<Longrightarrow> keeps memory_store s u \<Longrightarrow> memory_inv u \<Longrightarrow> refs_ok u \<Longrightarrow> healthy u"
  by (auto simp: healthy_def keeps_def)

lemma evolves_lookup: "evolves memory_store s u \<Longrightarrow> LookupJob u = LookupJob s"
  by (simp add: evolves_def)

lemma keeps_lookup: "keeps memory_store s u \<Longrightarrow> LookupJob u = LookupJob s"
  by (simp add: keeps_def evolves_lookup)

lemma healthy_shrinks:
  assumes "healthy s" and "shrinks memory_store s u" and "keeps memory_store s u" and "frame s u" and "memory_inv u"
  shows "healthy u"
  using assms shrinks_refs[OF assms(2,4)] by (intro healthy_keeps[OF assms(1,3,5)]) (simp add: healthy_def)

lemma Fail_frame: "Fail (memory_engine now depth) req s = Inr (g, u) \<Longrightarrow> frame s u"
  by (auto simp: Fail_def Let_def rbind_Inr_iff split: if_splits dest!: SaveGoal_frame SettleTarget_frame intro: frame_trans)

lemma Fail_healthy:
  assumes "Fail (memory_engine now depth) req s = Inr (g, u)" and "healthy s"
  shows "healthy u" "LookupJob u = LookupJob s"
proof -
  have i: "memory_inv s" using assms(2) by (simp add: healthy_def)
  note f = me.Fail_step[OF assms(1) i]
  show "healthy u" by (rule healthy_shrinks[OF assms(2) f(2,3) Fail_frame[OF assms(1)] f(1)])
  show "LookupJob u = LookupJob s" by (rule keeps_lookup[OF f(3)])
qed

lemma CloseConsumer_healthy:
  assumes "CloseConsumer (memory_engine now depth) key s = Inr u" and "healthy s"
  shows "healthy u" "LookupJob u = LookupJob s"
proof -
  have i: "memory_inv s" using assms(2) by (simp add: healthy_def)
  note f = me.CloseConsumer_advances[OF assms(1) i]
  show "healthy u"
    by (rule healthy_shrinks[OF assms(2) advances_shrinks[OF f(2)] advances_keeps[OF f(2)] CloseConsumer_frame[OF assms(1)] f(1)])
  show "LookupJob u = LookupJob s" by (rule keeps_lookup[OF advances_keeps[OF f(2)]])
qed

lemma Complete_frame:
  assumes "Complete (memory_engine now depth) key s = Inr u"
  shows "frame s u"
proof -
  obtain j :: Job and s1 s2 where s1: "(if j_Success j then rbind (Memory_Goals s key) (\<lambda>goals.
                rfold (resolveGoal (memory_engine now depth) (JobId (j_Key j))) (sort_key GoalID goals) s) else Inr s) = Inr s1"
    and s2: "CloseConsumer (memory_engine now depth) key s1 = Inr s2"
    and u: "SettleTarget (memory_engine now depth) (TenantId key) (job_target (JobId key)) s2 = Inr u"
    using assms unfolding Complete_def memory_engine_simps memory_store_simps memory_store_more rbind_Inr_iff by blast
  have "frame s s1" using s1 by (auto simp: rbind_Inr_iff split: if_splits dest: resolveGoal_frame elim!: rfold_frame)
  then show ?thesis by (intro frame_trans[OF _ frame_trans[OF CloseConsumer_frame[OF s2] SettleTarget_frame[OF u]]])
qed

lemma Complete_heals:
  assumes "Complete (memory_engine now depth) key s = Inr u"
    and "memory_inv s" and "refs_ok s" and "wf_waits memory_store s"
    and "stale memory_store s \<subseteq> {(TenantId key, job_target (JobId key))}"
  shows "healthy u" "LookupJob u = LookupJob s"
proof -
  note c = me.Complete_step[OF assms(1,2)]
  show "LookupJob u = LookupJob s" by (rule keeps_lookup[OF c(3)])
  have "stale memory_store u \<subseteq> stale memory_store s" using c(3) by (simp add: keeps_def)
  then have "stale memory_store u = {}" using c(4) assms(5) by blast
  moreover have "refs_ok u" by (rule shrinks_refs[OF c(2) Complete_frame[OF assms(1)] assms(3)])
  moreover have "wf_waits memory_store u" using c(3) assms(4) by (simp add: keeps_def)
  ultimately show "healthy u" using c(1) by (simp add: healthy_def)
qed

section \<open>New candidates and waits\<close>

lemma evaluateDep_exists:
  assumes "evaluateDep (memory_engine now depth) s tenant d = Inr d'"
  shows "target_exists s tenant (d_Target d)" "d_Target d' = d_Target d"
proof -
  obtain d1 where d1: "(if t_GoalID (d_Target d) \<noteq> [] then evaluateGoal (memory_engine now depth) s tenant d
      else evaluateJob (memory_engine now depth) s tenant d) = Inr d1" and d': "d_Target d' = d_Target d1"
    using assms by (auto simp: evaluateDep_def rbind_Inr_iff)
  show "target_exists s tenant (d_Target d)"
    using d1 by (auto simp: target_exists_def goal_exists_iff job_exists_def evaluateGoal_def evaluateJob_def rbind_Inr_iff split: if_split_asm)
  have "d_Target d1 = d_Target d"
  proof (cases "t_GoalID (d_Target d) \<noteq> []")
    case True
    then have "evaluateGoal (memory_engine now depth) s tenant d = Inr d1" using d1 by simp
    then show ?thesis by (cases rule: evaluateGoal_cases) simp_all
  next
    case False
    then have "evaluateJob (memory_engine now depth) s tenant d = Inr d1" using d1 by simp
    then show ?thesis by (cases rule: evaluateJob_cases) simp_all
  qed
  then show "d_Target d' = d_Target d" using d' by simp
qed

lemma evaluateLoop_exists:
  "evaluateLoop (memory_engine now depth) s tenant i ds = Inr (ds', None, all) \<Longrightarrow> d \<in> set ds' \<Longrightarrow>
     d_State d = DependencyPending \<Longrightarrow> target_exists s tenant (d_Target d)"
proof (induction ds arbitrary: i ds' all)
  case (Cons x ds)
  from Cons.prems(1) show ?case
  proof (cases rule: evaluateLoop_Cons)
    case (1 es)
    then show ?thesis using Cons.IH[OF 1(3)] Cons.prems(2,3) by auto
  next
    case (3 d' es a)
    then show ?thesis using Cons.IH[OF 3(6)] Cons.prems(2,3) evaluateDep_exists[OF 3(2)] by auto
  qed simp
qed simp

lemma Evaluate_refs:
  assumes "Evaluate (memory_engine now depth) s w0 = Inr w" and "wf_wait w0" and "w_State w0 = DependencyPending"
    and "job_exists s (w_JobKey w0)"
  shows "wait_refs s w"
proof -
  have key: "w_JobKey w = w_JobKey w0" using Evaluate_le[OF assms(1)] by (simp add: wait_le_def wait_key_def)
  have "target_exists s (TenantId (w_JobKey w0)) t" if p: "pending_on t w" for t
  proof -
    from p obtain d where d: "d \<in> set (w_Dependencies w)" "d_State d = DependencyPending" "d_Target d = t"
      by (auto simp: pending_on_def)
    have pend: "w_State w = DependencyPending"
      using wf_wait_no_pending[OF Evaluate_wf[OF assms(1,2)]] d by blast
    then have "\<not> expired now w0" using assms(1,3) by (auto simp: Evaluate_def)
    then obtain ds failed all where l: "evaluateLoop (memory_engine now depth) s (TenantId (w_JobKey w0)) 0 (w_Dependencies w0) = Inr (ds, failed, all)"
      and w: "w = (case failed of
               Some (i, f) \<Rightarrow> closePending (w0\<lparr>w_Dependencies := ds, w_State := DependencyFailed,
                                 w_FailedDependencyIndex := Some i, w_Failure := f\<rparr>)
             | None \<Rightarrow> if all then w0\<lparr>w_Dependencies := ds, w_State := DependencySatisfied\<rparr>
                       else w0\<lparr>w_Dependencies := ds\<rparr>)"
      using assms(1,3) by (auto simp: Evaluate_def rbind_Inr_iff)
    have "failed = None" using pend w by (cases failed) auto
    then show ?thesis using evaluateLoop_exists[of now depth s _ 0 "w_Dependencies w0" ds all d] l w d by (auto split: if_splits)
  qed
  then show ?thesis using assms(4) by (simp add: wait_refs_def key)
qed

lemma exists_cong:
  assumes "LookupJob u = LookupJob s" and "GoalRows u = GoalRows s"
  shows "wait_refs u w = wait_refs s w" "goals_refs u = goals_refs s" "goal_exists u gk = goal_exists s gk"
    "job_exists u k = job_exists s k"
  using assms by (simp_all add: wait_refs_def goals_refs_def target_exists_def goal_exists_def job_exists_def)

lemma SaveWait_refs:
  assumes "Memory_SaveWait s w = Inr u" and "refs_ok s" and "wait_refs s w"
  shows "refs_ok u"
proof -
  have u: "u = s\<lparr>WaitRows := AList.update (wait_key w) (copyWait w) (WaitRows s)\<rparr>"
    using assms(1) by (simp add: Memory_SaveWait_def)
  have c: "LookupJob u = LookupJob s" "GoalRows u = GoalRows s" "Extras u = Extras s" by (simp_all add: u)
  have "wait_refs u w'" if w': "Memory_Wait u k = Inr w'" for k w'
  proof (cases "k = wait_key w")
    case True
    then have "w' = copyWait w" using w' by (simp add: u Memory_Wait_def)
    then show ?thesis using assms(3) by (simp add: exists_cong(1)[OF c(1,2)]) (simp add: wait_refs_def)
  next
    case False
    then have "Memory_Wait s k = Inr w'" using w' by (simp add: u Memory_Wait_def)
    then show ?thesis using assms(2) by (simp add: exists_cong(1)[OF c(1,2)] refs_ok_def waits_refs_def)
  qed
  then show ?thesis using assms(2) exists_cong[OF c(1,2)] c(3) by (simp add: refs_ok_def waits_refs_def extras_ok_def)
qed

lemma Register_healthy:
  assumes "Register (memory_engine now depth) key req sub s = Inr (w, u)" and "healthy s"
  shows "healthy u" "LookupJob u = LookupJob s"
proof -
  have i: "memory_inv s" and r: "refs_ok s" using assms(2) by (simp_all add: healthy_def)
  note f = me.Register_step[OF assms(1) i]
  show "LookupJob u = LookupJob s" by (rule keeps_lookup[OF f(2)])
  have job: "job_exists s key" using assms(1) by (auto simp: Register_def job_exists_def rbind_Inr_iff)
  from assms(1) have "refs_ok u"
  proof (cases rule: me.Register_cases)
    case (existing old)
    have old: "Memory_Wait s (DependencyWaitKey key (dw_WaitID req)) = Inr old" and sv: "Memory_SaveWait s w = Inr u"
      using existing(1,4) by simp_all
    have "wait_refs s old" using r old by (auto simp: refs_ok_def waits_refs_def)
    moreover have wl: "wait_le old w" by (rule Evaluate_le[OF existing(3)])
    ultimately have "wait_refs s w" using wait_le_pending(2)[OF wl] by (auto simp: wait_refs_def wait_le_def wait_key_def)
    then show ?thesis by (rule SaveWait_refs[OF sv r])
  next
    case (fresh ds w0)
    have "\<forall>d \<in> set ds. d_State d = DependencyPending"
      using list_all2_in_set2[OF fresh(2)] me.newResolution_pending by blast
    moreover have "ds \<noteq> []" using me.Register_deps[OF assms(1)] fresh(2) by auto
    ultimately have wf: "wf_wait w0" "w_State w0 = DependencyPending" "w_JobKey w0 = key"
      using fresh(3) by (auto simp: wf_wait_def neq_Nil_conv)
    have "wait_refs s w" by (rule Evaluate_refs[OF fresh(4) wf(1,2)]) (simp add: wf job)
    then show ?thesis using SaveWait_refs[of s w u] fresh(5) r by simp
  qed
  then show "healthy u" by (rule healthy_keeps[OF assms(2) f(2,1)])
qed

lemma Add_healthy:
  assumes "Add (memory_engine now depth) req s = Inr (out, u)" and "healthy s"
  shows "healthy u" "LookupJob u = LookupJob s"
proof -
  have i: "memory_inv s" and r: "refs_ok s" using assms(2) by (simp_all add: healthy_def)
  note f = me.Add_step[OF assms(1) i]
  show "LookupJob u = LookupJob s" by (rule keeps_lookup[OF f(2)])
  from assms(1) i have "refs_ok u"
  proof (cases rule: me.Add_cases)
    case (existing at)
    then show ?thesis using r by simp
  next
    case (inserted g j at0 s1 g')
    have s1: "s1 = s\<lparr>Extras := AList.update (CandidateKey (ac_GoalKey req) (ac_JobID req)) now (Extras s)\<rparr>"
      using inserted(5) by (simp add: Memory_InsertCandidate_def)
    have c: "LookupJob s1 = LookupJob s" "GoalRows s1 = GoalRows s" "Memory_Wait s1 = Memory_Wait s" by (simp_all add: s1)
    have "goal_exists s (ac_GoalKey req)" "job_exists s (JobKey (g_TenantId (ac_GoalKey req)) (ac_JobID req))"
      using inserted(1,3) by (auto simp: goal_exists_iff job_exists_def)
    moreover have "p \<in> fst ` set (Extras s1) \<Longrightarrow> p = CandidateKey (ac_GoalKey req) (ac_JobID req) \<or> p \<in> fst ` set (Extras s)" for p
      by (auto simp: s1 dest!: in_set_updateD)
    ultimately have "extras_ok s1" using r unfolding refs_ok_def extras_ok_def exists_cong(3,4)[OF c(1,2)] by fastforce
    then have r1: "refs_ok s1" using r c(3) exists_cong(1,2)[OF c(1,2)] by (simp add: refs_ok_def waits_refs_def)
    note ins = me.insert_step[OF i inserted(5,4)]
    show ?thesis
    proof (cases "j_Success j")
      case True
      have rs: "resolve (memory_engine now depth) g (ac_JobID req) s1 = Inr (g', u)" using inserted(6) True by simp
      have g: "g_GoalKey g = ac_GoalKey req" using mem.goal_key[OF i inserted(1)] .
      have "store_Goal memory_store s1 (g_GoalKey g) = Inr g" using inserted(1) g by (simp add: s1)
      from me.resolve_step[OF rs ins(1) this] show ?thesis using shrinks_refs[OF _ resolve_frame[OF rs] r1] by blast
    next
      case False
      then show ?thesis using inserted(7) r1 by simp
    qed
  qed
  then show "healthy u" by (rule healthy_keeps[OF assms(2) f(2,1)])
qed

end
