(* ===== verification/Toy_Views.thy ===== *)
theory Toy_Views
  imports Toy_Goals
begin

text \<open>
  How a change of the job table looks to the goal engine.  A change that keeps what \<open>goalJob\<close> reads
  is invisible; archiving a job and completing its goals after keeps the goal rows healthy; and a
  job can be added under a key of its own.
\<close>

section \<open>The job table\<close>

lemma getJobRecord_put [simp]: "getJobRecord (put_job k r e) = (getJobRecord e)(k \<mapsto> r)"
  by (simp add: getJobRecord_def put_job_def fun_eq_iff)

lemma getJobRecord_more [simp]:
  "getJobRecord (e\<lparr>te_goals := g\<rparr>) = getJobRecord e"
  "getJobRecord (e\<lparr>te_runtimeChapters := c\<rparr>) = getJobRecord e"
  "getJobRecord (e\<lparr>te_runtimeArtifacts := a\<rparr>) = getJobRecord e"
  "getJobRecord (e\<lparr>te_cells := cs\<rparr>) = getJobRecord e"
  "getJobRecord (e\<lparr>te_schedules := sc\<rparr>) = getJobRecord e"
  "getJobRecord (e\<lparr>te_preparedGoals := pg\<rparr>) = getJobRecord e"
  "getJobRecord (e\<lparr>te_goalRequests := gr\<rparr>) = getJobRecord e"
  by (simp_all add: getJobRecord_def fun_eq_iff)

definition table_distinct :: "ToyEngine \<Rightarrow> bool" where
  "table_distinct e \<longleftrightarrow> distinct (map fst (te_jobRecords e))"

lemma table_distinct_put [simp]: "table_distinct e \<Longrightarrow> table_distinct (put_job k r e)"
  by (simp add: table_distinct_def put_job_def distinct_update)

lemma table_distinct_more [simp]:
  "table_distinct (e\<lparr>te_goals := g\<rparr>) = table_distinct e"
  "table_distinct (e\<lparr>te_runtimeChapters := c\<rparr>) = table_distinct e"
  "table_distinct (e\<lparr>te_runtimeArtifacts := a\<rparr>) = table_distinct e"
  "table_distinct (e\<lparr>te_cells := cs\<rparr>) = table_distinct e"
  "table_distinct (e\<lparr>te_schedules := sc\<rparr>) = table_distinct e"
  "table_distinct (e\<lparr>te_preparedGoals := pg\<rparr>) = table_distinct e"
  "table_distinct (e\<lparr>te_goalRequests := gr\<rparr>) = table_distinct e"
  by (simp_all add: table_distinct_def)

section \<open>The view\<close>

lemma goal_view_simps [simp]:
  "GoalRows (goal_view e) = GoalRows (te_goals e)" "Extras (goal_view e) = Extras (te_goals e)"
  "WaitRows (goal_view e) = WaitRows (te_goals e)" "PrimaryJobs (goal_view e) = tablePrimary (goal_table e)"
  "Memory_Wait (goal_view e) = Memory_Wait (te_goals e)" "Memory_Goal (goal_view e) = Memory_Goal (te_goals e)"
  by (simp_all add: goal_view_def fun_eq_iff Memory_Wait_def Memory_Goal_def)

lemma goal_view_more [simp]:
  "goal_view (e\<lparr>te_runtimeChapters := c\<rparr>) = goal_view e"
  "goal_view (e\<lparr>te_runtimeArtifacts := a\<rparr>) = goal_view e"
  "goal_view (e\<lparr>te_cells := cs\<rparr>) = goal_view e"
  "goal_view (e\<lparr>te_schedules := sc\<rparr>) = goal_view e"
  "goal_view (e\<lparr>te_preparedGoals := pg\<rparr>) = goal_view e"
  "goal_view (e\<lparr>te_goalRequests := gr\<rparr>) = goal_view e"
  by (simp_all add: goal_view_def goal_table_def)

lemma map_of_goal_table: "map_of (goal_table e) k = map_option (goalJob k) (getJobRecord e k)"
proof -
  have "map_of (map (\<lambda>(k, r). (k, goalJob k r)) al) k = map_option (goalJob k) (map_of al k)" for al
    by (induction al) auto
  then show ?thesis by (simp add: goal_table_def getJobRecord_def)
qed

lemma lookup_view: "LookupJob (goal_view e) k = (case getJobRecord e k of None \<Rightarrow> Inl ErrJobNotFound | Some r \<Rightarrow> Inr (goalJob k r))"
  by (simp add: goal_view_def tableLookup_def map_of_goal_table split: option.splits)

lemma lookup_view_Inr [simp]:
  "LookupJob (goal_view e) k = Inr j \<longleftrightarrow> (\<exists>r. getJobRecord e k = Some r \<and> j = goalJob k r)"
  by (auto simp: lookup_view split: option.splits)

lemma goal_table_put: "goal_table (put_job k r e) = AList.update k (goalJob k r) (goal_table e)"
proof -
  have "map (\<lambda>(k, r). (k, goalJob k r)) (AList.update k r al) = AList.update k (goalJob k r) (map (\<lambda>(k, r). (k, goalJob k r)) al)" for al
    by (induction al) auto
  then show ?thesis by (simp add: goal_table_def put_job_def)
qed

lemma te_goals_put [simp]: "te_goals (put_job k r e) = te_goals e"
  by (simp add: put_job_def)

lemma update_present: "map_of al k = Some v \<Longrightarrow> AList.update k v al = al"
  by (induction al) (auto split: if_splits)

lemma view_same:
  assumes "getJobRecord e k = Some r" and "goalJob k r' = goalJob k r"
  shows "goal_view (put_job k r' e) = goal_view e"
proof -
  have "map_of (goal_table e) k = Some (goalJob k r')" using assms by (simp add: map_of_goal_table)
  then have "goal_table (put_job k r' e) = goal_table e" by (simp add: goal_table_put update_present)
  then show ?thesis by (simp add: goal_view_def)
qed

definition rows_ok :: "Memory \<Rightarrow> bool" where
  "rows_ok s \<longleftrightarrow> distinct (map fst (Extras s)) \<and> distinct (map fst (WaitRows s))
     \<and> (\<forall>k g. GoalRows s k = Some g \<longrightarrow> g_GoalKey g = k) \<and> (\<forall>(k, w) \<in> set (WaitRows s). wait_key w = k)"

lemma memory_inv_rows: "memory_inv s \<longleftrightarrow> rows_ok s \<and> jobs_consistent (LookupJob s) (PrimaryJobs s)"
  unfolding memory_inv_def rows_ok_def by blast

lemma view_table_ok: "table_distinct e \<Longrightarrow> table_ok (goal_table e)"
  by (auto simp: table_ok_def table_distinct_def goal_table_def goalJob_def o_def split_def)

lemma view_inv: "table_distinct e \<Longrightarrow> rows_ok (te_goals e) \<Longrightarrow> memory_inv (goal_view e)"
  using table_consistent[OF view_table_ok] by (simp add: memory_inv_rows goal_view_def rows_ok_def)

lemma view_inv_rows: "memory_inv (goal_view e) \<Longrightarrow> rows_ok (te_goals e)"
  by (simp add: memory_inv_rows rows_ok_def)

text \<open>What an engine operation on the view returns is the new view, up to the primary-job callback.\<close>

lemma view_commit:
  assumes "LookupJob u = LookupJob (goal_view e)"
  shows "goal_view (e\<lparr>te_goals := u\<rparr>) = u\<lparr>PrimaryJobs := tablePrimary (goal_table e)\<rparr>"
  using assms by (simp add: goal_view_def goal_table_def)

lemma primary_frame [simp]:
  "Memory_Wait (u\<lparr>PrimaryJobs := p\<rparr>) = Memory_Wait u" "Memory_Goal (u\<lparr>PrimaryJobs := p\<rparr>) = Memory_Goal u"
  "Memory_Candidate (u\<lparr>PrimaryJobs := p\<rparr>) = Memory_Candidate u"
  "wf_waits memory_store (u\<lparr>PrimaryJobs := p\<rparr>) = wf_waits memory_store u"
  "stale memory_store (u\<lparr>PrimaryJobs := p\<rparr>) = stale memory_store u"
  "refs_ok (u\<lparr>PrimaryJobs := p\<rparr>) = refs_ok u"
  "dep_edges memory_store now (u\<lparr>PrimaryJobs := p\<rparr>) tenant = dep_edges memory_store now u tenant"
proof -
  show a: "Memory_Wait (u\<lparr>PrimaryJobs := p\<rparr>) = Memory_Wait u" "Memory_Goal (u\<lparr>PrimaryJobs := p\<rparr>) = Memory_Goal u"
    "Memory_Candidate (u\<lparr>PrimaryJobs := p\<rparr>) = Memory_Candidate u"
    by (simp_all add: fun_eq_iff Memory_Wait_def Memory_Goal_def Memory_Candidate_def cong: if_cong option.case_cong)
  show "wf_waits memory_store (u\<lparr>PrimaryJobs := p\<rparr>) = wf_waits memory_store u"
    "stale memory_store (u\<lparr>PrimaryJobs := p\<rparr>) = stale memory_store u"
    by (simp_all add: wf_waits_def stale_def decided_def a)
  show "refs_ok (u\<lparr>PrimaryJobs := p\<rparr>) = refs_ok u"
    by (simp add: refs_ok_def extras_ok_def waits_refs_def goals_refs_def wait_refs_def target_exists_def goal_exists_def job_exists_def a)
  show "dep_edges memory_store now (u\<lparr>PrimaryJobs := p\<rparr>) tenant = dep_edges memory_store now u tenant"
    by (simp add: dep_edges_def goal_edge_def job_edge_def a)
qed

lemma view_healthy:
  assumes "table_distinct e" and "healthy u" and "LookupJob u = LookupJob (goal_view e)"
  shows "healthy (goal_view (e\<lparr>te_goals := u\<rparr>))"
proof -
  have "rows_ok u" using assms(2) by (simp add: healthy_def memory_inv_rows)
  then have "memory_inv (goal_view (e\<lparr>te_goals := u\<rparr>))" using assms(1) by (intro view_inv) simp_all
  then show ?thesis using assms(2) by (simp add: healthy_def view_commit[OF assms(3)])
qed

section \<open>Archiving a job\<close>

definition waits_le :: "Memory \<Rightarrow> Memory \<Rightarrow> bool" where
  "waits_le s u \<longleftrightarrow> (\<forall>k w. Memory_Wait s k = Inr w \<longrightarrow> (\<exists>w'. Memory_Wait u k = Inr w' \<and> wait_le w w'))"

lemma waits_le_refl [simp]: "waits_le s s"
  by (auto simp: waits_le_def)

lemma waits_le_trans: "waits_le s t \<Longrightarrow> waits_le t u \<Longrightarrow> waits_le s u"
  unfolding waits_le_def using wait_le_trans by blast

lemma evolves_waits_le: "evolves memory_store s u \<Longrightarrow> waits_le s u"
  by (simp add: evolves_def waits_le_def)

definition archives :: "JobKey \<Rightarrow> jobRecord \<Rightarrow> jobRecord \<Rightarrow> bool" where
  "archives k r r' \<longleftrightarrow> jr_goalID r' = jr_goalID r \<and> jr_createdAt r' = jr_createdAt r \<and> jr_archived r' \<noteq> None"

lemma archived_terminal: "archives k r r' \<Longrightarrow> j_Terminal (goalJob k r')"
  by (simp add: archives_def goalJob_def)

lemma goalJob_simps [simp]:
  "j_Key (goalJob k r) = k" "j_GoalID (goalJob k r) = jr_goalID r" "j_CreatedAt (goalJob k r) = jr_createdAt r"
  by (simp_all add: goalJob_def)

lemma goals_refs_view:
  "goals_refs (goal_view e) \<longleftrightarrow> (\<forall>k r. getJobRecord e k = Some r \<longrightarrow> GoalRows (te_goals e) (GoalKey (TenantId k) (jr_goalID r)) \<noteq> None)"
  unfolding goals_refs_def goal_exists_def lookup_view_Inr goal_view_simps by (metis goalJob_simps(2))

lemma archive_lookup:
  assumes "getJobRecord e k = Some r" and "archives k r r'"
  shows "job_exists (goal_view (put_job k r' e)) key = job_exists (goal_view e) key"
    "goals_refs (goal_view (put_job k r' e)) = goals_refs (goal_view e)"
    "Memory_Candidate (goal_view (put_job k r' e)) = Memory_Candidate (goal_view e)"
proof -
  show "job_exists (goal_view (put_job k r' e)) key = job_exists (goal_view e) key"
    using assms by (simp add: job_exists_def)
  show "goals_refs (goal_view (put_job k r' e)) = goals_refs (goal_view e)"
    using assms by (auto simp: goals_refs_view archives_def)
  show "Memory_Candidate (goal_view (put_job k r' e)) = Memory_Candidate (goal_view e)"
  proof (intro ext)
    fix gk jid
    show "Memory_Candidate (goal_view (put_job k r' e)) gk jid = Memory_Candidate (goal_view e) gk jid"
    proof (cases "JobKey (g_TenantId gk) jid = k")
      case True
      then show ?thesis using assms by (simp add: Memory_Candidate_def lookup_view archives_def)
    next
      case False
      then show ?thesis by (simp add: Memory_Candidate_def lookup_view cong: if_cong option.case_cong)
    qed
  qed
qed

lemma archive_refs:
  assumes "getJobRecord e k = Some r" and "archives k r r'" and "refs_ok (goal_view e)"
  shows "refs_ok (goal_view (put_job k r' e))"
proof -
  have g: "goal_exists (goal_view (put_job k r' e)) gk = goal_exists (goal_view e) gk" for gk
    by (simp add: goal_exists_def)
  note l = archive_lookup[OF assms(1,2)]
  show ?thesis using assms(3) l(2)
    by (simp add: refs_ok_def extras_ok_def waits_refs_def wait_refs_def target_exists_def g l(1))
qed

lemma archive_stale:
  assumes "getJobRecord e k = Some r" and "stale memory_store (goal_view e) = {}"
  shows "stale memory_store (goal_view (put_job k r' e)) \<subseteq> {(TenantId k, job_target (JobId k))}"
proof (rule subrelI)
  fix tenant t assume st: "(tenant, t) \<in> stale memory_store (goal_view (put_job k r' e))"
  then have c: "canonical t" and d: "decided memory_store (goal_view (put_job k r' e)) tenant t"
    and p: "\<exists>wk w. Memory_Wait (te_goals e) wk = Inr w \<and> TenantId (wk_JobKey wk) = tenant
                \<and> w_State w = DependencyPending \<and> pending_on t w" by (simp_all add: stale_def)
  have "\<not> decided memory_store (goal_view e) tenant t" using assms(2) c p by (auto simp: stale_def)
  with d have "t_GoalID t = []" "JobKey tenant (t_JobID t) = k"
    by (auto simp: decided_def split: if_split_asm)
  then show "(tenant, t) \<in> {(TenantId k, job_target (JobId k))}" by (cases t) auto
qed

lemma archive_edges:
  assumes "getJobRecord e k = Some r" and "archives k r r'"
  shows "dep_edges memory_store now (goal_view (put_job k r' e)) tenant \<subseteq> dep_edges memory_store now (goal_view e) tenant"
proof (rule dep_edges_mono)
  note t = archived_terminal[OF assms(2)] and cand = archive_lookup(3)[OF assms]
  have l: "LookupJob (goal_view (put_job k r' e)) x = Inr j \<Longrightarrow> \<not> j_Terminal j \<Longrightarrow> LookupJob (goal_view e) x = Inr j" for x j
    using t by (auto split: if_split_asm)
  show "goal_edge memory_store (goal_view (put_job k r' e)) tenant gid m \<Longrightarrow> goal_edge memory_store (goal_view e) tenant gid m" for gid m
    using l unfolding goal_edge_def memory_store_simps cand goal_view_simps te_goals_put by blast
  show "job_edge memory_store now (goal_view (put_job k r' e)) tenant jid m \<Longrightarrow> job_edge memory_store now (goal_view e) tenant jid m" for jid m
    using l unfolding job_edge_def memory_store_simps goal_view_simps te_goals_put by blast
qed

lemma finish_view:
  assumes "table_distinct e" and "healthy (goal_view e)" and "getJobRecord e k = Some r" and "archives k r r'"
  obtains u where "completeGoals now depth k (put_job k r' e) = ((put_job k r' e)\<lparr>te_goals := u\<rparr>, Inr ())"
    "healthy (goal_view ((put_job k r' e)\<lparr>te_goals := u\<rparr>))" "waits_le (te_goals e) u"
    "\<And>tenant. dep_edges memory_store now (goal_view ((put_job k r' e)\<lparr>te_goals := u\<rparr>)) tenant \<subseteq> dep_edges memory_store now (goal_view e) tenant"
proof -
  let ?e = "put_job k r' e"
  have h: "memory_inv (goal_view e)" "refs_ok (goal_view e)" "wf_waits memory_store (goal_view e)" "stale memory_store (goal_view e) = {}"
    using assms(2) by (simp_all add: healthy_def)
  have inv: "memory_inv (goal_view ?e)" using assms(1) view_inv_rows[OF h(1)] by (intro view_inv) simp_all
  have refs: "refs_ok (goal_view ?e)" by (rule archive_refs[OF assms(3,4) h(2)])
  have wf: "wf_waits memory_store (goal_view ?e)" using h(3) by (simp add: wf_waits_def)
  obtain u where u: "Complete (memory_engine now depth) k (goal_view ?e) = Inr u"
    using Complete_total[OF inv refs, of k "goalJob k r'"] by auto
  note c = Complete_heals[OF u inv refs wf archive_stale[OF assms(3) h(4)]]
  note st = me.Complete_step[OF u inv]
  show ?thesis
  proof (rule that[of u])
    show "completeGoals now depth k ?e = (?e\<lparr>te_goals := u\<rparr>, Inr ())" by (simp add: completeGoals_def u)
    show "healthy (goal_view (?e\<lparr>te_goals := u\<rparr>))" by (rule view_healthy[OF _ c]) (simp add: assms(1))
    have "evolves memory_store (goal_view ?e) u" using st(2) by (simp add: shrinks_def)
    from evolves_waits_le[OF this] show "waits_le (te_goals e) u" by (simp add: waits_le_def)
    show "dep_edges memory_store now (goal_view (?e\<lparr>te_goals := u\<rparr>)) tenant \<subseteq> dep_edges memory_store now (goal_view e) tenant" for tenant
      using shrinks_edges[OF st(2), of now tenant] archive_edges[OF assms(3,4), of now tenant] by (simp add: view_commit[OF c(2)])
  qed
qed

end
