(* ===== verification/Toy_Publish.thy ===== *)
theory Toy_Publish
  imports Toy_Views
begin

text \<open>
  The publication of a job as the goal engine sees it: a fresh key enters the job table, its goal
  is opened or shared, its dependency wait is registered, and the cycle check starts at the goal.
  The rows stay healthy and the dependency graph stays acyclic.
\<close>

section \<open>A job under a fresh key\<close>

definition adds_job :: "ToyEngine \<Rightarrow> JobKey \<Rightarrow> jobRecord \<Rightarrow> ToyEngine \<Rightarrow> bool" where
  "adds_job e k r e1 \<longleftrightarrow> getJobRecord e k = None \<and> getJobRecord e1 = (getJobRecord e)(k \<mapsto> r)
     \<and> te_goals e1 = te_goals e \<and> table_distinct e1 \<and> jr_archived r = None \<and> \<not> jr_cancelled r"

lemma adds_job_lookup:
  assumes "adds_job e k r e1"
  shows "LookupJob (goal_view e1) x = (if x = k then Inr (goalJob k r) else LookupJob (goal_view e) x)"
    "\<not> j_Terminal (goalJob k r)"
  using assms by (simp_all add: adds_job_def lookup_view goalJob_def)

text \<open>The state after the first step of \<open>publishedGoals\<close>, described by what the engine reads.\<close>

definition opened :: "ToyEngine \<Rightarrow> ToyEngine \<Rightarrow> GoalKey \<Rightarrow> Memory \<Rightarrow> bool" where
  "opened e e1 gk s1 \<longleftrightarrow> memory_inv s1 \<and> LookupJob s1 = LookupJob (goal_view e1) \<and> Extras s1 = Extras (te_goals e)
     \<and> Memory_Wait s1 = Memory_Wait (te_goals e) \<and> (\<forall>gk'. gk' \<noteq> gk \<longrightarrow> Memory_Goal s1 gk' = Memory_Goal (te_goals e) gk')
     \<and> (\<exists>g. Memory_Goal s1 gk = Inr g \<and> g_State g = GoalOpen)"

lemma open_shared:
  assumes "adds_job e k r e1" and "healthy (goal_view e)"
    and "Memory_Goal (goal_view e1) gk = Inr g" and "g_State g = GoalOpen"
  shows "opened e e1 gk (goal_view e1)"
proof -
  have "memory_inv (goal_view e1)"
    using assms(1,2) view_inv_rows[of e] by (intro view_inv) (auto simp: adds_job_def healthy_def)
  then show ?thesis using assms by (simp add: opened_def adds_job_def)
qed

lemma open_saved:
  assumes "adds_job e k r e1" and "healthy (goal_view e)"
    and "Memory_SaveGoal (goal_view e1) g = Inr s1" and "g_State g = GoalOpen" and "g_GoalKey g = gk"
  shows "opened e e1 gk s1"
proof -
  have i: "memory_inv (goal_view e1)"
    using assms(1,2) view_inv_rows[of e] by (intro view_inv) (auto simp: adds_job_def healthy_def)
  have s1: "s1 = (goal_view e1)\<lparr>GoalRows := (GoalRows (goal_view e1))(gk \<mapsto> copyGoal g)\<rparr>"
    using assms(3,5) by (simp add: Memory_SaveGoal_def)
  have "memory_inv s1" using mem.save_goal_inv[OF i, of g s1] assms(3) by simp
  moreover have "Memory_Goal s1 gk' = Memory_Goal (te_goals e) gk'" if "gk' \<noteq> gk" for gk'
    using that assms(1) by (simp add: s1 Memory_Goal_def adds_job_def)
  moreover have "Memory_Goal s1 gk = Inr (copyGoal (copyGoal g))" by (simp add: s1 Memory_Goal_def)
  ultimately show ?thesis using assms(1,4) by (simp add: opened_def s1 adds_job_def)
qed

lemma opened_stale:
  assumes "adds_job e k r e1" and "opened e e1 gk s1" and "stale memory_store (goal_view e) = {}"
  shows "stale memory_store s1 = {}"
proof (rule equals0I)
  fix x assume "x \<in> stale memory_store s1"
  then obtain tenant t where c: "canonical t" and d: "decided memory_store s1 tenant t"
    and p: "\<exists>wk w. Memory_Wait (te_goals e) wk = Inr w \<and> TenantId (wk_JobKey wk) = tenant
                \<and> w_State w = DependencyPending \<and> pending_on t w"
    using assms(2) by (auto simp: stale_def opened_def)
  have "decided memory_store (goal_view e) tenant t"
  proof (cases "t_GoalID t \<noteq> []")
    case True
    then obtain g where g: "Memory_Goal s1 (GoalKey tenant (t_GoalID t)) = Inr g" "g_State g \<noteq> GoalOpen"
      using d by (auto simp: decided_def)
    then have "GoalKey tenant (t_GoalID t) \<noteq> gk" using assms(2) by (auto simp: opened_def)
    then have "Memory_Goal (te_goals e) (GoalKey tenant (t_GoalID t)) = Inr g" using g assms(2) by (simp add: opened_def)
    then show ?thesis using True g(2) by (simp add: decided_def)
  next
    case False
    then obtain j where j: "LookupJob (goal_view e1) (JobKey tenant (t_JobID t)) = Inr j" "j_Terminal j"
      using d assms(2) by (auto simp: decided_def opened_def simp del: lookup_view_Inr)
    then have "LookupJob (goal_view e) (JobKey tenant (t_JobID t)) = Inr j"
      using adds_job_lookup[OF assms(1)] by (auto simp del: lookup_view_Inr split: if_split_asm)
    then show ?thesis using False j(2) by (simp add: decided_def del: lookup_view_Inr)
  qed
  then show False using assms(3) c p by (auto simp: stale_def)
qed

lemma opened_refs:
  assumes "adds_job e k r e1" and "opened e e1 (GoalKey (TenantId k) (jr_goalID r)) s1" and "refs_ok (goal_view e)"
  shows "refs_ok s1"
proof -
  let ?gk = "GoalKey (TenantId k) (jr_goalID r)"
  note o1 = assms(2)[unfolded opened_def]
  have g: "goal_exists (goal_view e) gk \<Longrightarrow> goal_exists s1 gk" for gk
    using o1 by (cases "gk = ?gk") (auto simp: goal_exists_iff)
  have new: "goal_exists s1 ?gk" using o1 by (auto simp: goal_exists_iff)
  have l: "LookupJob s1 x = (if x = k then Inr (goalJob k r) else LookupJob (goal_view e) x)" for x
    using o1 adds_job_lookup(1)[OF assms(1)] by simp
  have j: "job_exists (goal_view e) x \<Longrightarrow> job_exists s1 x" for x by (simp add: job_exists_def l del: lookup_view_Inr)
  have t: "target_exists (goal_view e) tenant t \<Longrightarrow> target_exists s1 tenant t" for tenant t
    using g j by (simp add: target_exists_def split: if_split_asm)
  have "extras_ok s1" using assms(3) g j o1 by (simp add: refs_ok_def extras_ok_def)
  moreover have "waits_refs s1" using assms(3) j t o1 by (simp add: refs_ok_def waits_refs_def wait_refs_def)
  moreover have "goals_refs s1"
    using assms(3) g new by (simp add: refs_ok_def goals_refs_def l del: lookup_view_Inr)
  ultimately show ?thesis by (simp add: refs_ok_def)
qed

lemma opened_healthy:
  assumes "adds_job e k r e1" and "opened e e1 (GoalKey (TenantId k) (jr_goalID r)) s1" and "healthy (goal_view e)"
  shows "healthy s1"
proof -
  have "wf_waits memory_store s1" using assms(2,3) by (simp add: healthy_def wf_waits_def opened_def)
  then show ?thesis
    using assms opened_refs[OF assms(1,2)] opened_stale[OF assms(1,2)] by (simp add: healthy_def opened_def)
qed

section \<open>Publication\<close>

lemma publishedGoals_cases:
  assumes "publishedGoals depth now k p r (goal_view e1) = Inr u" and "adds_job e k r e1" and "healthy (goal_view e)"
    and "jr_goalID r = pg_GoalID p"
  obtains s1 where "opened e e1 (GoalKey (TenantId k) (jr_goalID r)) s1"
    "u = s1 \<or> (\<exists>w req. Register (memory_engine now depth) k req True s1 = Inr (w, u))"
    "CheckCycle (memory_engine now depth) (TenantId k) (goal_target (pg_GoalID p)) u = Inr ()"
proof -
  let ?gk = "GoalKey (TenantId k) (pg_GoalID p)"
  obtain s1 where s1: "(if pp_ShareGoal (pg_Request p)
             then rbind (Memory_Goal (goal_view e1) ?gk) (\<lambda>g. if g_State g \<noteq> GoalOpen then Inl ErrGoalConflict else Inr (goal_view e1))
             else Memory_SaveGoal (goal_view e1) (newGoalInfo (jr_cell r) ?gk (jr_createdAt r))) = Inr s1"
    and s2: "(if pp_Dependencies (pg_Request p) \<noteq> []
             then rbind (Register (memory_engine now depth) k
                    \<lparr>dw_WaitID = ''submission'', dw_Dependencies = pp_Dependencies (pg_Request p), dw_Deadline = None\<rparr> True s1) (\<lambda>(_, s2). Inr s2)
             else Inr s1) = Inr u"
    and cc: "CheckCycle (memory_engine now depth) (TenantId k) (goal_target (pg_GoalID p)) u = Inr ()"
    using assms(1) unfolding publishedGoals_def Let_def rbind_Inr_iff sum.inject
    by (elim exE conjE) (rule that, assumption, blast, simp)
  have reg: "u = s1 \<or> (\<exists>w req. Register (memory_engine now depth) k req True s1 = Inr (w, u))"
    using s2 by (auto simp: rbind_Inr_iff split: if_split_asm)
  have "opened e e1 ?gk s1"
  proof (cases "pp_ShareGoal (pg_Request p)")
    case True
    then obtain g where "Memory_Goal (goal_view e1) ?gk = Inr g" "g_State g = GoalOpen" "s1 = goal_view e1"
      using s1 by (auto simp: rbind_Inr_iff split: if_split_asm)
    then show ?thesis using open_shared[OF assms(2,3)] by blast
  next
    case False
    then show ?thesis using s1 open_saved[OF assms(2,3)] by (simp add: newGoalInfo_def)
  qed
  with reg cc show ?thesis using that assms(4) by simp
qed

lemma publishedGoals_healthy:
  assumes "publishedGoals depth now k p r (goal_view e1) = Inr u" and "adds_job e k r e1" and "healthy (goal_view e)"
    and "jr_goalID r = pg_GoalID p"
  shows "healthy u" "LookupJob u = LookupJob (goal_view e1)" "waits_le (te_goals e) u"
proof -
  from assms obtain s1 where s1: "opened e e1 (GoalKey (TenantId k) (jr_goalID r)) s1"
    "u = s1 \<or> (\<exists>w req. Register (memory_engine now depth) k req True s1 = Inr (w, u))"
    by (rule publishedGoals_cases)
  have h: "healthy s1" by (rule opened_healthy[OF assms(2) s1(1) assms(3)])
  have l: "LookupJob s1 = LookupJob (goal_view e1)" "waits_le (te_goals e) s1"
    using s1(1) by (simp_all add: opened_def waits_le_def)
  from s1(2) have "healthy u \<and> LookupJob u = LookupJob s1 \<and> waits_le s1 u"
  proof
    assume "u = s1" then show ?thesis using h by simp
  next
    assume "\<exists>w req. Register (memory_engine now depth) k req True s1 = Inr (w, u)"
    then obtain w req where reg: "Register (memory_engine now depth) k req True s1 = Inr (w, u)" by blast
    have "keeps memory_store s1 u" using me.Register_step(2)[OF reg] h by (simp add: healthy_def)
    then show ?thesis using Register_healthy[OF reg h] evolves_waits_le by (simp add: keeps_def)
  qed
  then show "healthy u" "LookupJob u = LookupJob (goal_view e1)" "waits_le (te_goals e) u"
    using l waits_le_trans by auto
qed

text \<open>What the registration of a job's own wait leaves alone.\<close>

lemma Register_own:
  assumes "Register (memory_engine now depth) k req sub s = Inr (w, u)" and "memory_inv s"
  shows "LookupJob u = LookupJob s" "Memory_Goal u = Memory_Goal s" "Memory_Candidate u = Memory_Candidate s"
    "wk_JobKey wk \<noteq> k \<Longrightarrow> Memory_Wait u wk = Memory_Wait s wk"
proof -
  obtain w0 where sv: "Memory_SaveWait s w = Inr u" and le: "wait_le w0 w" and key: "wk_JobKey (wait_key w0) = k"
    using assms(1)
  proof (cases rule: me.Register_cases)
    case (existing old)
    have "wait_key old = DependencyWaitKey k (dw_WaitID req)" using mem.wait_at_key[OF assms(2) existing(1)] .
    then show ?thesis using existing that Evaluate_le[OF existing(3)] by simp
  next
    case (fresh ds w0)
    then show ?thesis using that[OF _ Evaluate_le[OF fresh(4)]] by (simp add: wait_key_def)
  qed
  have wk: "wk_JobKey (wait_key w) = k" using le key by (simp add: wait_le_def)
  note f = mem.save_wait_frame[OF assms(2), of w u] and ww = mem.save_wait_wait[OF assms(2), of w u wk]
  show "LookupJob u = LookupJob s" "Memory_Goal u = Memory_Goal s" "Memory_Candidate u = Memory_Candidate s" using f sv by simp_all
  show "wk_JobKey wk \<noteq> k \<Longrightarrow> Memory_Wait u wk = Memory_Wait s wk" using ww sv wk by auto
qed

text \<open>
  After a publication the engine reads, apart from the new job and its goal, what it read before.
\<close>

definition published :: "ToyEngine \<Rightarrow> JobKey \<Rightarrow> jobRecord \<Rightarrow> Memory \<Rightarrow> bool" where
  "published e k r u \<longleftrightarrow> memory_inv u
     \<and> (\<forall>x. LookupJob u x = (if x = k then Inr (goalJob k r) else LookupJob (goal_view e) x))
     \<and> (\<forall>gk. gk \<noteq> GoalKey (TenantId k) (jr_goalID r) \<longrightarrow> Memory_Goal u gk = Memory_Goal (te_goals e) gk)
     \<and> (\<exists>g. Memory_Goal u (GoalKey (TenantId k) (jr_goalID r)) = Inr g \<and> g_State g = GoalOpen)
     \<and> (\<forall>gk jid. JobKey (g_TenantId gk) jid \<noteq> k \<longrightarrow> Memory_Candidate u gk jid = Memory_Candidate (goal_view e) gk jid)
     \<and> (\<forall>gk at. g_TenantId gk = TenantId k \<longrightarrow> Memory_Candidate u gk (JobId k) = Inr (at, True) \<longrightarrow> GoalID gk = jr_goalID r)
     \<and> (\<exists>at. Memory_Candidate u (GoalKey (TenantId k) (jr_goalID r)) (JobId k) = Inr (at, True))
     \<and> (\<forall>wk. wk_JobKey wk \<noteq> k \<longrightarrow> Memory_Wait u wk = Memory_Wait (te_goals e) wk)"

lemma opened_published:
  assumes "adds_job e k r e1" and "opened e e1 (GoalKey (TenantId k) (jr_goalID r)) s1" and "refs_ok (goal_view e)"
  shows "published e k r s1"
proof -
  note o1 = assms(2)[unfolded opened_def]
  have l: "LookupJob s1 x = (if x = k then Inr (goalJob k r) else LookupJob (goal_view e) x)" for x
    using o1 adds_job_lookup(1)[OF assms(1)] by simp
  have k: "JobKey (TenantId k) (JobId k) = k" by simp
  have ex: "CandidateKey gk (JobId k) \<notin> fst ` set (Extras (te_goals e))" if "g_TenantId gk = TenantId k" for gk
  proof
    assume "CandidateKey gk (JobId k) \<in> fst ` set (Extras (te_goals e))"
    then have "job_exists (goal_view e) k" using assms(3) that by (fastforce simp: refs_ok_def extras_ok_def)
    then show False using assms(1) by (simp add: job_exists_def adds_job_def)
  qed
  have "Memory_Candidate s1 gk jid = Memory_Candidate (goal_view e) gk jid" if "JobKey (g_TenantId gk) jid \<noteq> k" for gk jid
    using that o1 adds_job_lookup(1)[OF assms(1)] by (simp add: Memory_Candidate_def cong: if_cong option.case_cong)
  moreover have "GoalID gk = jr_goalID r"
    if "g_TenantId gk = TenantId k" "Memory_Candidate s1 gk (JobId k) = Inr (at, True)" for gk at
  proof -
    have lk: "LookupJob s1 (JobKey (g_TenantId gk) (JobId k)) = Inr (goalJob k r)" using that(1) by (simp add: l)
    have "\<exists>at. Memory_Candidate s1 gk (JobId k) = Inr (at, True)" using that(2) by blast
    then have "jr_goalID r = GoalID gk \<or> CandidateKey gk (JobId k) \<in> fst ` set (Extras s1)"
      unfolding memory_candidate_iff[OF lk] goalJob_simps .
    then show ?thesis using ex[OF that(1)] o1 by auto
  qed
  moreover have "\<exists>at. Memory_Candidate s1 (GoalKey (TenantId k) (jr_goalID r)) (JobId k) = Inr (at, True)"
    using memory_candidate_iff[of s1 "GoalKey (TenantId k) (jr_goalID r)" "JobId k" "goalJob k r"] by (simp add: l)
  ultimately show ?thesis using o1 l by (simp add: published_def)
qed

lemma register_published:
  assumes "published e k r s1" and "Register (memory_engine now depth) k req sub s1 = Inr (w, u)"
  shows "published e k r u"
proof -
  have i: "memory_inv s1" using assms(1) by (simp add: published_def)
  note own = Register_own[OF assms(2) i]
  show ?thesis using assms(1) me.Register_step(1)[OF assms(2) i] own(4) unfolding published_def own(1-3) by auto
qed

lemma publishedD:
  assumes "published e k r u"
  shows "memory_inv u" "x \<noteq> k \<Longrightarrow> LookupJob u x = LookupJob (goal_view e) x" "LookupJob u k = Inr (goalJob k r)"
    "gk \<noteq> GoalKey (TenantId k) (jr_goalID r) \<Longrightarrow> Memory_Goal u gk = Memory_Goal (te_goals e) gk"
    "JobKey (g_TenantId gk) jid \<noteq> k \<Longrightarrow> Memory_Candidate u gk jid = Memory_Candidate (goal_view e) gk jid"
    "g_TenantId gk = TenantId k \<Longrightarrow> Memory_Candidate u gk (JobId k) = Inr (at, True) \<Longrightarrow> GoalID gk = jr_goalID r"
    "wk_JobKey wk \<noteq> k \<Longrightarrow> Memory_Wait u wk = Memory_Wait (te_goals e) wk"
  using assms unfolding published_def by (blast, simp, simp, blast, blast, blast, blast)

lemma published_old_goal_edge:
  assumes "published e k r u" and "goal_edge memory_store u tenant gid b"
    and "GoalKey tenant gid \<noteq> GoalKey (TenantId k) (jr_goalID r)"
  shows "goal_edge memory_store (goal_view e) tenant gid b"
proof -
  note pu = publishedD[OF assms(1)]
  from assms(2) obtain g j at where g: "Memory_Goal u (GoalKey tenant gid) = Inr g" "g_State g = GoalOpen"
    and b: "b = job_target (t_JobID b)" and j: "LookupJob u (JobKey tenant (t_JobID b)) = Inr j" "\<not> j_Terminal j"
    and c: "Memory_Candidate u (GoalKey tenant gid) (t_JobID b) = Inr (at, True)"
    unfolding goal_edge_def memory_store_simps by blast
  have ne: "JobKey tenant (t_JobID b) \<noteq> k"
  proof
    assume kk: "JobKey tenant (t_JobID b) = k"
    then have t: "tenant = TenantId k" "t_JobID b = JobId k" by auto
    then have "gid = jr_goalID r" using pu(6)[of "GoalKey tenant gid" at] c by simp
    then show False using assms(3) t by simp
  qed
  have "Memory_Goal (te_goals e) (GoalKey tenant gid) = Inr g" using pu(4)[OF assms(3)] g(1) by simp
  moreover have "LookupJob (goal_view e) (JobKey tenant (t_JobID b)) = Inr j" using pu(2)[OF ne] j(1) by simp
  moreover have "Memory_Candidate (goal_view e) (GoalKey tenant gid) (t_JobID b) = Inr (at, True)"
    using pu(5)[of "GoalKey tenant gid" "t_JobID b"] ne c by simp
  ultimately show ?thesis using g(2) b j(2) unfolding goal_edge_def memory_store_simps goal_view_simps by blast
qed

lemma published_old_job_edge:
  assumes "published e k r u" and "job_edge memory_store now u tenant jid b" and "JobKey tenant jid \<noteq> k"
  shows "job_edge memory_store now (goal_view e) tenant jid b"
proof -
  note pu = publishedD[OF assms(1)]
  from assms(2) obtain j wk w where e: "LookupJob u (JobKey tenant jid) = Inr j" "\<not> j_Terminal j"
      "Memory_Wait u wk = Inr w" "wk_JobKey wk = JobKey tenant jid" "w_State w = DependencyPending" "\<not> expired now w" "pending_on b w"
    unfolding job_edge_def memory_store_simps by blast
  have "LookupJob (goal_view e) (JobKey tenant jid) = Inr j" using pu(2)[OF assms(3)] e(1) by simp
  moreover have "Memory_Wait (te_goals e) wk = Inr w" using pu(7)[of wk] e(3,4) assms(3) by simp
  ultimately show ?thesis using e(2,4-7) unfolding job_edge_def memory_store_simps goal_view_simps by blast
qed

lemma published_old_edges:
  assumes "published e k r u" and "(a, b) \<in> dep_edges memory_store now u tenant"
    and "t_GoalID a \<noteq> [] \<Longrightarrow> GoalKey tenant (t_GoalID a) \<noteq> GoalKey (TenantId k) (jr_goalID r)"
    and "t_GoalID a = [] \<Longrightarrow> JobKey tenant (t_JobID a) \<noteq> k"
  shows "(a, b) \<in> dep_edges memory_store now (goal_view e) tenant"
  using assms published_old_goal_edge[OF assms(1)] published_old_job_edge[OF assms(1)]
  by (simp add: in_dep_edges split: if_split_asm)

lemma published_goal_edge:
  assumes "published e k r u" and "jr_goalID r \<noteq> []" and "\<not> j_Terminal (goalJob k r)"
  shows "(goal_target (jr_goalID r), job_target (JobId k)) \<in> dep_edges memory_store now u (TenantId k)"
  using assms by (auto simp: published_def in_dep_edges goal_edge_def)

lemma published_no_cycles:
  assumes "published e k r u" and "no_cycles memory_store now (goal_view e)" and "jr_goalID r \<noteq> []" and "\<not> j_Terminal (goalJob k r)"
    and "CheckCycle (memory_engine now depth) (TenantId k) (goal_target (jr_goalID r)) u = Inr ()"
  shows "no_cycles memory_store now u"
  unfolding no_cycles_def
proof
  fix tenant
  have i: "memory_inv u" using assms(1) by (simp add: published_def)
  have ac: "acyclic (dep_edges memory_store now (goal_view e) tenant)" using assms(2) by (simp add: no_cycles_def)
  note old = published_old_edges[OF assms(1)]
  show "acyclic (dep_edges memory_store now u tenant)"
  proof (cases "tenant = TenantId k")
    case False
    have "(a, b) \<in> dep_edges memory_store now (goal_view e) tenant" if "(a, b) \<in> dep_edges memory_store now u tenant" for a b
      by (rule old[OF that]) (use False in auto)
    then have "dep_edges memory_store now u tenant \<subseteq> dep_edges memory_store now (goal_view e) tenant" by (rule subrelI)
    then show ?thesis by (rule acyclic_subset[OF ac])
  next
    case True
    let ?n = "goal_target (jr_goalID r)" and ?R = "dep_edges memory_store now u tenant"
    show ?thesis
    proof (rule acyclic_extend[OF ac, where n = ?n and N = "{a. t_GoalID a = jr_goalID r} \<union> {job_target (JobId k)}"])
      fix a b assume ab: "(a, b) \<in> ?R" "a \<notin> {a. t_GoalID a = jr_goalID r} \<union> {job_target (JobId k)}"
      show "(a, b) \<in> dep_edges memory_store now (goal_view e) tenant"
      proof (rule old[OF ab(1)])
        show "GoalKey tenant (t_GoalID a) \<noteq> GoalKey (TenantId k) (jr_goalID r)" using ab(2) by simp
        show "JobKey tenant (t_JobID a) \<noteq> k" if "t_GoalID a = []" using ab(2) that by (cases a; cases k) auto
      qed
    next
      fix a b assume a: "a \<in> {a. t_GoalID a = jr_goalID r} \<union> {job_target (JobId k)}" and ab: "(a, b) \<in> ?R"
      from a show "(?n, b) \<in> ?R\<^sup>+"
      proof
        assume "a \<in> {a. t_GoalID a = jr_goalID r}"
        then have "(?n, b) \<in> ?R" using ab assms(3) by (simp add: in_dep_edges)
        then show ?thesis by (rule r_into_trancl)
      next
        assume "a \<in> {job_target (JobId k)}"
        then have "(?n, a) \<in> ?R" using published_goal_edge[OF assms(1,3,4), of now] True by simp
        then show ?thesis using ab by (rule trancl_into_trancl[OF r_into_trancl])
      qed
    next
      fix x assume "(?n, x) \<in> ?R\<^sup>*"
      then show "(x, x) \<notin> ?R\<^sup>+" using me.CheckCycle_ok[OF i assms(5)] True by simp
    qed
  qed
qed

lemma publishedGoals_no_cycles:
  assumes "publishedGoals depth now k p r (goal_view e1) = Inr u" and "adds_job e k r e1" and "healthy (goal_view e)"
    and "jr_goalID r = pg_GoalID p" and "pg_GoalID p \<noteq> []" and "no_cycles memory_store now (goal_view e)"
  shows "no_cycles memory_store now u"
proof -
  from assms(1-4) obtain s1 where s1: "opened e e1 (GoalKey (TenantId k) (jr_goalID r)) s1"
    "u = s1 \<or> (\<exists>w req. Register (memory_engine now depth) k req True s1 = Inr (w, u))"
    and cc: "CheckCycle (memory_engine now depth) (TenantId k) (goal_target (pg_GoalID p)) u = Inr ()"
    by (rule publishedGoals_cases)
  have "published e k r s1" using opened_published[OF assms(2) s1(1)] assms(3) by (simp add: healthy_def)
  then have "published e k r u" using s1(2) register_published by blast
  then show ?thesis
    using published_no_cycles adds_job_lookup(2)[OF assms(2)] assms(4-6) cc by metis
qed

end
