(* ===== verification/Toy_Restart.thy ===== *)
theory Toy_Restart
  imports Toy_Submit
begin

text \<open>
  Restarts in the in-process runtime (\<open>submitRestartJobWithParent\<close> in \<open>toyimpl/runtime.go\<close>): a new
  job that inherits the first chapters of a prior job.  The attempt number and the run policy that
  chapter metadata carry are JSON and parameters.
\<close>

section \<open>Task data\<close>

text \<open>\<open>materializeTaskData\<close> after the artifacts have been read into memory.\<close>

definition materializeTaskData :: "runtime_lib \<Rightarrow> JobKey \<Rightarrow> int \<Rightarrow> (gostring \<times> gostring) list \<Rightarrow> ToyEngine \<Rightarrow> StoredArtifact list outcome" where
  "materializeTaskData lib key ordinal arts e =
     (put_artifacts key ordinal arts e,
      Inr (map (\<lambda>(name, bytes). \<lparr>sa_Name = name, sa_Digest = lb_sha256 lib bytes, sa_Size = int (length bytes)\<rparr>) arts))"

definition OpenStoredArtifact :: "ToyEngine \<Rightarrow> JobKey \<Rightarrow> int \<Rightarrow> gostring \<Rightarrow> error + gostring" where
  "OpenStoredArtifact e key ordinal name = (case te_runtimeArtifacts e (runtimeArtifactKey key ordinal name) of
      Some bytes \<Rightarrow> Inr bytes
    | None \<Rightarrow> Inl (ErrText ''artifact not found''))"

text \<open>
  The payload of a chapter. A chapter that records a failed attempt gives its failure as the error.
\<close>

definition outcomeData :: "ChapterOutcome \<Rightarrow> error + gostring" where
  "outcomeData outcome = (case outcome of
      ApplicationOutputOutcome raw \<Rightarrow> Inr raw
    | AppErrorOutcome payload \<Rightarrow> Inl (ErrText (ae_Message payload))
    | SystemErrorOutcome msg \<Rightarrow> Inl (ErrText msg)
    | TimeoutOutcome msg \<Rightarrow> Inl (ErrText msg))"

definition taskDataFromChapter :: "Chapter \<Rightarrow> error + gostring" where
  "taskDataFromChapter ch = (case ch_Body ch of
      JobStartChapter raw \<Rightarrow> Inr raw
    | JobAttemptOutcomeChapter outcome \<Rightarrow> outcomeData outcome
    | TaskAttemptOutcomeChapter outcome \<Rightarrow> outcomeData outcome
    | RestartExtraChapter raw \<Rightarrow> Inr raw
    | ExecutionChapter raw \<Rightarrow> Inr raw)"

section \<open>Restarts\<close>

record restart_lib =
  rl_attempt :: "gostring \<Rightarrow> error + int"
  rl_runPolicy :: "gostring \<Rightarrow> error + gostring"

text \<open>
  The request with what the checks before the critical section have established: the initial client
  payload, the stored metadata, the schema, and the encoded record of an execution restart.
\<close>

record RestartJob =
  rj_PriorJobKey :: JobKey
  rj_LastStepToKeep :: int
  rj_ExecutionRestart :: "gostring option"
  rj_ExtraTaskOutput :: bool
  rj_ClientPayload :: "gostring option"
  rj_ClientPayloadRevision :: int
  rj_InitialPayloadDigest :: gostring
  rj_Metadata :: gostring
  rj_SchemaHash :: gostring

definition executionChapter :: "int \<Rightarrow> gostring \<Rightarrow> Chapter" where
  "executionChapter ordinal raw =
     \<lparr>ch_Ordinal = ordinal, ch_TaskType = ''__execution__'', ch_Body = ExecutionChapter raw, ch_InputHash = [],
      ch_CreatedAt = zero_time, ch_Metadata = [], ch_Artifacts = []\<rparr>"

definition restartChapters :: "runtime_lib \<Rightarrow> restart_lib \<Rightarrow> JobKey \<Rightarrow> RestartJob \<Rightarrow> ToyEngine \<Rightarrow> error + (int \<times> Chapter) list" where
  "restartChapters lib rl key job e =
     (if rj_LastStepToKeep job < 0 then Inl (ErrText ''LastStepToKeep must be >= 0 for restart'')
      else if getJobRecord e (rj_PriorJobKey job) = None then Inl ErrJobNotFound
      else case map_of (te_runtimeChapters e) (rj_PriorJobKey job) of
          None \<Rightarrow> Inl ErrJobNotFound
        | Some source \<Rightarrow>
            let nextOrdinal = wrap64 (rj_LastStepToKeep job + 1) in
            (case map_of source nextOrdinal of
               None \<Rightarrow> Inl (ErrText ''LastStepToKeep invalid: no chapter at the next ordinal'')
             | Some nextChapter \<Rightarrow>
                 rbind (rl_attempt rl (ch_Metadata nextChapter)) (\<lambda>attempt.
                   if rj_ExecutionRestart job = None \<and> attempt > 1 then Inl (ErrText ''LastStepToKeep cuts into retry chain'')
                   else
                     let kept = filter (\<lambda>(ordinal, _). \<not> ordinal > rj_LastStepToKeep job) source;
                         target = (case rj_ExecutionRestart job of
                             None \<Rightarrow> kept
                           | Some raw \<Rightarrow> AList.update nextOrdinal (executionChapter nextOrdinal raw) kept)
                     in if map_of target 0 = None then Inl ErrJobNotFound
                        else rbind (case rj_ExecutionRestart job of
                               None \<Rightarrow> Inr ()
                             | Some raw \<Rightarrow> lb_ordinary lib (TenantId key) (rj_SchemaHash job) (executionChapter nextOrdinal raw)) (\<lambda>_.
                             Inr target))))"

definition sameHistory :: "(int \<times> Chapter) list \<Rightarrow> (int \<times> Chapter) list \<Rightarrow> int \<Rightarrow> error + unit" where
  "sameHistory expected existing ordinal = (case map_of expected ordinal of
      None \<Rightarrow> Inl (ErrExistingJobMismatch ''job is missing expected restart chapter'')
    | Some want \<Rightarrow>
        if map_of existing ordinal = Some want then Inr ()
        else Inl (ErrExistingJobMismatch ''job already exists with different restart history''))"

definition existingEquivalentRestartJob :: "JobKey \<Rightarrow> RestartJob \<Rightarrow> (int \<times> Chapter) list \<Rightarrow> ToyEngine \<Rightarrow> error + JobHandle option" where
  "existingEquivalentRestartJob key job expected e = (case getJobRecord e key of
      None \<Rightarrow> Inr None
    | Some r \<Rightarrow>
        if jr_initialPayloadDigest r \<noteq> rj_InitialPayloadDigest job then Inl (ErrExistingJobMismatch ''initial client payload differs'')
        else if jr_metadata r \<noteq> rj_Metadata job then Inl (ErrExistingJobMismatch ''job already exists with different metadata'')
        else case map_of (te_runtimeChapters e) key of
            None \<Rightarrow> Inl (ErrExistingJobMismatch ''job already exists without runtime chapters'')
          | Some existing \<Rightarrow>
              rbind (rfold (\<lambda>ordinal _. sameHistory expected existing ordinal) [0..rj_LastStepToKeep job] ()) (\<lambda>_.
                let nextOrdinal = wrap64 (rj_LastStepToKeep job + 1); got = map_of existing nextOrdinal in
                if rj_ExecutionRestart job \<noteq> None
                   \<and> (got = None \<or> map_option ch_Body got \<noteq> map_option ch_Body (map_of expected nextOrdinal))
                then Inl (ErrExistingJobMismatch ''execution restart payload differs'')
                else if (case got of Some ch \<Rightarrow> (case ch_Body ch of RestartExtraChapter _ \<Rightarrow> True | _ \<Rightarrow> False) | None \<Rightarrow> False)
                   \<and> \<not> rj_ExtraTaskOutput job
                then Inl (ErrExistingJobMismatch ''job already exists with restart extra output that was not requested'')
                else Inr (Some \<lparr>jh_Target = jr_cell r, jh_GoalID = jr_goalID r, jh_JobKey = key\<rparr>)))"

definition put_chapters :: "JobKey \<Rightarrow> (int \<times> Chapter) list \<Rightarrow> ToyEngine \<Rightarrow> ToyEngine" where
  "put_chapters key chapters e = e\<lparr>te_runtimeChapters := AList.update key chapters (te_runtimeChapters e)\<rparr>"

text \<open>The record of a restarted job has the fields of a submitted one that is available at once.\<close>

definition restartSubmission :: "RestartJob \<Rightarrow> Chapter \<Rightarrow> gostring \<Rightarrow> Submission" where
  "restartSubmission job chap0 policy =
     \<lparr>sb_JobType = ch_TaskType chap0, sb_ClientPayload = rj_ClientPayload job, sb_ClientPayloadRevision = rj_ClientPayloadRevision job,
      sb_InitialPayloadDigest = rj_InitialPayloadDigest job, sb_Metadata = rj_Metadata job, sb_RunPolicy = policy,
      sb_AvailableAt = None, sb_Start = chap0\<rparr>"

definition insertRestart :: "runtime_lib \<Rightarrow> restart_lib \<Rightarrow> nat \<Rightarrow> instant \<Rightarrow> call_ctx \<Rightarrow> JobKey \<Rightarrow> RestartJob \<Rightarrow> ToyEngine \<Rightarrow> JobHandle outcome" where
  "insertRestart lib rl depth now cx key job e =
     (case rbind (restartChapters lib rl key job e) (\<lambda>target.
           rbind (existingEquivalentRestartJob key job target e) (\<lambda>existing. Inr (target, existing))) of
        Inl err \<Rightarrow> (e, Inl err)
      | Inr (target, Some handle) \<Rightarrow> (e, Inr handle)
      | Inr (target, None) \<Rightarrow>
          (case rbind (rl_runPolicy rl (ch_Metadata (the (map_of target 0)))) (\<lambda>policy.
                rbind (rfold (\<lambda>(_, ch) _. rbind (taskDataFromChapter ch) (\<lambda>_. Inr ())) target ()) (\<lambda>_. Inr policy)) of
             Inl err \<Rightarrow> (e, Inl err)
           | Inr policy \<Rightarrow>
               let r0 = newRecord now (restartSubmission job (the (map_of target 0)) policy) in
               (case publishGoalLocked depth now cx key r0 (put_job key r0 e) of
                  Inl err \<Rightarrow> (e, Inl err)
                | Inr e1 \<Rightarrow>
                    (put_chapters key target e1,
                     case getJobRecord e1 key of
                       None \<Rightarrow> Inl ErrJobNotFound
                     | Some r \<Rightarrow> Inr \<lparr>jh_Target = jr_cell r, jh_GoalID = jr_goalID r, jh_JobKey = key\<rparr>))))"

end
