(* ===== verification/Toy_Schedules.thy ===== *)
theory Toy_Schedules
  imports Toy_Restart "HOL-Library.Product_Lexorder"
begin

text \<open>
  Schedules of the in-process runtime (\<open>toyimpl/schedule.go\<close>, \<open>schedule_preflight.go\<close> and the
  occurrence metadata of \<open>pkg/jobdb/schedule.go\<close>).  A schedule keeps one future occurrence: a job
  that waits for its fire time and for the occurrence before it.  Before an occurrence starts, the
  preflight either cancels it or submits the next one.  JSON, hashing and size limits are parameters.
\<close>

section \<open>Parameters\<close>

record ScheduleOccurrenceMetadata =
  oc_ScheduleId :: gostring
  oc_Kind :: gostring
  oc_Generation :: int
  oc_SpecHash :: gostring
  oc_ScheduledAt :: instant
  oc_RunId :: gostring
  oc_Manual :: bool
  oc_PreviousJobId :: gostring
  oc_Bits :: gostring
  oc_WindowSize :: int

record scheduleCancelDetail =
  cd_ReasonCode :: gostring
  cd_Message :: gostring
  cd_ScheduleId :: gostring
  cd_ExpectedGeneration :: int
  cd_ActualGeneration :: int
  cd_ExpectedSpecHash :: gostring
  cd_ActualSpecHash :: gostring
  cd_ScheduledAt :: instant

record scheduleHashSpec =
  hs_Trigger :: ScheduleTrigger
  hs_Cell :: gostring
  hs_CellRepo :: gostring
  hs_ClientPayloadDigest :: gostring
  hs_JobType :: gostring
  hs_Data :: "gostring option"
  hs_Artifacts :: "(gostring \<times> gostring \<times> int) list"
  hs_RunPolicy :: gostring
  hs_Metadata :: gostring
  hs_OverlapPolicy :: gostring
  hs_FailurePolicy :: ScheduleFailurePolicy

text \<open>
  \<open>sl_object\<close> says whether a text is a JSON object, \<open>sl_spec\<close> encodes and hashes a specification,
  \<open>sl_envelope\<close> and \<open>sl_occurrence\<close> encode and decode the internal schedule metadata of a job,
  \<open>sl_descriptor\<close> is the canonical descriptor of a submission, \<open>sl_chapterMetadata\<close> the metadata of a
  first chapter, and \<open>sl_systemError\<close> the payload of a system error.
\<close>

record schedule_lib =
  sl_zones :: zones
  sl_submission :: "gostring \<Rightarrow> gostring \<Rightarrow> error + unit"
  sl_object :: "gostring \<Rightarrow> bool"
  sl_normalize :: "gostring \<Rightarrow> gostring"
  sl_digest :: "gostring option \<Rightarrow> error + gostring"
  sl_spec :: "scheduleHashSpec \<Rightarrow> error + gostring"
  sl_envelope :: "gostring \<Rightarrow> ScheduleOccurrenceMetadata \<Rightarrow> error + gostring"
  sl_occurrence :: "gostring \<Rightarrow> error + ScheduleOccurrenceMetadata option"
  sl_descriptor :: "ScheduleTarget \<Rightarrow> error + gostring"
  sl_inputHash :: "gostring \<Rightarrow> StoredArtifact list \<Rightarrow> error + gostring"
  sl_chapterMetadata :: "gostring \<Rightarrow> instant \<Rightarrow> gostring \<Rightarrow> gostring \<Rightarrow> error + gostring"
  sl_detail :: "scheduleCancelDetail \<Rightarrow> error + gostring"
  sl_systemError :: "gostring \<Rightarrow> gostring \<Rightarrow> gostring \<Rightarrow> gostring"

section \<open>Occurrence metadata\<close>

definition ValidateApplicationMetadata :: "schedule_lib \<Rightarrow> gostring \<Rightarrow> error + unit" where
  "ValidateApplicationMetadata sl raw =
     (if blank raw \<or> sl_object sl raw then Inr () else Inl (ErrText ''metadata must be a JSON object''))"

definition MergeScheduleOccurrenceMetadata :: "schedule_lib \<Rightarrow> gostring \<Rightarrow> ScheduleOccurrenceMetadata \<Rightarrow> bool \<Rightarrow> error + gostring" where
  "MergeScheduleOccurrenceMetadata sl app occ manual =
     rbind (ValidateApplicationMetadata sl app) (\<lambda>_.
       sl_envelope sl app (occ\<lparr>oc_Kind := ''schedule_tick'', oc_RunId := ScheduleRunID (oc_ScheduledAt occ), oc_Manual := manual\<rparr>))"

definition ExtractScheduleOccurrenceMetadata :: "schedule_lib \<Rightarrow> gostring \<Rightarrow> error + ScheduleOccurrenceMetadata option" where
  "ExtractScheduleOccurrenceMetadata sl raw =
     (if blank raw then Inr None
      else rbind (sl_occurrence sl raw) (\<lambda>decoded. case decoded of
          None \<Rightarrow> Inr None
        | Some occ \<Rightarrow>
            if oc_ScheduleId occ = [] \<or> oc_Generation occ \<le> 0 \<or> oc_SpecHash occ = [] \<or> oc_ScheduledAt occ = zero_time
            then Inl (ErrText ''schedule metadata missing required fields'')
            else if oc_Kind occ \<noteq> [] \<and> oc_Kind occ \<noteq> ''schedule_tick'' then Inl (ErrText ''schedule metadata kind is invalid'')
            else Inr (Some (occ\<lparr>oc_Kind := ''schedule_tick'',
                   oc_RunId := (if oc_RunId occ = [] then ScheduleRunID (oc_ScheduledAt occ) else oc_RunId occ)\<rparr>))))"

section \<open>Requests\<close>

record UpsertScheduleRequest =
  us_Key :: ScheduleKey
  us_Trigger :: ScheduleTrigger
  us_Target :: ScheduleTarget
  us_OverlapPolicy :: gostring
  us_FailurePolicy :: ScheduleFailurePolicy
  us_Paused :: bool
  us_ExpectedGeneration :: "int option"

record ScheduleMutationRequest =
  sm_Key :: ScheduleKey
  sm_ExpectedGeneration :: "int option"

definition ScheduleKey_Validate :: "ScheduleKey \<Rightarrow> error + unit" where
  "ScheduleKey_Validate k =
     (if sk_TenantId k = [] then Inl (ErrText ''tenantId is required'')
      else if sk_ScheduleId k = [] \<or> \<not> list_all (\<lambda>c. is_alnum c \<or> c = CHR ''_'' \<or> c = CHR ''-'') (sk_ScheduleId k)
      then Inl (ErrText ''scheduleId must match [A-Za-z0-9_-]+'') else Inr ())"

definition ValidateScheduleRequest :: "schedule_lib \<Rightarrow> UpsertScheduleRequest \<Rightarrow> error + unit" where
  "ValidateScheduleRequest sl req =
     (let t = us_Trigger req; f = us_FailurePolicy req in
      rbind (ScheduleKey_Validate (us_Key req)) (\<lambda>_.
        if ValidateIdentifier (st_JobType (us_Target req)) \<noteq> Inr () then Inl (ErrText ''target jobType is required'')
        else if st_Data (us_Target req) = None then Inl (ErrText ''target data is required'')
        else rbind (ValidateApplicationMetadata sl (st_Metadata (us_Target req))) (\<lambda>_.
          if NormalizeScheduleOverlapPolicy (us_OverlapPolicy req) \<noteq> ''serial'' then Inl (ErrText ''unsupported overlap policy'')
          else if tr_Kind t = ''cron'' \<and> blank (tr_Expression t) then Inl (ErrText ''cron expression is required'')
          else if tr_Kind t = ''interval'' \<and> tr_Interval t \<le> 0 then Inl (ErrText ''interval trigger requires a positive interval'')
          else if tr_Kind t \<noteq> ''cron'' \<and> tr_Kind t \<noteq> ''interval'' then Inl (ErrText ''unsupported trigger kind'')
          else if fp_WindowSize f < 0 \<or> fp_MinSuccessPercent f < 0 \<or> fp_MinSuccessPercent f > 100 \<or> fp_MaxSequentialFailures f < 0
          then Inl (ErrText ''invalid failure policy'') else Inr ())))"

definition scheduleArtifactsForHash :: "runtime_lib \<Rightarrow> (gostring \<times> gostring) list \<Rightarrow> (gostring \<times> gostring \<times> int) list" where
  "scheduleArtifactsForHash lib arts = sort (map (\<lambda>(name, bytes). (name, lb_sha256 lib bytes, int (length bytes))) arts)"

definition ScheduleSpecHash :: "runtime_lib \<Rightarrow> schedule_lib \<Rightarrow> ScheduleTrigger \<Rightarrow> ScheduleTarget \<Rightarrow> gostring \<Rightarrow> ScheduleFailurePolicy \<Rightarrow> error + gostring" where
  "ScheduleSpecHash lib sl trigger target overlap failure =
     rbind (Initial (lb_payload lib) (st_ClientPayloadUpdate target)) (\<lambda>(initial, _).
     rbind (sl_digest sl initial) (\<lambda>digest.
       sl_spec sl \<lparr>hs_Trigger = trigger, hs_Cell = rc_Cell target, hs_CellRepo = rc_CellRepo target, hs_ClientPayloadDigest = digest,
         hs_JobType = st_JobType target, hs_Data = map_option fst (st_Data target),
         hs_Artifacts = (case st_Data target of None \<Rightarrow> [] | Some (_, arts) \<Rightarrow> scheduleArtifactsForHash lib arts),
         hs_RunPolicy = st_RunPolicy target, hs_Metadata = sl_normalize sl (st_Metadata target),
         hs_OverlapPolicy = NormalizeScheduleOverlapPolicy overlap, hs_FailurePolicy = failure\<rparr>))"

definition snapshotScheduleTarget :: "runtime_lib \<Rightarrow> ScheduleTarget \<Rightarrow> error + ScheduleTarget" where
  "snapshotScheduleTarget lib target =
     rbind (Initial (lb_payload lib) (st_ClientPayloadUpdate target)) (\<lambda>(initial, _).
       Inr (target\<lparr>st_ClientPayloadUpdate :=
         map_option (\<lambda>v. \<lparr>cu_Mode = ''reset'', cu_Value = Some v, cu_ExpectedRevision = None\<rparr>) initial\<rparr>))"

section \<open>Changing a schedule\<close>

text \<open>
  A generation counts the updates of one schedule and is an unbounded integer here. \<open>now\<close> is the time
  of the request.
\<close>

definition put_schedule :: "ScheduleKey \<Rightarrow> toyScheduleRecord \<Rightarrow> ToyEngine \<Rightarrow> ToyEngine" where
  "put_schedule key s e = e\<lparr>te_schedules := AList.update key s (te_schedules e)\<rparr>"

definition runKey :: "ScheduleKey \<Rightarrow> int \<Rightarrow> instant \<Rightarrow> JobKey" where
  "runKey key generation at = JobKey (sk_TenantId key) (ScheduleRunJobID (sk_ScheduleId key) generation at)"

definition upsertChecks :: "runtime_lib \<Rightarrow> schedule_lib \<Rightarrow> instant \<Rightarrow> UpsertScheduleRequest \<Rightarrow> error + (ScheduleTarget \<times> instant option)" where
  "upsertChecks lib sl now req =
     rbind (ValidateScheduleRequest sl req) (\<lambda>_.
     rbind (sl_submission sl (st_JobType (us_Target req)) (case st_Data (us_Target req) of None \<Rightarrow> [] | Some (raw, _) \<Rightarrow> raw)) (\<lambda>_.
     rbind (snapshotScheduleTarget lib (us_Target req)) (\<lambda>target.
     rbind (ScheduleSpecHash lib sl (us_Trigger req) target (us_OverlapPolicy req) (us_FailurePolicy req)) (\<lambda>_.
     rbind (InitialScheduleFire (sl_zones sl) (us_Trigger req) now) (\<lambda>next_at. Inr (target, next_at))))))"

definition storeSchedule :: "runtime_lib \<Rightarrow> schedule_lib \<Rightarrow> CellAuthority option \<Rightarrow> instant \<Rightarrow> UpsertScheduleRequest \<Rightarrow> ScheduleTarget \<Rightarrow>
   instant option \<Rightarrow> ToyEngine \<Rightarrow> toyScheduleRecord outcome" where
  "storeSchedule lib sl ctx now req target0 nextFireAt e =
     (let key = us_Key req; cells = cellsLocked e (sk_TenantId key); existing = map_of (te_schedules e) key in
      case (if ByName cells (rc_Cell (us_Target req)) = None then Inl ErrCellNotFound
            else rbind (Resolve ctx (sk_TenantId key) (rc_Cell (us_Target req)) (rc_CellRepo (us_Target req)) None None False cells) (\<lambda>binding.
              let target = target0\<lparr>rc_Cell := rc_Cell binding, rc_CellID := rc_CellID binding, rc_CellRepo := rc_CellRepo binding\<rparr>
              in rbind (ScheduleSpecHash lib sl (us_Trigger req) target (us_OverlapPolicy req) (us_FailurePolicy req)) (\<lambda>hash. Inr (target, hash)))) of
        Inl err \<Rightarrow> (e, Inl err)
      | Inr (target, specHash) \<Rightarrow>
          if map_option si_State existing = Some ScheduleStateArchived then (e, Inl ErrConflict)
          else if us_ExpectedGeneration req \<noteq> None \<and> map_option si_Generation existing \<noteq> us_ExpectedGeneration req then (e, Inl ErrConflict)
          else
            let generation = (case existing of None \<Rightarrow> 1 | Some s \<Rightarrow> wrap64 (si_Generation s + 1));
                state = (if us_Paused req then ScheduleStatePaused else ScheduleStateActive);
                info = \<lparr>si_PauseReason = [], si_Key = key, si_State = state, si_EffectiveState = state, si_Generation = generation,
                  si_SpecHash = specHash, si_Trigger = us_Trigger req, si_Target = target,
                  si_OverlapPolicy = NormalizeScheduleOverlapPolicy (us_OverlapPolicy req), si_FailurePolicy = us_FailurePolicy req,
                  si_NextFireAt = nextFireAt,
                  si_NextJobKey = (if us_Paused req then None else map_option (runKey key generation) nextFireAt),
                  si_CreatedAt = (case existing of None \<Rightarrow> now | Some s \<Rightarrow> si_CreatedAt s), si_UpdatedAt = now\<rparr>
            in (put_schedule key info e, Inr info))"

text \<open>
  The checks of a resumption read the cell of the schedule. The reason of a pause is cleared before
  the next fire time is computed, and stays cleared when that fails.
\<close>

definition resumeCheck :: "CellAuthority option \<Rightarrow> toyScheduleRecord \<Rightarrow> ScheduleKey \<Rightarrow> ToyEngine \<Rightarrow> error + unit" where
  "resumeCheck ctx s key e = (case map_of (cs_Cells (cellsLocked e (sk_TenantId key))) (rc_CellID (si_Target s)) of
      None \<Rightarrow> Inl ErrCellNotFound
    | Some c \<Rightarrow>
        if c_State c \<noteq> CellActive then Inl ErrCellRetired
        else if c_Repo c \<noteq> rc_CellRepo (si_Target s) then Inl ErrCellRepoMismatch
        else AuthorizeCell ctx (sk_TenantId key) (c_ID c) ''jobs.submit'')"

definition mutateScheduleState :: "schedule_lib \<Rightarrow> CellAuthority option \<Rightarrow> instant \<Rightarrow> ScheduleMutationRequest \<Rightarrow> ScheduleState \<Rightarrow>
   ToyEngine \<Rightarrow> toyScheduleRecord outcome" where
  "mutateScheduleState sl ctx now req state e = (case map_of (te_schedules e) (sm_Key req) of
      None \<Rightarrow> (e, Inl ErrJobNotFound)
    | Some s0 \<Rightarrow>
        if sm_ExpectedGeneration req \<noteq> None \<and> sm_ExpectedGeneration req \<noteq> Some (si_Generation s0) then (e, Inl ErrConflict)
        else if si_State s0 = ScheduleStateArchived \<and> state \<noteq> ScheduleStateArchived then (e, Inl ErrConflict)
        else case (if state = ScheduleStateActive then resumeCheck ctx s0 (sm_Key req) e else Inr ()) of
            Inl err \<Rightarrow> (e, Inl err)
          | Inr _ \<Rightarrow>
              let s1 = (if state = ScheduleStateActive then s0\<lparr>si_PauseReason := []\<rparr> else s0) in
              (case InitialScheduleFire (sl_zones sl) (si_Trigger s1) now of
                 Inl err \<Rightarrow> (put_schedule (sm_Key req) s1 e, Inl err)
               | Inr next_at \<Rightarrow>
                   let generation = wrap64 (si_Generation s1 + 1);
                       fire = (if state = ScheduleStateActive then next_at else None);
                       s2 = s1\<lparr>si_State := state, si_EffectiveState := state, si_Generation := generation, si_UpdatedAt := now,
                         si_NextFireAt := fire, si_NextJobKey := map_option (runKey (sm_Key req) generation) fire\<rparr>
                   in (put_schedule (sm_Key req) s2 e, Inr s2)))"

section \<open>Occurrences\<close>

text \<open>
  The record of an occurrence is that of a job submitted for its fire time, except that an
  occurrence with a predecessor waits for it first.
\<close>

definition occurrenceRecord :: "instant \<Rightarrow> Submission \<Rightarrow> gostring \<Rightarrow> jobRecord" where
  "occurrenceRecord now sb previous =
     (if previous = [] then newRecord now sb
      else (newRecord now sb)\<lparr>jr_status := JobStatusPendingJobs, jr_waitFor := [previous]\<rparr>)"

definition insertOccurrence :: "nat \<Rightarrow> instant \<Rightarrow> call_ctx \<Rightarrow> JobKey \<Rightarrow> Submission \<Rightarrow> gostring \<Rightarrow> ToyEngine \<Rightarrow> JobKey outcome" where
  "insertOccurrence depth now cx key sb previous e = (case getJobRecord e key of
      Some _ \<Rightarrow> (e, Inr key)
    | None \<Rightarrow>
        (case publishGoalLocked depth now cx key (occurrenceRecord now sb previous) (put_job key (occurrenceRecord now sb previous) e) of
           Inl err \<Rightarrow> (e, Inl err)
         | Inr e1 \<Rightarrow>
             (put_chapter key (case map_of (te_runtimeChapters e1) key of None \<Rightarrow> [] | Some cs \<Rightarrow> cs) 0 (sb_Start sb) e1, Inr key)))"

text \<open>What is submitted for an occurrence, with the artifacts that have been stored for it.\<close>

definition occurrenceSubmission :: "runtime_lib \<Rightarrow> schedule_lib \<Rightarrow> instant \<Rightarrow> ScheduleTarget \<Rightarrow> gostring \<Rightarrow> instant \<Rightarrow> StoredArtifact list \<Rightarrow> error + Submission" where
  "occurrenceSubmission lib sl now target metadata scheduledAt stored =
     (let raw = (case st_Data target of None \<Rightarrow> [] | Some (raw, _) \<Rightarrow> raw) in
      rbind (sl_inputHash sl raw stored) (\<lambda>inputHash.
      rbind (sl_chapterMetadata sl (st_JobType target) now inputHash (st_RunPolicy target)) (\<lambda>chapterMetadata.
      rbind (Initial (lb_payload lib) (st_ClientPayloadUpdate target)) (\<lambda>(initial, revision).
      rbind (sl_digest sl initial) (\<lambda>digest.
        let start = \<lparr>ch_Ordinal = 0, ch_TaskType = st_JobType target, ch_Body = JobStartChapter raw, ch_InputHash = inputHash,
              ch_CreatedAt = now, ch_Metadata = chapterMetadata, ch_Artifacts = stored\<rparr>
        in rbind (lb_size lib start) (\<lambda>_.
             Inr \<lparr>sb_JobType = st_JobType target, sb_ClientPayload = initial, sb_ClientPayloadRevision = revision,
               sb_InitialPayloadDigest = digest, sb_Metadata = metadata, sb_RunPolicy = st_RunPolicy target,
               sb_AvailableAt = Some scheduledAt, sb_Start = start\<rparr>))))))"

definition occurrencePreparation :: "schedule_lib \<Rightarrow> toyScheduleRecord \<Rightarrow> gostring \<Rightarrow> error + Preparation" where
  "occurrencePreparation sl info jobID =
     rbind (sl_descriptor sl (si_Target info)) (\<lambda>descriptor.
       Inr \<lparr>pp_Cell = rc_Cell (si_Target info), pp_CellRepo = rc_CellRepo (si_Target info),
            pp_Target = \<lparr>rc_Cell = [], rc_CellID = [], rc_CellRepo = []\<rparr>, pp_ParentJobID = [],
            pp_Key = JobKey (sk_TenantId (si_Key info)) jobID, pp_RequestID = [], pp_PriorJobID = [], pp_ShareGoal = False,
            pp_Descriptor = descriptor, pp_Dependencies = []\<rparr>)"

text \<open>
  A submission in one piece. A failure after the reservation discards the reservation.
\<close>

definition submitScheduledOccurrenceWithJobID :: "runtime_lib \<Rightarrow> schedule_lib \<Rightarrow> nat \<Rightarrow> instant \<Rightarrow> call_ctx \<Rightarrow> gostring \<Rightarrow>
   toyScheduleRecord \<Rightarrow> gostring \<Rightarrow> instant \<Rightarrow> gostring \<Rightarrow> gostring \<Rightarrow> bool \<Rightarrow> ToyEngine \<Rightarrow> JobKey outcome" where
  "submitScheduledOccurrenceWithJobID lib sl depth now cx0 newGoal info jobID scheduledAt previous bits manual e =
     (let key = JobKey (sk_TenantId (si_Key info)) jobID;
          cx = cx0\<lparr>cx_Schedule := Some (si_Key info)\<rparr>;
          window = (if fp_WindowSize (si_FailurePolicy info) \<le> 0 then int (length bits) else fp_WindowSize (si_FailurePolicy info));
          occ = \<lparr>oc_ScheduleId = sk_ScheduleId (si_Key info), oc_Kind = [], oc_Generation = si_Generation info, oc_SpecHash = si_SpecHash info,
            oc_ScheduledAt = scheduledAt, oc_RunId = [], oc_Manual = False, oc_PreviousJobId = previous, oc_Bits = bits, oc_WindowSize = window\<rparr>;
          arts = (case st_Data (si_Target info) of None \<Rightarrow> [] | Some (_, arts) \<Rightarrow> arts);
          waitFor = (if si_OverlapPolicy info = ''serial'' then previous else [])
      in case occurrencePreparation sl info jobID of
           Inl err \<Rightarrow> (e, Inl err)
         | Inr prep \<Rightarrow>
             (case PrepareJob lib now cx (Inr key) newGoal prep e of
                (e1, Inl err) \<Rightarrow> (e1, Inl err)
              | (e1, Inr _) \<Rightarrow>
                  (case MergeScheduleOccurrenceMetadata sl (st_Metadata (si_Target info)) occ manual of
                     Inl err \<Rightarrow> (DiscardJobPreparation key e1, Inl err)
                   | Inr metadata \<Rightarrow>
                       (case materializeTaskData lib key 0 arts e1 of
                          (e2, Inl err) \<Rightarrow> (DiscardJobPreparation key e2, Inl err)
                        | (e2, Inr stored) \<Rightarrow>
                            (case occurrenceSubmission lib sl now (si_Target info) metadata scheduledAt stored of
                               Inl err \<Rightarrow> (DiscardJobPreparation key e2, Inl err)
                             | Inr sb \<Rightarrow>
                                 (case insertOccurrence depth now cx key sb waitFor e2 of
                                    (e3, Inl err) \<Rightarrow> (DiscardJobPreparation key e3, Inl err)
                                  | (e3, Inr k) \<Rightarrow> (e3, Inr k)))))))"

definition submitScheduledOccurrence :: "runtime_lib \<Rightarrow> schedule_lib \<Rightarrow> nat \<Rightarrow> instant \<Rightarrow> call_ctx \<Rightarrow> gostring \<Rightarrow>
   toyScheduleRecord \<Rightarrow> instant \<Rightarrow> gostring \<Rightarrow> gostring \<Rightarrow> bool \<Rightarrow> ToyEngine \<Rightarrow> JobKey outcome" where
  "submitScheduledOccurrence lib sl depth now cx newGoal info scheduledAt previous bits manual e =
     submitScheduledOccurrenceWithJobID lib sl depth now cx newGoal info
       (ScheduleRunJobID (sk_ScheduleId (si_Key info)) (si_Generation info) scheduledAt) scheduledAt previous bits manual e"

section \<open>The interface\<close>

text \<open>
  The time of a request is \<open>now\<close>; what follows a critical section happens at \<open>later\<close>.
\<close>

definition submitFirst :: "runtime_lib \<Rightarrow> schedule_lib \<Rightarrow> nat \<Rightarrow> instant \<Rightarrow> call_ctx \<Rightarrow> gostring \<Rightarrow> toyScheduleRecord outcome \<Rightarrow> toyScheduleRecord outcome" where
  "submitFirst lib sl depth later cx newGoal m = (case m of
      (e, Inl err) \<Rightarrow> (e, Inl err)
    | (e, Inr info) \<Rightarrow>
        (case (if si_State info = ScheduleStateActive then si_NextFireAt info else None) of
           None \<Rightarrow> (e, Inr info)
         | Some at \<Rightarrow>
             (case submitScheduledOccurrence lib sl depth later cx newGoal info at [] [] False e of
                (e1, Inl err) \<Rightarrow> (e1, Inl err)
              | (e1, Inr _) \<Rightarrow> (e1, Inr info))))"

definition UpsertSchedule :: "runtime_lib \<Rightarrow> schedule_lib \<Rightarrow> nat \<Rightarrow> instant \<Rightarrow> instant \<Rightarrow> call_ctx \<Rightarrow> gostring \<Rightarrow> UpsertScheduleRequest \<Rightarrow>
   ToyEngine \<Rightarrow> toyScheduleRecord outcome" where
  "UpsertSchedule lib sl depth now later cx newGoal req e = (case upsertChecks lib sl now req of
      Inl err \<Rightarrow> (e, Inl err)
    | Inr (target, nextFireAt) \<Rightarrow>
        submitFirst lib sl depth later cx newGoal (storeSchedule lib sl (cx_Authority cx) now req target nextFireAt e))"

definition PauseSchedule :: "schedule_lib \<Rightarrow> CellAuthority option \<Rightarrow> instant \<Rightarrow> ScheduleMutationRequest \<Rightarrow> ToyEngine \<Rightarrow> toyScheduleRecord outcome" where
  "PauseSchedule sl ctx now req e = mutateScheduleState sl ctx now req ScheduleStatePaused e"

definition ResumeSchedule :: "runtime_lib \<Rightarrow> schedule_lib \<Rightarrow> nat \<Rightarrow> instant \<Rightarrow> instant \<Rightarrow> call_ctx \<Rightarrow> gostring \<Rightarrow> ScheduleMutationRequest \<Rightarrow>
   ToyEngine \<Rightarrow> toyScheduleRecord outcome" where
  "ResumeSchedule lib sl depth now later cx newGoal req e =
     submitFirst lib sl depth later cx newGoal (mutateScheduleState sl (cx_Authority cx) now req ScheduleStateActive e)"

definition ArchiveSchedule :: "schedule_lib \<Rightarrow> CellAuthority option \<Rightarrow> instant \<Rightarrow> ScheduleMutationRequest \<Rightarrow> ToyEngine \<Rightarrow> toyScheduleRecord outcome" where
  "ArchiveSchedule sl ctx now req e = mutateScheduleState sl ctx now req ScheduleStateArchived e"

definition GetSchedule :: "ScheduleKey \<Rightarrow> ToyEngine \<Rightarrow> error + toyScheduleRecord" where
  "GetSchedule key e = (case map_of (te_schedules e) key of None \<Rightarrow> Inl ErrJobNotFound | Some s \<Rightarrow> Inr s)"

definition TriggerSchedule :: "runtime_lib \<Rightarrow> schedule_lib \<Rightarrow> nat \<Rightarrow> instant \<Rightarrow> instant \<Rightarrow> call_ctx \<Rightarrow> gostring \<Rightarrow> ScheduleKey \<Rightarrow> gostring \<Rightarrow>
   ToyEngine \<Rightarrow> JobKey outcome" where
  "TriggerSchedule lib sl depth now later cx newGoal key requestID e = (case GetSchedule key e of
      Inl err \<Rightarrow> (e, Inl err)
    | Inr info \<Rightarrow>
        if si_State info = ScheduleStateArchived then (e, Inl ErrConflict)
        else submitScheduledOccurrenceWithJobID lib sl depth later cx newGoal info
               (ScheduleManualJobID (sk_ScheduleId (si_Key info)) requestID later) now [] [] True e)"

section \<open>Preflight\<close>

definition previousJobSucceeded :: "ToyEngine \<Rightarrow> gostring \<Rightarrow> gostring \<Rightarrow> bool" where
  "previousJobSucceeded e tenant jobID = (case getJobRecord e (JobKey tenant jobID) of
      None \<Rightarrow> False
    | Some r \<Rightarrow> jr_status r = JobStatusCompleted \<and> \<not> jr_cancelled r)"

definition cancellationForOccurrence :: "ScheduleOccurrenceMetadata \<Rightarrow> gostring \<Rightarrow> gostring \<Rightarrow> int \<Rightarrow> gostring \<Rightarrow> scheduleCancelDetail" where
  "cancellationForOccurrence occ reason message generation specHash =
     \<lparr>cd_ReasonCode = reason, cd_Message = message, cd_ScheduleId = oc_ScheduleId occ, cd_ExpectedGeneration = oc_Generation occ,
      cd_ActualGeneration = generation, cd_ExpectedSpecHash = oc_SpecHash occ, cd_ActualSpecHash = specHash,
      cd_ScheduledAt = oc_ScheduledAt occ\<rparr>"

definition schedulePreflightCancelChapter :: "schedule_lib \<Rightarrow> instant \<Rightarrow> gostring \<Rightarrow> scheduleCancelDetail \<Rightarrow> Chapter" where
  "schedulePreflightCancelChapter sl now taskType detail =
     \<lparr>ch_Ordinal = 1, ch_TaskType = taskType,
      ch_Body = JobAttemptOutcomeChapter (SystemErrorOutcome
        (sl_systemError sl (cd_Message detail) ''jobdb.schedule_preflight'' (cd_ReasonCode detail))),
      ch_InputHash = [], ch_CreatedAt = now, ch_Metadata = [], ch_Artifacts = []\<rparr>"

definition cancelScheduledLease :: "runtime_lib \<Rightarrow> schedule_lib \<Rightarrow> nat \<Rightarrow> instant \<Rightarrow> runtimeLease \<Rightarrow> scheduleCancelDetail \<Rightarrow> ToyEngine \<Rightarrow> bool outcome" where
  "cancelScheduledLease lib sl depth now lease detail e = (case sl_detail sl detail of
      Inl err \<Rightarrow> (e, Inl err)
    | Inr raw \<Rightarrow>
        if \<not> now < ls_expiresAt lease then (e, Inl ErrExecutionLeaseLost)
        else (case completeLease lib depth now (ls_jobKey lease) (ls_leaseID lease) (ls_workerID lease)
                \<lparr>ce_ClientPayloadUpdate = None, ce_Status = ''cancelled'', ce_Detail = raw,
                 ce_Chapter = Some (schedulePreflightCancelChapter sl now (rt_JobType (ls_route lease)) detail), ce_ArtifactUploads = []\<rparr> e of
             (e1, Inl err) \<Rightarrow> (e1, Inl err)
           | (e1, Inr _) \<Rightarrow> (e1, Inr False)))"

text \<open>What the preflight decides: start, cancel with a detail, or start after the next occurrence is submitted.\<close>

datatype preflight = PreflightStart | PreflightCancel scheduleCancelDetail | PreflightNext toyScheduleRecord gostring

definition preflightDecision :: "JobKey \<Rightarrow> ScheduleOccurrenceMetadata \<Rightarrow> ToyEngine \<Rightarrow> preflight" where
  "preflightDecision key occ e =
     (if length (case map_of (te_runtimeChapters e) key of None \<Rightarrow> [] | Some cs \<Rightarrow> cs) > 1 then PreflightStart
      else case GetSchedule (ScheduleKey (TenantId key) (oc_ScheduleId occ)) e of
          Inl _ \<Rightarrow> PreflightCancel (cancellationForOccurrence occ ''schedule_missing'' ''schedule missing before app start'' 0 [])
        | Inr info \<Rightarrow>
            let cancel = (\<lambda>reason message. PreflightCancel (cancellationForOccurrence occ reason message (si_Generation info) (si_SpecHash info)));
                window = (if fp_WindowSize (si_FailurePolicy info) \<le> 0 then oc_WindowSize occ else fp_WindowSize (si_FailurePolicy info));
                bits = (if oc_PreviousJobId occ = [] then oc_Bits occ
                  else AppendScheduleFailureBit (oc_Bits occ) (previousJobSucceeded e (TenantId key) (oc_PreviousJobId occ)) window)
            in if si_PauseReason info = ''cell_repo_mismatch'' then PreflightStart
               else if si_State info = ScheduleStatePaused then cancel ''schedule_paused'' ''schedule paused before app start''
               else if si_State info = ScheduleStateArchived then cancel ''schedule_archived'' ''schedule archived before app start''
               else if si_Generation info \<noteq> oc_Generation occ then cancel ''schedule_generation_mismatch'' ''schedule generation changed before app start''
               else if si_SpecHash info \<noteq> oc_SpecHash occ then cancel ''schedule_spec_mismatch'' ''schedule spec changed before app start''
               else if ScheduleFailurePolicyViolated bits (si_FailurePolicy info)
               then cancel ''failure_policy'' ''schedule failure policy blocked this occurrence''
               else PreflightNext info bits)"

text \<open>
  The preflight at one instant. The code reads the clock for each of its parts and releases the
  locks in between; the parts that change the state are steps of their own.
\<close>

definition preflightScheduleLease :: "runtime_lib \<Rightarrow> schedule_lib \<Rightarrow> nat \<Rightarrow> instant \<Rightarrow> call_ctx \<Rightarrow> gostring \<Rightarrow> runtimeLease \<Rightarrow> ToyEngine \<Rightarrow> bool outcome" where
  "preflightScheduleLease lib sl depth now cx newGoal lease e = (case getJobRecord e (ls_jobKey lease) of
      None \<Rightarrow> (e, Inl ErrJobNotFound)
    | Some r \<Rightarrow> (case ExtractScheduleOccurrenceMetadata sl (jr_metadata r) of
        Inl err \<Rightarrow> (e, Inl err)
      | Inr None \<Rightarrow> (e, Inr True)
      | Inr (Some occ) \<Rightarrow> (case preflightDecision (ls_jobKey lease) occ e of
          PreflightStart \<Rightarrow> (e, Inr True)
        | PreflightCancel detail \<Rightarrow> cancelScheduledLease lib sl depth now lease detail e
        | PreflightNext info bits \<Rightarrow> (case NextScheduleFire (sl_zones sl) (si_Trigger info) now of
            Inl err \<Rightarrow> (e, Inl err)
          | Inr None \<Rightarrow> (e, Inr True)
          | Inr (Some at) \<Rightarrow>
              (case submitScheduledOccurrence lib sl depth now cx newGoal info at (JobId (ls_jobKey lease)) bits False e of
                 (e1, Inl err) \<Rightarrow> (e1, Inl err)
               | (e1, Inr _) \<Rightarrow> (e1, Inr True))))))"

section \<open>Acquisition with preflight\<close>

text \<open>
  \<open>PollWork\<close> and \<open>GetJobLease\<close> hand out what they have acquired after the preflight of each lease, at
  \<open>later\<close>; the first error drops every lease. \<open>goals\<close> are the goal identifiers that are generated.
\<close>

fun filterLeases :: "runtime_lib \<Rightarrow> schedule_lib \<Rightarrow> nat \<Rightarrow> instant \<Rightarrow> call_ctx \<Rightarrow> (nat \<Rightarrow> gostring) \<Rightarrow> nat \<Rightarrow> runtimeLease list \<Rightarrow>
   ToyEngine \<Rightarrow> runtimeLease list outcome" where
  "filterLeases lib sl depth later cx goals n [] e = (e, Inr [])"
| "filterLeases lib sl depth later cx goals n (lease # leases) e =
     (case preflightScheduleLease lib sl depth later cx (goals n) lease e of
        (e1, Inl err) \<Rightarrow> (e1, Inl err)
      | (e1, Inr ok) \<Rightarrow>
          (case filterLeases lib sl depth later cx goals (Suc n) leases e1 of
             (e2, Inl err) \<Rightarrow> (e2, Inl err)
           | (e2, Inr out) \<Rightarrow> (e2, Inr (if ok then lease # out else out))))"

definition PollWork :: "runtime_lib \<Rightarrow> schedule_lib \<Rightarrow> nat \<Rightarrow> call_ctx \<Rightarrow> (gostring \<Rightarrow> error + bool) \<Rightarrow> (nat \<Rightarrow> gostring) \<Rightarrow> (nat \<Rightarrow> gostring) \<Rightarrow>
   JobKey list \<Rightarrow> instant \<Rightarrow> instant \<Rightarrow> PollWorkRequest \<Rightarrow> ToyEngine \<Rightarrow> runtimeLease list outcome" where
  "PollWork lib sl depth cx matches fresh goals keys now later req e =
     (case pollAcquire lib (cx_Authority cx) matches fresh keys now req e of
        (e1, Inl err) \<Rightarrow> (e1, Inl err)
      | (e1, Inr leases) \<Rightarrow> filterLeases lib sl depth later cx goals 0 leases e1)"

definition GetJobLease :: "runtime_lib \<Rightarrow> schedule_lib \<Rightarrow> nat \<Rightarrow> call_ctx \<Rightarrow> gostring \<Rightarrow> gostring \<Rightarrow> instant \<Rightarrow> instant \<Rightarrow> GetJobLeaseRequest \<Rightarrow>
   ToyEngine \<Rightarrow> runtimeLease option outcome" where
  "GetJobLease lib sl depth cx fresh newGoal now later req e =
     (case getJobLeaseAcquire lib (cx_Authority cx) fresh now req e of
        (e1, Inl err) \<Rightarrow> (e1, Inl err)
      | (e1, Inr None) \<Rightarrow> (e1, Inr None)
      | (e1, Inr (Some lease)) \<Rightarrow>
          (case preflightScheduleLease lib sl depth later cx newGoal lease e1 of
             (e2, Inl err) \<Rightarrow> (e2, Inl err)
           | (e2, Inr ok) \<Rightarrow> (e2, Inr (if ok then Some lease else None))))"

section \<open>Listing\<close>

record ListSchedulesRequest =
  lq_TenantId :: gostring
  lq_ScheduleIds :: "gostring list"
  lq_States :: "ScheduleState list"
  lq_TargetJobTypes :: "gostring list"

definition scheduleListed :: "ListSchedulesRequest \<Rightarrow> ScheduleKey \<times> toyScheduleRecord \<Rightarrow> bool" where
  "scheduleListed req = (\<lambda>(key, s).
     (lq_TenantId req = [] \<or> sk_TenantId key = lq_TenantId req)
     \<and> (lq_ScheduleIds req = [] \<or> sk_ScheduleId (si_Key s) \<in> set (lq_ScheduleIds req))
     \<and> (lq_States req = [] \<or> si_State s \<in> set (lq_States req))
     \<and> (lq_TargetJobTypes req = [] \<or> st_JobType (si_Target s) \<in> set (lq_TargetJobTypes req)))"

text \<open>Latest update first, then by descending identifier.\<close>

definition ListSchedules :: "ListSchedulesRequest \<Rightarrow> ToyEngine \<Rightarrow> toyScheduleRecord list" where
  "ListSchedules req e =
     rev (sort_key (\<lambda>s. (si_UpdatedAt s, sk_ScheduleId (si_Key s))) (map snd (filter (scheduleListed req) (te_schedules e))))"

end
