(* ===== verification/Toy_Steps.thy ===== *)
theory Toy_Steps
  imports Toy_Publish Toy_Schedules
begin

text \<open>
  The runtime as a transition system.  A step is one critical section of a public operation, so
  that the operations of different callers interleave as they do under the engine's mutex; a run
  is a sequence of steps under a clock that does not go back.  Every step is a sequence of smaller
  effects on one record, one chapter or one goal store, and invariants are proved for the effects.
\<close>

section \<open>Effects\<close>

text \<open>
  The label of a step: the lease identifiers it generates, and the leases that its caller presents
  with the worker they were granted to.
\<close>

type_synonym lease_label = "gostring set \<times> (JobKey \<times> gostring \<times> gostring) set"

abbreviation silent :: lease_label where
  "silent \<equiv> ({}, {})"

abbreviation presents :: "JobKey \<Rightarrow> gostring \<Rightarrow> gostring \<Rightarrow> lease_label" where
  "presents k l w \<equiv> ({}, {(k, l, w)})"

text \<open>What happens to one record while its job goes on.\<close>

inductive rec_step :: "ToyEngine \<Rightarrow> instant \<Rightarrow> lease_label \<Rightarrow> JobKey \<Rightarrow> jobRecord \<Rightarrow> jobRecord \<Rightarrow> bool" for e now lab k r where
  advance: "advanceRecordStateLocked e (TenantId k) now r = Inr r' \<Longrightarrow> rec_step e now lab k r r'"
| acquire: "\<not> jr_leased r \<Longrightarrow> jr_status r = JobStatusReady \<Longrightarrow> dependencyReadyLocked e now r = Inr True \<Longrightarrow> i \<in> fst lab \<Longrightarrow> i \<noteq> [] \<Longrightarrow>
     rec_step e now lab k r (acquireRecord now i w d r)"
| renew: "(k, l, w) \<in> snd lab \<Longrightarrow> leaseLive now l w r \<Longrightarrow> now < x \<Longrightarrow> rec_step e now lab k r (r\<lparr>jr_leaseExpiresAt := x\<rparr>)"
| clear: "jr_archived r = None \<Longrightarrow> \<not> (jr_leased r \<and> now < jr_leaseExpiresAt r) \<Longrightarrow> rec_step e now lab k r (clearedRecord now r)"
| resume: "\<not> jr_leased r \<Longrightarrow> jr_status r = JobStatusReady \<Longrightarrow> rec_step e now lab k r (resumedRecord to_type payload wait r)"

text \<open>How a job ends: through its lease, through its last external task, or by an administrator.\<close>

inductive ends :: "instant \<Rightarrow> jobRecord \<Rightarrow> jobRecord \<Rightarrow> bool" for now r where
  completed: "leaseLive now l w r \<Longrightarrow> ends now r (completedRecord now value revision req r)"
| payload_failed: "leaseLive now l w r \<Longrightarrow> ends now r (payloadFailedRecord now detail r)"
| task_failed: "\<not> jr_leased r \<Longrightarrow> jr_status r = JobStatusReady \<Longrightarrow> ends now r (taskFailedRecord now msg payload wait r)"
| cancelled: "jr_archived r = None \<Longrightarrow> ends now r (cancelledRecord now reason r)"
| deleted: "ends now r (deletedRecord now r)"

definition active_cell :: "CellRegistry \<Rightarrow> gostring \<Rightarrow> bool" where
  "active_cell s cid \<longleftrightarrow> (\<exists>c. map_of (cs_Cells s) cid = Some c \<and> c_State c = CellActive)"

definition idle_cell :: "ToyEngine \<Rightarrow> gostring \<Rightarrow> gostring \<Rightarrow> bool" where
  "idle_cell e tenant cid \<longleftrightarrow>
     (\<forall>k r. getJobRecord e k = Some r \<longrightarrow> TenantId k = tenant \<longrightarrow> rc_CellID (jr_cell r) = cid \<longrightarrow> jr_archived r \<noteq> None)"

text \<open>A record as it is when its job is published.\<close>

definition fresh_record :: "jobRecord \<Rightarrow> bool" where
  "fresh_record r \<longleftrightarrow> jr_archived r = None \<and> \<not> jr_cancelled r \<and> \<not> jr_leased r \<and> jr_leaseID r = [] \<and> jr_consecutiveExpirations r = 0
     \<and> jr_status r \<notin> {JobStatusCompleted, JobStatusCancelled} \<and> rc_CellID (jr_cell r) = [] \<and> jr_dependencyWaitID r = []"

definition contiguous :: "(int \<times> Chapter) list \<Rightarrow> bool" where
  "contiguous cs \<longleftrightarrow> map fst cs = map int [0..<length cs]"

text \<open>An archived schedule stays archived, and is never paused for its cell's repository afterwards.\<close>

definition schedule_le :: "toyScheduleRecord \<Rightarrow> toyScheduleRecord \<Rightarrow> bool" where
  "schedule_le s s' \<longleftrightarrow>
     (si_State s = ScheduleStateArchived \<longrightarrow> si_State s' = ScheduleStateArchived \<and> si_PauseReason s' = si_PauseReason s)"

definition schedules_le :: "ToyEngine \<Rightarrow> (ScheduleKey \<times> toyScheduleRecord) list \<Rightarrow> bool" where
  "schedules_le e sc \<longleftrightarrow> (\<forall>k s. map_of (te_schedules e) k = Some s \<longrightarrow> (\<exists>s'. map_of sc k = Some s' \<and> schedule_le s s'))"

inductive effect :: "nat \<Rightarrow> instant \<Rightarrow> lease_label \<Rightarrow> ToyEngine \<Rightarrow> ToyEngine \<Rightarrow> bool" for depth now lab e where
  touch: "getJobRecord e k = Some r \<Longrightarrow> rec_step e now lab k r r' \<Longrightarrow> effect depth now lab e (put_job k r' e)"
| reschedule: "getJobRecord e k = Some r \<Longrightarrow> (k, l, w) \<in> snd lab \<Longrightarrow> leaseLive now l w r \<Longrightarrow>
     rescheduleGoals depth now k (jr_dependencyWaitID r) (rr_DependencyWait req) (goal_view e) = Inr u \<Longrightarrow>
     effect depth now lab e (put_job k (rescheduledRecord now value revision task req r) (e\<lparr>te_goals := u\<rparr>))"
| finish: "getJobRecord e k = Some r \<Longrightarrow> ends now r r' \<Longrightarrow>
     effect depth now lab e (fst (completeGoals now depth k (put_job k r' e)))"
| append: "map_of (te_runtimeChapters e) k = Some cs \<Longrightarrow>
     map_of cs n = None \<and> (n = 0 \<or> map_of cs (n - 1) \<noteq> None) \<or> n = int (length cs) \<Longrightarrow>
     effect depth now lab e (put_chapter k cs n ch e)"
| artifact: "effect depth now lab e (put_artifact k n name bytes e)"
| candidate: "Add (memory_engine now depth) areq (goal_view e) = Inr (cand, u) \<Longrightarrow> effect depth now lab e (e\<lparr>te_goals := u\<rparr>)"
| fail: "Fail (memory_engine now depth) freq (goal_view e) = Inr (g, u) \<Longrightarrow> effect depth now lab e (e\<lparr>te_goals := u\<rparr>)"
| publish: "getJobRecord e k = None \<Longrightarrow> map_of (te_preparedGoals e) k = Some p \<Longrightarrow> fresh_record r0 \<Longrightarrow> contiguous cs \<Longrightarrow>
     publishCellLocked now cx k (put_job k r0 e) = Inr (target, cells) \<Longrightarrow>
     r = r0\<lparr>jr_cell := target, jr_goalID := pg_GoalID p, jr_key := k\<rparr> \<Longrightarrow>
     publishedGoals depth now k p r (goal_view (put_job k r e)) = Inr u \<Longrightarrow>
     r' = (if pp_Dependencies (pg_Request p) \<noteq> [] then r\<lparr>jr_dependencyWaitID := ''submission''\<rparr> else r) \<Longrightarrow>
     effect depth now lab e (put_chapters k cs (put_cells (TenantId k) cells (put_job k r' (e\<lparr>te_goals := u\<rparr>))))"
| prepare: "pg_GoalID p \<noteq> [] \<Longrightarrow> pp_Key (pg_Request p) = k \<Longrightarrow>
     effect depth now lab e (e\<lparr>te_preparedGoals := AList.update k p (te_preparedGoals e), te_goalRequests := q\<rparr>)"
| discard: "effect depth now lab e (e\<lparr>te_preparedGoals := AList.delete k (te_preparedGoals e), te_goalRequests := q\<rparr>)"
| cells: "registry_step (cellsLocked e tenant) s \<Longrightarrow>
     (\<And>cid. active_cell (cellsLocked e tenant) cid \<Longrightarrow> active_cell s cid \<or> idle_cell e tenant cid) \<Longrightarrow>
     effect depth now lab e (put_cells tenant s e)"
| schedules: "schedules_le e sc \<Longrightarrow> effect depth now lab e (e\<lparr>te_schedules := sc\<rparr>)"

abbreviation effects :: "nat \<Rightarrow> instant \<Rightarrow> lease_label \<Rightarrow> ToyEngine \<Rightarrow> ToyEngine \<Rightarrow> bool" where
  "effects depth now lab \<equiv> (effect depth now lab)\<^sup>*\<^sup>*"

section \<open>Steps\<close>

text \<open>
  The steps of the runtime.  Generated identifiers are not empty, and those of cells are new in their
  tenant.  The time of a request to change a schedule is the caller's.
\<close>

inductive toy_step :: "runtime_lib \<Rightarrow> nat \<Rightarrow> instant \<Rightarrow> lease_label \<Rightarrow> ToyEngine \<Rightarrow> ToyEngine \<Rightarrow> bool" for lib depth now where
  poll: "(\<And>n. fresh n \<noteq> []) \<Longrightarrow> toy_step lib depth now (range fresh, {}) e (fst (pollAcquire lib ctx matches fresh keys now req e))"
| lease_job: "i \<noteq> [] \<Longrightarrow> toy_step lib depth now ({i}, {}) e (fst (getJobLeaseAcquire lib ctx i now req e))"
| keep_alive: "toy_step lib depth now (presents k l w) e (fst (KeepAliveLeaseByIDWithExpiry now k l w d e))"
| renew_lease: "toy_step lib depth now (presents k l w) e (fst (RenewExecutionLeaseByID lib now k l w d e))"
| upload: "toy_step lib depth now silent e (fst (prepareChapterWrite lib k n ch uploads e))"
| store: "toy_step lib depth now silent e (fst (storeRuntimeChapter k n ch e))"
| end_chapter: "toy_step lib depth now silent e (fst (ensureCompletionChapter lib k schema ch uploads e))"
| complete: "toy_step lib depth now (presents k l w) e (fst (completeFinish lib depth now k l w creq e))"
| complete_failed: "toy_step lib depth now (presents k l w) e (fst (completePayloadFailure depth now k l w ch creq e))"
| reschedule_job: "toy_step lib depth now (presents k l w) e (fst (rescheduleLease lib depth now k l w rreq e))"
| task_look: "toy_step lib depth now silent e (fst (taskSnapshot now treq e))"
| task_done: "toy_step lib depth now silent e (fst (taskPublish depth now k to_type payload route wait ch pending failure e))"
| prepare_job: "newGoal \<noteq> [] \<Longrightarrow> toy_step lib depth now silent e (fst (PrepareJob lib now cx newKey newGoal preq e))"
| discard_job: "toy_step lib depth now silent e (DiscardJobPreparation k e)"
| publish_job: "toy_step lib depth now silent e (fst (insertJob depth now cx k sb e))"
| cancel_job: "toy_step lib depth now silent e (fst (CancelJob depth now k reason e))"
| clear_concern: "toy_step lib depth now silent e (fst (ClearCrashConcern now k e))"
| delete_jobs: "toy_step lib depth now silent e (fst (DeleteJobs depth now matches keys dreq e))"
| add_candidate: "toy_step lib depth now silent e (fst (AddGoalCandidate depth now areq e))"
| fail_goal: "toy_step lib depth now silent e (fst (FailGoal depth now freq e))"
| new_cell: "newID \<notin> fst ` set (cs_Cells (cellsLocked e (cr_TenantID cellreq))) \<Longrightarrow>
     toy_step lib depth now silent e (fst (CreateCell js ctx newID newRev now cellreq e))"
| new_lease_cell: "newID \<notin> fst ` set (cs_Cells (cellsLocked e (TenantId (lp_JobKey p)))) \<Longrightarrow>
     toy_step lib depth now silent e (fst (CreateCellWithLeaseByID js quote newID newRev now p cellreq e))"
| change_cell: "toy_step lib depth now silent e (fst (UpdateCell js ctx newRev now upreq e))"
| retire: "toy_step lib depth now silent e (fst (RetireCell ctx newRev now gkeys retreq e))"
| materialize: "toy_step lib depth now silent e (fst (materializeTaskData lib k n arts e))"
| publish_restart: "int64 (rj_LastStepToKeep rj) \<Longrightarrow> toy_step lib depth now silent e (fst (insertRestart lib rl depth now cx k rj e))"
| store_schedule: "toy_step lib depth now silent e (fst (storeSchedule lib sl ctx requested ureq target nextFireAt e))"
| mutate_schedule: "toy_step lib depth now silent e (fst (mutateScheduleState sl ctx requested mreq state e))"
| publish_occurrence: "toy_step lib depth now silent e (fst (insertOccurrence depth now cx k sb previous e))"

text \<open>A run from one clock and state to another, with the lease identifiers generated on the way.\<close>

inductive toy_run :: "runtime_lib \<Rightarrow> nat \<Rightarrow> instant \<Rightarrow> ToyEngine \<Rightarrow> gostring set \<Rightarrow> instant \<Rightarrow> ToyEngine \<Rightarrow> bool" for lib depth t0 e0 where
  begin_run: "toy_run lib depth t0 e0 {} t0 e0"
| then_step: "toy_run lib depth t0 e0 ids t e \<Longrightarrow> t \<le> now \<Longrightarrow> toy_step lib depth now new e e' \<Longrightarrow> toy_run lib depth t0 e0 (ids \<union> fst new) now e'"

definition NewToyEngine :: "(gostring \<Rightarrow> gostring) \<Rightarrow> ToyEngine" where
  "NewToyEngine cursorKeys =
     \<lparr>te_cells = [], te_cursorKeys = cursorKeys, te_goals = NewMemory (tableLookup []) (tablePrimary []), te_preparedGoals = [],
      te_goalRequests = Map.empty, te_jobRecords = [], te_schedules = [], te_runtimeChapters = [], te_runtimeArtifacts = Map.empty\<rparr>"

end
