(* ===== verification/Toy_Records.thy ===== *)
theory Toy_Records
  imports Toy_Steps
begin

text \<open>
  What one record of the in-process runtime says: how status, lease and archive time hang together,
  and that every step on a record keeps it so.
\<close>

definition record_ok :: "JobKey \<Rightarrow> jobRecord \<Rightarrow> bool" where
  "record_ok k r \<longleftrightarrow> jr_key r = k \<and> jr_goalID r \<noteq> []
     \<and> (jr_leased r \<longrightarrow> jr_leaseID r \<noteq> [] \<and> jr_status r = JobStatusActive)
     \<and> (jr_cancelled r \<longrightarrow> jr_archived r \<noteq> None)
     \<and> (jr_archived r \<noteq> None \<longleftrightarrow> jr_status r = JobStatusCompleted \<or> jr_status r = JobStatusCancelled)
     \<and> 0 \<le> jr_consecutiveExpirations r \<and> jr_consecutiveExpirations r \<le> DefaultThreshold
     \<and> (jr_archived r = None \<longrightarrow> \<not> jr_leased r \<longrightarrow> jr_leaseID r \<noteq> [] \<longrightarrow> jr_consecutiveExpirations r = DefaultThreshold \<longrightarrow>
          jr_status r = JobStatusCrashConcern)"

section \<open>The scheduling status\<close>

lemma legacyStatus_other:
  "s \<noteq> JobStatusAwaitingFuture \<Longrightarrow> s \<noteq> JobStatusPendingJobs \<Longrightarrow> legacyStatus e tenant now r s = Inr s"
  by (simp add: legacyStatus_def)

lemma legacyStatus_live:
  assumes "legacyStatus e tenant now r s = Inr s'" and "s \<noteq> JobStatusCompleted" "s \<noteq> JobStatusCancelled"
  shows "s' \<noteq> JobStatusCompleted" "s' \<noteq> JobStatusCancelled"
  using assms by (auto simp: legacyStatus_def Let_def rbind_Inr_iff split: if_split_asm)

definition lapsed :: "instant \<Rightarrow> jobRecord \<Rightarrow> bool" where
  "lapsed now r \<longleftrightarrow> jr_leased r \<and> \<not> now < jr_leaseExpiresAt r \<and> jr_archived r = None \<and> \<not> jr_cancelled r"

lemma advance_fields:
  assumes "advanceRecordStateLocked e tenant now r = Inr r'"
  shows "jr_key r' = jr_key r" "jr_goalID r' = jr_goalID r" "jr_archived r' = jr_archived r" "jr_cancelled r' = jr_cancelled r"
    "jr_completionStatus r' = jr_completionStatus r" "jr_createdAt r' = jr_createdAt r" "jr_leaseID r' = jr_leaseID r"
    "jr_leaseWorkerID r' = jr_leaseWorkerID r" "jr_leaseExpiresAt r' = jr_leaseExpiresAt r"
    "jr_consecutiveExpirations r' = jr_consecutiveExpirations r" "jr_dependencyWaitID r' = jr_dependencyWaitID r"
    "jr_cell r' = jr_cell r" "jr_completionDetail r' = jr_completionDetail r" "jr_hidden r' = jr_hidden r"
    "jr_leased r' = (jr_leased r \<and> \<not> lapsed now r)"
    "availableStatusLocked e tenant now r = Inr (jr_status r')"
proof -
  define a b where "a = lapsed now r" and "b s = (jr_status r = JobStatusPendingJobs \<and> s \<noteq> JobStatusPendingJobs)" for s
  obtain s where s: "availableStatusLocked e tenant now r = Inr s"
    and r': "r' = (if b s then (if a then r\<lparr>jr_leased := False\<rparr> else r)\<lparr>jr_waitDeadline := zero_time, jr_waitFor := []\<rparr>
                   else (if a then r\<lparr>jr_leased := False\<rparr> else r))\<lparr>jr_status := s\<rparr>"
    using assms unfolding advanceRecordStateLocked_def rbind_Inr_iff Let_def a_def b_def lapsed_def sum.inject by blast
  show "jr_key r' = jr_key r" "jr_goalID r' = jr_goalID r" "jr_archived r' = jr_archived r" "jr_cancelled r' = jr_cancelled r"
    "jr_completionStatus r' = jr_completionStatus r" "jr_createdAt r' = jr_createdAt r" "jr_leaseID r' = jr_leaseID r"
    "jr_leaseWorkerID r' = jr_leaseWorkerID r" "jr_leaseExpiresAt r' = jr_leaseExpiresAt r"
    "jr_consecutiveExpirations r' = jr_consecutiveExpirations r" "jr_dependencyWaitID r' = jr_dependencyWaitID r"
    "jr_cell r' = jr_cell r" "jr_completionDetail r' = jr_completionDetail r" "jr_hidden r' = jr_hidden r"
    by (cases a; cases "b s"; simp add: r')+
  show "jr_leased r' = (jr_leased r \<and> \<not> lapsed now r)" by (cases a; cases "b s"; simp add: r' a_def; simp add: lapsed_def)
  show "availableStatusLocked e tenant now r = Inr (jr_status r')" by (simp add: s r')
qed

text \<open>The status a record advances to, case by case.\<close>

lemma advance_status:
  assumes "advanceRecordStateLocked e tenant now r = Inr r'" and "record_ok k r"
  obtains (final) "jr_archived r \<noteq> None" "\<not> jr_leased r" "jr_status r' = jr_status r"
  | (held) "jr_archived r = None" "jr_leased r" "\<not> lapsed now r" "jr_status r' = JobStatusActive"
  | (blocked) "jr_archived r = None" "\<not> jr_leased r'" "dependencyReadyLocked e now r \<noteq> Inr True" "jr_status r' = JobStatusPendingJobs"
  | (expired) "lapsed now r" "dependencyReadyLocked e now r = Inr True"
      "jr_status r' = (if jr_consecutiveExpirations r \<ge> DefaultThreshold then JobStatusCrashConcern else JobStatusReady)"
  | (free) "jr_archived r = None" "\<not> jr_leased r" "dependencyReadyLocked e now r = Inr True"
      "jr_status r' \<noteq> JobStatusCompleted" "jr_status r' \<noteq> JobStatusCancelled"
      "jr_status r = JobStatusCrashConcern \<longrightarrow> jr_status r' = JobStatusCrashConcern"
proof -
  note f = advance_fields[OF assms(1)] and ok = assms(2)[unfolded record_ok_def]
  note av = f(16)[unfolded availableStatusLocked_def Let_def]
  consider "jr_archived r \<noteq> None" | "jr_archived r = None" "jr_leased r" "now < jr_leaseExpiresAt r"
    | "jr_archived r = None" "\<not> (jr_leased r \<and> now < jr_leaseExpiresAt r)" by blast
  then show thesis
  proof cases
    case 1
    then have "\<not> jr_leased r" "currentStatus now r = jr_status r" using ok by (auto simp: currentStatus_def)
    moreover have "legacyStatus e tenant now r (jr_status r) = Inr (jr_status r)"
      using 1 ok by (intro legacyStatus_other) auto
    ultimately show ?thesis using av 1 final by simp
  next
    case 2
    then have "\<not> lapsed now r" "currentStatus now r = JobStatusActive" using ok by (auto simp: currentStatus_def lapsed_def)
    then show ?thesis using av 2 held by (simp add: legacyStatus_other)
  next
    case 3
    then have c: "\<not> jr_cancelled r" using ok by auto
    then have l: "\<not> jr_leased r'" using 3 f(15) by (auto simp: lapsed_def)
    show ?thesis
    proof (cases "dependencyReadyLocked e now r = Inr True")
      case False
      then show ?thesis using av 3 c l blocked by simp
    next
      case ready: True
      then have av': "legacyStatus e tenant now r (if jr_dependencyWaitID r \<noteq> [] \<and> currentStatus now r = JobStatusPendingJobs
          then JobStatusReady else currentStatus now r) = Inr (jr_status r')"
        using av 3 c by simp
      show ?thesis
      proof (cases "jr_leased r")
        case True
        then have "lapsed now r" using 3 c by (simp add: lapsed_def)
        moreover from this have "currentStatus now r = (if jr_consecutiveExpirations r \<ge> DefaultThreshold then JobStatusCrashConcern else JobStatusReady)"
          by (simp add: currentStatus_def lapsed_def)
        ultimately show ?thesis using av' ready expired by (simp add: legacyStatus_other split: if_splits)
      next
        case False
        then have cur: "currentStatus now r = jr_status r" by (simp add: currentStatus_def)
        have s: "jr_status r \<noteq> JobStatusCompleted" "jr_status r \<noteq> JobStatusCancelled" using ok 3(1) by auto
        note live = legacyStatus_live[OF av'[unfolded cur]]
        have "jr_status r = JobStatusCrashConcern \<longrightarrow> jr_status r' = JobStatusCrashConcern"
          using av' by (auto simp: cur legacyStatus_other)
        then show ?thesis using free 3(1) False ready live s by (simp split: if_splits)
      qed
    qed
  qed
qed

section \<open>Steps of a record\<close>

lemma advance_ok:
  assumes "advanceRecordStateLocked e tenant now r = Inr r'" and "record_ok k r"
    and "jr_leaseID r \<noteq> [] \<Longrightarrow> dependencyReadyLocked e now r = Inr True"
  shows "record_ok k r'"
proof -
  note f = advance_fields[OF assms(1)] and ok = assms(2)[unfolded record_ok_def]
  from assms(1,2) show ?thesis
  proof (cases rule: advance_status)
    case final then show ?thesis using ok by (simp add: record_ok_def f)
  next
    case held then show ?thesis using ok by (simp add: record_ok_def f)
  next
    case blocked
    then have "jr_leaseID r = []" using assms(3) by blast
    then show ?thesis using ok blocked by (simp add: record_ok_def f)
  next
    case expired
    then have "jr_leased r" "jr_archived r = None" by (simp_all add: lapsed_def)
    then show ?thesis using ok expired by (simp add: record_ok_def f)
  next
    case free then show ?thesis using ok by (simp add: record_ok_def f)
  qed
qed

lemma advance_ready:
  assumes "advanceRecordStateLocked e tenant now r = Inr r'" and "record_ok k r" and "jr_status r' = JobStatusReady"
  shows "jr_archived r = None" "\<not> jr_leased r'" "dependencyReadyLocked e now r = Inr True"
proof -
  note f = advance_fields[OF assms(1)] and ok = assms(2)[unfolded record_ok_def]
  from assms(1,2) have "jr_archived r = None \<and> \<not> jr_leased r' \<and> dependencyReadyLocked e now r = Inr True"
    by (cases rule: advance_status) (use assms(3) ok in \<open>auto simp: f lapsed_def\<close>)
  then show "jr_archived r = None" "\<not> jr_leased r'" "dependencyReadyLocked e now r = Inr True" by simp_all
qed

lemma acquireRecord_fields [simp]:
  "jr_key (acquireRecord now i w d r) = jr_key r" "jr_goalID (acquireRecord now i w d r) = jr_goalID r"
  "jr_archived (acquireRecord now i w d r) = jr_archived r" "jr_cancelled (acquireRecord now i w d r) = jr_cancelled r"
  "jr_completionStatus (acquireRecord now i w d r) = jr_completionStatus r" "jr_createdAt (acquireRecord now i w d r) = jr_createdAt r"
  "jr_cell (acquireRecord now i w d r) = jr_cell r" "jr_dependencyWaitID (acquireRecord now i w d r) = jr_dependencyWaitID r"
  "jr_completionDetail (acquireRecord now i w d r) = jr_completionDetail r" "jr_hidden (acquireRecord now i w d r) = jr_hidden r"
  "jr_leaseID (acquireRecord now i w d r) = i" "jr_leased (acquireRecord now i w d r)" "jr_leaseWorkerID (acquireRecord now i w d r) = w"
  "jr_status (acquireRecord now i w d r) = JobStatusActive" "jr_leaseExpiresAt (acquireRecord now i w d r) = now + toyLeaseDurationOrDefault d"
  "jr_consecutiveExpirations (acquireRecord now i w d r) = (if jr_leaseID r \<noteq> [] then wrap64 (jr_consecutiveExpirations r + 1) else 0)"
  by (simp_all add: acquireRecord_def split: option.split)

lemma acquire_ok:
  assumes "record_ok k r" and "\<not> jr_leased r" and "jr_status r = JobStatusReady" and "i \<noteq> []"
  shows "record_ok k (acquireRecord now i w d r)"
proof -
  note ok = assms(1)[unfolded record_ok_def]
  have a: "jr_archived r = None" using ok assms(3) by auto
  then have n: "jr_leaseID r \<noteq> [] \<longrightarrow> jr_consecutiveExpirations r < DefaultThreshold" using ok assms(2,3) by force
  have "jr_leaseID r \<noteq> [] \<longrightarrow> wrap64 (jr_consecutiveExpirations r + 1) = jr_consecutiveExpirations r + 1"
    using n ok by (auto intro!: wrap64_id simp: int64_def DefaultThreshold_def)
  then show ?thesis using ok a n assms(4) by (auto simp: record_ok_def DefaultThreshold_def)
qed

text \<open>What a step on a record leaves alone.\<close>

lemma rec_step_fields:
  assumes "rec_step e now lab k r r'"
  shows "jr_key r' = jr_key r" "jr_goalID r' = jr_goalID r" "jr_archived r' = jr_archived r" "jr_cancelled r' = jr_cancelled r"
    "jr_completionStatus r' = jr_completionStatus r" "jr_completionDetail r' = jr_completionDetail r" "jr_createdAt r' = jr_createdAt r"
    "jr_dependencyWaitID r' = jr_dependencyWaitID r" "jr_cell r' = jr_cell r" "jr_hidden r' = jr_hidden r"
  using assms by (cases; simp add: advance_fields clearedRecord_def resumedRecord_def)+

lemma rec_step_job: "rec_step e now lab k r r' \<Longrightarrow> goalJob k r' = goalJob k r"
  by (simp add: goalJob_def rec_step_fields)

lemma rec_step_ok:
  assumes "rec_step e now lab k r r'" and "record_ok k r"
    and "jr_leaseID r \<noteq> [] \<Longrightarrow> dependencyReadyLocked e now r = Inr True"
  shows "record_ok k r'"
  using assms(1)
proof cases
  case advance then show ?thesis using advance_ok assms(2,3) by blast
next
  case (acquire i w d) then show ?thesis using acquire_ok assms(2) by simp
next
  case (renew l w x) then show ?thesis using assms(2) by (auto simp: record_ok_def)
next
  case clear then show ?thesis using assms(2) by (auto simp: record_ok_def clearedRecord_def DefaultThreshold_def)
next
  case (resume to_type payload wait) then show ?thesis using assms(2) by (auto simp add: record_ok_def resumedRecord_def DefaultThreshold_def)
qed

lemma rec_step_ready:
  assumes "rec_step e now lab k r r'" and "jr_leaseID r \<noteq> [] \<Longrightarrow> dependencyReadyLocked e now r = Inr True" and "jr_leaseID r' \<noteq> []"
  shows "dependencyReadyLocked e now r = Inr True"
  using assms(1) by cases (use assms(2,3) in \<open>simp_all add: advance_fields clearedRecord_def resumedRecord_def\<close>)

section \<open>The end of a job\<close>

lemma ends_fields:
  assumes "ends now r r'"
  shows "jr_key r' = jr_key r" "jr_goalID r' = jr_goalID r" "jr_createdAt r' = jr_createdAt r" "jr_cell r' = jr_cell r"
    "jr_dependencyWaitID r' = jr_dependencyWaitID r" "jr_archived r' \<noteq> None" "jr_leaseID r' = [] \<or> jr_leaseID r' = jr_leaseID r"
  using assms by (cases; simp add: completedRecord_def payloadFailedRecord_def taskFailedRecord_def cancelledRecord_def deletedRecord_def Let_def)+

lemma ends_archives: "ends now r r' \<Longrightarrow> archives k r r'"
  by (simp add: archives_def ends_fields)

lemma ends_ok: "ends now r r' \<Longrightarrow> record_ok k r \<Longrightarrow> record_ok k r'"
  by (erule ends.cases)
     (auto simp: record_ok_def completedRecord_def payloadFailedRecord_def taskFailedRecord_def cancelledRecord_def deletedRecord_def Let_def)

lemma reschedule_ok: "leaseLive now l w r \<Longrightarrow> record_ok k r \<Longrightarrow> record_ok k (rescheduledRecord now value revision task req r)"
  by (simp add: record_ok_def leaseLive_def rescheduledRecord_def Let_def DefaultThreshold_def)

lemma rescheduled_fields [simp]:
  "jr_key (rescheduledRecord now value revision task req r) = jr_key r" "jr_goalID (rescheduledRecord now value revision task req r) = jr_goalID r"
  "jr_archived (rescheduledRecord now value revision task req r) = jr_archived r" "jr_cancelled (rescheduledRecord now value revision task req r) = jr_cancelled r"
  "jr_completionStatus (rescheduledRecord now value revision task req r) = jr_completionStatus r"
  "jr_createdAt (rescheduledRecord now value revision task req r) = jr_createdAt r" "jr_cell (rescheduledRecord now value revision task req r) = jr_cell r"
  "jr_leaseID (rescheduledRecord now value revision task req r) = []" "jr_leased (rescheduledRecord now value revision task req r) = False"
  by (simp_all add: rescheduledRecord_def Let_def)

lemma newRecord_fresh: "fresh_record (newRecord now sb)"
  by (simp add: fresh_record_def newRecord_def Let_def)

lemma occurrenceRecord_fresh: "fresh_record (occurrenceRecord now sb previous)"
  by (simp add: fresh_record_def occurrenceRecord_def newRecord_def Let_def)

end
