(* ===== verification/Toy_Invariants.thy ===== *)
theory Toy_Invariants
  imports Toy_Records
begin

text \<open>
  The invariants of the runtime, one per table, and that every effect keeps them.  Goal rows: healthy
  and without dependency cycles.  Records: consistent, ready if they were ever leased, and
  waiting on rows that exist.  Chapters:
  numbered from zero without gaps.  Cells: a live job's cell is active.
\<close>

section \<open>Goal rows\<close>

definition goals_ok :: "instant \<Rightarrow> ToyEngine \<Rightarrow> bool" where
  "goals_ok now e \<longleftrightarrow> table_distinct e \<and> healthy (goal_view e) \<and> no_cycles memory_store now (goal_view e)"

lemma goals_ok_cong:
  assumes "te_jobRecords e' = te_jobRecords e" and "te_goals e' = te_goals e"
  shows "goals_ok now e' = goals_ok now e"
  using assms by (simp add: goals_ok_def table_distinct_def goal_view_def goal_table_def)

lemma goals_ok_more [simp]:
  "goals_ok now (e\<lparr>te_runtimeChapters := c\<rparr>) = goals_ok now e" "goals_ok now (e\<lparr>te_runtimeArtifacts := a\<rparr>) = goals_ok now e"
  "goals_ok now (e\<lparr>te_cells := cs\<rparr>) = goals_ok now e" "goals_ok now (e\<lparr>te_schedules := sc\<rparr>) = goals_ok now e"
  "goals_ok now (e\<lparr>te_preparedGoals := pg\<rparr>) = goals_ok now e" "goals_ok now (e\<lparr>te_goalRequests := gr\<rparr>) = goals_ok now e"
  by (simp_all add: goals_ok_def)

lemma goals_ok_later: "goals_ok t e \<Longrightarrow> t \<le> now \<Longrightarrow> goals_ok now e"
  by (simp add: goals_ok_def) (rule no_cycles_mono[OF _ time_edges], auto)

lemma goals_ok_commit:
  assumes "table_distinct e" and "healthy u" and "LookupJob u = LookupJob (goal_view e)" and "no_cycles memory_store now u"
  shows "goals_ok now (e\<lparr>te_goals := u\<rparr>)"
  using view_healthy[OF assms(1-3)] assms(1,4) by (simp add: goals_ok_def view_commit[OF assms(3)] no_cycles_def)

lemma reschedule_goals:
  assumes "rescheduleGoals depth now k old wait s = Inr u" and "healthy s" and "no_cycles memory_store now s"
  shows "healthy u" "LookupJob u = LookupJob s" "no_cycles memory_store now u" "waits_le s u"
proof -
  obtain t where t: "(if old \<noteq> [] \<and> map_option dw_WaitID wait \<noteq> Some old
            then CloseConsumer (memory_engine now depth) k s else Inr s) = Inr t"
    and u: "u = t \<or> (\<exists>w req. Register (memory_engine now depth) k req False t = Inr (w, u))"
    using assms(1) unfolding rescheduleGoals_def rbind_Inr_iff
    by (elim exE conjE) (rule that, assumption, auto simp: rbind_Inr_iff split: option.splits)
  have i: "memory_inv s" using assms(2) by (simp add: healthy_def)
  have t': "healthy t \<and> LookupJob t = LookupJob s \<and> no_cycles memory_store now t \<and> waits_le s t"
  proof (cases "old \<noteq> [] \<and> map_option dw_WaitID wait \<noteq> Some old")
    case True
    then have c: "CloseConsumer (memory_engine now depth) k s = Inr t" using t by simp
    note f = me.CloseConsumer_advances[OF c i]
    have "no_cycles memory_store now t" by (rule no_cycles_mono[OF assms(3) shrinks_edges[OF advances_shrinks[OF f(2)]]])
    moreover have "waits_le s t" by (rule evolves_waits_le[OF advances_evolves[OF f(2)]])
    ultimately show ?thesis using CloseConsumer_healthy[OF c assms(2)] by simp
  next
    case False
    have "t = s" using t unfolding if_not_P[OF False] by simp
    then show ?thesis using assms(2,3) by simp
  qed
  from u have "healthy u \<and> LookupJob u = LookupJob t \<and> no_cycles memory_store now u \<and> waits_le t u"
  proof
    assume "u = t" then show ?thesis using t' by simp
  next
    assume "\<exists>w req. Register (memory_engine now depth) k req False t = Inr (w, u)"
    then obtain w req where r: "Register (memory_engine now depth) k req False t = Inr (w, u)" by blast
    have it: "memory_inv t" using t' by (simp add: healthy_def)
    have "no_cycles memory_store now u" using me.Register_no_cycles[OF r it] t' by simp
    moreover have "waits_le t u" using me.Register_step(2)[OF r it] evolves_waits_le by (simp add: keeps_def)
    ultimately show ?thesis using Register_healthy[OF r] t' by simp
  qed
  then show "healthy u" "LookupJob u = LookupJob s" "no_cycles memory_store now u" "waits_le s u"
    using t' waits_le_trans by auto
qed

lemma Register_saved:
  assumes "Register (memory_engine now depth) k req sub s = Inr (w, u)" and "memory_inv s"
  shows "\<exists>w'. Memory_Wait u (DependencyWaitKey k (dw_WaitID req)) = Inr w'"
  using assms(1)
proof (cases rule: me.Register_cases)
  case (existing old)
  have "wait_key old = DependencyWaitKey k (dw_WaitID req)" using mem.wait_at_key[OF assms(2) existing(1)] .
  then have "wait_key w = DependencyWaitKey k (dw_WaitID req)" using Evaluate_le[OF existing(3)] by (simp add: wait_le_def)
  then show ?thesis using mem.save_wait_wait[OF assms(2), of w u "wait_key w"] existing(4) by simp
next
  case (fresh ds w0)
  have "wait_key w = DependencyWaitKey k (dw_WaitID req)" using Evaluate_le[OF fresh(4)] fresh(3) by (simp add: wait_le_def wait_key_def)
  then show ?thesis using mem.save_wait_wait[OF assms(2), of w u "wait_key w"] fresh(5) by simp
qed

lemma reschedule_saved:
  assumes "rescheduleGoals depth now k old (Some wait) s = Inr u" and "healthy s"
  shows "\<exists>w. Memory_Wait u (DependencyWaitKey k (dw_WaitID wait)) = Inr w"
proof -
  obtain t w where t: "(if old \<noteq> [] \<and> map_option dw_WaitID (Some wait) \<noteq> Some old
            then CloseConsumer (memory_engine now depth) k s else Inr s) = Inr t"
    and u: "Register (memory_engine now depth) k wait False t = Inr (w, u)"
    using assms(1) unfolding rescheduleGoals_def rbind_Inr_iff by (auto simp: rbind_Inr_iff)
  have "healthy t" using t assms(2) CloseConsumer_healthy(1)[of now depth k s t] by (simp split: if_split_asm)
  then show ?thesis using Register_saved[OF u] by (simp add: healthy_def)
qed

lemma waits_le_view [simp]: "waits_le (goal_view e) u = waits_le (te_goals e) u" "waits_le s (goal_view e) = waits_le s (te_goals e)"
  by (simp_all add: waits_le_def)

lemma keeps_waits_le: "keeps memory_store s u \<Longrightarrow> waits_le s u"
  using evolves_waits_le by (simp add: keeps_def)

section \<open>The other tables\<close>

definition records_ok :: "ToyEngine \<Rightarrow> bool" where
  "records_ok e \<longleftrightarrow> (\<forall>k r. getJobRecord e k = Some r \<longrightarrow> record_ok k r)"

definition ready_ok :: "instant \<Rightarrow> ToyEngine \<Rightarrow> bool" where
  "ready_ok now e \<longleftrightarrow> (\<forall>k r. getJobRecord e k = Some r \<longrightarrow> jr_leaseID r \<noteq> [] \<longrightarrow> dependencyReadyLocked e now r = Inr True)"

definition waiting_ok :: "ToyEngine \<Rightarrow> bool" where
  "waiting_ok e \<longleftrightarrow> (\<forall>k r. getJobRecord e k = Some r \<longrightarrow> jr_dependencyWaitID r \<noteq> [] \<longrightarrow>
     (\<exists>w. Memory_Wait (te_goals e) (DependencyWaitKey k (jr_dependencyWaitID r)) = Inr w))"

definition chapter_rows_ok :: "ToyEngine \<Rightarrow> bool" where
  "chapter_rows_ok e \<longleftrightarrow> dom (map_of (te_runtimeChapters e)) = dom (getJobRecord e)
     \<and> (\<forall>k cs. map_of (te_runtimeChapters e) k = Some cs \<longrightarrow> contiguous cs)"

definition cells_ok :: "ToyEngine \<Rightarrow> bool" where
  "cells_ok e \<longleftrightarrow> (\<forall>tenant. registry_ok (cellsLocked e tenant))
     \<and> (\<forall>k r. getJobRecord e k = Some r \<longrightarrow> jr_archived r = None \<longrightarrow> active_cell (cellsLocked e (TenantId k)) (rc_CellID (jr_cell r)))"

definition prepared_ok :: "ToyEngine \<Rightarrow> bool" where
  "prepared_ok e \<longleftrightarrow> (\<forall>k p. map_of (te_preparedGoals e) k = Some p \<longrightarrow> pg_GoalID p \<noteq> [] \<and> pp_Key (pg_Request p) = k)"

definition toy_inv :: "instant \<Rightarrow> ToyEngine \<Rightarrow> bool" where
  "toy_inv now e \<longleftrightarrow> goals_ok now e \<and> records_ok e \<and> ready_ok now e \<and> waiting_ok e \<and> chapter_rows_ok e \<and> cells_ok e \<and> prepared_ok e"

text \<open>Readiness of a job is never lost: settled waits stay settled and passed deadlines stay passed.\<close>

lemma ready_mono:
  assumes "dependencyReadyLocked e t r = Inr True" and "waits_le (te_goals e) (te_goals e')" and "t \<le> now"
    and "jr_key r' = jr_key r" "jr_dependencyWaitID r' = jr_dependencyWaitID r"
  shows "dependencyReadyLocked e' now r' = Inr True"
proof (cases "jr_dependencyWaitID r = []")
  case True then show ?thesis using assms(5) by (simp add: dependencyReadyLocked_def)
next
  case False
  let ?k = "DependencyWaitKey (jr_key r) (jr_dependencyWaitID r)"
  from False assms(1) obtain w where w: "Memory_Wait (te_goals e) ?k = Inr w" "w_State w \<noteq> DependencyPending \<or> expired t w"
    by (auto simp: dependencyReadyLocked_def rbind_Inr_iff)
  then obtain w' where w': "Memory_Wait (te_goals e') ?k = Inr w'" "wait_le w w'" using assms(2) by (auto simp: waits_le_def)
  then have "w_State w' \<noteq> DependencyPending \<or> expired now w'"
    using w(2) expired_mono[OF assms(3)] wait_le_expired[OF w'(2)] by (auto simp: wait_le_def)
  then show ?thesis using w'(1) False assms(4,5) by (simp add: dependencyReadyLocked_def)
qed

lemma ready_view [simp]:
  "dependencyReadyLocked (put_job k r' e) = dependencyReadyLocked e"
  by (simp add: dependencyReadyLocked_def fun_eq_iff)

lemma ready_ok_later: "ready_ok t e \<Longrightarrow> t \<le> now \<Longrightarrow> ready_ok now e"
  unfolding ready_ok_def using ready_mono[OF _ waits_le_refl] by blast

lemma toy_inv_later: "toy_inv t e \<Longrightarrow> t \<le> now \<Longrightarrow> toy_inv now e"
  unfolding toy_inv_def using goals_ok_later ready_ok_later by blast

lemma no_waits:
  assumes "\<And>k w. Memory_Wait s k \<noteq> Inr w" and "\<And>k g. Memory_Goal s k \<noteq> Inr g"
  shows "wf_waits memory_store s" "stale memory_store s = {}" "waits_refs s" "no_cycles memory_store now s"
proof -
  have "dep_edges memory_store now s tenant = {}" for tenant
    using assms by (auto simp: dep_edges_def goal_edge_def job_edge_def split: if_splits)
  then show "no_cycles memory_store now s" by (simp add: no_cycles_def acyclic_def)
qed (use assms in \<open>auto simp: wf_waits_def stale_def waits_refs_def\<close>)

lemma toy_inv_start: "toy_inv now (NewToyEngine keys)"
proof -
  let ?e = "NewToyEngine keys"
  have n: "te_jobRecords ?e = []" "getJobRecord ?e k = None" for k by (simp_all add: NewToyEngine_def getJobRecord_def)
  have g: "Memory_Wait (goal_view ?e) k \<noteq> Inr w" "Memory_Goal (goal_view ?e) gk \<noteq> Inr gi" for k w gk gi
    by (simp_all add: NewToyEngine_def NewMemory_def Memory_Wait_def Memory_Goal_def)
  have "rows_ok (te_goals ?e)" by (simp add: rows_ok_def NewToyEngine_def NewMemory_def)
  then have "memory_inv (goal_view ?e)" by (intro view_inv) (simp_all add: table_distinct_def n)
  moreover have "refs_ok (goal_view ?e)"
    using no_waits(3)[OF g] by (simp add: refs_ok_def extras_ok_def goals_refs_view n) (simp add: NewToyEngine_def NewMemory_def)
  ultimately have "goals_ok now ?e" using no_waits[OF g] by (simp add: goals_ok_def table_distinct_def n healthy_def)
  then show ?thesis
    by (simp add: toy_inv_def records_ok_def ready_ok_def waiting_ok_def chapter_rows_ok_def cells_ok_def prepared_ok_def n)
       (simp add: cellsLocked_def NewToyEngine_def NewRegistry_ok dom_def getJobRecord_def)
qed

end
