(* ===== verification/Toy_Effects.thy ===== *)
theory Toy_Effects
  imports Toy_Invariants
begin

text \<open>Every effect on the runtime keeps its invariants, table by table.\<close>

section \<open>Goal rows\<close>

lemma update_twice: "AList.update k v' (AList.update k v al) = AList.update k v' al"
  by (induction al) auto

lemma goals_ok_touch:
  assumes "goals_ok now e" and "getJobRecord e k = Some r" and "goalJob k r' = goalJob k r"
  shows "goals_ok now (put_job k r' e)"
  using assms by (simp add: goals_ok_def view_same)

lemma publish_goals:
  assumes "goals_ok now e" and "getJobRecord e k = None" and "pg_GoalID p \<noteq> []" and "jr_goalID r = pg_GoalID p"
    and "jr_archived r = None" "\<not> jr_cancelled r"
    and "publishedGoals depth now k p r (goal_view (put_job k r e)) = Inr u" and "goalJob k r' = goalJob k r"
  shows "goals_ok now (put_job k r' (e\<lparr>te_goals := u\<rparr>))" "waits_le (te_goals e) u"
proof -
  have g: "table_distinct e" "healthy (goal_view e)" "no_cycles memory_store now (goal_view e)"
    using assms(1) by (simp_all add: goals_ok_def)
  have a: "adds_job e k r (put_job k r e)" using assms(2,5,6) g(1) by (simp add: adds_job_def)
  note h = publishedGoals_healthy[OF assms(7) a g(2) assms(4)]
  have n: "no_cycles memory_store now u" by (rule publishedGoals_no_cycles[OF assms(7) a g(2) assms(4,3) g(3)])
  have "goals_ok now ((put_job k r e)\<lparr>te_goals := u\<rparr>)"
    by (rule goals_ok_commit[OF _ h(1,2) n]) (simp add: g(1))
  from goals_ok_touch[OF this _ assms(8)] have "goals_ok now (put_job k r' ((put_job k r e)\<lparr>te_goals := u\<rparr>))" by simp
  then show "goals_ok now (put_job k r' (e\<lparr>te_goals := u\<rparr>))"
    by (rule goals_ok_cong[THEN iffD1, rotated 2]) (simp_all add: put_job_def update_twice)
  show "waits_le (te_goals e) u" by (rule h(3))
qed

lemma effect_goals:
  assumes "effect depth now lab e e'" and "toy_inv now e"
  shows "goals_ok now e'" "waits_le (te_goals e) (te_goals e')"
proof -
  have ok: "goals_ok now e" "records_ok e" "prepared_ok e" using assms(2) by (simp_all add: toy_inv_def)
  then have g: "table_distinct e" "healthy (goal_view e)" "no_cycles memory_store now (goal_view e)" "memory_inv (goal_view e)"
    by (simp_all add: goals_ok_def healthy_def)
  from assms(1) have "goals_ok now e' \<and> waits_le (te_goals e) (te_goals e')"
  proof cases
    case (touch k r r')
    then show ?thesis using goals_ok_touch[OF ok(1) touch(2)] rec_step_job by simp
  next
    case (reschedule k r l w req u v vn task)
    note f = reschedule_goals[OF reschedule(5) g(2,3)]
    have "goals_ok now (e\<lparr>te_goals := u\<rparr>)" by (rule goals_ok_commit[OF g(1) f(1-3)])
    from goals_ok_touch[OF this] show ?thesis using reschedule f(4) by (simp add: goalJob_def)
  next
    case (finish k r r')
    from finish_view[OF g(1,2) finish(2) ends_archives[OF finish(3)]] obtain u
      where u: "completeGoals now depth k (put_job k r' e) = ((put_job k r' e)\<lparr>te_goals := u\<rparr>, Inr ())"
      "healthy (goal_view ((put_job k r' e)\<lparr>te_goals := u\<rparr>))" "waits_le (te_goals e) u"
      "\<And>tenant. dep_edges memory_store now (goal_view ((put_job k r' e)\<lparr>te_goals := u\<rparr>)) tenant \<subseteq> dep_edges memory_store now (goal_view e) tenant"
      by blast
    then show ?thesis using finish(1) g(1) no_cycles_mono[OF g(3) u(4)] by (simp add: goals_ok_def)
  next
    case (candidate areq cand u)
    note st = me.Add_step[OF candidate(2) g(4)]
    have "no_cycles memory_store now u" using me.Add_no_cycles[OF candidate(2) g(4)] g(3) by simp
    then show ?thesis
      using goals_ok_commit[OF g(1) Add_healthy[OF candidate(2) g(2)]] candidate(1) keeps_waits_le[OF st(2)] by simp
  next
    case (fail freq gi u)
    note st = me.Fail_step[OF fail(2) g(4)]
    have "no_cycles memory_store now u" by (rule no_cycles_mono[OF g(3) shrinks_edges[OF st(2)]])
    then show ?thesis
      using goals_ok_commit[OF g(1) Fail_healthy[OF fail(2) g(2)]] fail(1) keeps_waits_le[OF st(3)] by simp
  next
    case (publish k p r0 cs cx target cells r u r')
    have "goalJob k r' = goalJob k r" using publish(9) by (simp add: goalJob_def)
    moreover have "pg_GoalID p \<noteq> []" using ok(3) publish(3) by (simp add: prepared_ok_def)
    ultimately have "goals_ok now (put_job k r' (e\<lparr>te_goals := u\<rparr>))" "waits_le (te_goals e) u"
      using publish_goals[OF ok(1) publish(2) _ _ _ _ publish(8)] publish(4,7) by (simp_all add: fresh_record_def)
    then show ?thesis using publish(1) by (simp add: put_chapters_def put_cells_def)
  qed (use ok(1) in \<open>simp_all add: put_chapter_def put_artifact_def put_cells_def\<close>)
  then show "goals_ok now e'" "waits_le (te_goals e) (te_goals e')" by simp_all
qed

section \<open>Jobs\<close>

text \<open>What an effect can do to a job that exists, and what it says about a job it creates.\<close>

inductive job_step :: "ToyEngine \<Rightarrow> instant \<Rightarrow> lease_label \<Rightarrow> JobKey \<Rightarrow> jobRecord \<Rightarrow> jobRecord \<Rightarrow> bool" for e now lab k r where
  same: "job_step e now lab k r r"
| moved: "rec_step e now lab k r r' \<Longrightarrow> job_step e now lab k r r'"
| parked: "(k, l, w) \<in> snd lab \<Longrightarrow> leaseLive now l w r \<Longrightarrow> job_step e now lab k r (rescheduledRecord now v vn task req r)"
| ended: "ends now r r' \<Longrightarrow> job_step e now lab k r r'"

lemma completeGoals_tables [simp]:
  "te_jobRecords (fst (completeGoals now depth k e)) = te_jobRecords e" "getJobRecord (fst (completeGoals now depth k e)) = getJobRecord e"
  "te_runtimeChapters (fst (completeGoals now depth k e)) = te_runtimeChapters e" "cellsLocked (fst (completeGoals now depth k e)) = cellsLocked e"
  "te_preparedGoals (fst (completeGoals now depth k e)) = te_preparedGoals e" "te_runtimeArtifacts (fst (completeGoals now depth k e)) = te_runtimeArtifacts e"
  by (cases "Complete (memory_engine now depth) k (goal_view e)";
      simp add: completeGoals_def getJobRecord_def cellsLocked_def fun_eq_iff cong: option.case_cong)+

lemma put_tables [simp]:
  "te_runtimeChapters (put_job k r e) = te_runtimeChapters e" "te_preparedGoals (put_job k r e) = te_preparedGoals e"
  "te_runtimeArtifacts (put_job k r e) = te_runtimeArtifacts e" "cellsLocked (put_job k r e) = cellsLocked e"
  "getJobRecord (put_chapter k cs n ch e) = getJobRecord e" "cellsLocked (put_chapter k cs n ch e) = cellsLocked e"
  "te_preparedGoals (put_chapter k cs n ch e) = te_preparedGoals e" "te_goals (put_chapter k cs n ch e) = te_goals e"
  "getJobRecord (put_chapters k cs e) = getJobRecord e" "cellsLocked (put_chapters k cs e) = cellsLocked e"
  "te_preparedGoals (put_chapters k cs e) = te_preparedGoals e" "te_goals (put_chapters k cs e) = te_goals e"
  "getJobRecord (put_artifact k n name b e) = getJobRecord e" "cellsLocked (put_artifact k n name b e) = cellsLocked e"
  "te_preparedGoals (put_artifact k n name b e) = te_preparedGoals e" "te_runtimeChapters (put_artifact k n name b e) = te_runtimeChapters e"
  "te_goals (put_artifact k n name b e) = te_goals e"
  "getJobRecord (put_cells tenant s e) = getJobRecord e" "te_runtimeChapters (put_cells tenant s e) = te_runtimeChapters e"
  "te_preparedGoals (put_cells tenant s e) = te_preparedGoals e" "te_goals (put_cells tenant s e) = te_goals e"
  "cellsLocked (put_cells tenant s e) = (cellsLocked e)(tenant := s)"
  by (simp_all add: put_job_def put_chapter_def put_chapters_def put_artifact_def put_cells_def getJobRecord_def cellsLocked_def fun_eq_iff cong: option.case_cong)

lemma cells_more [simp]:
  "cellsLocked (e\<lparr>te_goals := g\<rparr>) = cellsLocked e" "cellsLocked (e\<lparr>te_schedules := sc\<rparr>) = cellsLocked e"
  "cellsLocked (e\<lparr>te_preparedGoals := pg\<rparr>) = cellsLocked e" "cellsLocked (e\<lparr>te_goalRequests := gr\<rparr>) = cellsLocked e"
  by (simp_all add: cellsLocked_def fun_eq_iff cong: option.case_cong)

lemma effect_job:
  assumes "effect depth now lab e e'" and "getJobRecord e k = Some r"
  obtains r' where "getJobRecord e' k = Some r'" "job_step e now lab k r r'"
proof -
  have s: "job_step e now lab k r r" by (rule job_step.same)
  from assms(1) show thesis
  proof cases
    case (touch k' r0 r')
    then show ?thesis using that s assms(2) job_step.moved[of e now lab k' r0 r'] by (cases "k' = k") auto
  next
    case (reschedule k' r0 l w req u v vn task)
    then show ?thesis using that s assms(2) job_step.parked[of k' l w lab now r0] by (cases "k' = k") auto
  next
    case (finish k' r0 r')
    then show ?thesis using that s assms(2) job_step.ended[of now r0 r'] by (cases "k' = k") auto
  next
    case (publish k' p r1 cs cx target cells r0 u r')
    then show ?thesis using that s assms(2) by (cases "k' = k") auto
  qed (use that s assms(2) in simp_all)
qed

lemma Resolve_active:
  assumes "Resolve ctx tenant name repo parent existing False s = Inr target" and "registry_ok s"
  shows "active_cell s (rc_CellID target)"
proof -
  have st: "c_State c = CellActive" if "c_State c \<noteq> CellRetired" for c using that by (cases "c_State c") auto
  obtain c where c: "ByName s name = Some c" "c_State c \<noteq> CellRetired" "rc_CellID target = c_ID c"
    using assms(1) unfolding Resolve_def Let_def rbind_Inr_iff by (auto simp: Resolved_def split: option.splits if_split_asm)
  then show ?thesis using ByName_iff[OF assms(2)] st by (auto simp: active_cell_def)
qed

lemma publish_cell:
  assumes "publishCellLocked now cx k (put_job k r0 e) = Inr (target, cells)" and "rc_CellID (jr_cell r0) = []" and "registry_ok (cellsLocked e (TenantId k))"
    and "\<And>p. map_of (te_preparedGoals e) k = Some p \<Longrightarrow> pp_Key (pg_Request p) = k"
  shows "cells = cellsLocked e (TenantId k)" "active_cell cells (rc_CellID target)"
proof -
  obtain p where p: "map_of (te_preparedGoals e) k = Some p" and cells: "cells = cellsLocked e (TenantId k)"
    and pc: "prepareCellLocked now cx (pg_Request p) (put_job k r0 e) = Inr target"
    using assms(1) unfolding publishCellLocked_def by (auto simp: rbind_Inr_iff split: option.splits if_split_asm)
  show "cells = cellsLocked e (TenantId k)" by (rule cells)
  have "existingCell (pg_Request p) (put_job k r0 e) = Inr (ex, cf) \<Longrightarrow> \<not> cf" for ex cf
    using assms(4)[OF p] assms(2) by (auto simp: existingCell_def Let_def split: if_split_asm option.splits)
  then obtain parent existing ctx name repo where "Resolve ctx (TenantId k) name repo parent existing False (cellsLocked e (TenantId k)) = Inr target"
    using pc assms(4)[OF p] unfolding prepareCellLocked_def rbind_Inr_iff by (auto simp: rbind_Inr_iff split: prod.splits)
  from Resolve_active[OF this assms(3)] show "active_cell cells (rc_CellID target)" by (simp add: cells)
qed

lemma effect_new_job:
  assumes "effect depth now lab e e'" and "toy_inv now e" and "getJobRecord e k = None" and "getJobRecord e' k = Some r"
  shows "record_ok k r" "jr_leaseID r = []" "active_cell (cellsLocked e' (TenantId k)) (rc_CellID (jr_cell r))"
proof -
  have ok: "cells_ok e" "prepared_ok e" using assms(2) by (simp_all add: toy_inv_def)
  from assms(1) have "record_ok k r \<and> jr_leaseID r = [] \<and> active_cell (cellsLocked e' (TenantId k)) (rc_CellID (jr_cell r))"
  proof cases
    case (publish k' p r1 cs cx target cells r0 u r')
    have k: "k' = k" and r: "r = r'" using publish(1,2) assms(3,4) by (auto split: if_split_asm)
    have c: "registry_ok (cellsLocked e (TenantId k))" using ok(1) by (simp add: cells_ok_def)
    have pr: "pg_GoalID p \<noteq> []" "map_of (te_preparedGoals e) k = Some q \<Longrightarrow> pp_Key (pg_Request q) = k" for q
      using ok(2) publish(3) by (auto simp: prepared_ok_def)
    note fr = publish(4)[unfolded fresh_record_def]
    note pub = publish_cell[OF publish(6)[unfolded k] _ c pr(2)]
    have "record_ok k r0" using publish(7) fr pr(1) k by (simp add: record_ok_def DefaultThreshold_def)
    moreover have "record_ok k r' = record_ok k r0" "jr_leaseID r' = []" "jr_cell r' = target"
      using publish(7,9) fr by (simp_all add: record_ok_def)
    ultimately show ?thesis using publish(1) pub fr r k by simp
  qed (use assms(3,4) in \<open>auto split: if_split_asm\<close>)
  then show "record_ok k r" "jr_leaseID r = []" "active_cell (cellsLocked e' (TenantId k)) (rc_CellID (jr_cell r))" by simp_all
qed

lemma job_step_ok:
  assumes "job_step e now lab k r r'" and "record_ok k r"
    and "jr_leaseID r \<noteq> [] \<Longrightarrow> dependencyReadyLocked e now r = Inr True"
  shows "record_ok k r'" "jr_cell r' = jr_cell r" "jr_archived r' = None \<Longrightarrow> jr_archived r = None"
    "jr_leaseID r' \<noteq> [] \<Longrightarrow> dependencyReadyLocked e now r = Inr True \<and> jr_key r' = jr_key r \<and> jr_dependencyWaitID r' = jr_dependencyWaitID r"
proof -
  show "record_ok k r'" using assms(1) by cases (use assms(2,3) rec_step_ok reschedule_ok ends_ok in auto)
  show "jr_cell r' = jr_cell r" using assms(1) by cases (simp_all add: rec_step_fields ends_fields)
  show "jr_archived r = None" if "jr_archived r' = None" using assms(1) by cases (use that in \<open>simp_all add: rec_step_fields ends_fields\<close>)
  show "dependencyReadyLocked e now r = Inr True \<and> jr_key r' = jr_key r \<and> jr_dependencyWaitID r' = jr_dependencyWaitID r"
    if l: "jr_leaseID r' \<noteq> []"
    using assms(1)
  proof cases
    case moved
    then show ?thesis using rec_step_ready[OF moved _ l] assms(3) by (simp add: rec_step_fields)
  next
    case ended
    then show ?thesis using ends_fields(7)[OF ended] l assms(3) by (simp add: ends_fields)
  qed (use l assms(3) in simp_all)
qed

lemma effect_records:
  assumes "effect depth now lab e e'" and "toy_inv now e"
  shows "records_ok e'" "ready_ok now e'"
proof -
  have ok: "records_ok e" "ready_ok now e" using assms(2) by (simp_all add: toy_inv_def)
  have "record_ok k r' \<and> (jr_leaseID r' \<noteq> [] \<longrightarrow> dependencyReadyLocked e' now r' = Inr True)" if r': "getJobRecord e' k = Some r'" for k r'
  proof (cases "getJobRecord e k")
    case None
    then show ?thesis using effect_new_job[OF assms None r'] by simp
  next
    case (Some r)
    then have js: "job_step e now lab k r r'" using effect_job[OF assms(1) Some] r' by force
    have "record_ok k r" "jr_leaseID r \<noteq> [] \<Longrightarrow> dependencyReadyLocked e now r = Inr True" using ok Some by (auto simp: records_ok_def ready_ok_def)
    note s = job_step_ok[OF js this]
    then show ?thesis using ready_mono[OF _ effect_goals(2)[OF assms] order_refl, of now r r'] by blast
  qed
  then show "records_ok e'" "ready_ok now e'" by (simp_all add: records_ok_def ready_ok_def)
qed

lemma publish_saved:
  assumes "publishedGoals depth now k p r (goal_view (put_job k r e)) = Inr u" and "pp_Dependencies (pg_Request p) \<noteq> []"
    and "table_distinct e" and "healthy (goal_view e)"
  shows "\<exists>w. Memory_Wait u (DependencyWaitKey k ''submission'') = Inr w"
proof -
  have i: "memory_inv (goal_view (put_job k r e))"
    using assms(3,4) view_inv_rows[of e] by (intro view_inv) (simp_all add: healthy_def)
  obtain s1 w where s1: "(if pp_ShareGoal (pg_Request p)
             then rbind (Memory_Goal (goal_view (put_job k r e)) (GoalKey (TenantId k) (pg_GoalID p))) (\<lambda>g.
                    if g_State g \<noteq> GoalOpen then Inl ErrGoalConflict else Inr (goal_view (put_job k r e)))
             else Memory_SaveGoal (goal_view (put_job k r e)) (newGoalInfo (jr_cell r) (GoalKey (TenantId k) (pg_GoalID p)) (jr_createdAt r))) = Inr s1"
    and u: "Register (memory_engine now depth) k
                    \<lparr>dw_WaitID = ''submission'', dw_Dependencies = pp_Dependencies (pg_Request p), dw_Deadline = None\<rparr> True s1 = Inr (w, u)"
    using assms(1,2) unfolding publishedGoals_def Let_def rbind_Inr_iff if_P[OF assms(2)] by fastforce
  have "memory_inv s1" using s1 i mem.save_goal_inv[OF i] by (auto simp: rbind_Inr_iff split: if_split_asm)
  from Register_saved[OF u this] show ?thesis by simp
qed

lemma effect_waiting:
  assumes "effect depth now lab e e'" and "toy_inv now e"
  shows "waiting_ok e'"
  unfolding waiting_ok_def
proof (intro allI impI)
  fix k r' assume r': "getJobRecord e' k = Some r'" and wait: "jr_dependencyWaitID r' \<noteq> []"
  have g: "table_distinct e" "healthy (goal_view e)" and ok: "waiting_ok e" using assms(2) by (simp_all add: toy_inv_def goals_ok_def)
  have old: "\<exists>w. Memory_Wait (te_goals e') (DependencyWaitKey k (jr_dependencyWaitID r')) = Inr w"
    if "getJobRecord e k = Some r" "jr_dependencyWaitID r' = jr_dependencyWaitID r" for r
    using that wait ok effect_goals(2)[OF assms] unfolding waiting_ok_def waits_le_def by metis
  from assms(1) show "\<exists>w. Memory_Wait (te_goals e') (DependencyWaitKey k (jr_dependencyWaitID r')) = Inr w"
  proof cases
    case (touch k' r0 r1)
    then show ?thesis using old r' rec_step_fields(8)[OF touch(3)] by (cases "k' = k") auto
  next
    case (reschedule k' r0 l w req u v vn task)
    show ?thesis
    proof (cases "k' = k")
      case True
      then have "r' = rescheduledRecord now v vn task req r0" using reschedule(1) r' by simp
      then obtain wt where wt: "rr_DependencyWait req = Some wt" "jr_dependencyWaitID r' = dw_WaitID wt"
        using wait by (cases "rr_DependencyWait req") (simp_all add: rescheduledRecord_def Let_def)
      then show ?thesis using reschedule_saved[of depth now k _ wt "goal_view e" u] reschedule(1,5) True g(2) by simp
    next
      case False then show ?thesis using old r' reschedule(1) by simp
    qed
  next
    case (finish k' r0 r1)
    then show ?thesis using old r' ends_fields(5)[OF finish(3)] by (cases "k' = k") auto
  next
    case (publish k' p r2 cs cx target cells r0 u r1)
    show ?thesis
    proof (cases "k' = k")
      case True
      then have d: "pp_Dependencies (pg_Request p) \<noteq> []" "jr_dependencyWaitID r' = ''submission''"
        using publish(1,4,7,9) r' wait by (auto simp: fresh_record_def split: if_split_asm)
      then show ?thesis using publish_saved[OF publish(8) d(1) g] publish(1) True by simp
    next
      case False then show ?thesis using old r' publish(1) by simp
    qed
  qed (use old r' in simp_all)
qed

section \<open>Chapters, cells and preparations\<close>

lemma contiguous_lookup: "contiguous cs \<Longrightarrow> map_of cs n \<noteq> None \<longleftrightarrow> 0 \<le> n \<and> n < int (length cs)"
proof -
  assume "contiguous cs"
  then have "fst ` set cs = set (map int [0..<length cs])" unfolding contiguous_def by (metis list.set_map)
  also have "\<dots> = {0..<int (length cs)}" by (simp add: image_int_atLeastLessThan)
  finally show ?thesis by (simp add: map_of_eq_None_iff)
qed

lemma contiguous_append:
  assumes "contiguous cs" and "map_of cs n = None \<and> (n = 0 \<or> map_of cs (n - 1) \<noteq> None) \<or> n = int (length cs)"
  shows "n = int (length cs)" "AList.update n ch cs = cs @ [(n, ch)]" "contiguous (AList.update n ch cs)"
proof -
  show n: "n = int (length cs)"
    using assms(2) contiguous_lookup[OF assms(1), of n] contiguous_lookup[OF assms(1), of "n - 1"] by linarith
  have "n \<notin> fst ` set cs" using contiguous_lookup[OF assms(1), of n] n by (simp add: map_of_eq_None_iff)
  then show u: "AList.update n ch cs = cs @ [(n, ch)]" by (induction cs) auto
  show "contiguous (AList.update n ch cs)" using assms(1) unfolding u contiguous_def by (simp add: n)
qed

lemma put_chapter_lookup [simp]:
  "map_of (te_runtimeChapters (put_chapter k cs n ch e)) = (map_of (te_runtimeChapters e))(k \<mapsto> AList.update n ch cs)"
  by (simp add: put_chapter_def fun_eq_iff)

lemma put_chapters_lookup [simp]:
  "map_of (te_runtimeChapters (put_chapters k cs e)) = (map_of (te_runtimeChapters e))(k \<mapsto> cs)"
  by (simp add: put_chapters_def fun_eq_iff)

lemma effect_chapters:
  assumes "effect depth now lab e e'" and "toy_inv now e"
  shows "chapter_rows_ok e'"
proof -
  have ok: "chapter_rows_ok e" using assms(2) by (simp add: toy_inv_def)
  have d: "dom (map_of (te_runtimeChapters e)) = dom (getJobRecord e)"
    and c: "map_of (te_runtimeChapters e) k = Some cs \<Longrightarrow> contiguous cs" for k cs
    using ok by (simp_all add: chapter_rows_ok_def)
  have i: "insert k (dom (getJobRecord e)) = dom (getJobRecord e)" if "getJobRecord e k = Some r" for k r using that by auto
  from assms(1) show ?thesis
  proof cases
    case (append k cs n ch)
    have "contiguous (AList.update n ch cs)" by (rule contiguous_append(3)[OF c[OF append(2)] append(3)])
    moreover have "k \<in> dom (getJobRecord e)" using append(2) d by auto
    ultimately show ?thesis using append(1) d c by (auto simp: chapter_rows_ok_def)
  next
    case (publish k p r0 cs cx target cells r u r')
    show ?thesis using publish(1,5) d c by (auto simp: chapter_rows_ok_def)
  qed (use ok i in \<open>simp_all add: chapter_rows_ok_def\<close>)
qed

lemma effect_prepared:
  assumes "effect depth now lab e e'" and "prepared_ok e"
  shows "prepared_ok e'"
  using assms(1) by cases (use assms(2) in \<open>auto simp: prepared_ok_def map_of_update delete_conv'\<close>)

lemma effect_cells:
  assumes "effect depth now lab e e'" and "toy_inv now e"
  shows "cells_ok e'"
proof -
  have ok: "cells_ok e" "records_ok e" "ready_ok now e" using assms(2) by (simp_all add: toy_inv_def)
  have reg: "registry_ok (cellsLocked e' tenant)" for tenant
    using assms(1)
  proof cases
    case (publish k p r0 cs cx target cells r u r')
    have "registry_ok (cellsLocked e (TenantId k))" using ok(1) by (simp add: cells_ok_def)
    moreover have "cells = cellsLocked e (TenantId k)"
      using publish(6) by (auto simp: publishCellLocked_def rbind_Inr_iff split: option.splits if_split_asm)
    ultimately show ?thesis using publish(1) ok(1) by (simp add: cells_ok_def)
  next
    case (cells tenant' s)
    then show ?thesis using ok(1) registry_step_ok[OF cells(2)] by (simp add: cells_ok_def)
  qed (use ok(1) in \<open>simp_all add: cells_ok_def\<close>)
  have act: "active_cell (cellsLocked e' (TenantId k)) (rc_CellID (jr_cell r))"
    if r: "getJobRecord e k = Some r" "jr_archived r = None" for k r
  proof -
    have a: "active_cell (cellsLocked e (TenantId k)) (rc_CellID (jr_cell r))" using ok(1) r by (simp add: cells_ok_def)
    from assms(1) show ?thesis
    proof cases
      case (publish k' p r1 cs cx target cells r0 u r')
      have "cells = cellsLocked e (TenantId k')"
        using publish(6) by (auto simp: publishCellLocked_def rbind_Inr_iff split: option.splits if_split_asm)
      then show ?thesis using publish(1) a by simp
    next
      case (cells tenant s)
      have "\<not> idle_cell e (TenantId k) (rc_CellID (jr_cell r))" using r unfolding idle_cell_def by blast
      then show ?thesis using a cells(1) cells(3)[of "rc_CellID (jr_cell r)"] by (cases "tenant = TenantId k") simp_all
    qed (use a in simp_all)
  qed
  have "active_cell (cellsLocked e' (TenantId k)) (rc_CellID (jr_cell r'))"
    if r': "getJobRecord e' k = Some r'" "jr_archived r' = None" for k r'
  proof (cases "getJobRecord e k")
    case None
    then show ?thesis using effect_new_job(3)[OF assms None r'(1)] by simp
  next
    case (Some r)
    then have js: "job_step e now lab k r r'" using effect_job[OF assms(1) Some] r'(1) by force
    have "record_ok k r" "jr_leaseID r \<noteq> [] \<Longrightarrow> dependencyReadyLocked e now r = Inr True"
      using ok(2,3) Some by (auto simp: records_ok_def ready_ok_def)
    from job_step_ok(2,3)[OF js this] show ?thesis using act[OF Some] r'(2) by simp
  qed
  then show ?thesis using reg by (simp add: cells_ok_def)
qed

lemma effect_inv:
  assumes "effect depth now lab e e'" and "toy_inv now e"
  shows "toy_inv now e'"
  using effect_goals(1)[OF assms] effect_records[OF assms] effect_waiting[OF assms] effect_chapters[OF assms] effect_cells[OF assms]
    effect_prepared[OF assms(1)] assms(2) by (simp add: toy_inv_def)

lemma effects_inv:
  assumes "effects depth now lab e e'" and "toy_inv now e"
  shows "toy_inv now e'"
  using assms by (induction rule: rtranclp_induct) (auto intro: effect_inv)

end
