(* ===== verification/Toy_Runs.thy ===== *)
theory Toy_Runs
  imports Toy_Effects
begin

text \<open>
  Every step of the runtime is a sequence of effects, so the invariants hold in every state of a
  run that starts with an empty runtime.
\<close>

lemma effects_Cons: "effect depth now lab e e1 \<Longrightarrow> effects depth now lab e1 e2 \<Longrightarrow> effects depth now lab e e2"
  by (rule converse_rtranclp_into_rtranclp)

lemma effects_snoc: "effects depth now lab e e1 \<Longrightarrow> effect depth now lab e1 e2 \<Longrightarrow> effects depth now lab e e2"
  by (rule rtranclp.rtrancl_into_rtrancl)

section \<open>Leases\<close>

lemma advance_effect:
  "getJobRecord e k = Some r \<Longrightarrow> advanceRecordStateLocked e (TenantId k) now r = Inr r1 \<Longrightarrow> effect depth now lab e (put_job k r1 e)"
  by (rule effect.touch, assumption, rule rec_step.advance)

lemma advanced_ready:
  assumes "getJobRecord e k = Some r" and "toy_inv now e" and "advanceRecordStateLocked e (TenantId k) now r = Inr r1"
    and "jr_status r1 = JobStatusReady"
  shows "jr_archived r1 = None" "\<not> jr_leased r1" "dependencyReadyLocked e now r1 = Inr True"
proof -
  have "record_ok k r" using assms(1,2) by (simp add: toy_inv_def records_ok_def)
  note a = advance_ready[OF assms(3) this assms(4)] and f = advance_fields[OF assms(3)]
  show "jr_archived r1 = None" "\<not> jr_leased r1" using a f(3) by simp_all
  show "dependencyReadyLocked e now r1 = Inr True" by (rule ready_mono[OF a(3) waits_le_refl order_refl f(1) f(11)])
qed

lemma acquire_effects:
  assumes "getJobRecord e k = Some r" and "toy_inv now e" and "advanceRecordStateLocked e (TenantId k) now r = Inr r1"
    and "jr_status r1 = JobStatusReady" and "i \<in> fst lab" and "i \<noteq> []"
  shows "effects depth now lab e (put_job k (acquireRecord now i w d r1) (put_job k r1 e))"
proof -
  note a = advanced_ready[OF assms(1-4)]
  have "effect depth now lab (put_job k r1 e) (put_job k (acquireRecord now i w d r1) (put_job k r1 e))"
    using a assms(4-6) by (intro effect.touch[where r = r1] rec_step.acquire) simp_all
  with advance_effect[OF assms(1,3)] show ?thesis by (rule effects_Cons[OF _ r_into_rtranclp])
qed

lemma pollLoop_effects:
  assumes "\<And>n. fresh n \<noteq> []"
  shows "toy_inv now e \<Longrightarrow> effects depth now (range fresh, {}) e (fst (pollLoop lib matches fresh now req allowed keys e out))"
proof (induction keys arbitrary: e out)
  case (Cons key keys)
  show ?case
  proof (cases "getJobRecord e key")
    case None then show ?thesis using Cons by simp
  next
    case (Some r)
    show ?thesis
    proof (cases "TenantId key \<noteq> pw_TenantId req \<or> rc_CellID (jr_cell r) \<notin> set allowed")
      case True then show ?thesis using Cons Some by simp
    next
      case False
      show ?thesis
      proof (cases "advanceRecordStateLocked e (TenantId key) now r")
        case (Inl err) then show ?thesis using Some False by simp
      next
        case (Inr r1)
        let ?e1 = "put_job key r1 e" and ?r2 = "acquireRecord now (fresh (length out)) (pw_WorkerID req) (pw_LeaseDuration req) r1"
        let ?e2 = "put_job key ?r2 ?e1" and ?out = "out @ [leaseOf lib key (pw_LeaseDuration req) ?r2]"
        have s1: "effects depth now (range fresh, {}) e ?e1" using advance_effect[OF Some Inr] by blast
        have go1: "effects depth now (range fresh, {}) e (fst (pollLoop lib matches fresh now req allowed keys ?e1 out))" for out
          by (rule rtranclp_trans[OF s1 Cons.IH[OF effects_inv[OF s1 Cons.prems]]])
        have s2: "effects depth now (range fresh, {}) e ?e2" if "jr_status r1 = JobStatusReady"
          by (rule acquire_effects[OF Some Cons.prems Inr that]) (simp_all add: assms)
        have go2: "effects depth now (range fresh, {}) e (fst (pollLoop lib matches fresh now req allowed keys ?e2 ?out))"
          if "jr_status r1 = JobStatusReady"
          by (rule rtranclp_trans[OF s2[OF that] Cons.IH[OF effects_inv[OF s2[OF that] Cons.prems]]])
        show ?thesis using Some False Inr s1 go1 s2 go2 by (cases "matches (jr_metadata r1)") (simp_all add: Let_def)
      qed
    qed
  qed
qed simp

lemma poll_effects:
  assumes "\<And>n. fresh n \<noteq> []" and "toy_inv now e"
  shows "effects depth now (range fresh, {}) e (fst (pollAcquire lib ctx matches fresh keys now req e))"
  unfolding pollAcquire_def using pollLoop_effects[OF assms(1,2)] by (auto split: sum.split)

lemma getJobLease_effects:
  assumes "i \<noteq> []" and "toy_inv now e"
  shows "effects depth now ({i}, {}) e (fst (getJobLeaseAcquire lib ctx i now req e))"
proof (cases "getJobRecord e (gl_JobKey req)")
  case None then show ?thesis by (auto simp: getJobLeaseAcquire_def split: sum.split)
next
  case (Some r)
  show ?thesis
  proof (cases "advanceRecordStateLocked e (TenantId (gl_JobKey req)) now r")
    case (Inl err) then show ?thesis using Some by (auto simp: getJobLeaseAcquire_def split: sum.split)
  next
    case (Inr r1)
    have "effects depth now ({i}, {}) e (put_job (gl_JobKey req) r1 e)" using advance_effect[OF Some Inr] by blast
    then show ?thesis using Some Inr acquire_effects[OF Some assms(2) Inr _ _ assms(1), of "({i}, {})"]
      by (auto simp: getJobLeaseAcquire_def Let_def split: sum.split)
  qed
qed

lemma renew_effect:
  assumes "getJobRecord e k = Some r" and "leaseLive now l w r"
  shows "effects depth now (presents k l w) e (put_job k (r\<lparr>jr_leaseExpiresAt := now + toyLeaseDurationOrDefault d\<rparr>) e)"
proof -
  have "0 < toyLeaseDurationOrDefault d" by (simp add: toyLeaseDurationOrDefault_def)
  then show ?thesis using assms by (intro r_into_rtranclp effect.touch[OF assms(1)] rec_step.renew[OF _ assms(2)]) simp_all
qed

lemma keep_alive_effects: "effects depth now (presents k l w) e (fst (KeepAliveLeaseByIDWithExpiry now k l w d e))"
  using renew_effect by (auto simp: KeepAliveLeaseByIDWithExpiry_def Let_def split: option.split)

lemma renew_effects: "effects depth now (presents k l w) e (fst (RenewExecutionLeaseByID lib now k l w d e))"
  using renew_effect by (auto simp: RenewExecutionLeaseByID_def Let_def split: option.split)

section \<open>Chapters and completion\<close>

lemma uploadLoop_effects: "effects depth now lab e (fst (uploadLoop lib k n items e stored))"
proof (induction items arbitrary: e stored)
  case (Cons item items)
  show ?case
  proof (cases "\<exists>bytes. au_Open item = Some (Inr bytes)")
    case True
    then obtain bytes where b: "au_Open item = Some (Inr bytes)" by blast
    have "effect depth now lab e (put_artifact k n (au_Name item) bytes e)" by (rule effect.artifact)
    from effects_Cons[OF this Cons.IH] show ?thesis by (simp add: b)
  next
    case False then show ?thesis by (auto split: option.split sum.split)
  qed
qed simp

lemma prepareChapterWrite_effects: "effects depth now lab e (fst (prepareChapterWrite lib k n ch uploads e))"
  using uploadLoop_effects[of depth now lab e lib k n uploads "[]"]
  by (auto simp: prepareChapterWrite_def split: sum.split prod.split)

lemma store_effects: "effects depth now lab e (fst (storeRuntimeChapter k n ch e))"
proof (cases "map_of (te_runtimeChapters e) k")
  case (Some cs)
  show ?thesis
  proof (cases "n < 0 \<or> ch_Ordinal ch \<noteq> n \<or> map_of cs n \<noteq> None \<or> n > 0 \<and> map_of cs (n - 1) = None")
    case True then show ?thesis using Some by (auto simp: storeRuntimeChapter_def)
  next
    case False
    then have "effect depth now lab e (put_chapter k cs n ch e)" by (intro effect.append[OF Some]) auto
    then show ?thesis using Some False by (auto simp: storeRuntimeChapter_def)
  qed
qed (simp add: storeRuntimeChapter_def)

lemma effects_then:
  assumes "effects depth now lab e (fst p)" and "\<And>x. snd p = Inr x \<Longrightarrow> effects depth now lab (fst p) (fst (f (fst p) x))"
    and "\<And>e1 err. fst (g e1 err) = e1"
  shows "effects depth now lab e (fst (case p of (e1, Inl err) \<Rightarrow> g e1 err | (e1, Inr x) \<Rightarrow> f e1 x))"
  using assms by (cases p; cases "snd p") (auto intro: rtranclp_trans)

lemma ensure_effects: "effects depth now lab e (fst (ensureCompletionChapter lib k schema ch uploads e))"
proof -
  let ?n = "ch_Ordinal ch" and ?w = "prepareChapterWrite lib k (ch_Ordinal ch) ch uploads e"
  have w: "effects depth now lab e (fst ?w)" by (rule prepareChapterWrite_effects)
  have new: "effects depth now lab e (fst (case ?w of (e1, Inl err) \<Rightarrow> (e1, Inl err)
     | (e1, Inr c) \<Rightarrow> (case lb_last lib (TenantId k) schema c of Inl err \<Rightarrow> (e1, Inl err)
         | Inr _ \<Rightarrow> (case storeRuntimeChapter k ?n c e1 of (e2, Inl err) \<Rightarrow> (e2, Inl err) | (e2, Inr _) \<Rightarrow> (e2, Inr c)))))"
    by (rule effects_then[OF w])
       (auto split: sum.split prod.split, (metis fst_conv store_effects)+)
  show ?thesis
    using new w by (auto simp: ensureCompletionChapter_def split: option.split prod.split sum.split)
qed

lemma finish_effect:
  "getJobRecord e k = Some r \<Longrightarrow> ends now r r' \<Longrightarrow> effects depth now lab e (fst (completeGoals now depth k (put_job k r' e)))"
  using effect.finish by blast

lemma completeFinish_effects: "effects depth now lab e (fst (completeFinish lib depth now k l w req e))"
  by (auto simp: completeFinish_def split: option.split sum.split intro: finish_effect ends.completed)

lemma put_job_chapter: "put_job k r (put_chapter k' cs n ch e) = put_chapter k' cs n ch (put_job k r e)"
  by (simp add: put_job_def put_chapter_def)

lemma payload_failure_effects:
  assumes "chapter_rows_ok e"
  shows "effects depth now lab e (fst (completePayloadFailure depth now k l w ch req e))"
proof (cases "getJobRecord e k")
  case None then show ?thesis by (simp add: completePayloadFailure_def)
next
  case (Some r)
  show ?thesis
  proof (cases "map_of (te_runtimeChapters e) k")
    case None then show ?thesis using Some by (simp add: completePayloadFailure_def Let_def)
  next
    case cs: (Some cs)
    show ?thesis
    proof (cases "leaseLive now l w r \<and> ch_Ordinal ch = int (length cs)")
      case True
      let ?e1 = "put_chapter k cs (ch_Ordinal ch) ch e"
      have a: "effect depth now lab e ?e1" using True by (intro effect.append[OF cs]) simp
      have "effects depth now lab ?e1 (fst (completeGoals now depth k (put_job k (payloadFailedRecord now (ce_Detail req) r) ?e1)))"
        using True Some by (intro finish_effect[where r = r] ends.payload_failed[of now l w]) auto
      from effects_Cons[OF a this] show ?thesis using Some cs True by (simp add: completePayloadFailure_def Let_def)
    next
      case False then show ?thesis using Some cs by (auto simp: completePayloadFailure_def Let_def)
    qed
  qed
qed

lemma reschedule_effects: "effects depth now (presents k l w) e (fst (rescheduleLease lib depth now k l w req e))"
proof (cases "getJobRecord e k")
  case None then show ?thesis by (simp add: rescheduleLease_def)
next
  case (Some r)
  show ?thesis
  proof (cases "leaseLive now l w r")
    case False then show ?thesis using Some by (simp add: rescheduleLease_def)
  next
    case True
    have "effects depth now (presents k l w) e (put_job k (rescheduledRecord now v vn task req r) (e\<lparr>te_goals := u\<rparr>))"
      if "rescheduleGoals depth now k (jr_dependencyWaitID r) (rr_DependencyWait req) (goal_view e) = Inr u" for u v vn task
      by (rule r_into_rtranclp, rule effect.reschedule[OF Some _ True that]) simp
    then show ?thesis using Some True
      by (auto simp: rescheduleLease_def split: sum.split) (auto simp: rbind_Inr_iff)
  qed
qed

section \<open>External tasks\<close>

lemma snapshot_effects: "effects depth now lab e (fst (taskSnapshot now req e))"
  by (auto simp: taskSnapshot_def split: sum.split option.split intro!: r_into_rtranclp advance_effect)

lemma put_artifacts_effects: "effects depth now lab e (put_artifacts k n pending e)"
  unfolding put_artifacts_def
proof (induction pending arbitrary: e)
  case (Cons p pending)
  obtain name bytes where p: "p = (name, bytes)" by (cases p)
  have "effect depth now lab e (put_artifact k n name bytes e)" by (rule effect.artifact)
  from effects_Cons[OF this Cons.IH] show ?case by (simp add: p)
qed simp

lemma put_artifacts_tables [simp]: "getJobRecord (put_artifacts k n pending e) = getJobRecord e"
  unfolding put_artifacts_def by (induction pending arbitrary: e) auto

lemma task_effects:
  assumes "toy_inv now e"
  shows "effects depth now lab e (fst (taskPublish depth now k to_type payload route wait ch pending failure e))"
proof (cases "getJobRecord e k")
  case None then show ?thesis by (simp add: taskPublish_def)
next
  case (Some r)
  show ?thesis
  proof (cases "advanceRecordStateLocked e (TenantId k) now r")
    case (Inl err) then show ?thesis using Some by (simp add: taskPublish_def)
  next
    case (Inr r1)
    let ?e1 = "put_job k r1 e" and ?n = "wt_OutputStep wait"
    let ?bad = "jr_leased r1 \<or> currentStatus now r1 \<noteq> JobStatusReady \<or> jr_archived r1 \<noteq> None \<or> jr_cancelled r1
             \<or> jr_route r1 \<noteq> route \<or> jr_payload r1 \<noteq> payload"
    have s1: "effect depth now lab e ?e1" by (rule advance_effect[OF Some Inr])
    show ?thesis
    proof (cases "\<exists>cs. map_of (te_runtimeChapters ?e1) k = Some cs \<and> map_of cs ?n = None \<and> map_of cs (?n - 1) \<noteq> None \<and> \<not> ?bad")
      case False
      then show ?thesis using Some Inr s1 by (auto simp: taskPublish_def Let_def split: option.split)
    next
      case True
      then obtain cs where cs: "map_of (te_runtimeChapters ?e1) k = Some cs" "map_of cs ?n = None" "map_of cs (?n - 1) \<noteq> None"
        and ok: "\<not> ?bad" by blast
      let ?e2 = "put_artifacts k ?n pending (put_chapter k cs ?n ch ?e1)"
      have "effect depth now lab ?e1 (put_chapter k cs ?n ch ?e1)" using cs by (intro effect.append[OF cs(1)]) simp
      from effects_Cons[OF this put_artifacts_effects]
      have s2: "effects depth now lab e ?e2" by (rule effects_Cons[OF s1])
      have g: "getJobRecord ?e2 k = Some r1" by simp
      have st: "\<not> jr_leased r1" "jr_status r1 = JobStatusReady" using ok by (auto simp: currentStatus_def)
      have "effect depth now lab ?e2 (put_job k (resumedRecord to_type payload wait r1) ?e2)"
        by (rule effect.touch[OF g rec_step.resume[OF st]])
      moreover have "effects depth now lab ?e2 (fst (completeGoals now depth k (put_job k (taskFailedRecord now msg payload wait r1) ?e2)))" for msg
        by (rule finish_effect[OF g ends.task_failed[OF st]])
      ultimately have "effects depth now lab e (put_job k (resumedRecord to_type payload wait r1) ?e2)"
        "effects depth now lab e (fst (completeGoals now depth k (put_job k (taskFailedRecord now msg payload wait r1) ?e2)))" for msg
        using effects_snoc[OF s2] rtranclp_trans[OF s2] by blast+
      then show ?thesis using Some Inr cs ok by (auto simp: taskPublish_def Let_def split: option.split prod.split sum.split) (metis fst_conv)+
    qed
  qed
qed

section \<open>Submission and administration\<close>

lemma sharedGoal_ne:
  assumes "sharedGoal req k newGoal e = Inr g" and "newGoal \<noteq> []" and "records_ok e"
  shows "g \<noteq> []"
  using assms by (auto simp: sharedGoal_def rbind_Inr_iff records_ok_def record_ok_def split: if_split_asm option.splits)

lemma prepare_effects:
  assumes "newGoal \<noteq> []" and "records_ok e"
  shows "effects depth now lab e (fst (PrepareJob lib now cx newKey newGoal req e))"
proof -
  let ?l = "rbind (requestedKey req e) (\<lambda>requested.
       rbind (prepareCellLocked now cx (req\<lparr>pp_Key := requested\<rparr>) e) (\<lambda>target. Inr (requested, target)))"
  show ?thesis
  proof (cases ?l)
    case (Inl err) then show ?thesis by (simp add: PrepareJob_def)
  next
    case (Inr rt)
    then obtain k target where rt: "?l = Inr (k, target)" by (cases rt) simp
    let ?rq = "req\<lparr>pp_Key := k, pp_Target := target\<rparr>"
    let ?m = "rbind (if JobId k = [] then newKey else Inr k) (\<lambda>key.
                rbind (JobKey_Validate key) (\<lambda>_. rbind (sharedGoal ?rq key newGoal e) (\<lambda>goalID. Inr (key, goalID))))"
    show ?thesis
    proof (cases "map_of (te_preparedGoals e) k = None \<and> (\<exists>kg. ?m = Inr kg)")
      case False
      then have "fst (PrepareJob lib now cx newKey newGoal req e) = e"
        unfolding PrepareJob_def rt by (cases "map_of (te_preparedGoals e) k"; cases ?m) (simp_all add: Let_def)
      then show ?thesis by simp
    next
      case True
      then obtain key g where m: "?m = Inr (key, g)" by auto
      then have "sharedGoal ?rq key newGoal e = Inr g" by (auto simp: rbind_Inr_iff)
      from sharedGoal_ne[OF this assms] have g: "g \<noteq> []" .
      have "effect depth now lab e (e\<lparr>te_preparedGoals := AList.update key p (te_preparedGoals e)\<rparr>)"
        if "pg_GoalID p \<noteq> []" "pp_Key (pg_Request p) = key" for p
        using effect.prepare[OF that, of depth now lab e "te_goalRequests e"] by simp
      then show ?thesis
        using True m unfolding PrepareJob_def rt by (auto simp: Let_def g intro!: r_into_rtranclp effect.prepare)
    qed
  qed
qed

lemma discard_effects: "effects depth now lab e (DiscardJobPreparation k e)"
  using effect.discard[where e = e and k = k and q = "te_goalRequests e" and lab = lab]
  by (auto simp: DiscardJobPreparation_def split: option.split intro!: r_into_rtranclp effect.discard)

text \<open>The publication of a job, however its record and its first chapters came about.\<close>

lemma publish_effect:
  assumes "publishGoalLocked depth now cx k r0 (put_job k r0 e) = Inr e1" and "getJobRecord e k = None" and "fresh_record r0" and "contiguous cs"
  shows "effect depth now lab e (put_chapters k cs e1)" "te_runtimeChapters e1 = te_runtimeChapters e"
proof -
  let ?e0 = "put_job k r0 e"
  obtain p target cells u r where p: "map_of (te_preparedGoals e) k = Some p"
    and pc: "publishCellLocked now cx k ?e0 = Inr (target, cells)"
    and r: "r = r0\<lparr>jr_cell := target, jr_goalID := pg_GoalID p, jr_key := k\<rparr>"
    and u: "publishedGoals depth now k p r (goal_view (put_job k r ?e0)) = Inr u"
    and e1: "e1 = put_cells (TenantId k) cells (put_job k
               (if pp_Dependencies (pg_Request p) \<noteq> [] then r\<lparr>jr_dependencyWaitID := ''submission''\<rparr> else r)
               ((put_job k r ?e0)\<lparr>te_goals := u\<rparr>))"
    using assms(1) unfolding publishGoalLocked_def Let_def by (auto simp: rbind_Inr_iff split: option.splits)
  have put2: "put_job k a (put_job k b x) = put_job k a x" for a b x by (simp add: put_job_def update_twice)
  have putg: "put_job k a ((put_job k b x)\<lparr>te_goals := u\<rparr>) = put_job k a (x\<lparr>te_goals := u\<rparr>)" for a b x
    by (simp add: put_job_def update_twice)
  show "effect depth now lab e (put_chapters k cs e1)"
    using effect.publish[OF assms(2) p assms(3,4) pc r u[unfolded put2] refl] by (simp add: e1 putg)
  show "te_runtimeChapters e1 = te_runtimeChapters e" by (simp add: e1)
qed

lemma publish_start:
  assumes "publishGoalLocked depth now cx k r0 (put_job k r0 e) = Inr e1" and "getJobRecord e k = None" and "fresh_record r0" and "chapter_rows_ok e"
  shows "effects depth now lab e (put_chapter k (case map_of (te_runtimeChapters e1) k of None \<Rightarrow> [] | Some cs \<Rightarrow> cs) 0 ch e1)"
proof -
  have n: "map_of (te_runtimeChapters e) k = None" using assms(2,4) by (metis chapter_rows_ok_def domIff)
  have "contiguous [(0, ch)]" by (simp add: contiguous_def)
  from publish_effect(1)[OF assms(1-3) this, of lab] publish_effect(2)[OF assms(1-3) this] n show ?thesis by (auto simp: put_chapter_def put_chapters_def)
qed

lemma insert_effects:
  assumes "chapter_rows_ok e"
  shows "effects depth now lab e (fst (insertJob depth now cx k sb e))"
  using publish_start[OF _ _ newRecord_fresh assms]
  by (auto simp: insertJob_def split: option.split sum.split)

lemma occurrence_effects:
  assumes "chapter_rows_ok e"
  shows "effects depth now lab e (fst (insertOccurrence depth now cx k sb previous e))"
  using publish_start[OF _ _ occurrenceRecord_fresh assms]
  by (auto simp: insertOccurrence_def split: option.split sum.split)

lemma contiguous_keep:
  assumes "contiguous cs" and "0 \<le> n" and "n < int (length cs)"
  shows "filter (\<lambda>(i, _). \<not> i > n) cs = take (nat n + 1) cs" "contiguous (take (nat n + 1) cs)"
proof -
  have nth: "fst (cs ! i) = int i" if "i < length cs" for i
    using assms(1) that unfolding contiguous_def by (metis (no_types) add_0 length_map nth_map nth_upt)
  have "fst x \<le> n" if "x \<in> set (take (nat n + 1) cs)" for x
    using that assms(2) nth by (auto simp: in_set_conv_nth)
  then have "filter (\<lambda>(i, _). \<not> i > n) (take (nat n + 1) cs) = take (nat n + 1) cs" by (force simp: filter_id_conv)
  moreover have "n < fst x" if "x \<in> set (drop (nat n + 1) cs)" for x
    using that assms(2) nth by (auto simp: in_set_conv_nth)
  then have "filter (\<lambda>(i, _). \<not> i > n) (drop (nat n + 1) cs) = []" by (force simp: filter_empty_conv)
  ultimately show "filter (\<lambda>(i, _). \<not> i > n) cs = take (nat n + 1) cs"
    by (metis append.right_neutral append_take_drop_id filter_append)
  have "nat n + 1 \<le> length cs" using assms(2,3) by linarith
  then have "take (nat n + 1) [0..<length cs] = [0..<length (take (nat n + 1) cs)]" by (simp add: take_upt min_absorb2 del: upt_Suc)
  then show "contiguous (take (nat n + 1) cs)" using assms(1) unfolding contiguous_def by (metis take_map)
qed

lemma restartChapters_contiguous:
  assumes "restartChapters lib rl k job e = Inr target" and "chapter_rows_ok e" and "int64 (rj_LastStepToKeep job)"
  obtains source where "map_of (te_runtimeChapters e) (rj_PriorJobKey job) = Some source"
    "0 \<le> rj_LastStepToKeep job" "rj_LastStepToKeep job + 1 < int (length source)"
    "target = take (nat (rj_LastStepToKeep job) + 1) source @
       (case rj_ExecutionRestart job of None \<Rightarrow> [] | Some raw \<Rightarrow> [(rj_LastStepToKeep job + 1, executionChapter (rj_LastStepToKeep job + 1) raw)])"
    "contiguous target"
proof -
  let ?n = "rj_LastStepToKeep job"
  obtain source nc where src: "map_of (te_runtimeChapters e) (rj_PriorJobKey job) = Some source" "0 \<le> ?n" "map_of source (wrap64 (?n + 1)) = Some nc"
    and t: "target = (case rj_ExecutionRestart job of None \<Rightarrow> filter (\<lambda>(i, _). \<not> i > ?n) source
      | Some raw \<Rightarrow> AList.update (wrap64 (?n + 1)) (executionChapter (wrap64 (?n + 1)) raw) (filter (\<lambda>(i, _). \<not> i > ?n) source))"
    using assms(1) unfolding restartChapters_def by (auto simp: Let_def rbind_Inr_iff split: option.splits if_split_asm)
  have c: "contiguous source" using assms(2) src(1) by (auto simp: chapter_rows_ok_def)
  then have w: "0 \<le> wrap64 (?n + 1)" "wrap64 (?n + 1) < int (length source)"
    using contiguous_lookup[OF c, of "wrap64 (?n + 1)"] src(3) by auto
  have "?n \<noteq> 2 ^ 63 - 1" using w(1) by (auto simp: wrap64_def)
  then have n1: "wrap64 (?n + 1) = ?n + 1" using assms(3) src(2) by (intro wrap64_id) (auto simp: int64_def)
  have "?n < int (length source)" using w(2) n1 by simp
  note kp = contiguous_keep[OF c src(2) this]
  have kl: "length (take (nat ?n + 1) source) = nat ?n + 1" using w(2) n1 src(2) by simp
  have tk: "target = take (nat ?n + 1) source @
       (case rj_ExecutionRestart job of None \<Rightarrow> [] | Some raw \<Rightarrow> [(?n + 1, executionChapter (?n + 1) raw)]) \<and> contiguous target"
  proof (cases "rj_ExecutionRestart job")
    case None then show ?thesis using t kp w n1 by simp
  next
    case (Some raw)
    have "?n + 1 = int (length (take (nat ?n + 1) source))" using kl src(2) by simp
    note ca = contiguous_append(2,3)[OF kp(2) disjI2[OF this], where ch = "executionChapter (?n + 1) raw"]
    show ?thesis using ca kl src(2) Some t kp(1) w n1 by simp
  qed
  show thesis by (rule that[OF src(1,2)]) (use w(2) n1 tk in auto)
qed

lemma restart_effects:
  assumes "chapter_rows_ok e" and "int64 (rj_LastStepToKeep job)"
  shows "effects depth now lab e (fst (insertRestart lib rl depth now cx k job e))"
proof -
  have "effect depth now lab e (put_chapters k target e1)"
    if t: "restartChapters lib rl k job e = Inr target" and n: "existingEquivalentRestartJob k job target e = Inr None"
      and p: "publishGoalLocked depth now cx k (newRecord now sb) (put_job k (newRecord now sb) e) = Inr e1" for target e1 sb
  proof -
    have "getJobRecord e k = None"
      using n by (auto simp: existingEquivalentRestartJob_def Let_def rbind_Inr_iff split: option.splits if_split_asm)
    then show ?thesis using publish_effect(1)[OF p _ newRecord_fresh] restartChapters_contiguous[OF t assms] by blast
  qed
  then show ?thesis by (auto simp: insertRestart_def Let_def rbind_Inr_iff split: sum.split option.split prod.split)
qed

lemma materialize_effects: "effects depth now lab e (fst (materializeTaskData lib k n arts e))"
  by (simp add: materializeTaskData_def put_artifacts_effects)

section \<open>Schedules\<close>

lemma put_schedule_effects:
  assumes "\<And>s0. map_of (te_schedules e) k = Some s0 \<Longrightarrow> schedule_le s0 s"
  shows "effects depth now lab e (put_schedule k s e)"
  unfolding put_schedule_def
  by (rule r_into_rtranclp, rule effect.schedules) (use assms in \<open>auto simp: schedules_le_def schedule_le_def update_conv'\<close>)

lemma store_schedule_effects: "effects depth now lab e (fst (storeSchedule lib sl ctx now' req target at e))"
proof -
  let ?s = "map_of (te_schedules e) (us_Key req)"
  have "effects depth now lab e (put_schedule (us_Key req) s e)"
    if "map_option si_State ?s \<noteq> Some ScheduleStateArchived" for s
    by (rule put_schedule_effects) (use that in \<open>auto simp: schedule_le_def\<close>)
  then show ?thesis by (auto simp: storeSchedule_def Let_def split: sum.split prod.split)
qed

lemma mutate_schedule_effects: "effects depth now lab e (fst (mutateScheduleState sl ctx now' req state e))"
proof (cases "map_of (te_schedules e) (sm_Key req)")
  case None then show ?thesis by (simp add: mutateScheduleState_def)
next
  case (Some s0)
  have "effects depth now lab e (put_schedule (sm_Key req) s e)"
    if "schedule_le s0 s" for s by (rule put_schedule_effects) (use that Some in simp)
  then show ?thesis using Some by (auto simp: mutateScheduleState_def Let_def schedule_le_def split: sum.split)
qed

lemma cancel_effects: "effects depth now lab e (fst (CancelJob depth now k reason e))"
  by (auto simp: CancelJob_def split: option.split intro: finish_effect ends.cancelled)

lemma clear_effects: "effects depth now lab e (fst (ClearCrashConcern now k e))"
proof -
  have "effect depth now lab e (put_job k (clearedRecord now r) e)"
    if "getJobRecord e k = Some r" "jr_archived r = None" "\<not> (jr_leased r \<and> now < jr_leaseExpiresAt r)" for r
    by (rule effect.touch[OF that(1) rec_step.clear[OF that(2,3)]])
  then show ?thesis by (auto simp: ClearCrashConcern_def split: option.split)
qed

lemma deleteLoop_effects: "toy_inv now e \<Longrightarrow> effects depth now lab e (fst (deleteLoop depth now keys e))"
proof (induction keys arbitrary: e)
  case (Cons k keys)
  show ?case
  proof (cases "getJobRecord e k")
    case None then show ?thesis using Cons by simp
  next
    case (Some r)
    let ?c = "completeGoals now depth k (put_job k (deletedRecord now r) e)"
    have "jr_key r = k" using Cons.prems Some by (simp add: toy_inv_def records_ok_def record_ok_def)
    moreover have "effects depth now lab e (fst ?c)" by (rule finish_effect[OF Some ends.deleted])
    moreover from this have "effects depth now lab e (fst (deleteLoop depth now keys (fst ?c)))"
      using Cons.IH[OF effects_inv[OF _ Cons.prems]] rtranclp_trans by metis
    ultimately show ?thesis using Some by (cases "?c"; cases "snd ?c") auto
  qed
qed simp

lemma delete_effects:
  assumes "toy_inv now e"
  shows "effects depth now lab e (fst (DeleteJobs depth now matches keys req e))"
proof -
  have "fst (case deleteLoop depth now found e of (e1, Inl err) \<Rightarrow> (e1, Inl err) | (e1, Inr _) \<Rightarrow> (e1, Inr (length found)))
    = fst (deleteLoop depth now found e)" for found
    by (simp split: prod.split sum.split)
  then show ?thesis using deleteLoop_effects[OF assms] by (auto simp: DeleteJobs_def split: sum.split)
qed

lemma candidate_effects: "effects depth now lab e (fst (AddGoalCandidate depth now req e))"
  by (auto simp: AddGoalCandidate_def split: sum.split prod.split intro!: r_into_rtranclp effect.candidate)

lemma fail_effects: "effects depth now lab e (fst (FailGoal depth now req e))"
  by (auto simp: FailGoal_def split: sum.split prod.split intro!: r_into_rtranclp effect.fail)

section \<open>Cells\<close>

lemma put_cell_active:
  assumes "active_cell s cid" and "c_ID c = cid \<Longrightarrow> c_State c = CellActive"
  shows "active_cell (put_cell c s) cid"
  using assms by (auto simp: active_cell_def)

lemma create_effect:
  assumes "Create js ctx newID newRev now req (cellsLocked e tenant) = Inr (c, s)" and "newID \<notin> fst ` set (cs_Cells (cellsLocked e tenant))"
  shows "effects depth now lab e (put_cells tenant s e)"
proof (rule r_into_rtranclp, rule effect.cells)
  show "registry_step (cellsLocked e tenant) s" by (rule registry_step.create[OF assms])
  fix cid assume a: "active_cell (cellsLocked e tenant) cid"
  from assms(1) have "active_cell s cid"
  proof (cases rule: Create_cases)
    case fresh
    have "active_cell (put_cell c (cellsLocked e tenant)) cid" using put_cell_active[OF a] fresh(4) by simp
    then show ?thesis using fresh(5) by (simp add: active_cell_def)
  qed (use a in simp)
  then show "active_cell s cid \<or> idle_cell e tenant cid" ..
qed

lemma create_cell_effects:
  "newID \<notin> fst ` set (cs_Cells (cellsLocked e (cr_TenantID req))) \<Longrightarrow> effects depth now lab e (fst (CreateCell js ctx newID newRev now req e))"
  by (auto simp: CreateCell_def split: sum.split prod.split intro: create_effect)

lemma lease_cell_effects:
  "newID \<notin> fst ` set (cs_Cells (cellsLocked e (TenantId (lp_JobKey p)))) \<Longrightarrow>
     effects depth now lab e (fst (CreateCellWithLeaseByID js quote newID newRev now p req e))"
  by (auto simp: CreateCellWithLeaseByID_def CreateWithLease_def Let_def rbind_Inr_iff split: sum.split prod.split if_split_asm intro: create_effect)

lemma map_of_rows: "map_of (map (\<lambda>(key, x). (key, f key x)) l) k = map_option (f k) (map_of l k)"
  by (induction l) auto

lemma pauseSchedules_le:
  "schedules_le e (map (\<lambda>(key, rec).
     (key, if sk_TenantId key = tenant \<and> rc_CellID (si_Target rec) = cid \<and> si_State rec = ScheduleStateActive
           then rec\<lparr>si_State := ScheduleStatePaused, si_EffectiveState := ScheduleStatePaused, si_PauseReason := ''cell_repo_mismatch''\<rparr>
           else rec)) (te_schedules e))"
  unfolding schedules_le_def schedule_le_def map_of_rows by auto

lemma update_cell_effects:
  assumes "registry_ok (cellsLocked e (up_TenantID req))"
  shows "effects depth now lab e (fst (UpdateCell js ctx newRev now req e))"
proof -
  let ?t = "up_TenantID req"
  have "effect depth now lab e (put_cells ?t s e)" if up: "Update js ctx newRev now req (cellsLocked e ?t) = Inr (c, s)" for c s
  proof (rule effect.cells)
    show "registry_step (cellsLocked e ?t) s" by (rule registry_step.update[OF up])
    fix cid assume a: "active_cell (cellsLocked e ?t) cid"
    from up have "active_cell s cid"
    proof (cases rule: Update_cases)
      case (2 c0 d)
      then have "c_State c = CellActive" using applyUpdate_Inr[OF 2(4)] by simp
      then show ?thesis using put_cell_active[OF a, of c] 2(7) by simp
    qed (use a in simp)
    then show "active_cell s cid \<or> idle_cell e ?t cid" ..
  qed
  moreover have "effect depth now lab x (pauseSchedules t cid x)" for x t cid
    unfolding pauseSchedules_def by (rule effect.schedules) (rule pauseSchedules_le)
  ultimately show ?thesis by (auto simp: UpdateCell_def Let_def split: sum.split prod.split) (meson effects_Cons r_into_rtranclp)+
qed

lemma jobsBusy_idle:
  "jobsBusy now tenant cid goals rows = Inr False \<Longrightarrow> (k, r) \<in> set rows \<Longrightarrow> TenantId k = tenant \<Longrightarrow> rc_CellID (jr_cell r) = cid \<Longrightarrow>
     \<not> recordBusy now r"
  by (induction rows) (auto simp: rbind_Inr_iff split: if_split_asm)

lemma retire_effects:
  assumes "toy_inv now e"
  shows "effects depth now lab e (fst (RetireCell ctx newRev now gkeys req e))"
proof -
  let ?t = "rt_TenantID req" and ?b = "cellBusy now gkeys (rt_TenantID req) e"
  have ok: "registry_ok (cellsLocked e ?t)" "records_ok e" using assms by (simp_all add: toy_inv_def cells_ok_def)
  have "effect depth now lab e (put_cells ?t s e)" if rt: "Retire ctx newRev now ?b req (cellsLocked e ?t) = Inr (c, s)" for c s
  proof (rule effect.cells)
    show "registry_step (cellsLocked e ?t) s" by (rule registry_step.retire[OF rt])
    fix cid assume a: "active_cell (cellsLocked e ?t) cid"
    from rt show "active_cell s cid \<or> idle_cell e ?t cid"
    proof (cases rule: Retire_cases)
      case (2 c0)
      show ?thesis
      proof (cases "c_ID c0 = cid")
        case True
        have "jobsBusy now ?t cid (goal_view e) (te_jobRecords e) = Inr False"
          using 2(3) True by (auto simp: cellBusy_def rbind_Inr_iff)
        note nb = jobsBusy_idle[OF this]
        have "jr_archived r \<noteq> None" if r: "getJobRecord e k = Some r" "TenantId k = ?t" "rc_CellID (jr_cell r) = cid" for k r
        proof -
          have "\<not> recordBusy now r" using nb[of k r] r map_of_SomeD[of "te_jobRecords e" k r] by (simp add: getJobRecord_def)
          moreover have "jr_cancelled r \<longrightarrow> jr_archived r \<noteq> None" using ok(2) r(1) by (simp add: records_ok_def record_ok_def)
          ultimately show ?thesis by (auto simp: recordBusy_def)
        qed
        then show ?thesis by (auto simp: idle_cell_def)
      next
        case False
        then show ?thesis using put_cell_active[OF a, of c] 2(4,5) by simp
      qed
    qed (use a in simp)
  qed
  then show ?thesis by (auto simp: RetireCell_def split: sum.split prod.split)
qed

section \<open>Runs\<close>

lemma step_effects:
  assumes "toy_step lib depth now new e e'" and "toy_inv now e"
  shows "effects depth now new e e'"
proof -
  have ok: "chapter_rows_ok e" "records_ok e" "registry_ok (cellsLocked e tenant)" for tenant
    using assms(2) by (simp_all add: toy_inv_def cells_ok_def)
  from assms(1) show ?thesis
    by cases
       (use assms(2) ok poll_effects getJobLease_effects keep_alive_effects renew_effects prepareChapterWrite_effects store_effects
          ensure_effects completeFinish_effects payload_failure_effects reschedule_effects snapshot_effects task_effects prepare_effects
          discard_effects insert_effects cancel_effects clear_effects delete_effects candidate_effects fail_effects create_cell_effects
          lease_cell_effects update_cell_effects retire_effects materialize_effects restart_effects store_schedule_effects
          mutate_schedule_effects occurrence_effects in simp_all)
qed

lemma run_inv: "toy_run lib depth t0 e0 ids t e \<Longrightarrow> toy_inv t0 e0 \<Longrightarrow> toy_inv t e"
proof (induction rule: toy_run.induct)
  case (then_step ids t e now new e')
  then show ?case using effects_inv[OF step_effects] toy_inv_later by blast
qed

lemma reach_inv: "toy_run lib depth t0 (NewToyEngine keys) ids t e \<Longrightarrow> toy_inv t e"
  by (rule run_inv[OF _ toy_inv_start])

lemma run_time: "toy_run lib depth t0 e0 ids t e \<Longrightarrow> t0 \<le> t"
  by (induction rule: toy_run.induct) auto

text \<open>A fact that holds at the start and that time and every effect keep holds at the end of a run.\<close>

lemma run_induct [consumes 2, case_names start later effect]:
  assumes "toy_run lib depth t0 e0 ids t e" and "toy_inv t0 e0" and "P t0 e0"
    and later: "\<And>t now e. P t e \<Longrightarrow> t \<le> now \<Longrightarrow> P now e"
    and effect: "\<And>now new e e'. P now e \<Longrightarrow> t0 \<le> now \<Longrightarrow> toy_inv now e \<Longrightarrow> effect depth now new e e' \<Longrightarrow> fst new \<subseteq> ids \<Longrightarrow> P now e'"
  shows "P t e"
proof -
  have "ids' \<subseteq> ids \<longrightarrow> P t e" if "toy_run lib depth t0 e0 ids' t e" for ids' t e
    using that
  proof (induction rule: toy_run.induct)
    case begin_run show ?case using assms(3) by blast
  next
    case (then_step ids' t e now new e')
    have i: "toy_inv now e" by (rule toy_inv_later[OF run_inv[OF then_step.hyps(1) assms(2)] then_step.hyps(2)])
    have tm: "t0 \<le> now" using run_time[OF then_step.hyps(1)] then_step.hyps(2) by simp
    show ?case
    proof
      assume sub: "ids' \<union> fst new \<subseteq> ids"
      then have p: "P now e" using later then_step.IH then_step.hyps(2) by blast
      have "toy_inv now e' \<and> P now e'" using step_effects[OF then_step.hyps(3) i]
      proof (induction rule: rtranclp_induct)
        case base show ?case using i p by simp
      next
        case (step y z) then show ?case using effect[OF _ tm] effect_inv sub by blast
      qed
      then show "P now e'" ..
    qed
  qed
  then show ?thesis using assms(1) by blast
qed

end
