(* ===== verification/Toy_Demo.thy ===== *)
theory Toy_Demo
  imports Toy_Runs
begin

text \<open>A run of the in-process runtime that the witnesses of its properties use.\<close>

definition demo_runtime :: runtime_lib where
  "demo_runtime = \<lparr>lb_payload = \<lparr>pl_parse = (\<lambda>_. Inr (JObj [])), pl_marshal = (\<lambda>_. Inr ''{}'')\<rparr>, lb_size = (\<lambda>_. Inr ()),
     lb_ordinary = (\<lambda>_ _ _. Inr ()), lb_last = (\<lambda>_ _ _. Inr ()), lb_schemaHash = (\<lambda>_. []), lb_sha256 = (\<lambda>b. b),
     lb_jsonValid = (\<lambda>_. True), lb_metadata = (\<lambda>_ _ _ _ _. Inr []), lb_completion = (\<lambda>_ _ _ _. Inr None),
     lb_stats = (\<lambda>_. JNull), lb_mismatch = (\<lambda>_ _. ''differs'')\<rparr>"

definition demo_user :: call_ctx where
  "demo_user = \<lparr>cx_Authority = demo_admin, cx_Lease = None, cx_Schedule = None\<rparr>"

definition demo_prep :: "gostring \<Rightarrow> Dependency list \<Rightarrow> Preparation" where
  "demo_prep job deps = \<lparr>pp_Cell = ''api'', pp_CellRepo = [], pp_Target = \<lparr>rc_Cell = [], rc_CellID = [], rc_CellRepo = []\<rparr>,
     pp_ParentJobID = [], pp_Key = JobKey ''t'' job, pp_RequestID = [], pp_PriorJobID = [], pp_ShareGoal = False,
     pp_Descriptor = job, pp_Dependencies = deps\<rparr>"

definition demo_start :: Chapter where
  "demo_start = \<lparr>ch_Ordinal = 0, ch_TaskType = [], ch_Body = JobStartChapter ''{}'', ch_InputHash = [], ch_CreatedAt = 0,
     ch_Metadata = [], ch_Artifacts = []\<rparr>"

definition demo_submission :: Submission where
  "demo_submission = \<lparr>sb_JobType = ''build'', sb_ClientPayload = None, sb_ClientPayloadRevision = 0, sb_InitialPayloadDigest = [],
     sb_Metadata = [], sb_RunPolicy = [], sb_AvailableAt = None, sb_Start = demo_start\<rparr>"

definition demo0 :: ToyEngine where
  "demo0 = NewToyEngine (\<lambda>_. ''k'')"

definition demo1 :: ToyEngine where
  "demo1 = fst (CreateCell demo_json demo_admin ''id1'' ''r1'' 1 (demo_create ''api'' ''host/api'') demo0)"

definition demo2 :: ToyEngine where
  "demo2 = fst (PrepareJob demo_runtime 2 demo_user (Inr (JobKey ''t'' ''x'')) ''ga'' (demo_prep ''a'' []) demo1)"

definition demo3 :: ToyEngine where
  "demo3 = fst (insertJob 9 3 demo_user (JobKey ''t'' ''a'') demo_submission demo2)"

definition demo4 :: ToyEngine where
  "demo4 = fst (PrepareJob demo_runtime 4 demo_user (Inr (JobKey ''t'' ''x'')) ''gb'' (demo_prep ''b'' [Dependency (job_target ''a'') JobPrereqSuccess]) demo3)"

definition demo5 :: ToyEngine where
  "demo5 = fst (insertJob 9 5 demo_user (JobKey ''t'' ''b'') demo_submission demo4)"

definition demo_worker :: "CellAuthority option" where
  "demo_worker = Some \<lparr>a_Principal = ''worker'', a_TenantID = ''*'', a_Permissions = [''jobs.acquire''], a_Cells = None\<rparr>"

definition demo_lease_request :: GetJobLeaseRequest where
  "demo_lease_request = \<lparr>gl_JobKey = JobKey ''t'' ''a'', gl_Routes = [Route ''build'' []], gl_WorkerID = ''w1'', gl_LeaseDuration = 100\<rparr>"

definition demo6 :: ToyEngine where
  "demo6 = fst (getJobLeaseAcquire demo_runtime demo_worker ''l1'' 6 demo_lease_request demo5)"

section \<open>The run\<close>

lemma demo_run: "toy_run demo_runtime 9 0 demo0 {''l1''} 6 demo6"
proof -
  have r0: "toy_run demo_runtime 9 0 demo0 {} 0 demo0" by (rule toy_run.begin_run)
  have s1: "toy_step demo_runtime 9 1 silent demo0 demo1" unfolding demo1_def
    by (rule toy_step.new_cell) (simp add: demo0_def NewToyEngine_def cellsLocked_def NewRegistry_def)
  have r1: "toy_run demo_runtime 9 0 demo0 {} 1 demo1" using toy_run.then_step[OF r0 _ s1] by simp
  have s2: "toy_step demo_runtime 9 2 silent demo1 demo2" unfolding demo2_def by (rule toy_step.prepare_job) simp
  have r2: "toy_run demo_runtime 9 0 demo0 {} 2 demo2" using toy_run.then_step[OF r1 _ s2] by simp
  have s3: "toy_step demo_runtime 9 3 silent demo2 demo3" unfolding demo3_def by (rule toy_step.publish_job)
  have r3: "toy_run demo_runtime 9 0 demo0 {} 3 demo3" using toy_run.then_step[OF r2 _ s3] by simp
  have s4: "toy_step demo_runtime 9 4 silent demo3 demo4" unfolding demo4_def by (rule toy_step.prepare_job) simp
  have r4: "toy_run demo_runtime 9 0 demo0 {} 4 demo4" using toy_run.then_step[OF r3 _ s4] by simp
  have s5: "toy_step demo_runtime 9 5 silent demo4 demo5" unfolding demo5_def by (rule toy_step.publish_job)
  have r5: "toy_run demo_runtime 9 0 demo0 {} 5 demo5" using toy_run.then_step[OF r4 _ s5] by simp
  have s6: "toy_step demo_runtime 9 6 ({''l1''}, {}) demo5 demo6" unfolding demo6_def by (rule toy_step.lease_job) simp
  show ?thesis using toy_run.then_step[OF r5 _ s6] by simp
qed

text \<open>What the last state of the run holds.\<close>

definition demo_a :: jobRecord where
  "demo_a = \<lparr>jr_cell = \<lparr>rc_Cell = ''api'', rc_CellID = ''id1'', rc_CellRepo = ''host/api''\<rparr>,
     jr_key = JobKey ''t'' ''a'', jr_goalID = ''ga'', jr_dependencyWaitID = [], jr_hidden = False, jr_clientPayload = None,
     jr_clientPayloadRevision = 0, jr_initialPayloadDigest = [], jr_leaseExpiresAt = 106, jr_leaseWorkerID = ''w1'',
     jr_status = JobStatusActive, jr_cancelled = False, jr_jobType = ''build'', jr_createdAt = 3, jr_archived = None,
     jr_payload = \<lparr>wp_RunPolicy = [], wp_TaskWait = None\<rparr>, jr_metadata = [], jr_completionDetail = [],
     jr_completionStatus = [], jr_route = Route ''build'' [], jr_alternateRoute = None, jr_alternateAt = zero_time, jr_step = 0,
     jr_waitFor = [], jr_availableAt = 3, jr_waitDeadline = zero_time, jr_leased = True, jr_leaseID = ''l1'',
     jr_consecutiveExpirations = 0\<rparr>"

definition demo_b :: jobRecord where
  "demo_b = demo_a\<lparr>jr_key := JobKey ''t'' ''b'', jr_goalID := ''gb'', jr_dependencyWaitID := ''submission'',
     jr_leaseExpiresAt := zero_time, jr_leaseWorkerID := [], jr_status := JobStatusReady, jr_createdAt := 5, jr_availableAt := 5,
     jr_leased := False, jr_leaseID := []\<rparr>"

definition demo_b_wait :: DependencyWaitInfo where
  "demo_b_wait = \<lparr>w_JobKey = JobKey ''t'' ''b'', w_WaitID = ''submission'', w_State = DependencyPending, w_Deadline = None,
     w_Dependencies = [\<lparr>d_Target = job_target ''a'', d_Condition = JobPrereqSuccess, d_State = DependencyPending,
       d_SatisfiedByJobID = [], d_BlockedReason = [], d_Failure = None\<rparr>], w_FailedDependencyIndex = None, w_Failure = None\<rparr>"

definition demo_cells :: CellRegistry where
  "demo_cells = \<lparr>cs_CursorKey = ''k'', cs_Cells = [(''id1'', demo_cell\<lparr>c_CreatedAt := 1, c_UpdatedAt := 1\<rparr>)], cs_Creations = []\<rparr>"

lemma demo_tables:
  "(te_jobRecords demo6, WaitRows (te_goals demo6), te_runtimeChapters demo6, cellsLocked demo6 ''t'')
   = ([(JobKey ''t'' ''a'', demo_a), (JobKey ''t'' ''b'', demo_b)],
      [(DependencyWaitKey (JobKey ''t'' ''b'') ''submission'', demo_b_wait)],
      [(JobKey ''t'' ''a'', [(0, demo_start)]), (JobKey ''t'' ''b'', [(0, demo_start)])], demo_cells)"
  by code_simp

lemma demo_jobs:
  "te_jobRecords demo6 = [(JobKey ''t'' ''a'', demo_a), (JobKey ''t'' ''b'', demo_b)]"
  "getJobRecord demo6 (JobKey ''t'' ''a'') = Some demo_a" "getJobRecord demo6 (JobKey ''t'' ''b'') = Some demo_b"
  "map_of (te_runtimeChapters demo6) (JobKey ''t'' ''a'') = Some [(0, demo_start)]"
  "Memory_Wait (te_goals demo6) (DependencyWaitKey (JobKey ''t'' ''b'') ''submission'') = Inr demo_b_wait"
  "cellsLocked demo6 ''t'' = demo_cells"
proof -
  have "copyWait demo_b_wait = demo_b_wait" by code_simp
  then show "Memory_Wait (te_goals demo6) (DependencyWaitKey (JobKey ''t'' ''b'') ''submission'') = Inr demo_b_wait"
    using demo_tables by (simp add: Memory_Wait_def)
qed (use demo_tables in \<open>simp_all add: getJobRecord_def\<close>)

end
