(* ===== verification/Toy_Handlers.thy ===== *)
theory Toy_Handlers
  imports Toy_Runs
begin

text \<open>
  The public operations of the in-process runtime that release the engine's mutex in between are
  runs of the step relation: what holds of every run holds of them, alone or interleaved.
\<close>

abbreviation handled :: "runtime_lib \<Rightarrow> nat \<Rightarrow> instant \<Rightarrow> ToyEngine \<Rightarrow> ToyEngine \<Rightarrow> bool" where
  "handled lib depth now e e' \<equiv> toy_run lib depth now e {} now e'"

lemma toy_run_trans:
  assumes "toy_run lib depth t1 e1 ids2 t2 e2" and "toy_run lib depth t0 e0 ids1 t1 e1"
  shows "toy_run lib depth t0 e0 (ids1 \<union> ids2) t2 e2"
  using assms(1)
proof (induction rule: toy_run.induct)
  case begin_run then show ?case using assms(2) by simp
next
  case (then_step ids t e now new e')
  then show ?case using toy_run.then_step[of lib depth t0 e0 "ids1 \<union> ids" t e now new e'] by (simp add: Un_assoc)
qed

lemma handled_refl [simp]: "handled lib depth now e e"
  by (rule toy_run.begin_run)

lemma handled_trans: "handled lib depth now e e1 \<Longrightarrow> handled lib depth now e1 e2 \<Longrightarrow> handled lib depth now e e2"
  using toy_run_trans[of lib depth now e1 "{}" now e2 now e "{}"] by simp

lemma handled_step: "toy_step lib depth now ({}, shown) e e' \<Longrightarrow> handled lib depth now e e'"
  using toy_run.then_step[OF toy_run.begin_run, of now now lib depth "({}, shown)" e e'] by simp

lemma run_handled:
  "toy_run lib depth t0 e0 ids t e \<Longrightarrow> t \<le> now \<Longrightarrow> toy_step lib depth now silent e e1 \<Longrightarrow> handled lib depth now e1 e2 \<Longrightarrow> toy_run lib depth t0 e0 ids now e2"
  using toy_run_trans[of lib depth now e1 "{}" now e2 t0 e0 ids] toy_run.then_step[of lib depth t0 e0 ids t e now silent e1] by simp

text \<open>To write no artifacts is a step that changes nothing, so the clock may advance in any state.\<close>

lemma idle_step: "toy_step lib depth now silent e e"
  using toy_step.materialize[of lib depth now e undefined 0 "[]"] by (simp add: materializeTaskData_def put_artifacts_def)

lemma handled_run:
  "toy_run lib depth t0 e0 ids t e \<Longrightarrow> t \<le> now \<Longrightarrow> handled lib depth now e e' \<Longrightarrow> toy_run lib depth t0 e0 ids now e'"
  by (rule run_handled[OF _ _ idle_step])

section \<open>Leases, chapters and tasks\<close>

lemmas step_handled = toy_step.upload[THEN handled_step] toy_step.store[THEN handled_step] toy_step.end_chapter[THEN handled_step]
  toy_step.complete[THEN handled_step] toy_step.complete_failed[THEN handled_step] toy_step.task_look[THEN handled_step]
  toy_step.task_done[THEN handled_step] toy_step.discard_job[THEN handled_step] toy_step.materialize[THEN handled_step]
  toy_step.publish_occurrence[THEN handled_step] toy_step.store_schedule[THEN handled_step] toy_step.mutate_schedule[THEN handled_step]

text \<open>An operation that goes on after a critical section, unless it failed there.\<close>

lemma handled_bind:
  assumes "handled lib depth now e (fst m)" and "\<And>e1 x. handled lib depth now e1 (fst (f e1 x))"
    and "\<And>e1 err. handled lib depth now e1 (fst (g e1 err))"
  shows "handled lib depth now e (fst (case m of (e1, Inl err) \<Rightarrow> g e1 err | (e1, Inr x) \<Rightarrow> f e1 x))"
  using handled_trans[OF assms(1)] assms(2,3) by (cases m; cases "snd m") auto

lemma completeLease_handled: "handled lib depth now e (fst (completeLease lib depth now k l w req e))"
  unfolding completeLease_def by (simp split: option.split sum.split) (intro conjI allI impI handled_bind step_handled, simp_all)

lemma PutChapter_handled: "handled lib depth now e (fst (PutChapter lib claims now req e))"
proof -
  have "handled lib depth now e1 (fst (case lb_ordinary lib tenant (putSchemaHash lib claims req e1) ch of
      Inl err \<Rightarrow> (e1, Inl err) | Inr _ \<Rightarrow> storeRuntimeChapter k n ch e1))" for e1 tenant ch k n
    by (simp split: sum.split add: step_handled)
  then show ?thesis unfolding PutChapter_def by (simp split: sum.split) (intro allI impI handled_bind step_handled, simp_all)
qed

lemma CompleteTaskIfWaiting_handled: "handled lib depth now e (fst (CompleteTaskIfWaiting lib depth now req e))"
proof -
  have "handled lib depth now e1 (fst (case x of (payload, route, wait) \<Rightarrow> (case taskChapter lib now req payload route wait e1 of
      Inl err \<Rightarrow> (e1, Inl err)
    | Inr (chapter, pending, failure) \<Rightarrow> taskPublish depth now (ct_JobKey req) (ct_ResumeJobType req) payload route wait chapter pending failure e1)))" for e1 x
    by (simp split: sum.split prod.split add: step_handled)
  then show ?thesis unfolding CompleteTaskIfWaiting_def by (intro handled_bind[OF step_handled(6)]) simp_all
qed

section \<open>Schedules\<close>

lemma submit_handled:
  assumes "newGoal \<noteq> []"
  shows "handled lib depth now e (fst (submitScheduledOccurrenceWithJobID lib sl depth now cx newGoal info jobID at previous bits manual e))"
proof -
  let ?key = "JobKey (sk_TenantId (si_Key info)) jobID" and ?cx = "cx\<lparr>cx_Schedule := Some (si_Key info)\<rparr>"
  note d = step_handled(8)
  have prep: "handled lib depth now e (fst (PrepareJob lib now ?cx (Inr ?key) newGoal prep e))" for prep
    by (rule handled_step, rule toy_step.prepare_job[OF assms])
  have ins: "handled lib depth now e1 (fst (case insertOccurrence depth now ?cx ?key sb w e1 of
      (e3, Inl err) \<Rightarrow> (DiscardJobPreparation ?key e3, Inl err) | (e3, Inr k) \<Rightarrow> (e3, Inr k)))" for e1 sb w
    by (rule handled_bind) (simp_all add: step_handled d)
  have sub: "handled lib depth now e1 (fst (case occurrenceSubmission lib sl now (si_Target info) md at stored of
      Inl err \<Rightarrow> (DiscardJobPreparation ?key e1, Inl err)
    | Inr sb \<Rightarrow> (case insertOccurrence depth now ?cx ?key sb w e1 of
        (e3, Inl err) \<Rightarrow> (DiscardJobPreparation ?key e3, Inl err) | (e3, Inr k) \<Rightarrow> (e3, Inr k))))" for e1 md stored w
    using ins by (simp split: sum.split add: d)
  show ?thesis
    unfolding submitScheduledOccurrenceWithJobID_def Let_def
    apply (simp only: fst_conv handled_refl split: sum.split)
    apply (intro conjI allI impI)
     apply simp
    apply (rule handled_bind[OF prep])
     apply (simp only: fst_conv split: sum.split)
     apply (intro conjI allI impI d)
     apply (rule handled_bind[OF step_handled(9)])
      apply (rule sub)
     apply (simp add: d)
    apply simp
    done
qed

lemma submitScheduled_handled:
  "newGoal \<noteq> [] \<Longrightarrow> handled lib depth now e (fst (submitScheduledOccurrence lib sl depth now cx newGoal info at previous bits manual e))"
  unfolding submitScheduledOccurrence_def by (rule submit_handled)

lemma submitFirst_handled:
  assumes "newGoal \<noteq> []" and "handled lib depth later e (fst m)"
  shows "handled lib depth later e (fst (submitFirst lib sl depth later cx newGoal m))"
proof -
  have "handled lib depth later e1 (fst (case submitScheduledOccurrence lib sl depth later cx newGoal info at [] [] False e1 of
      (e2, Inl err) \<Rightarrow> (e2, Inl err) | (e2, Inr _) \<Rightarrow> (e2, Inr info)))" for e1 info at
    by (rule handled_bind[OF submitScheduled_handled[OF assms(1)]]) simp_all
  then have "handled lib depth later e1 (fst (case (if si_State info = ScheduleStateActive then si_NextFireAt info else None) of
      None \<Rightarrow> (e1, Inr info)
    | Some at \<Rightarrow> (case submitScheduledOccurrence lib sl depth later cx newGoal info at [] [] False e1 of
        (e2, Inl err) \<Rightarrow> (e2, Inl err) | (e2, Inr _) \<Rightarrow> (e2, Inr info))))" for e1 info
    by (cases "if si_State info = ScheduleStateActive then si_NextFireAt info else None") simp_all
  then show ?thesis unfolding submitFirst_def by (intro handled_bind[OF assms(2)]) simp_all
qed

lemma UpsertSchedule_handled: "newGoal \<noteq> [] \<Longrightarrow> handled lib depth later e (fst (UpsertSchedule lib sl depth now later cx newGoal req e))"
  unfolding UpsertSchedule_def by (auto split: sum.split prod.split intro: submitFirst_handled step_handled(11))

lemma ResumeSchedule_handled: "newGoal \<noteq> [] \<Longrightarrow> handled lib depth later e (fst (ResumeSchedule lib sl depth now later cx newGoal req e))"
  unfolding ResumeSchedule_def by (intro submitFirst_handled step_handled(12))

lemma TriggerSchedule_handled: "newGoal \<noteq> [] \<Longrightarrow> handled lib depth later e (fst (TriggerSchedule lib sl depth now later cx newGoal key rid e))"
  unfolding TriggerSchedule_def by (simp split: sum.split add: submit_handled)

lemma cancelScheduledLease_handled: "handled lib depth now e (fst (cancelScheduledLease lib sl depth now lease detail e))"
  unfolding cancelScheduledLease_def by (simp split: sum.split) (intro allI impI handled_bind[OF completeLease_handled], simp_all)

lemma preflight_handled:
  assumes "newGoal \<noteq> []"
  shows "handled lib depth now e (fst (preflightScheduleLease lib sl depth now cx newGoal lease e))"
proof -
  have "handled lib depth now e (fst (case submitScheduledOccurrence lib sl depth now cx newGoal info at prev bits False e of
      (e1, Inl err) \<Rightarrow> (e1, Inl err) | (e1, Inr _) \<Rightarrow> (e1, Inr True)))" for info at prev bits
    by (rule handled_bind[OF submitScheduled_handled[OF assms]]) simp_all
  then show ?thesis unfolding preflightScheduleLease_def
    by (simp split: option.split sum.split preflight.split add: cancelScheduledLease_handled)
qed

lemma filterLeases_handled:
  assumes "\<And>i. goals i \<noteq> []"
  shows "handled lib depth now e (fst (filterLeases lib sl depth now cx goals n leases e))"
proof (induction leases arbitrary: n e)
  case (Cons lease leases)
  have "handled lib depth now e1 (fst (case filterLeases lib sl depth now cx goals (Suc n) leases e1 of
      (e2, Inl err) \<Rightarrow> (e2, Inl err) | (e2, Inr out) \<Rightarrow> (e2, Inr (if ok then lease # out else out))))" for e1 ok
    by (rule handled_bind[OF Cons]) simp_all
  then show ?case unfolding filterLeases.simps by (intro handled_bind[OF preflight_handled[OF assms]]) simp_all
qed simp

text \<open>A poll is an acquisition followed by the preflights of what was acquired.\<close>

lemma PollWork_run:
  assumes "toy_run lib depth t0 e0 ids t e" and "t \<le> now" "now \<le> later" and "\<And>n. fresh n \<noteq> []" and "\<And>n. goals n \<noteq> []"
  shows "toy_run lib depth t0 e0 (ids \<union> range fresh) later (fst (PollWork lib sl depth cx matches fresh goals keys now later req e))"
proof -
  obtain e1 r where a: "pollAcquire lib (cx_Authority cx) matches fresh keys now req e = (e1, r)" by (cases "pollAcquire lib (cx_Authority cx) matches fresh keys now req e")
  have run: "toy_run lib depth t0 e0 (ids \<union> range fresh) now e1"
    using toy_run.then_step[OF assms(1,2) toy_step.poll[of fresh, OF assms(4), where e = e and ctx = "cx_Authority cx" and matches = matches and keys = keys and req = req]] a by simp
  show ?thesis
    using handled_run[OF run assms(3) handled_refl] handled_run[OF run assms(3) filterLeases_handled[OF assms(5)]] a
    by (cases r) (simp_all add: PollWork_def)
qed

lemma GetJobLease_run:
  assumes "toy_run lib depth t0 e0 ids t e" and "t \<le> now" "now \<le> later" and "fresh \<noteq> []" and "newGoal \<noteq> []"
  shows "toy_run lib depth t0 e0 (ids \<union> {fresh}) later (fst (GetJobLease lib sl depth cx fresh newGoal now later req e))"
proof -
  obtain e1 r where a: "getJobLeaseAcquire lib (cx_Authority cx) fresh now req e = (e1, r)" by (cases "getJobLeaseAcquire lib (cx_Authority cx) fresh now req e")
  have run: "toy_run lib depth t0 e0 (ids \<union> {fresh}) now e1"
    using toy_run.then_step[OF assms(1,2) toy_step.lease_job[OF assms(4), where e = e and ctx = "cx_Authority cx" and req = req]] a by simp
  have "handled lib depth later e1 (fst (case preflightScheduleLease lib sl depth later cx newGoal lease e1 of
      (e2, Inl err) \<Rightarrow> (e2, Inl err) | (e2, Inr ok) \<Rightarrow> (e2, Inr (if ok then Some lease else None))))" for lease
    by (rule handled_bind[OF preflight_handled[OF assms(5)]]) simp_all
  then show ?thesis
    using handled_run[OF run assms(3)] handled_run[OF run assms(3) handled_refl] a
    by (cases r) (auto simp: GetJobLease_def split: option.split)
qed

end
