(* ===== verification/Delegation_Leases.thy ===== *)
theory Delegation_Leases
  imports Delegation_Server
begin

text \<open>
  What the delegation boundary relies on in the runtime behind it: lease validation that refuses
  with one error, grants only unexpired leases, and never accepts a lost lease again unless its
  identifier is generated again.  Delegated credentials then die with the lease they come from.
\<close>

locale lease_service =
  fixes validate :: "instant \<Rightarrow> 's \<Rightarrow> JobKey \<Rightarrow> gostring \<Rightarrow> gostring \<Rightarrow> error + LeaseValidity"
    and run :: "instant \<Rightarrow> 's \<Rightarrow> gostring set \<Rightarrow> instant \<Rightarrow> 's \<Rightarrow> bool"
    and good :: "instant \<Rightarrow> 's \<Rightarrow> bool"
  assumes refusal: "validate t s k l w = Inl er \<Longrightarrow> er = ErrExecutionLeaseLost"
    and unexpired: "validate t s k l w = Inr v \<Longrightarrow> t < lv_ExpiresAt v"
    and fenced: "good t s \<Longrightarrow> run t s ids t' s' \<Longrightarrow> l \<notin> ids \<Longrightarrow> validate t s k l w = Inl er \<Longrightarrow> validate t' s' k l w = Inl er"
begin

lemma parent_live:
  assumes "parentValidity (Some (validate t s)) t p = Inr v"
  shows "validate t s (JobKey (lt_TenantID p) (lt_JobID p)) (lt_LeaseID p) (lt_WorkerID p) = Inr v" "t < lv_ExpiresAt v"
proof -
  show "validate t s (JobKey (lt_TenantID p) (lt_JobID p)) (lt_LeaseID p) (lt_WorkerID p) = Inr v"
    using assms by (auto simp: parentValidity_def split: sum.splits if_split_asm)
  then show "t < lv_ExpiresAt v" by (rule unexpired)
qed

lemma checked_live:
  assumes "checkedDelegation lib sg (Some (validate t s)) t token k l = Inr (c, v)"
  obtains w where "validate t s k l w = Inr v" "t < lv_ExpiresAt v"
proof -
  obtain c0 where c0: "claims_key c0 = k" "lt_LeaseID (cl_Parent c0) = l" "parentValidity (Some (validate t s)) t (cl_Parent c0) = Inr v"
    using assms by (auto simp: checkedDelegation_def rbind_Inr_iff split: sum.splits if_split_asm)
  then show thesis using parent_live[OF c0(3)] that by (auto simp: claims_key_def)
qed

text \<open>The boundary admits a delegated request only for a lease that some worker holds.\<close>

lemma admitted_live:
  assumes "prepareDelegationRequest lib bl sg (Some (validate t s)) t r = Inr ()" and "rq_Tokens r = token # others" and "isDelegationToken token"
  obtains tenant job l w v where "unescape (split_slash (rq_Path r) ! 3) = Some tenant" "unescape (split_slash (rq_Path r) ! 5) = Some job"
    "unescape (split_slash (rq_Path r) ! 7) = Some l" "validate t s (JobKey tenant job) l w = Inr v" "t < lv_ExpiresAt v"
proof -
  have "admitDelegated lib bl sg (Some (validate t s)) t token r = Inr ()"
    using assms by (auto simp: prepareDelegationRequest_def Let_def split: if_split_asm)
  then obtain tenant job l c v where p: "unescape (split_slash (rq_Path r) ! 3) = Some tenant" "unescape (split_slash (rq_Path r) ! 5) = Some job"
    "unescape (split_slash (rq_Path r) ! 7) = Some l" and c: "checkedDelegation lib sg (Some (validate t s)) t token (JobKey tenant job) l = Inr (c, v)"
    by (auto simp: admitDelegated_def Let_def rbind_Inr_iff split: if_split_asm option.splits)
  from c obtain w where w: "validate t s (JobKey tenant job) l w = Inr v" "t < lv_ExpiresAt v" by (rule checked_live)
  show thesis by (rule that[OF p w])
qed

lemma dead_refused_later:
  assumes "good t s" and "run t s ids t' s'" and "l \<notin> ids" and "\<And>w. validate t s k l w = Inl ErrExecutionLeaseLost"
    and "rq_Tokens r = token # others" and "isDelegationToken token"
    and "unescape (split_slash (rq_Path r) ! 3) = Some (TenantId k)" "unescape (split_slash (rq_Path r) ! 5) = Some (JobId k)"
    and "unescape (split_slash (rq_Path r) ! 7) = Some l"
  shows "isl (prepareDelegationRequest lib bl sg (Some (validate t' s')) t' r)"
proof (rule ccontr)
  assume "\<not> ?thesis"
  then have "prepareDelegationRequest lib bl sg (Some (validate t' s')) t' r = Inr ()"
    by (cases "prepareDelegationRequest lib bl sg (Some (validate t' s')) t' r") auto
  from admitted_live[OF this assms(5,6)] obtain tenant job l' w v
    where a: "unescape (split_slash (rq_Path r) ! 3) = Some tenant" "unescape (split_slash (rq_Path r) ! 5) = Some job"
      "unescape (split_slash (rq_Path r) ! 7) = Some l'" and v: "validate t' s' (JobKey tenant job) l' w = Inr v" by metis
  have "JobKey tenant job = k" "l' = l" using a assms(7-9) by (cases k, simp)+
  with v have "validate t' s' k l w = Inr v" by simp
  moreover have "validate t' s' k l w = Inl ErrExecutionLeaseLost" by (rule fenced[OF assms(1-3) assms(4)])
  ultimately show False by simp
qed

end

end
