(* ===== verification/Toy_Leases.thy ===== *)
theory Toy_Leases
  imports Toy_Demo Toy_Handlers Delegation_Leases
begin

text \<open>
  Leases over runs of the in-process runtime: fencing, the abstract lease machine that the runtime
  refines, the bound on consecutive expirations, and delegated credentials that die with a lease.
\<close>

lemma inv_record: "toy_inv now e \<Longrightarrow> getJobRecord e k = Some r \<Longrightarrow> record_ok k r"
  by (simp add: toy_inv_def records_ok_def)

section \<open>Fencing\<close>

lemma job_step_dead:
  assumes "job_step e now lab k r r'" and "\<not> leaseLive now l w r" and "l \<notin> fst lab"
  shows "\<not> leaseLive now l w r'"
  using assms(1)
proof cases
  case moved
  then show ?thesis
  proof cases
    case advance
    then show ?thesis using assms(2) by (auto simp: leaseLive_def advance_fields)
  next
    case (acquire i w' d) then show ?thesis using assms(3) by (auto simp: leaseLive_def)
  next
    case (renew l' w' x) then show ?thesis using assms(2) by (auto simp: leaseLive_def)
  next
    case clear then show ?thesis using assms(2) by (simp add: leaseLive_def clearedRecord_def)
  next
    case (resume to_type payload wait) then show ?thesis by (auto simp: leaseLive_def resumedRecord_def)
  qed
next
  case ended then show ?thesis using ends_fields(6)[OF ended] by (simp add: leaseLive_def)
qed (use assms(2) in \<open>auto simp: leaseLive_def\<close>)

lemma leaseLive_later: "t \<le> now \<Longrightarrow> leaseLive now l w r \<Longrightarrow> leaseLive t l w r"
  by (auto simp: leaseLive_def)

definition dead_lease :: "JobKey \<Rightarrow> gostring \<Rightarrow> gostring \<Rightarrow> instant \<Rightarrow> ToyEngine \<Rightarrow> bool" where
  "dead_lease k l w t e \<longleftrightarrow> (\<forall>r. getJobRecord e k = Some r \<longrightarrow> \<not> leaseLive t l w r)"

lemma effect_dead:
  assumes "effect depth now lab e e'" and "toy_inv now e" and "dead_lease k l w now e" and "l \<notin> fst lab"
  shows "dead_lease k l w now e'"
  unfolding dead_lease_def
proof (intro allI impI)
  fix r' assume r': "getJobRecord e' k = Some r'"
  show "\<not> leaseLive now l w r'"
  proof (cases "getJobRecord e k")
    case None
    then show ?thesis using effect_new_job(2)[OF assms(1,2) None r'] by (auto simp: leaseLive_def)
  next
    case (Some r)
    then have "job_step e now lab k r r'" using effect_job[OF assms(1) Some] r' by force
    then show ?thesis using job_step_dead assms(3,4) Some by (auto simp: dead_lease_def)
  qed
qed

lemma run_dead:
  assumes "toy_run lib depth t0 e0 ids t e" and "toy_inv t0 e0" and "dead_lease k l w t0 e0" and "l \<notin> ids"
  shows "dead_lease k l w t e"
  using assms(1,2)
proof (induction rule: run_induct)
  case (later t now e) then show ?case using leaseLive_later by (auto simp: dead_lease_def)
next
  case (effect now new e e') then show ?case using effect_dead assms(4) by blast
qed (rule assms(3))

lemma validate_iff: "ValidateExecutionLeaseByID t e k l w = Inl er \<longleftrightarrow> er = ErrExecutionLeaseLost \<and> (w = [] \<or> dead_lease k l w t e)"
  by (auto simp: ValidateExecutionLeaseByID_def dead_lease_def split: option.splits if_split_asm)

text \<open>An operation that fails and leaves the state alone.\<close>

definition refused :: "ToyEngine \<Rightarrow> 'a outcome \<Rightarrow> bool" where
  "refused e p \<longleftrightarrow> fst p = e \<and> isl (snd p)"

lemma dead_refused:
  assumes "dead_lease k l w t e"
  shows "refused e (KeepAliveLeaseByIDWithExpiry t k l w d e)" "refused e (RenewExecutionLeaseByID lib t k l w d e)"
    "refused e (completeLease lib depth t k l w req e)" "refused e (rescheduleLease lib depth t k l w rreq e)"
  using assms by (cases "getJobRecord e k";
    auto simp: refused_def dead_lease_def KeepAliveLeaseByIDWithExpiry_def RenewExecutionLeaseByID_def rescheduleLease_def completeLease_def
      completePayloadFailure_def completeCheck_def split: option.split)+

lemma dead_put:
  assumes "dead_lease k l w t e" and "pc_JobKey req = k" and "pc_LeaseID req = l" and "lc_WorkerID c = w"
  shows "refused e (PutChapter lib (Some c) t req e)"
proof -
  have "isl (putChapterCheck (Some c) t req e)"
    using assms by (auto simp: putChapterCheck_def dead_lease_def rbind_def split: option.split sum.split)
  then show ?thesis by (auto simp: refused_def PutChapter_def split: sum.split)
qed

text \<open>The parent of a submission or of a new cell is looked up through the lease the caller presents.\<close>

lemma dead_parent:
  assumes "dead_lease (lp_JobKey p) (lp_LeaseID p) (lp_WorkerID p) t e" and "cx_Lease cx = Some p"
  shows "\<exists>er. cellParentLocked t cx tenant e = Inl er"
  using assms by (auto simp: cellParentLocked_def dead_lease_def split: option.split)

lemma dead_prepare:
  assumes "dead_lease (lp_JobKey p) (lp_LeaseID p) (lp_WorkerID p) t e" and "cx_Lease cx = Some p"
  shows "\<exists>er. prepareCellLocked t cx req e = Inl er"
proof -
  obtain er where "cellParentLocked t cx (TenantId (pp_Key req)) e = Inl er" using dead_parent[OF assms] by blast
  then show ?thesis by (cases "scheduleCell cx req e") (simp_all add: prepareCellLocked_def)
qed

lemma dead_submission:
  assumes "dead_lease (lp_JobKey p) (lp_LeaseID p) (lp_WorkerID p) t e" and "cx_Lease cx = Some p"
  shows "refused e (PrepareJob lib t cx newKey newGoal preq e)" "fst (insertJob depth t cx key sb e) = e"
    "refused e (CreateCellWithLeaseByID js quote newID newRev t p creq e)"
proof -
  show "refused e (PrepareJob lib t cx newKey newGoal preq e)"
  proof (cases "requestedKey preq e")
    case (Inr key)
    obtain er where "prepareCellLocked t cx (preq\<lparr>pp_Key := key\<rparr>) e = Inl er" using dead_prepare[OF assms] by blast
    then show ?thesis using Inr by (simp add: refused_def PrepareJob_def)
  qed (simp add: refused_def PrepareJob_def)
  obtain er where "cellParentLocked t \<lparr>cx_Authority = None, cx_Lease = Some p, cx_Schedule = None\<rparr> (TenantId (lp_JobKey p)) e = Inl er"
    using dead_parent[OF assms(1), of "\<lparr>cx_Authority = None, cx_Lease = Some p, cx_Schedule = None\<rparr>"] by auto
  then show "refused e (CreateCellWithLeaseByID js quote newID newRev t p creq e)" by (simp add: refused_def CreateCellWithLeaseByID_def)
  have d: "dead_lease (lp_JobKey p) (lp_LeaseID p) (lp_WorkerID p) t (put_job key (newRecord t sb) e)"
    using assms(1) by (auto simp: dead_lease_def leaseLive_def newRecord_def Let_def)
  have "\<exists>er. publishGoalLocked depth t cx key (newRecord t sb) (put_job key (newRecord t sb) e) = Inl er"
  proof (cases "map_of (te_preparedGoals (put_job key (newRecord t sb) e)) key")
    case (Some q)
    obtain er where "prepareCellLocked t cx (pg_Request q) (put_job key (newRecord t sb) e) = Inl er" using dead_prepare[OF d assms(2)] by blast
    then show ?thesis using Some by (simp add: publishGoalLocked_def publishCellLocked_def)
  qed (simp add: publishGoalLocked_def)
  then show "fst (insertJob depth t cx key sb e) = e" by (auto simp: insertJob_def split: option.split)
qed

section \<open>The abstract lease machine\<close>

text \<open>
  What a job's lease promises: nobody holds it, one worker holds it until a time, or the job is
  over.  A lease is taken with a generated identifier, and only when nobody holds it or the lease
  held has run out; it is renewed or given back only by a caller that shows the identifier and the
  worker it was granted to, before it runs out; and a job may be ended at any time.
\<close>

datatype lease_state = Idle | Held gostring gostring instant | Final

inductive lease_step :: "instant \<Rightarrow> gostring set \<Rightarrow> (gostring \<times> gostring) set \<Rightarrow> lease_state \<Rightarrow> lease_state \<Rightarrow> bool" for now ids shown where
  acquire: "i \<in> ids \<Longrightarrow> now < x \<Longrightarrow> lease_step now ids shown Idle (Held i w x)"
| takeover: "\<not> now < x \<Longrightarrow> i \<in> ids \<Longrightarrow> now < x' \<Longrightarrow> lease_step now ids shown (Held j v x) (Held i w x')"
| renew: "(i, w) \<in> shown \<Longrightarrow> now < x \<Longrightarrow> now < x' \<Longrightarrow> lease_step now ids shown (Held i w x) (Held i w x')"
| release: "(i, w) \<in> shown \<Longrightarrow> now < x \<Longrightarrow> lease_step now ids shown (Held i w x) Idle"
| expire: "\<not> now < x \<Longrightarrow> lease_step now ids shown (Held i w x) Idle"
| close: "lease_step now ids shown s Final"

inductive_cases lease_stepE: "lease_step now ids shown s s'"

text \<open>A sequence of steps that does not both acquire and show a lease is one step.\<close>

lemma lease_steps_collapse:
  assumes "(lease_step now ids shown)\<^sup>*\<^sup>* s s'" and "ids = {} \<or> shown = {}"
  shows "s' = s \<or> lease_step now ids shown s s'"
  using assms(1)
proof (induction rule: rtranclp_induct)
  case (step y z)
  then show ?case using assms(2) by (elim disjE lease_stepE) (auto intro: lease_step.intros)
qed simp

abbreviation shown_for :: "lease_label \<Rightarrow> JobKey \<Rightarrow> (gostring \<times> gostring) set" where
  "shown_for lab k \<equiv> {(i, w). (k, i, w) \<in> snd lab}"

definition lease_abs :: "jobRecord \<Rightarrow> lease_state" where
  "lease_abs r = (if jr_archived r \<noteq> None then Final
     else if jr_leased r then Held (jr_leaseID r) (jr_leaseWorkerID r) (jr_leaseExpiresAt r) else Idle)"

definition lease_view :: "ToyEngine \<Rightarrow> JobKey \<Rightarrow> lease_state" where
  "lease_view e k = (case getJobRecord e k of None \<Rightarrow> Idle | Some r \<Rightarrow> lease_abs r)"

lemma toyLeaseDuration_pos: "0 < toyLeaseDurationOrDefault d"
  by (simp add: toyLeaseDurationOrDefault_def)

lemma rec_step_refines:
  assumes "rec_step e now lab k r r'" and "record_ok k r"
  shows "lease_abs r' = lease_abs r \<or> lease_step now (fst lab) (shown_for lab k) (lease_abs r) (lease_abs r')"
  using assms(1)
proof cases
  case advance
  have "\<not> jr_cancelled r" if "jr_archived r = None" using that assms(2) by (auto simp: record_ok_def)
  then show ?thesis using advance_fields[OF advance]
    by (cases "lapsed now r") (auto simp: lease_abs_def lapsed_def intro: lease_step.expire)
next
  case (acquire i w d)
  then show ?thesis using assms(2) toyLeaseDuration_pos[of d] by (auto simp: lease_abs_def record_ok_def intro!: lease_step.acquire)
next
  case (renew l w x)
  then show ?thesis by (auto simp: lease_abs_def leaseLive_def intro!: lease_step.renew)
next
  case clear then show ?thesis by (simp add: lease_abs_def clearedRecord_def)
next
  case (resume to_type payload wait) then show ?thesis by (simp add: lease_abs_def resumedRecord_def)
qed

lemma job_step_refines:
  assumes "job_step e now lab k r r'" and "record_ok k r"
  shows "(lease_step now (fst lab) (shown_for lab k))\<^sup>*\<^sup>* (lease_abs r) (lease_abs r')"
  using assms(1)
proof cases
  case moved then show ?thesis using rec_step_refines[OF moved assms(2)] by auto
next
  case (parked l w v vn task req)
  then have "lease_step now (fst lab) (shown_for lab k) (lease_abs r) (lease_abs r')"
    by (auto simp: lease_abs_def leaseLive_def intro!: lease_step.release)
  then show ?thesis ..
next
  case ended
  then have "lease_abs r' = Final" using ends_fields(6)[OF ended] by (simp add: lease_abs_def)
  then show ?thesis by (auto intro: lease_step.close)
qed simp

lemma effect_refines:
  assumes "effect depth now lab e e'" and "toy_inv now e"
  shows "(lease_step now (fst lab) (shown_for lab k))\<^sup>*\<^sup>* (lease_view e k) (lease_view e' k)"
proof (cases "getJobRecord e k")
  case None
  show ?thesis
  proof (cases "getJobRecord e' k")
    case (Some r)
    have "\<not> jr_leased r" using effect_new_job(1,2)[OF assms None Some] by (auto simp: record_ok_def)
    then show ?thesis using None Some by (auto simp: lease_view_def lease_abs_def intro: lease_step.close)
  qed (use None in \<open>simp add: lease_view_def\<close>)
next
  case (Some r)
  from effect_job[OF assms(1) Some] obtain r' where r': "getJobRecord e' k = Some r'" "job_step e now lab k r r'" .
  have "record_ok k r" using assms(2) Some by (simp add: toy_inv_def records_ok_def)
  then show ?thesis using job_step_refines[OF r'(2)] Some r'(1) by (simp add: lease_view_def)
qed

lemma effects_refine:
  assumes "effects depth now lab e e'" and "toy_inv now e"
  shows "toy_inv now e' \<and> (lease_step now (fst lab) (shown_for lab k))\<^sup>*\<^sup>* (lease_view e k) (lease_view e' k)"
  using assms(1)
proof (induction rule: rtranclp_induct)
  case (step y z)
  have "(lease_step now (fst lab) (shown_for lab k))\<^sup>*\<^sup>* (lease_view y k) (lease_view z k)" using effect_refines[OF step.hyps(2)] step.IH by blast
  then show ?case using step.IH effect_inv[OF step.hyps(2)] by (meson rtranclp_trans)
qed (use assms(2) in simp)

section \<open>Granting leases\<close>

definition granted :: "instant \<Rightarrow> PollWorkRequest \<Rightarrow> ToyEngine \<Rightarrow> runtimeLease \<Rightarrow> bool" where
  "granted now req e ls \<longleftrightarrow> (\<exists>r. getJobRecord e (ls_jobKey ls) = Some r \<and> leaseLive now (ls_leaseID ls) (ls_workerID ls) r
     \<and> jr_leaseExpiresAt r = ls_expiresAt ls) \<and> ls_workerID ls = pw_WorkerID req \<and> TenantId (ls_jobKey ls) = pw_TenantId req"

lemma granted_advance:
  assumes "granted now req e ls" and "getJobRecord e k = Some r" and "advanceRecordStateLocked e tenant now r = Inr r1"
  shows "granted now req (put_job k r1 e) ls" "ls_jobKey ls = k \<Longrightarrow> jr_leased r1"
proof -
  note f = advance_fields[OF assms(3)]
  show "granted now req (put_job k r1 e) ls"
    using assms(1,2) f by (auto simp: granted_def leaseLive_def lapsed_def split: if_splits)
  show "ls_jobKey ls = k \<Longrightarrow> jr_leased r1" using assms(1,2) f by (auto simp: granted_def leaseLive_def lapsed_def)
qed

lemma pollLoop_grants:
  assumes "\<And>n. fresh n \<noteq> []" and "0 < limit" and "limit = (if pw_Limit req \<le> 0 then 1 else pw_Limit req)"
  shows "toy_inv now e \<Longrightarrow> pollLoop lib matches fresh now req allowed keys e out = (e', Inr out') \<Longrightarrow>
     \<forall>ls \<in> set out. granted now req e ls \<Longrightarrow> distinct (map ls_jobKey out) \<Longrightarrow> int (length out) < limit \<Longrightarrow>
     (\<forall>ls \<in> set out'. granted now req e' ls) \<and> distinct (map ls_jobKey out') \<and> int (length out') \<le> limit"
proof (induction keys arbitrary: e out)
  case (Cons k keys)
  note next_one = Cons.IH[OF _ _ _ Cons.prems(4,5)]
  show ?case
  proof (cases "getJobRecord e k")
    case None then show ?thesis using Cons.prems next_one by simp
  next
    case (Some r)
    show ?thesis
    proof (cases "TenantId k \<noteq> pw_TenantId req \<or> rc_CellID (jr_cell r) \<notin> set allowed")
      case True then show ?thesis using Cons.prems Some next_one by simp
    next
      case False
      obtain r1 where adv: "advanceRecordStateLocked e (TenantId k) now r = Inr r1"
        using Cons.prems(2) Some False by (cases "advanceRecordStateLocked e (TenantId k) now r") auto
      let ?e1 = "put_job k r1 e" and ?r2 = "acquireRecord now (fresh (length out)) (pw_WorkerID req) (pw_LeaseDuration req) r1"
      let ?e2 = "put_job k ?r2 ?e1" and ?ls = "leaseOf lib k (pw_LeaseDuration req) ?r2"
      have eff: "effects 0 now (range fresh, {}) e ?e1" using advance_effect[OF Some adv] by blast
      have i1: "toy_inv now ?e1" by (rule effects_inv[OF eff Cons.prems(1)])
      have g1: "\<forall>ls \<in> set out. granted now req ?e1 ls" using Cons.prems(3) granted_advance(1)[OF _ Some adv] by blast
      show ?thesis
      proof (cases "jr_leased r1 \<or> jr_status r1 \<noteq> JobStatusReady \<or> effectiveRoute now r1 \<notin> set (pw_Routes req) \<or> matches (jr_metadata r1) = Inr False")
        case True
        then have "pollLoop lib matches fresh now req allowed keys ?e1 out = (e', Inr out')"
          using Cons.prems(2) Some False adv by (auto simp: Let_def split: if_split_asm)
        then show ?thesis using next_one[OF i1 _ g1] by blast
      next
        case ready: False
        then have m: "matches (jr_metadata r1) = Inr True" using Cons.prems(2) Some False adv by (cases "matches (jr_metadata r1)") (auto simp: Let_def)
        have eff2: "effects 0 now (range fresh, {}) e ?e2"
          using ready by (intro acquire_effects[OF Some Cons.prems(1) adv]) (simp_all add: assms(1))
        have i2: "toy_inv now ?e2" by (rule effects_inv[OF eff2 Cons.prems(1)])
        have new: "ls_jobKey ls \<noteq> k" if "ls \<in> set out" for ls using granted_advance(2)[OF _ Some adv] Cons.prems(3) ready that by blast
        have "jr_archived r1 = None" using advanced_ready[OF Some Cons.prems(1) adv] ready by simp
        moreover from this have "\<not> jr_cancelled r1" using inv_record[OF i1, of k r1] by (auto simp: record_ok_def)
        ultimately have "granted now req ?e2 ?ls"
          using False toyLeaseDuration_pos[of "pw_LeaseDuration req"] by (auto simp: granted_def leaseOf_def leaseLive_def assms(1))
        then have g2: "\<forall>ls \<in> set (out @ [?ls]). granted now req ?e2 ls"
          using g1 new by (auto simp: granted_def)
        have d2: "distinct (map ls_jobKey (out @ [?ls]))" using Cons.prems(4) new by (auto simp: leaseOf_def)
        have out: "(if int (length out) + 1 \<ge> limit then (?e2, Inr (out @ [?ls]))
            else pollLoop lib matches fresh now req allowed keys ?e2 (out @ [?ls])) = (e', Inr out')"
          using Cons.prems(2) Some False adv ready m by (simp add: Let_def assms(3) add.commute)
        show ?thesis
        proof (cases "int (length out) + 1 \<ge> limit")
          case True then show ?thesis using out g2 d2 Cons.prems(5) by auto
        next
          case False
          then have "pollLoop lib matches fresh now req allowed keys ?e2 (out @ [?ls]) = (e', Inr out')" using out by simp
          from Cons.IH[OF i2 this g2 d2] show ?thesis using False by simp
        qed
      qed
    qed
  qed
qed simp

section \<open>The limit of consecutive expirations\<close>

text \<open>A job whose lease has lapsed as often as is allowed; the lease it has is its last one.\<close>

definition exhausted :: "ToyEngine \<Rightarrow> JobKey \<Rightarrow> bool" where
  "exhausted e k \<longleftrightarrow> (\<exists>r. getJobRecord e k = Some r \<and> jr_leaseID r \<noteq> [] \<and> jr_consecutiveExpirations r = DefaultThreshold)"

lemma exhausted_advance:
  assumes "toy_inv now e" and "exhausted e k" and "getJobRecord e key = Some r" and "advanceRecordStateLocked e (TenantId key) now r = Inr r1"
  shows "exhausted (put_job key r1 e) k" "key = k \<Longrightarrow> jr_leased r1 \<or> jr_status r1 \<noteq> JobStatusReady"
proof -
  note f = advance_fields[OF assms(4)]
  show "exhausted (put_job key r1 e) k" using assms(2,3) f by (auto simp: exhausted_def)
  assume "key = k"
  then have c: "jr_leaseID r \<noteq> []" "jr_consecutiveExpirations r = DefaultThreshold" using assms(2,3) by (auto simp: exhausted_def)
  have ok: "record_ok key r" by (rule inv_record[OF assms(1,3)])
  show "jr_leased r1 \<or> jr_status r1 \<noteq> JobStatusReady"
    using assms(4) ok by (cases rule: advance_status) (use c ok f in \<open>auto simp: record_ok_def lapsed_def\<close>)
qed

lemma pollLoop_exhausted:
  "toy_inv now e \<Longrightarrow> exhausted e k \<Longrightarrow> (\<And>n. fresh n \<noteq> []) \<Longrightarrow> pollLoop lib matches fresh now req allowed keys e out = (e', Inr out') \<Longrightarrow>
     k \<notin> ls_jobKey ` set out \<Longrightarrow> k \<notin> ls_jobKey ` set out'"
proof (induction keys arbitrary: e out)
  case (Cons key keys)
  note go = Cons.IH[OF _ _ Cons.prems(3)]
  show ?case
  proof (cases "getJobRecord e key")
    case None then show ?thesis using Cons.prems go by simp
  next
    case (Some r)
    show ?thesis
    proof (cases "TenantId key \<noteq> pw_TenantId req \<or> rc_CellID (jr_cell r) \<notin> set allowed")
      case True then show ?thesis using Cons.prems Some go by simp
    next
      case False
      obtain r1 where adv: "advanceRecordStateLocked e (TenantId key) now r = Inr r1"
        using Cons.prems(4) Some False by (cases "advanceRecordStateLocked e (TenantId key) now r") auto
      let ?e1 = "put_job key r1 e" and ?r2 = "acquireRecord now (fresh (length out)) (pw_WorkerID req) (pw_LeaseDuration req) r1"
      have i1: "toy_inv now ?e1" by (rule effect_inv[OF advance_effect[OF Some adv, where depth = 0 and lab = silent] Cons.prems(1)])
      have x1: "exhausted ?e1 k" and own: "key = k \<Longrightarrow> jr_leased r1 \<or> jr_status r1 \<noteq> JobStatusReady"
        using exhausted_advance[OF Cons.prems(1,2) Some adv] by auto
      show ?thesis
      proof (cases "jr_leased r1 \<or> jr_status r1 \<noteq> JobStatusReady \<or> effectiveRoute now r1 \<notin> set (pw_Routes req) \<or> matches (jr_metadata r1) = Inr False")
        case True
        then have "pollLoop lib matches fresh now req allowed keys ?e1 out = (e', Inr out')"
          using Cons.prems(4) Some False adv by (auto simp: Let_def split: if_split_asm)
        then show ?thesis using go[OF i1 x1] Cons.prems(5) by blast
      next
        case ready: False
        then have m: "matches (jr_metadata r1) = Inr True" using Cons.prems(4) Some False adv by (cases "matches (jr_metadata r1)") (auto simp: Let_def)
        have ne: "key \<noteq> k" using own ready by blast
        have "effects 0 now (range fresh, {}) e (put_job key ?r2 ?e1)"
          using ready by (intro acquire_effects[OF Some Cons.prems(1) adv]) (simp_all add: Cons.prems(3))
        then have i2: "toy_inv now (put_job key ?r2 ?e1)" by (rule effects_inv[OF _ Cons.prems(1)])
        have x2: "exhausted (put_job key ?r2 ?e1) k" using x1 ne by (simp add: exhausted_def)
        let ?out = "out @ [leaseOf lib key (pw_LeaseDuration req) ?r2]"
        have o: "k \<notin> ls_jobKey ` set ?out" using Cons.prems(5) ne by (simp add: leaseOf_def)
        have "(e', out') = (put_job key ?r2 ?e1, ?out) \<or> pollLoop lib matches fresh now req allowed keys (put_job key ?r2 ?e1) ?out = (e', Inr out')"
          using Cons.prems(4) Some False adv ready m by (auto simp: Let_def split: if_split_asm)
        then show ?thesis using go[OF i2 x2 _ o] o by blast
      qed
    qed
  qed
qed simp

lemma filterLeases_subset:
  "filterLeases lib sl depth later cx goals n leases e = (e', Inr out) \<Longrightarrow> set out \<subseteq> set leases"
proof (induction leases arbitrary: n e e' out)
  case (Cons lease leases)
  from Cons.prems obtain e1 ok out1 where "filterLeases lib sl depth later cx goals (Suc n) leases e1 = (e', Inr out1)"
    "out = (if ok then lease # out1 else out1)" by (auto split: prod.splits sum.splits)
  then show ?case using Cons.IH[of "Suc n" e1 e' out1] by auto
qed simp

lemma exhausted_poll:
  assumes "toy_inv now e" and "exhausted e k" and "\<And>n. fresh n \<noteq> []"
    and "snd (PollWork lib sl depth cx matches fresh goals keys now later req e) = Inr out"
  shows "k \<notin> ls_jobKey ` set out"
proof -
  obtain e1 leases e2 where a: "pollAcquire lib (cx_Authority cx) matches fresh keys now req e = (e1, Inr leases)"
    and f: "filterLeases lib sl depth later cx goals 0 leases e1 = (e2, Inr out)"
    using assms(4) by (auto simp: PollWork_def prod_eq_iff split: prod.splits sum.splits)
  obtain allowed where "pollLoop lib matches fresh now req allowed keys e [] = (e1, Inr leases)"
    using a by (auto simp: pollAcquire_def split: sum.splits if_split_asm)
  from pollLoop_exhausted[OF assms(1-3) this] have "k \<notin> ls_jobKey ` set leases" by simp
  then show ?thesis using filterLeases_subset[OF f] by blast
qed

lemma exhausted_lease:
  assumes "toy_inv now e" and "exhausted e k" and "gl_JobKey req = k"
  shows "snd (GetJobLease lib sl depth cx i goal now later req e) \<noteq> Inr (Some ls)"
proof -
  obtain r where r: "getJobRecord e k = Some r" using assms(2) by (auto simp: exhausted_def)
  have "snd (getJobLeaseAcquire lib ctx i now req e) \<noteq> Inr (Some ls)" for ctx ls
    using exhausted_advance(2)[OF assms(1,2) r] r assms(3) by (auto simp: getJobLeaseAcquire_def Let_def split: sum.splits)
  then show ?thesis by (auto simp: GetJobLease_def split: prod.splits sum.splits option.splits) (metis snd_conv)
qed

section \<open>The runtime as a lease service\<close>

interpretation toy_leases: lease_service ValidateExecutionLeaseByID "toy_run lib depth" toy_inv for lib depth
proof
  fix t t' s s' k l w v er ids
  show "ValidateExecutionLeaseByID t s k l w = Inl er \<Longrightarrow> er = ErrExecutionLeaseLost" by (simp add: validate_iff)
  show "ValidateExecutionLeaseByID t s k l w = Inr v \<Longrightarrow> t < lv_ExpiresAt v"
    by (auto simp: ValidateExecutionLeaseByID_def leaseLive_def split: option.splits if_split_asm)
  show "toy_inv t s \<Longrightarrow> toy_run lib depth t s ids t' s' \<Longrightarrow> l \<notin> ids \<Longrightarrow> ValidateExecutionLeaseByID t s k l w = Inl er \<Longrightarrow>
      ValidateExecutionLeaseByID t' s' k l w = Inl er"
    using run_dead by (auto simp: validate_iff)
qed

section \<open>Properties\<close>

text \<open>
  C3. A lease that is lost stays lost.  Suppose that in some reachable state a lease, presented by a
  named worker, does not validate.  Then whatever the runtime does next, as long as it does not generate
  the identifier again, the lease does not validate; and an operation that starts after the loss
  and presents it fails and changes nothing: completing, rescheduling, renewing or keeping it alive,
  putting a chapter under the worker's claims, and preparing a job or creating a cell under it.
  Publishing a job that was prepared under it before the loss creates nothing.
\<close>

theorem lost_lease_stays_lost:
  assumes "toy_run lib depth s0 (NewToyEngine keys) ids0 t0 e0" and "toy_run lib depth t0 e0 ids t e"
    and "l \<notin> ids" and "w \<noteq> []" and "ValidateExecutionLeaseByID t0 e0 k l w = Inl er"
    and "cx_Lease cx = Some \<lparr>lp_JobKey = k, lp_LeaseID = l, lp_WorkerID = w\<rparr>"
    and "pc_JobKey preq = k" and "pc_LeaseID preq = l" and "lc_WorkerID claims = w"
  shows "ValidateExecutionLeaseByID t e k l w = Inl ErrExecutionLeaseLost
    \<and> refused e (completeLease lib depth t k l w req e) \<and> refused e (rescheduleLease lib depth t k l w rreq e)
    \<and> refused e (RenewExecutionLeaseByID lib t k l w d e) \<and> refused e (KeepAliveLeaseByIDWithExpiry t k l w d e)
    \<and> refused e (PutChapter lib (Some claims) t preq e)
    \<and> refused e (PrepareJob lib t cx newKey newGoal prep e) \<and> fst (insertJob depth t cx key sb e) = e
    \<and> refused e (CreateCellWithLeaseByID js quote newID newRev t \<lparr>lp_JobKey = k, lp_LeaseID = l, lp_WorkerID = w\<rparr> creq e)"
proof -
  have "dead_lease k l w t0 e0" using assms(4,5) by (simp add: validate_iff)
  then have d: "dead_lease k l w t e" by (rule run_dead[OF assms(2) reach_inv[OF assms(1)] _ assms(3)])
  then show ?thesis
    using dead_refused[OF d] dead_put[OF d assms(7-9)] dead_submission[OF _ assms(6)] by (simp add: validate_iff)
qed

text \<open>At instant 200 the demo lease, granted until 106, has run out.\<close>

lemma demo_run_late: "toy_run demo_runtime 9 0 demo0 {''l1''} 200 demo6"
proof -
  have "toy_step demo_runtime 9 200 silent demo6 (DiscardJobPreparation (JobKey ''t'' ''a'') demo6)" by (rule toy_step.discard_job)
  moreover have "DiscardJobPreparation (JobKey ''t'' ''a'') demo6 = demo6" by (simp add: DiscardJobPreparation_def demo_jobs)
  ultimately show ?thesis using toy_run.then_step[OF demo_run, of 200 silent demo6] by simp
qed

lemma demo_lapsed: "ValidateExecutionLeaseByID 200 demo6 (JobKey ''t'' ''a'') ''l1'' w = Inl ErrExecutionLeaseLost"
  by (simp add: ValidateExecutionLeaseByID_def demo_jobs demo_a_def leaseLive_def)

theorem lost_lease_stays_lost_witness:
  "ValidateExecutionLeaseByID 6 demo6 (JobKey ''t'' ''a'') ''l1'' ''w1'' \<noteq> Inl ErrExecutionLeaseLost
   \<and> refused demo6 (KeepAliveLeaseByIDWithExpiry 200 (JobKey ''t'' ''a'') ''l1'' ''w1'' 50 demo6)
   \<and> (\<forall>prep. refused demo6 (PrepareJob demo_runtime 200 \<lparr>cx_Authority = demo_worker,
        cx_Lease = Some \<lparr>lp_JobKey = JobKey ''t'' ''a'', lp_LeaseID = ''l1'', lp_WorkerID = ''w1''\<rparr>, cx_Schedule = None\<rparr> (Inr (JobKey ''t'' ''c'')) ''gc'' prep demo6))"
proof (intro conjI allI)
  show "ValidateExecutionLeaseByID 6 demo6 (JobKey ''t'' ''a'') ''l1'' ''w1'' \<noteq> Inl ErrExecutionLeaseLost"
    by (simp add: ValidateExecutionLeaseByID_def demo_jobs demo_a_def leaseLive_def)
  let ?cx = "\<lparr>cx_Authority = demo_worker, cx_Lease = Some \<lparr>lp_JobKey = JobKey ''t'' ''a'', lp_LeaseID = ''l1'', lp_WorkerID = ''w1''\<rparr>, cx_Schedule = None\<rparr>"
  let ?put = "\<lparr>pc_LeaseID = ''l1'', pc_JobKey = JobKey ''t'' ''a'', pc_Ordinal = 1, pc_Chapter = demo_start, pc_ArtifactUploads = []\<rparr>"
  let ?c = "\<lparr>lc_TenantID = ''t'', lc_JobID = ''a'', lc_LeaseID = ''l1'', lc_WorkerID = ''w1'', lc_SchemaHash = [], lc_ExpiresAt = 500\<rparr>"
  note lost = lost_lease_stays_lost[OF demo_run_late[unfolded demo0_def] toy_run.begin_run _ _ demo_lapsed, of "''w1''" ?cx ?put ?c]
  show "refused demo6 (KeepAliveLeaseByIDWithExpiry 200 (JobKey ''t'' ''a'') ''l1'' ''w1'' 50 demo6)" using lost by simp
  show "refused demo6 (PrepareJob demo_runtime 200 ?cx (Inr (JobKey ''t'' ''c'')) ''gc'' prep demo6)" for prep using lost by simp
qed

text \<open>
  C2. The runtime implements the abstract lease machine: seen through \<open>lease_view\<close>, every step of the
  runtime is for every job at most one step of the machine at the same instant, with the identifiers
  that the step generates and the credentials that its caller presents for that job.  So a lease that
  has not run out never passes to another holder, and only its holder renews it or gives it back.
\<close>

theorem leases_refine:
  assumes "toy_run lib depth t0 (NewToyEngine keys) ids t e" and "t \<le> now" and "toy_step lib depth now lab e e'"
  shows "lease_view e' k = lease_view e k
    \<or> lease_step now (fst lab) {(i, w). (k, i, w) \<in> snd lab} (lease_view e k) (lease_view e' k)"
proof -
  have i: "toy_inv now e" by (rule toy_inv_later[OF reach_inv[OF assms(1)] assms(2)])
  have "fst lab = {} \<or> snd lab = {}" using assms(3) by cases simp_all
  then have "fst lab = {} \<or> shown_for lab k = {}" by auto
  then show ?thesis using effects_refine[OF step_effects[OF assms(3) i] i] by (intro lease_steps_collapse) blast
qed

theorem leases_refine_witness:
  "lease_view demo6 (JobKey ''t'' ''a'') = Held ''l1'' ''w1'' 106 \<and>
   (let s = lease_view (fst (getJobLeaseAcquire demo_runtime demo_worker ''l2'' 50 demo_lease_request demo6)) (JobKey ''t'' ''a'')
    in s = Held ''l1'' ''w1'' 106 \<or> s = Final)"
proof -
  have v: "lease_view demo6 (JobKey ''t'' ''a'') = Held ''l1'' ''w1'' 106"
    by (simp add: lease_view_def demo_jobs lease_abs_def demo_a_def)
  have "toy_step demo_runtime 9 50 ({''l2''}, {}) demo6 (fst (getJobLeaseAcquire demo_runtime demo_worker ''l2'' 50 demo_lease_request demo6))"
    by (rule toy_step.lease_job) simp
  from leases_refine[OF demo_run[unfolded demo0_def] _ this, of "JobKey ''t'' ''a''"] show ?thesis
    using v by (auto simp: Let_def elim: lease_stepE)
qed

text \<open>
  C14. In every reachable state a job has lapsed at most five times in a row, so the counter never
  wraps.  A job that has lapsed five times may hold its sixth lease; while it does and after that has
  lapsed too, neither \<open>PollWork\<close> nor \<open>GetJobLease\<close> hands out another one, until the
  count is cleared.
\<close>

theorem expirations_bounded:
  assumes "toy_run lib depth t0 (NewToyEngine keys0) ids t e" and "getJobRecord e k = Some r" and "\<And>n. fresh n \<noteq> []"
  shows "0 \<le> jr_consecutiveExpirations r \<and> jr_consecutiveExpirations r \<le> DefaultThreshold
    \<and> (jr_consecutiveExpirations r = DefaultThreshold \<longrightarrow> jr_leaseID r \<noteq> [] \<longrightarrow>
         (\<forall>out. snd (PollWork lib sl depth cx matches fresh goals keys t later preq e) = Inr out \<longrightarrow> k \<notin> ls_jobKey ` set out)
       \<and> (\<forall>ls. gl_JobKey req = k \<longrightarrow> snd (GetJobLease lib sl depth cx i goal t later req e) \<noteq> Inr (Some ls)))"
proof -
  have inv: "toy_inv t e" by (rule reach_inv[OF assms(1)])
  have "record_ok k r" by (rule inv_record[OF inv assms(2)])
  moreover have "exhausted e k" if "jr_consecutiveExpirations r = DefaultThreshold" "jr_leaseID r \<noteq> []"
    using that assms(2) by (simp add: exhausted_def)
  moreover have "snd (GetJobLease lib sl depth cx i goal t later req e) \<noteq> Inr (Some ls)" if "exhausted e k" "gl_JobKey req = k" for ls
    by (rule exhausted_lease[OF inv that])
  moreover have "k \<notin> ls_jobKey ` set out" if "exhausted e k" "snd (PollWork lib sl depth cx matches fresh goals keys t later preq e) = Inr out" for out
    by (rule exhausted_poll[OF inv that(1) assms(3) that(2)])
  ultimately show ?thesis unfolding record_ok_def by blast
qed

text \<open>The demo job is leased again each time its lease of 100 has run out, until it has lapsed five times.\<close>

definition demo_again :: "int \<Rightarrow> gostring \<Rightarrow> ToyEngine" where
  "demo_again n l = put_job (JobKey ''t'' ''a'') (demo_a\<lparr>jr_leaseID := l, jr_leaseExpiresAt := 106 + 200 * n, jr_consecutiveExpirations := n\<rparr>) demo6"

lemma demo_again_0: "demo_again 0 ''l1'' = demo6"
proof -
  have "demo_a\<lparr>jr_leaseID := ''l1'', jr_leaseExpiresAt := 106 + 200 * 0, jr_consecutiveExpirations := 0\<rparr> = demo_a" by (simp add: demo_a_def)
  then show ?thesis using demo_jobs(1) by (simp add: demo_again_def put_job_def)
qed

lemma demo_leased_again:
  assumes "0 \<le> n" and "n < 5" and "l \<noteq> []"
  shows "fst (getJobLeaseAcquire demo_runtime demo_worker i (206 + 200 * n) demo_lease_request (demo_again n l)) = demo_again (n + 1) i"
proof -
  let ?r = "demo_a\<lparr>jr_leaseID := l, jr_leaseExpiresAt := 106 + 200 * n, jr_consecutiveExpirations := n\<rparr>"
  have r: "checkRoutes (gl_Routes demo_lease_request) = Inr ()" "AuthorizeCell demo_worker ''t'' ''id1'' ''jobs.acquire'' = Inr ()"
    "rc_CellID (jr_cell demo_a) = ''id1''" by code_simp+
  have c: "map_of (cs_Cells demo_cells) ''id1'' = Some (demo_cell\<lparr>c_CreatedAt := 1, c_UpdatedAt := 1\<rparr>)" "c_State demo_cell = CellActive"
    by (simp_all add: demo_cells_def demo_cell_def)
  have a: "advanceRecordStateLocked e ''t'' (206 + 200 * n) ?r = Inr (?r\<lparr>jr_leased := False, jr_status := JobStatusReady\<rparr>)" for e
    using assms by (simp add: advanceRecordStateLocked_def availableStatusLocked_def currentStatus_def dependencyReadyLocked_def legacyStatus_def
        DefaultThreshold_def demo_a_def)
  have w: "wrap64 (n + 1) = n + 1" using assms by (intro wrap64_id) (simp add: int64_def)
  show ?thesis
    using r assms by (simp add: getJobLeaseAcquire_def demo_again_def demo_lease_request_def a c demo_jobs Let_def w)
      (simp add: acquireRecord_def effectiveRoute_def demo_a_def toyLeaseDurationOrDefault_def put_job_def update_twice w)
qed

lemma demo_again_run: "n \<le> 5 \<Longrightarrow> \<exists>ids. toy_run demo_runtime 9 0 demo0 ids (6 + 200 * int n) (demo_again (int n) ''l1'')"
proof (induction n)
  case 0 then show ?case using demo_run by (auto simp: demo_again_0)
next
  case (Suc n)
  then obtain ids where "toy_run demo_runtime 9 0 demo0 ids (6 + 200 * int n) (demo_again (int n) ''l1'')" by auto
  from toy_run.then_step[OF this _ toy_step.lease_job[of "''l1''" demo_runtime 9 "206 + 200 * int n" "demo_again (int n) ''l1''" demo_worker demo_lease_request]]
  have "toy_run demo_runtime 9 0 demo0 (ids \<union> {''l1''}) (206 + 200 * int n) (demo_again (int n + 1) ''l1'')"
    using demo_leased_again[of "int n" "''l1''" "''l1''"] Suc.prems by simp
  then show ?case by (auto simp: algebra_simps)
qed

theorem expirations_bounded_witness:
  "\<exists>ids e r. toy_run demo_runtime 9 0 demo0 ids 2000 e \<and> getJobRecord e (JobKey ''t'' ''a'') = Some r
     \<and> jr_consecutiveExpirations r = 5 \<and> jr_leaseExpiresAt r < 2000
     \<and> (\<forall>sl cx goal ls. snd (GetJobLease demo_runtime sl 9 cx ''l7'' goal 2000 2001 demo_lease_request e) \<noteq> Inr (Some ls))"
proof -
  obtain ids where "toy_run demo_runtime 9 0 demo0 ids 1006 (demo_again 5 ''l1'')" using demo_again_run[of 5] by auto
  from handled_run[OF this, of 2000] have run: "toy_run demo_runtime 9 0 demo0 ids 2000 (demo_again 5 ''l1'')" by simp
  let ?r = "demo_a\<lparr>jr_leaseID := ''l1'', jr_leaseExpiresAt := 1106, jr_consecutiveExpirations := 5\<rparr>"
  have r: "getJobRecord (demo_again 5 ''l1'') (JobKey ''t'' ''a'') = Some ?r" by (simp add: demo_again_def)
  have "snd (GetJobLease demo_runtime sl 9 cx ''l7'' goal 2000 2001 demo_lease_request (demo_again 5 ''l1'')) \<noteq> Inr (Some ls)" for sl cx goal ls
    using expirations_bounded[OF run[unfolded demo0_def] r, of "\<lambda>_. ''x''" sl cx] by (simp add: DefaultThreshold_def demo_lease_request_def)
  then show ?thesis using run r by (intro exI[of _ ids] exI[of _ "demo_again 5 ''l1''"] exI[of _ ?r]) simp
qed

text \<open>
  C16. Polling grants at most as many leases as asked for, each for a different job of the tenant,
  and every granted lease is live, held by the polling worker and expires when it says.
\<close>

theorem poll_grants_live:
  assumes "toy_run lib depth t0 (NewToyEngine keys0) ids t e" and "\<And>n. fresh n \<noteq> []"
    and "pollAcquire lib ctx matches fresh keys t req e = (e', Inr out)"
  shows "(\<forall>ls \<in> set out. granted t req e' ls) \<and> distinct (map ls_jobKey out)
    \<and> int (length out) \<le> (if pw_Limit req \<le> 0 then 1 else pw_Limit req)"
proof -
  obtain allowed where "pollLoop lib matches fresh t req allowed keys e [] = (e', Inr out)"
    using assms(3) by (auto simp: pollAcquire_def split: sum.splits if_split_asm)
  from pollLoop_grants[OF assms(2) _ refl reach_inv[OF assms(1)] this] show ?thesis by simp
qed

definition demo_poll :: PollWorkRequest where
  "demo_poll = \<lparr>pw_TenantId = ''t'', pw_Routes = [Route ''build'' []], pw_CellNames = None, pw_Limit = 3, pw_WorkerID = ''w2'', pw_LeaseDuration = 10\<rparr>"

lemma demo_polled:
  "snd (pollAcquire demo_runtime demo_worker (\<lambda>_. Inr True) (\<lambda>_. ''l2'') [JobKey ''t'' ''a'', JobKey ''t'' ''b''] 200 demo_poll demo6)
   = Inr [leaseOf demo_runtime (JobKey ''t'' ''a'') 10 (acquireRecord 200 ''l2'' ''w2'' 10 (demo_a\<lparr>jr_leased := False, jr_status := JobStatusReady\<rparr>))]"
proof -
  have r: "checkRoutes (pw_Routes demo_poll) = Inr ()" "Select demo_worker ''t'' None ''jobs.acquire'' demo_cells = Inr [''id1'']"
    by code_simp+
  have a: "advanceRecordStateLocked demo6 ''t'' 200 demo_a = Inr (demo_a\<lparr>jr_leased := False, jr_status := JobStatusReady\<rparr>)"
    by (simp add: advanceRecordStateLocked_def availableStatusLocked_def currentStatus_def dependencyReadyLocked_def legacyStatus_def
        DefaultThreshold_def demo_a_def)
  have b: "advanceRecordStateLocked e ''t'' 200 demo_b = Inr (demo_b\<lparr>jr_status := JobStatusPendingJobs\<rparr>)" if "te_goals e = te_goals demo6" for e
    using that by (simp add: advanceRecordStateLocked_def availableStatusLocked_def currentStatus_def dependencyReadyLocked_def demo_jobs
        demo_a_def demo_b_def demo_b_wait_def expired_def)
  have f: "rc_CellID (jr_cell demo_a) = ''id1''" "rc_CellID (jr_cell demo_b) = ''id1''" "effectiveRoute 200 (demo_a\<lparr>jr_leased := False, jr_status := JobStatusReady\<rparr>) = Route ''build'' []"
    by (simp_all add: demo_a_def demo_b_def effectiveRoute_def)
  show ?thesis using r by (simp add: pollAcquire_def demo_poll_def demo_jobs a b f Let_def)
qed

theorem poll_grants_live_witness:
  "\<exists>ls. snd (pollAcquire demo_runtime demo_worker (\<lambda>_. Inr True) (\<lambda>_. ''l2'') [JobKey ''t'' ''a'', JobKey ''t'' ''b''] 200 demo_poll demo6) = Inr [ls]
     \<and> granted 200 demo_poll (fst (pollAcquire demo_runtime demo_worker (\<lambda>_. Inr True) (\<lambda>_. ''l2'') [JobKey ''t'' ''a'', JobKey ''t'' ''b''] 200 demo_poll demo6)) ls"
proof -
  let ?p = "pollAcquire demo_runtime demo_worker (\<lambda>_. Inr True) (\<lambda>_. ''l2'') [JobKey ''t'' ''a'', JobKey ''t'' ''b''] 200 demo_poll demo6"
  obtain ls where ls: "snd ?p = Inr [ls]" using demo_polled by blast
  then have "?p = (fst ?p, Inr [ls])" by (metis prod.collapse)
  from poll_grants_live[OF demo_run_late[unfolded demo0_def] _ this] ls show ?thesis by simp
qed

end
