(* ===== verification/Toy_Progress.thy ===== *)
theory Toy_Progress
  imports Toy_Demo
begin

text \<open>
  Jobs over runs of the in-process runtime: pending dependencies always have something to wait for,
  blocked jobs lead to jobs that can run, and a job that has ended stays as it ended.
\<close>

section \<open>Sinks of a finite acyclic graph\<close>

lemma reach_sink:
  assumes "acyclic R" and "finite (Range R)" and "a \<in> Domain R"
  shows "\<exists>m. (a, m) \<in> R\<^sup>+ \<and> m \<notin> Domain R"
proof -
  define S where "S = R \<inter> insert a (Range R) \<times> Range R"
  have "S \<subseteq> insert a (Range R) \<times> Range R" by (simp add: S_def)
  then have "finite S" using assms(2) by (meson finite_SigmaI finite_insert finite_subset)
  moreover have "acyclic S" using acyclic_subset[OF assms(1)] by (simp add: S_def)
  ultimately have wf: "wf (S\<inverse>)" by (rule finite_acyclic_wf_converse)
  obtain b where b: "(a, b) \<in> R\<^sup>+" using assms(3) by blast
  from wf obtain m where m: "(a, m) \<in> R\<^sup>+" and least: "\<And>y. (y, m) \<in> S\<inverse> \<Longrightarrow> (a, y) \<notin> R\<^sup>+"
    by (rule wfE_min[where Q = "{m. (a, m) \<in> R\<^sup>+}" and x = b]) (use b in auto)
  have "m \<notin> Domain R"
  proof
    assume "m \<in> Domain R"
    then obtain y where y: "(m, y) \<in> R" by blast
    have "m \<in> Range R" using m trancl_range[of R] by blast
    then have "(m, y) \<in> S" using y by (auto simp: S_def)
    then show False using least m y by (meson converse_iff trancl.trancl_into_trancl)
  qed
  then show ?thesis using m by blast
qed

lemma finite_targets: "finite {t. \<exists>k w. Memory_Wait s k = Inr w \<and> pending_on t w}"
proof (rule finite_subset)
  show "{t. \<exists>k w. Memory_Wait s k = Inr w \<and> pending_on t w} \<subseteq> (\<Union>p \<in> set (WaitRows s). d_Target ` set (w_Dependencies (snd p)))"
  proof
    fix t assume "t \<in> {t. \<exists>k w. Memory_Wait s k = Inr w \<and> pending_on t w}"
    then obtain k w where w: "map_of (WaitRows s) k = Some w" "pending_on t w"
      by (auto simp: Memory_Wait_def split: option.splits)
    then have "(k, w) \<in> set (WaitRows s)" "t \<in> d_Target ` set (w_Dependencies w)" by (auto simp: pending_on_def dest: map_of_SomeD)
    then show "t \<in> (\<Union>p \<in> set (WaitRows s). d_Target ` set (w_Dependencies (snd p)))" by force
  qed
qed auto

lemma finite_edges: "finite (Range (dep_edges memory_store now (goal_view e) tenant))"
proof (rule finite_subset)
  show "Range (dep_edges memory_store now (goal_view e) tenant)
     \<subseteq> (\<lambda>k. job_target (JobId k)) ` dom (getJobRecord e) \<union> {t. \<exists>k w. Memory_Wait (te_goals e) k = Inr w \<and> pending_on t w}"
    by (auto simp: dep_edges_def goal_edge_def job_edge_def split: if_split_asm) (metis DependencyTarget.collapse JobKey.sel(2) domI image_eqI)+
  have "finite (dom (getJobRecord e))" unfolding getJobRecord_def by (rule finite_dom_map_of)
  then show "finite ((\<lambda>k. job_target (JobId k)) ` dom (getJobRecord e) \<union> {t. \<exists>k w. Memory_Wait (te_goals e) k = Inr w \<and> pending_on t w})"
    using finite_targets by simp
qed

section \<open>Pending dependencies\<close>

lemma pending_alive:
  assumes "toy_inv t e" and "Memory_Wait (te_goals e) wk = Inr w" and "w_State w = DependencyPending" and "pending_on x w" and "canonical x"
  shows "t_GoalID x = [] \<Longrightarrow> \<exists>r. getJobRecord e (JobKey (TenantId (wk_JobKey wk)) (t_JobID x)) = Some r \<and> jr_archived r = None"
    and "t_GoalID x \<noteq> [] \<Longrightarrow> \<exists>g. Memory_Goal (te_goals e) (GoalKey (TenantId (wk_JobKey wk)) (t_GoalID x)) = Inr g \<and> g_State g = GoalOpen"
proof -
  have h: "memory_inv (goal_view e)" "refs_ok (goal_view e)" "stale memory_store (goal_view e) = {}"
    using assms(1) by (simp_all add: toy_inv_def goals_ok_def healthy_def)
  have key: "w_JobKey w = wk_JobKey wk" using mem.wait_at_key[OF h(1), of wk w] assms(2) by (auto simp: wait_key_def)
  have "wait_refs (goal_view e) w" using h(2) assms(2) by (simp add: refs_ok_def waits_refs_def)
  then have ex: "target_exists (goal_view e) (TenantId (wk_JobKey wk)) x" using assms(4) key by (simp add: wait_refs_def)
  have nd: "\<not> decided memory_store (goal_view e) (TenantId (wk_JobKey wk)) x"
    using h(3) assms(2-5) by (force simp: stale_def)
  show "\<exists>r. getJobRecord e (JobKey (TenantId (wk_JobKey wk)) (t_JobID x)) = Some r \<and> jr_archived r = None" if "t_GoalID x = []"
    using ex nd that by (auto simp: target_exists_def job_exists_def decided_def goalJob_def)
  show "\<exists>g. Memory_Goal (te_goals e) (GoalKey (TenantId (wk_JobKey wk)) (t_GoalID x)) = Inr g \<and> g_State g = GoalOpen" if "t_GoalID x \<noteq> []"
    using ex nd that by (auto simp: target_exists_def goal_exists_iff decided_def)
qed

lemma blocked_edge:
  assumes "toy_inv t e" and "getJobRecord e k = Some r" and "jr_archived r = None" and "dependencyReadyLocked e t r \<noteq> Inr True"
  shows "job_target (JobId k) \<in> Domain (dep_edges memory_store t (goal_view e) (TenantId k))"
proof -
  have rk: "record_ok k r" and wf: "wf_waits memory_store (goal_view e)" and wt: "waiting_ok e"
    using assms(1,2) by (simp_all add: toy_inv_def records_ok_def goals_ok_def healthy_def)
  have key: "jr_key r = k" and nc: "\<not> jr_cancelled r" using rk assms(3) by (auto simp: record_ok_def)
  have id: "jr_dependencyWaitID r \<noteq> []" using assms(4) by (auto simp: dependencyReadyLocked_def)
  then obtain w where w: "Memory_Wait (te_goals e) (DependencyWaitKey k (jr_dependencyWaitID r)) = Inr w"
    using wt assms(2) by (auto simp: waiting_ok_def)
  then have p: "w_State w = DependencyPending" "\<not> expired t w" using assms(4) id key by (auto simp: dependencyReadyLocked_def)
  have "wf_wait w" using wf w by (simp add: wf_waits_def)
  then obtain x where x: "pending_on x w" using p(1) by (auto simp: wf_wait_def pending_on_def)
  have "job_edge memory_store t (goal_view e) (TenantId k) (JobId k) x"
    unfolding job_edge_def using assms(2,3) nc w p x by (auto simp: goalJob_def intro!: exI[of _ "DependencyWaitKey k (jr_dependencyWaitID r)"])
  then show ?thesis by (intro DomainI[of _ x]) (simp add: in_dep_edges)
qed

definition clean_targets :: "ToyEngine \<Rightarrow> bool" where
  "clean_targets e \<longleftrightarrow> (\<forall>k w x. Memory_Wait (te_goals e) k = Inr w \<longrightarrow> pending_on x w \<longrightarrow> canonical x)"

lemma clean_targetsD: "clean_targets e \<Longrightarrow> Memory_Wait (te_goals e) k = Inr w \<Longrightarrow> pending_on x w \<Longrightarrow> canonical x"
  by (auto simp: clean_targets_def)

text \<open>The nodes at which a chain of pending dependencies ends.\<close>

definition ready_job :: "ToyEngine \<Rightarrow> instant \<Rightarrow> gostring \<Rightarrow> DependencyTarget \<Rightarrow> bool" where
  "ready_job e t tenant m \<longleftrightarrow> t_GoalID m = [] \<and> (\<exists>r. getJobRecord e (JobKey tenant (t_JobID m)) = Some r
     \<and> jr_archived r = None \<and> dependencyReadyLocked e t r = Inr True)"

definition idle_goal :: "ToyEngine \<Rightarrow> gostring \<Rightarrow> DependencyTarget \<Rightarrow> bool" where
  "idle_goal e tenant m \<longleftrightarrow> t_GoalID m \<noteq> [] \<and> (\<exists>g. Memory_Goal (te_goals e) (GoalKey tenant (t_GoalID m)) = Inr g
     \<and> g_State g = GoalOpen) \<and> (\<forall>x. \<not> goal_edge memory_store (goal_view e) tenant (t_GoalID m) x)"

text \<open>Where the edges of the dependency graph lead.\<close>

lemma edge_target:
  assumes "toy_inv t e" and "(n, m) \<in> dep_edges memory_store t (goal_view e) tenant"
    and "clean_targets e"
  shows "t_GoalID m = [] \<Longrightarrow> \<exists>r. getJobRecord e (JobKey tenant (t_JobID m)) = Some r \<and> jr_archived r = None"
    and "t_GoalID m \<noteq> [] \<Longrightarrow> \<exists>g. Memory_Goal (te_goals e) (GoalKey tenant (t_GoalID m)) = Inr g \<and> g_State g = GoalOpen"
proof -
  consider (goal) "goal_edge memory_store (goal_view e) tenant (t_GoalID n) m"
    | (job) "job_edge memory_store t (goal_view e) tenant (t_JobID n) m"
    using assms(2) by (auto simp: in_dep_edges split: if_split_asm)
  then have "(t_GoalID m = [] \<longrightarrow> (\<exists>r. getJobRecord e (JobKey tenant (t_JobID m)) = Some r \<and> jr_archived r = None))
    \<and> (t_GoalID m \<noteq> [] \<longrightarrow> (\<exists>g. Memory_Goal (te_goals e) (GoalKey tenant (t_GoalID m)) = Inr g \<and> g_State g = GoalOpen))"
  proof cases
    case goal
    then have "t_GoalID m = []" by (metis DependencyTarget.sel(2) goal_edge_def)
    then show ?thesis using goal by (auto simp: goal_edge_def goalJob_def)
  next
    case job
    then obtain wk w where w: "Memory_Wait (te_goals e) wk = Inr w" "wk_JobKey wk = JobKey tenant (t_JobID n)"
      "w_State w = DependencyPending" "pending_on m w" by (auto simp: job_edge_def)
    note p = pending_alive[OF assms(1) w(1,3,4) clean_targetsD[OF assms(3) w(1,4)]]
    then show ?thesis using w(2) by simp
  qed
  then show "t_GoalID m = [] \<Longrightarrow> \<exists>r. getJobRecord e (JobKey tenant (t_JobID m)) = Some r \<and> jr_archived r = None"
    and "t_GoalID m \<noteq> [] \<Longrightarrow> \<exists>g. Memory_Goal (te_goals e) (GoalKey tenant (t_GoalID m)) = Inr g \<and> g_State g = GoalOpen" by simp_all
qed

section \<open>Jobs that have ended\<close>

definition same_end :: "jobRecord \<Rightarrow> jobRecord \<Rightarrow> bool" where
  "same_end r r' \<longleftrightarrow> jr_archived r' = jr_archived r \<and> jr_status r' = jr_status r \<and> jr_completionStatus r' = jr_completionStatus r
     \<and> jr_completionDetail r' = jr_completionDetail r \<and> jr_cancelled r' = jr_cancelled r \<and> jr_goalID r' = jr_goalID r \<and> jr_cell r' = jr_cell r"

lemma same_end_trans: "same_end a b \<Longrightarrow> same_end b c \<Longrightarrow> same_end a c"
  by (simp add: same_end_def)

lemma job_step_final:
  assumes "job_step e now lab k r r'" and "record_ok k r" and "jr_archived r \<noteq> None"
  shows "same_end r r'"
  using assms(1)
proof cases
  case moved
  have st: "jr_status r = JobStatusCompleted \<or> jr_status r = JobStatusCancelled" using assms(2,3) by (simp add: record_ok_def)
  from moved have "jr_status r' = jr_status r"
  proof cases
    case advance
    from advance assms(2) show ?thesis by (cases rule: advance_status) (use assms(3) in \<open>simp_all add: lapsed_def\<close>)
  qed (use st assms(3) in \<open>auto simp: leaseLive_def\<close>)
  then show ?thesis using rec_step_fields[OF moved] by (simp add: same_end_def)
next
  case ended
  have st: "jr_status r \<noteq> JobStatusReady" using assms(2,3) by (auto simp: record_ok_def)
  from ended show ?thesis
    by cases (use assms(3) st in \<open>auto simp: leaseLive_def same_end_def deletedRecord_def Let_def\<close>)
qed (use assms(3) in \<open>auto simp: leaseLive_def same_end_def\<close>)

lemma run_final:
  assumes "toy_run lib depth t0 e0 ids t e" and "toy_inv t0 e0" and "getJobRecord e0 k = Some r0" and "jr_archived r0 \<noteq> None"
  shows "\<exists>r. getJobRecord e k = Some r \<and> same_end r0 r"
  using assms(1,2)
proof (induction rule: run_induct)
  case (effect now new e e')
  then obtain r where r: "getJobRecord e k = Some r" "same_end r0 r" by blast
  from effect_job[OF effect(4) r(1)] obtain r' where r': "getJobRecord e' k = Some r'" "job_step e now new k r r'" .
  have "record_ok k r" using effect(3) r(1) by (simp add: toy_inv_def records_ok_def)
  then have "same_end r r'" using job_step_final[OF r'(2)] r(2) assms(4) by (simp add: same_end_def)
  then show ?case using r' same_end_trans[OF r(2)] by blast
qed (use assms(3) in \<open>auto simp: same_end_def\<close>)

section \<open>Chapters\<close>

lemma effect_prefix:
  assumes "effect depth now lab e e'" and "toy_inv now e" and "map_of (te_runtimeChapters e) k = Some cs"
  shows "\<exists>ext. map_of (te_runtimeChapters e') k = Some (cs @ ext)"
proof -
  have ok: "chapter_rows_ok e" using assms(2) by (simp add: toy_inv_def)
  from assms(1) show ?thesis
  proof cases
    case (append k' cs' n ch)
    have "contiguous cs'" using ok append(2) by (auto simp: chapter_rows_ok_def)
    from contiguous_append(2)[OF this append(3)] have "AList.update n ch cs' = cs' @ [(n, ch)]" .
    then show ?thesis using append(1,2) assms(3) by auto
  next
    case (publish k' p r0 cs0 cx target cells r u r')
    have "map_of (te_runtimeChapters e) k' = None" using ok publish(2) by (metis chapter_rows_ok_def domIff)
    then show ?thesis using publish(1) assms(3) by auto
  qed (use assms(3) in simp_all)
qed

lemma run_prefix:
  assumes "toy_run lib depth t0 e0 ids t e" and "toy_inv t0 e0" and "map_of (te_runtimeChapters e0) k = Some cs"
  shows "\<exists>ext. map_of (te_runtimeChapters e) k = Some (cs @ ext)"
  using assms(1,2)
proof (induction rule: run_induct)
  case (effect now new e e')
  then obtain ext where "map_of (te_runtimeChapters e) k = Some (cs @ ext)" by blast
  from effect_prefix[OF effect(4,3) this] show ?case by auto
qed (use assms(3) in auto)

section \<open>Properties\<close>

text \<open>
  C15. In every reachable state a record is well formed: its status, lease and archive time agree,
  a leased job is active and has a lease identifier, exactly the archived jobs are completed or
  cancelled, and a job stopped for a crash concern is the one that lapsed too often.
\<close>

theorem records_well_formed:
  assumes "toy_run lib depth t0 (NewToyEngine keys) ids t e" and "getJobRecord e k = Some r"
  shows "record_ok k r"
  using reach_inv[OF assms(1)] assms(2) by (simp add: toy_inv_def records_ok_def)

theorem records_well_formed_witness: "record_ok (JobKey ''t'' ''a'') demo_a \<and> record_ok (JobKey ''t'' ''b'') demo_b"
  using records_well_formed[OF demo_run[unfolded demo0_def] demo_jobs(2)] records_well_formed[OF demo_run[unfolded demo0_def] demo_jobs(3)]
  by simp

text \<open>
  C1. No wake-up of a dependency on exactly a job or exactly a goal is lost: in every reachable state
  such a dependency that is still pending waits for a job that exists and has not ended, or for a goal
  that exists and is open.  A target with both a job name and a goal name, which the validation accepts
  when one of them is blank, is not covered: the code does not wake it.
\<close>

theorem no_lost_wakeup:
  assumes "toy_run lib depth t0 (NewToyEngine keys) ids t e"
    and "Memory_Wait (te_goals e) wk = Inr w" and "w_State w = DependencyPending"
    and "d \<in> set (w_Dependencies w)" and "d_State d = DependencyPending"
  shows "(\<forall>j. d_Target d = job_target j \<and> j \<noteq> [] \<longrightarrow>
       (\<exists>r. getJobRecord e (JobKey (TenantId (wk_JobKey wk)) j) = Some r \<and> jr_archived r = None))
    \<and> (\<forall>gid. d_Target d = goal_target gid \<and> gid \<noteq> [] \<longrightarrow>
       (\<exists>g. Memory_Goal (te_goals e) (GoalKey (TenantId (wk_JobKey wk)) gid) = Inr g \<and> g_State g = GoalOpen))"
proof -
  have p: "pending_on (d_Target d) w" using assms(4,5) by (auto simp: pending_on_def)
  note a = pending_alive[OF reach_inv[OF assms(1)] assms(2,3) p]
  then show ?thesis by (auto simp: canonical_def)
qed

theorem no_lost_wakeup_witness:
  "\<exists>r. getJobRecord demo6 (JobKey ''t'' ''a'') = Some r \<and> jr_archived r = None"
  using no_lost_wakeup[OF demo_run[unfolded demo0_def] demo_jobs(5), of "hd (w_Dependencies demo_b_wait)"]
  by (simp add: demo_b_wait_def)

text \<open>
  C6. In every reachable state and for every tenant the graph of unexpired pending dependencies
  between goals and jobs is acyclic.
\<close>

theorem dependencies_acyclic:
  assumes "toy_run lib depth t0 (NewToyEngine keys) ids t e"
  shows "acyclic (dep_edges memory_store t (goal_view e) tenant)"
  using reach_inv[OF assms] by (simp add: toy_inv_def goals_ok_def no_cycles_def)

theorem dependencies_acyclic_witness: "acyclic (dep_edges memory_store 6 (goal_view demo6) ''t'')"
  by (rule dependencies_acyclic[OF demo_run[unfolded demo0_def]])

text \<open>
  C4. Dependencies do not deadlock.  If every pending dependency names a job or a goal and not both,
  then from a live job whose dependency wait is not over, a chain of pending dependencies leads to a
  live job that has no unfinished dependency wait, or to an open goal without a live candidate.
  This is about dependency waits: such a job may still wait for its \<open>WaitForJobIDs\<close> or its
  \<open>AvailableAt\<close>.
\<close>

theorem blocked_leads_to_runnable:
  assumes "toy_run lib depth t0 (NewToyEngine keys) ids t e"
    and "getJobRecord e k = Some r" and "jr_archived r = None" and "dependencyReadyLocked e t r \<noteq> Inr True"
    and "clean_targets e"
  shows "\<exists>m. (job_target (JobId k), m) \<in> (dep_edges memory_store t (goal_view e) (TenantId k))\<^sup>+
     \<and> (ready_job e t (TenantId k) m \<or> idle_goal e (TenantId k) m)"
proof -
  let ?E = "dep_edges memory_store t (goal_view e) (TenantId k)"
  have inv: "toy_inv t e" by (rule reach_inv[OF assms(1)])
  have "acyclic ?E" using inv by (simp add: toy_inv_def goals_ok_def no_cycles_def)
  from reach_sink[OF this finite_edges blocked_edge[OF inv assms(2-4)]]
  obtain m where m: "(job_target (JobId k), m) \<in> ?E\<^sup>+" and sink: "m \<notin> Domain ?E" by blast
  from m obtain n where n: "(n, m) \<in> ?E" by (meson tranclE)
  note alive = edge_target[OF inv n assms(5)]
  have "ready_job e t (TenantId k) m \<or> idle_goal e (TenantId k) m"
  proof (cases "t_GoalID m = []")
    case True
    then obtain r' where r': "getJobRecord e (JobKey (TenantId k) (t_JobID m)) = Some r'" "jr_archived r' = None" using alive(1) by blast
    have "m = job_target (t_JobID m)" using True by (cases m) simp
    then have "dependencyReadyLocked e t r' = Inr True" using blocked_edge[OF inv r'] sink by fastforce
    then show ?thesis using True r' by (simp add: ready_job_def)
  next
    case False
    then have "\<not> goal_edge memory_store (goal_view e) (TenantId k) (t_GoalID m) x" for x using sink by (auto simp: Domain_iff in_dep_edges)
    then show ?thesis using False alive(2) by (simp add: idle_goal_def)
  qed
  then show ?thesis using m by blast
qed

lemma demo_clean: "clean_targets demo6"
  using demo_tables by (auto simp: clean_targets_def Memory_Wait_def pending_on_def canonical_def demo_b_wait_def split: option.splits if_split_asm)

theorem blocked_leads_to_runnable_witness:
  "\<exists>m. (job_target ''b'', m) \<in> (dep_edges memory_store 6 (goal_view demo6) ''t'')\<^sup>+ \<and> (ready_job demo6 6 ''t'' m \<or> idle_goal demo6 ''t'' m)"
proof -
  have "dependencyReadyLocked demo6 6 demo_b \<noteq> Inr True" "jr_archived demo_b = None"
    using demo_jobs(5) by (simp_all add: dependencyReadyLocked_def demo_b_def demo_a_def demo_b_wait_def expired_def)
  from blocked_leads_to_runnable[OF demo_run[unfolded demo0_def] demo_jobs(3) this(2,1) demo_clean] show ?thesis by simp
qed

text \<open>
  C10. A job that has ended stays as it ended: whatever happens later, its archive time, status,
  completion and goal do not change, and it is not leased.
\<close>

theorem ended_jobs_final:
  assumes "toy_run lib depth s0 (NewToyEngine keys) ids0 t0 e0" and "toy_run lib depth t0 e0 ids t e"
    and "getJobRecord e0 k = Some r0" and "jr_archived r0 \<noteq> None"
  shows "\<exists>r. getJobRecord e k = Some r \<and> same_end r0 r \<and> \<not> jr_leased r"
proof -
  note i = reach_inv[OF assms(1)]
  obtain r where r: "getJobRecord e k = Some r" "same_end r0 r" using run_final[OF assms(2) i assms(3,4)] by blast
  have "record_ok k r" using run_inv[OF assms(2) i] r(1) by (simp add: toy_inv_def records_ok_def)
  then have "\<not> jr_leased r" using r(2) assms(4) by (auto simp: record_ok_def same_end_def)
  then show ?thesis using r by blast
qed

text \<open>The demo job a cancelled at instant 7.\<close>

definition demo7 :: ToyEngine where
  "demo7 = fst (CancelJob 9 7 (JobKey ''t'' ''a'') ''stop'' demo6)"

lemma demo7_run: "toy_run demo_runtime 9 0 demo0 {''l1''} 7 demo7"
  using toy_run.then_step[OF demo_run _ toy_step.cancel_job[of demo_runtime 9 7 demo6 "JobKey ''t'' ''a''" "''stop''"]] by (simp add: demo7_def)

lemma demo7_job: "getJobRecord demo7 (JobKey ''t'' ''a'') = Some (cancelledRecord 7 ''stop'' demo_a)"
  by (simp add: demo7_def CancelJob_def demo_jobs demo_a_def)

theorem ended_jobs_final_witness:
  "\<exists>r. getJobRecord (fst (ClearCrashConcern 8 (JobKey ''t'' ''a'') demo7)) (JobKey ''t'' ''a'') = Some r \<and> same_end (cancelledRecord 7 ''stop'' demo_a) r \<and> \<not> jr_leased r"
  using ended_jobs_final[OF demo7_run[unfolded demo0_def] toy_run.then_step[OF toy_run.begin_run _ toy_step.clear_concern] demo7_job]
  by (simp add: cancelledRecord_def)

text \<open>
  C11. Chapters are only appended: whatever happens later, the chapters of a job keep their place and
  content, and they are numbered from zero without a gap.
\<close>

theorem chapters_append_only:
  assumes "toy_run lib depth s0 (NewToyEngine keys) ids0 t0 e0" and "toy_run lib depth t0 e0 ids t e"
    and "map_of (te_runtimeChapters e0) k = Some cs"
  shows "\<exists>more. map_of (te_runtimeChapters e) k = Some (cs @ more) \<and> map fst (cs @ more) = map int [0..<length (cs @ more)]"
proof -
  note i = reach_inv[OF assms(1)]
  obtain ext where m: "map_of (te_runtimeChapters e) k = Some (cs @ ext)" using run_prefix[OF assms(2) i assms(3)] by blast
  have "chapter_rows_ok e" using run_inv[OF assms(2) i] by (simp add: toy_inv_def)
  then have "contiguous (cs @ ext)" using m by (simp add: chapter_rows_ok_def)
  then show ?thesis using m by (auto simp: contiguous_def)
qed

theorem chapters_append_only_witness:
  "\<exists>more. map_of (te_runtimeChapters demo7) (JobKey ''t'' ''a'') = Some ((0, demo_start) # more)"
  using chapters_append_only[OF demo_run[unfolded demo0_def] toy_run.then_step[OF toy_run.begin_run _ toy_step.cancel_job[of demo_runtime 9 7 demo6 "JobKey ''t'' ''a''" "''stop''"]] demo_jobs(4)]
  by (auto simp: demo7_def)

text \<open>
  C18. Retired cells are idle: in every reachable state the cell of a job that has not ended is
  registered and active, so every job of a retired cell has ended.
\<close>

theorem retired_cells_idle:
  assumes "toy_run lib depth t0 (NewToyEngine keys) ids t e" and "getJobRecord e k = Some r"
    and "jr_archived r = None"
  shows "\<exists>c. map_of (cs_Cells (cellsLocked e (TenantId k))) (rc_CellID (jr_cell r)) = Some c \<and> c_State c = CellActive"
  using reach_inv[OF assms(1)] assms(2,3) by (simp add: toy_inv_def cells_ok_def active_cell_def)

theorem retired_cells_idle_witness:
  "\<exists>c. map_of (cs_Cells demo_cells) ''id1'' = Some c \<and> c_State c = CellActive"
  using retired_cells_idle[OF demo_run[unfolded demo0_def] demo_jobs(2)] demo_jobs(6) by (simp add: demo_a_def)

definition no_own_pending :: "ToyEngine \<Rightarrow> JobKey \<Rightarrow> bool" where
  "no_own_pending e k \<longleftrightarrow> (\<forall>wid w. Memory_Wait (te_goals e) (DependencyWaitKey k wid) = Inr w \<longrightarrow> w_State w \<noteq> DependencyPending)"

lemma finish_total:
  assumes "toy_inv t e" and "getJobRecord e k = Some r" and "archives k r r'"
  shows "\<exists>e'. completeGoals t depth k (put_job k r' e) = (e', Inr ()) \<and> getJobRecord e' k = Some r'
    \<and> no_own_pending e' k"
proof -
  have g: "table_distinct e" "healthy (goal_view e)" using assms(1) by (simp_all add: toy_inv_def goals_ok_def)
  from finish_view[OF g assms(2,3)] obtain u where u: "completeGoals t depth k (put_job k r' e) = ((put_job k r' e)\<lparr>te_goals := u\<rparr>, Inr ())" by blast
  then have c: "Complete (memory_engine t depth) k (goal_view (put_job k r' e)) = Inr u"
    by (auto simp: completeGoals_def split: sum.splits dest: arg_cong[of _ _ te_goals])
  have i: "memory_inv (goal_view (put_job k r' e))"
    using g view_inv_rows[of e] by (intro view_inv) (simp_all add: healthy_def)
  have "w_State w \<noteq> DependencyPending" if "Memory_Wait u (DependencyWaitKey k wid) = Inr w" for wid w
    using me.Complete_step(5)[OF c i] that by simp
  then show ?thesis using u by (simp add: no_own_pending_def)
qed

text \<open>
  C5. Ending a job never fails half-way.  In every reachable state, cancelling a live job and
  completing a live lease with a payload update that applies both succeed, for any bound on the
  stack of the goal engine, and leave the job archived with none of its own waits pending.
\<close>

theorem ending_total:
  assumes "toy_run lib depth t0 (NewToyEngine keys) ids t e" and "getJobRecord e k = Some r" and "jr_archived r = None"
  shows "(\<exists>e' r'. CancelJob stack t k reason e = (e', Inr ()) \<and> getJobRecord e' k = Some r' \<and> jr_archived r' = Some t
       \<and> no_own_pending e' k)
    \<and> (leaseLive t l w r \<and> \<not> isl (Apply (lb_payload lib) (jr_clientPayload r) (jr_clientPayloadRevision r) (ce_ClientPayloadUpdate req)) \<longrightarrow>
       (\<exists>e' r'. completeFinish lib stack t k l w req e = (e', Inr ()) \<and> getJobRecord e' k = Some r' \<and> jr_archived r' = Some t
       \<and> no_own_pending e' k))"
proof (intro conjI impI)
  note fin = finish_total[OF reach_inv[OF assms(1)] assms(2)]
  have "archives k r (cancelledRecord t reason r)" by (simp add: archives_def cancelledRecord_def)
  from fin[OF this, of stack] show "\<exists>e' r'. CancelJob stack t k reason e = (e', Inr ()) \<and> getJobRecord e' k = Some r' \<and> jr_archived r' = Some t
      \<and> no_own_pending e' k"
    using assms(2,3) by (auto simp: CancelJob_def cancelledRecord_def)
  assume l: "leaseLive t l w r \<and> \<not> isl (Apply (lb_payload lib) (jr_clientPayload r) (jr_clientPayloadRevision r) (ce_ClientPayloadUpdate req))"
  then obtain v vn where ap: "Apply (lb_payload lib) (jr_clientPayload r) (jr_clientPayloadRevision r) (ce_ClientPayloadUpdate req) = Inr (v, vn)"
    by (auto simp: isl_def split: sum.splits) (metis prod.exhaust sum.exhaust)
  have "archives k r (completedRecord t v vn req r)" by (simp add: archives_def completedRecord_def)
  from fin[OF this, of stack] show "\<exists>e' r'. completeFinish lib stack t k l w req e = (e', Inr ()) \<and> getJobRecord e' k = Some r' \<and> jr_archived r' = Some t
      \<and> no_own_pending e' k"
    using assms(2) l ap by (auto simp: completeFinish_def completedRecord_def)
qed

theorem ending_total_witness:
  "\<exists>e' r'. CancelJob 0 6 (JobKey ''t'' ''a'') ''stop'' demo6 = (e', Inr ()) \<and> getJobRecord e' (JobKey ''t'' ''a'') = Some r' \<and> jr_archived r' = Some 6
      \<and> no_own_pending e' (JobKey ''t'' ''a'')"
  using ending_total[OF demo_run[unfolded demo0_def] demo_jobs(2)] by (simp add: demo_a_def)

end
