(* ===== verification/Toy_Tasks.thy ===== *)
theory Toy_Tasks
  imports Toy_Progress
begin

text \<open>
  External tasks, artifacts and scheduling delays of the in-process runtime: the outcome of a task
  is published at most once, and three behaviours of the code that its comments do not intend.
\<close>

section \<open>Publishing the outcome of a task\<close>

lemma put_artifacts_same [simp]:
  "te_runtimeChapters (put_artifacts k n pending e) = te_runtimeChapters e" "te_jobRecords (put_artifacts k n pending e) = te_jobRecords e"
  unfolding put_artifacts_def by (induction pending arbitrary: e) (auto simp: put_artifact_def)

lemma taskPublish_won:
  assumes "taskPublish depth now k to_type payload route wait ch pending None e = (e', Inr ())"
  shows "\<exists>cs. map_of (te_runtimeChapters e') k = Some (AList.update (wt_OutputStep wait) ch cs)"
  using assms
  by (auto simp: taskPublish_def Let_def split: option.splits sum.splits if_split_asm)

lemma taskPublish_lost:
  assumes "map_of (te_runtimeChapters e) k = Some cs" and "map_of cs (wt_OutputStep wait) \<noteq> None"
  shows "isl (snd (taskPublish depth now k to_type payload route wait ch pending failure e))"
    "te_runtimeChapters (fst (taskPublish depth now k to_type payload route wait ch pending failure e)) = te_runtimeChapters e"
    "te_runtimeArtifacts (fst (taskPublish depth now k to_type payload route wait ch pending failure e)) = te_runtimeArtifacts e"
  using assms by (auto simp: taskPublish_def Let_def split: option.splits sum.splits)

lemma map_of_prefix: "map_of cs n = Some v \<Longrightarrow> map_of (cs @ ext) n = Some v"
  by (simp add: map_add_def)

section \<open>Properties\<close>

text \<open>
  C8. The outcome of an external task is published once.  After a completion has won, whatever the
  runtime does next, every completion for the same output ordinal fails, leaves all chapters and
  artifacts as they are, and the chapter read at the ordinal is the winner's.
\<close>

theorem task_published_once:
  assumes "toy_run lib depth s0 (NewToyEngine keys) ids0 t0 e0"
    and "taskPublish depth t0 k to_type payload route wait ch pending None e0 = (e1, Inr ())"
    and "toy_run lib depth t0 e1 ids t e" and "wt_OutputStep wait' = wt_OutputStep wait"
  shows "isl (snd (taskPublish depth t k to_type' payload' route' wait' ch' pending' failure e))
    \<and> te_runtimeChapters (fst (taskPublish depth t k to_type' payload' route' wait' ch' pending' failure e)) = te_runtimeChapters e
    \<and> te_runtimeArtifacts (fst (taskPublish depth t k to_type' payload' route' wait' ch' pending' failure e)) = te_runtimeArtifacts e
    \<and> existingRuntimeChapter e k (wt_OutputStep wait) = Some ch"
proof -
  have s: "toy_step lib depth t0 silent e0 e1"
    using toy_step.task_done[of lib depth t0 e0 k to_type payload route wait ch pending None] assms(2) by simp
  have i: "toy_inv t0 e1" by (rule effects_inv[OF step_effects[OF s reach_inv[OF assms(1)]] reach_inv[OF assms(1)]])
  obtain cs where cs: "map_of (te_runtimeChapters e1) k = Some (AList.update (wt_OutputStep wait) ch cs)" using taskPublish_won[OF assms(2)] by blast
  obtain ext where e: "map_of (te_runtimeChapters e) k = Some (AList.update (wt_OutputStep wait) ch cs @ ext)"
    using run_prefix[OF assms(3) i cs] by blast
  have at: "map_of (AList.update (wt_OutputStep wait) ch cs @ ext) (wt_OutputStep wait) = Some ch" by (rule map_of_prefix) simp
  then show ?thesis using taskPublish_lost[OF e, of wait'] assms(4) e by (simp add: existingRuntimeChapter_def)
qed

text \<open>Job a of the demo run parked on an external task at instant 7, and its outcome published at 8.\<close>

definition demo_park :: RescheduleExecutionRequest where
  "demo_park = \<lparr>rr_DependencyWait = None, rr_NextRoute = Route ''build'' ''review'', rr_WaitUntil = None, rr_WaitForJobIDs = [],
     rr_TaskWait = Some \<lparr>tw_InputOrdinal = 0, tw_OutputOrdinal = 1, tw_InputHash = ''h'', tw_ResumeJobType = ''build''\<rparr>,
     rr_ClientPayloadUpdate = None, rr_AlternateRoute = None, rr_AlternateAfter = None\<rparr>"

definition demo_parked :: ToyEngine where
  "demo_parked = fst (rescheduleLease demo_runtime 9 7 (JobKey ''t'' ''a'') ''l1'' ''w1'' demo_park demo6)"

definition demo_task :: workerTaskWait where
  "demo_task = \<lparr>wt_InputStep = 0, wt_OutputStep = 1, wt_Next = ''build'', wt_InputHash = ''h''\<rparr>"

definition demo_outcome :: Chapter where
  "demo_outcome = demo_start\<lparr>ch_Ordinal := 1, ch_Body := TaskAttemptOutcomeChapter (ApplicationOutputOutcome ''1'')\<rparr>"

lemma demo_parked_run: "toy_run demo_runtime 9 0 demo0 {''l1''} 8 demo_parked"
proof -
  have "toy_run demo_runtime 9 0 demo0 {''l1''} 7 demo_parked"
    using toy_run.then_step[OF demo_run _ toy_step.reschedule_job[of demo_runtime 9 7 "JobKey ''t'' ''a''" "''l1''" "''w1''" demo6 demo_park]]
    by (simp add: demo_parked_def)
  from toy_run.then_step[OF this, of 8 silent demo_parked] show ?thesis
    using toy_step.materialize[of demo_runtime 9 8 demo_parked "JobKey ''t'' ''a''" 0 "[]"]
    by (simp add: materializeTaskData_def put_artifacts_def)
qed

lemma demo_rescheduled:
  assumes "wait = demo_park\<lparr>rr_WaitForJobIDs := jobs\<rparr>"
  shows "rescheduleLease demo_runtime 9 7 (JobKey ''t'' ''a'') ''l1'' ''w1'' wait demo6 =
    (put_job (JobKey ''t'' ''a'') (rescheduledRecord 7 None 0 (rr_TaskWait demo_park) wait demo_a) (demo6\<lparr>te_goals := goal_view demo6\<rparr>), Inr ())"
proof -
  have v: "RescheduleTaskWait (rr_NextRoute demo_park) (rr_TaskWait demo_park) = Inr (rr_TaskWait demo_park)"
    "ValidateUpdate (lb_payload demo_runtime) None False = Inr ()" by code_simp+
  have l: "leaseLive 7 ''l1'' ''w1'' demo_a" "jr_clientPayload demo_a = None" "jr_clientPayloadRevision demo_a = 0" "jr_dependencyWaitID demo_a = []"
    by (simp_all add: demo_a_def leaseLive_def)
  have w: "rr_DependencyWait wait = None" "rr_NextRoute wait = rr_NextRoute demo_park" "rr_TaskWait wait = rr_TaskWait demo_park"
    "rr_AlternateRoute wait = None" "rr_AlternateAfter wait = None" "rr_ClientPayloadUpdate wait = None" by (simp_all add: assms demo_park_def)
  show ?thesis
    by (simp add: rescheduleLease_def demo_jobs l w v ValidateDependencyReschedule_def ValidateAlternateRoute_def Apply_def rescheduleGoals_def)
qed

lemma demo_parked_job:
  "getJobRecord demo_parked (JobKey ''t'' ''a'') = Some (rescheduledRecord 7 None 0 (rr_TaskWait demo_park) demo_park demo_a)"
  "map_of (te_runtimeChapters demo_parked) (JobKey ''t'' ''a'') = Some [(0, demo_start)]"
  using demo_rescheduled[of demo_park "[]"] by (simp_all add: demo_parked_def demo_park_def demo_jobs)

lemma demo_published:
  "snd (taskPublish 9 8 (JobKey ''t'' ''a'') ''build'' \<lparr>wp_RunPolicy = [], wp_TaskWait = Some demo_task\<rparr> (Route ''build'' ''review'') demo_task
     demo_outcome [(''log'', ''ok'')] None demo_parked) = Inr ()"
proof -
  let ?r = "rescheduledRecord 7 None 0 (rr_TaskWait demo_park) demo_park demo_a"
  have "advanceRecordStateLocked demo_parked ''t'' 8 ?r = Inr ?r"
    by (simp add: advanceRecordStateLocked_def availableStatusLocked_def currentStatus_def dependencyReadyLocked_def legacyStatus_def
        rescheduledRecord_def demo_park_def demo_a_def)
  moreover have "\<not> jr_leased ?r" "currentStatus 8 ?r = JobStatusReady" "jr_archived ?r = None" "\<not> jr_cancelled ?r" "jr_route ?r = Route ''build'' ''review''"
    "jr_payload ?r = \<lparr>wp_RunPolicy = [], wp_TaskWait = Some demo_task\<rparr>"
    by (simp_all add: rescheduledRecord_def currentStatus_def demo_park_def demo_a_def demo_task_def)
  ultimately show ?thesis by (simp add: taskPublish_def demo_parked_job Let_def demo_task_def)
qed

theorem task_published_once_witness:
  "\<exists>e1. taskPublish 9 8 (JobKey ''t'' ''a'') ''build'' \<lparr>wp_RunPolicy = [], wp_TaskWait = Some demo_task\<rparr> (Route ''build'' ''review'') demo_task
      demo_outcome [(''log'', ''ok'')] None demo_parked = (e1, Inr ())
    \<and> existingRuntimeChapter e1 (JobKey ''t'' ''a'') 1 = Some demo_outcome
    \<and> isl (snd (taskPublish 9 8 (JobKey ''t'' ''a'') ''build'' \<lparr>wp_RunPolicy = [], wp_TaskWait = Some demo_task\<rparr> (Route ''build'' ''review'') demo_task
        demo_start [] None e1))"
proof -
  let ?p = "taskPublish 9 8 (JobKey ''t'' ''a'') ''build'' \<lparr>wp_RunPolicy = [], wp_TaskWait = Some demo_task\<rparr> (Route ''build'' ''review'') demo_task
      demo_outcome [(''log'', ''ok'')] None demo_parked"
  have p: "?p = (fst ?p, Inr ())" using demo_published by (metis prod.collapse)
  from task_published_once[OF demo_parked_run[unfolded demo0_def] p toy_run.begin_run refl] p show ?thesis
    by (intro exI[of _ "fst ?p"]) (simp add: demo_task_def)
qed

text \<open>
  C37. A delayed job can become ready too early.  A job whose dependencies are settled stays
  unavailable until its \<open>AvailableAt\<close>; but if its status is looked at once while they are pending,
  the delay is forgotten, and the same job is ready as soon as they are settled.
\<close>

theorem delay_forgotten:
  assumes "jr_status r = JobStatusAwaitingFuture" and "\<not> jr_leased r" and "jr_archived r = None" and "\<not> jr_cancelled r"
    and "jr_dependencyWaitID r \<noteq> []" and "dependencyReadyLocked e now r \<noteq> Inr True"
    and "dependencyReadyLocked e' later r = Inr True" and "later < jr_availableAt r"
  shows "\<exists>r1 r2. advanceRecordStateLocked e tenant now r = Inr r1 \<and> advanceRecordStateLocked e' tenant later r1 = Inr r2
      \<and> jr_status r2 = JobStatusReady \<and> later < jr_availableAt r2
    \<and> (\<exists>r3. advanceRecordStateLocked e' tenant later r = Inr r3 \<and> jr_status r3 = JobStatusAwaitingFuture)"
proof -
  let ?r1 = "r\<lparr>jr_status := JobStatusPendingJobs\<rparr>"
  have d: "dependencyReadyLocked e' later ?r1 = Inr True" by (rule ready_mono[OF assms(7) waits_le_refl]) simp_all
  have "advanceRecordStateLocked e tenant now r = Inr ?r1"
    using assms(1-6) by (simp add: advanceRecordStateLocked_def availableStatusLocked_def Let_def)
  moreover have "advanceRecordStateLocked e' tenant later ?r1 =
      Inr (?r1\<lparr>jr_waitDeadline := zero_time, jr_waitFor := [], jr_status := JobStatusReady\<rparr>)"
    using assms(2-5) d by (simp add: advanceRecordStateLocked_def availableStatusLocked_def legacyStatus_def currentStatus_def Let_def)
  moreover have "advanceRecordStateLocked e' tenant later r = Inr r"
    using assms by (simp add: advanceRecordStateLocked_def availableStatusLocked_def legacyStatus_def currentStatus_def Let_def)
  ultimately show ?thesis using assms(1,8) by simp
qed

definition demo_delayed :: jobRecord where
  "demo_delayed = demo_b\<lparr>jr_status := JobStatusAwaitingFuture, jr_availableAt := 1000\<rparr>"

definition demo_settled :: ToyEngine where
  "demo_settled = demo6\<lparr>te_goals := (te_goals demo6)\<lparr>WaitRows := [(DependencyWaitKey (JobKey ''t'' ''b'') ''submission'',
     demo_b_wait\<lparr>w_State := DependencySatisfied\<rparr>)]\<rparr>\<rparr>"

theorem delay_forgotten_witness:
  "\<exists>r1 r2. advanceRecordStateLocked demo6 ''t'' 10 demo_delayed = Inr r1 \<and> advanceRecordStateLocked demo_settled ''t'' 20 r1 = Inr r2
     \<and> jr_status r2 = JobStatusReady \<and> 20 < jr_availableAt r2"
proof -
  have "dependencyReadyLocked demo6 10 demo_delayed \<noteq> Inr True"
    by (simp add: dependencyReadyLocked_def demo_delayed_def demo_jobs(5) demo_b_def demo_a_def) (simp add: demo_b_wait_def expired_def)
  moreover have "dependencyReadyLocked demo_settled 20 demo_delayed = Inr True"
    by (simp add: dependencyReadyLocked_def demo_delayed_def demo_settled_def Memory_Wait_def demo_b_def demo_a_def)
  moreover have "jr_status demo_delayed = JobStatusAwaitingFuture" "\<not> jr_leased demo_delayed" "jr_archived demo_delayed = None"
    "\<not> jr_cancelled demo_delayed" "jr_dependencyWaitID demo_delayed \<noteq> []" "20 < jr_availableAt demo_delayed"
    by (simp_all add: demo_delayed_def demo_b_def demo_a_def)
  ultimately show ?thesis using delay_forgotten[of demo_delayed demo6 10 demo_settled 20 "''t''"] by blast
qed

text \<open>
  C38. A chapter that is refused can still damage the chapter it collides with.  Suppose a put with one
  upload passes the checks of its lease, of its size and of its schema, and its ordinal is taken by a
  chapter whose artifact of that name is stored.  Then the put fails with a conflict and keeps the stored
  chapter, but the uploaded bytes have replaced those of the artifact that the stored chapter describes.
\<close>

theorem refused_put_overwrites:
  assumes "putChapterCheck claims now req e = Inr ()" and "existingRuntimeChapter e (pc_JobKey req) (pc_Ordinal req) = Some old"
    and "pc_ArtifactUploads req = [\<lparr>au_Name = name, au_Open = Some (Inr bytes)\<rparr>]"
    and "prepareChapterWrite lib (pc_JobKey req) (pc_Ordinal req) (pc_Chapter req) (pc_ArtifactUploads req) e = (e1, Inr ch)"
    and "lb_ordinary lib (TenantId (pc_JobKey req)) (putSchemaHash lib claims req e1) ch = Inr ()"
    and "sa \<in> set (ch_Artifacts old)" and "sa_Name sa = name"
    and "te_runtimeArtifacts e (runtimeArtifactKey (pc_JobKey req) (pc_Ordinal req) name) = Some before" and "before \<noteq> bytes"
  shows "\<exists>e'. PutChapter lib claims now req e = (e', Inl ErrConflict) \<and> existingRuntimeChapter e' (pc_JobKey req) (pc_Ordinal req) = Some old
    \<and> te_runtimeArtifacts e' (runtimeArtifactKey (pc_JobKey req) (pc_Ordinal req) (sa_Name sa)) \<noteq>
      te_runtimeArtifacts e (runtimeArtifactKey (pc_JobKey req) (pc_Ordinal req) (sa_Name sa))"
proof -
  obtain cs where cs: "map_of (te_runtimeChapters e) (pc_JobKey req) = Some cs" "map_of cs (pc_Ordinal req) = Some old"
    using assms(2) by (cases "map_of (te_runtimeChapters e) (pc_JobKey req)") (auto simp: existingRuntimeChapter_def)
  have ord: "0 \<le> pc_Ordinal req" "ch_Ordinal (pc_Chapter req) = pc_Ordinal req"
    using assms(1) by (auto simp: putChapterCheck_def split: if_split_asm)
  have e1: "e1 = put_artifact (pc_JobKey req) (pc_Ordinal req) name bytes e" and ch: "ch_Ordinal ch = pc_Ordinal req"
    using assms(3,4) ord(2) by (auto simp: prepareChapterWrite_def rbind_Inr_iff split: sum.splits)
  have "PutChapter lib claims now req e = (e1, Inl ErrConflict)"
    using assms(1,4,5) cs ord ch by (simp add: PutChapter_def storeRuntimeChapter_def e1)
  then show ?thesis using cs assms(7-9) by (simp add: existingRuntimeChapter_def e1) (simp add: put_artifact_def)
qed

text \<open>The demo job writes chapter 1 with an artifact, and then puts a chapter there again.\<close>

definition demo_put :: "gostring \<Rightarrow> PutChapterRequest" where
  "demo_put bytes = \<lparr>pc_LeaseID = ''l1'', pc_JobKey = JobKey ''t'' ''a'', pc_Ordinal = 1, pc_Chapter = demo_start\<lparr>ch_Ordinal := 1\<rparr>,
     pc_ArtifactUploads = [\<lparr>au_Name = ''log'', au_Open = Some (Inr bytes)\<rparr>]\<rparr>"

definition demo_logged :: ToyEngine where
  "demo_logged = put_chapter (JobKey ''t'' ''a'') [(0, demo_start)] 1
     (demo_start\<lparr>ch_Ordinal := 1, ch_Artifacts := [\<lparr>sa_Name = ''log'', sa_Digest = ''old'', sa_Size = 3\<rparr>]\<rparr>)
     (put_artifact (JobKey ''t'' ''a'') 1 ''log'' ''old'' demo6)"

lemma demo_put_check: "getJobRecord e (JobKey ''t'' ''a'') = Some demo_a \<Longrightarrow> putChapterCheck None 6 (demo_put bytes) e = Inr ()"
  by (simp add: putChapterCheck_def demo_put_def Authorize_def leaseLive_def demo_start_def) (simp add: demo_a_def)

lemma demo_put_prepared:
  "prepareChapterWrite demo_runtime (JobKey ''t'' ''a'') 1 (demo_start\<lparr>ch_Ordinal := 1\<rparr>) (pc_ArtifactUploads (demo_put bytes)) e
   = (put_artifact (JobKey ''t'' ''a'') 1 ''log'' bytes e, Inr (demo_start\<lparr>ch_Ordinal := 1,
        ch_Artifacts := [\<lparr>sa_Name = ''log'', sa_Digest = bytes, sa_Size = int (length bytes)\<rparr>]\<rparr>))"
  by (simp add: prepareChapterWrite_def demo_put_def demo_runtime_def validateStoredArtifactDescriptors_def demo_start_def)

theorem refused_put_overwrites_witness:
  "PutChapter demo_runtime None 6 (demo_put ''old'') demo6 = (demo_logged, Inr ())
   \<and> (\<exists>e'. PutChapter demo_runtime None 6 (demo_put ''new'') demo_logged = (e', Inl ErrConflict)
     \<and> te_runtimeArtifacts e' (runtimeArtifactKey (JobKey ''t'' ''a'') 1 ''log'') \<noteq> te_runtimeArtifacts demo_logged (runtimeArtifactKey (JobKey ''t'' ''a'') 1 ''log''))"
proof
  have f: "pc_JobKey (demo_put b) = JobKey ''t'' ''a''" "pc_Ordinal (demo_put b) = 1" "pc_Chapter (demo_put b) = demo_start\<lparr>ch_Ordinal := 1\<rparr>"
    "pc_ArtifactUploads (demo_put b) = [\<lparr>au_Name = ''log'', au_Open = Some (Inr b)\<rparr>]" for b
    by (simp_all add: demo_put_def)
  have lib: "lb_ordinary demo_runtime x y z = Inr ()" for x y z by (simp add: demo_runtime_def)
  show "PutChapter demo_runtime None 6 (demo_put ''old'') demo6 = (demo_logged, Inr ())"
    by (simp add: PutChapter_def demo_put_check demo_jobs f(1-3) demo_put_prepared lib storeRuntimeChapter_def demo_logged_def)
  have "getJobRecord demo_logged (JobKey ''t'' ''a'') = Some demo_a" by (simp add: demo_logged_def demo_jobs)
  note check = demo_put_check[OF this]
  let ?old = "demo_start\<lparr>ch_Ordinal := 1, ch_Artifacts := [\<lparr>sa_Name = ''log'', sa_Digest = ''old'', sa_Size = 3\<rparr>]\<rparr>"
  have "existingRuntimeChapter demo_logged (JobKey ''t'' ''a'') 1 = Some ?old"
    "te_runtimeArtifacts demo_logged (runtimeArtifactKey (JobKey ''t'' ''a'') 1 ''log'') = Some ''old''"
    by (simp_all add: existingRuntimeChapter_def demo_logged_def put_chapter_def update_conv') (simp add: put_artifact_def)
  from refused_put_overwrites[OF check[of "''new''"], unfolded f(1-3), OF this(1) f(4) demo_put_prepared lib _ _ this(2)]
  show "\<exists>e'. PutChapter demo_runtime None 6 (demo_put ''new'') demo_logged = (e', Inl ErrConflict)
     \<and> te_runtimeArtifacts e' (runtimeArtifactKey (JobKey ''t'' ''a'') 1 ''log'') \<noteq> te_runtimeArtifacts demo_logged (runtimeArtifactKey (JobKey ''t'' ''a'') 1 ''log'')"
    by auto
qed

end
