(* ===== verification/Toy_Cycles.thy ===== *)
theory Toy_Cycles
  imports Toy_Progress
begin

text \<open>
  The cycle check on the states of the in-process runtime ends: its reads succeed, because every
  reference in the goal rows exists, and its stack is bounded by the sizes of the tables.
\<close>

definition search_bound :: "ToyEngine \<Rightarrow> nat" where
  "search_bound e = 1 + (\<Sum>(_, w) \<leftarrow> WaitRows (te_goals e). length (w_Dependencies w)) + length (te_jobRecords e)"

lemma pending_targets:
  "{t. \<exists>k w. Memory_Wait s k = Inr w \<and> pending_on t w} \<subseteq> set (concat (map (\<lambda>(_, w). map d_Target (w_Dependencies w)) (WaitRows s)))"
proof
  fix t assume "t \<in> {t. \<exists>k w. Memory_Wait s k = Inr w \<and> pending_on t w}"
  then obtain k w where w: "map_of (WaitRows s) k = Some w" "pending_on t w"
    by (auto simp: Memory_Wait_def split: option.splits)
  then show "t \<in> set (concat (map (\<lambda>(_, w). map d_Target (w_Dependencies w)) (WaitRows s)))"
    using map_of_SomeD[OF w(1)] by (force simp: pending_on_def)
qed

lemma search_nodes_bound:
  assumes "memory_inv (goal_view e)"
  shows "card (me.search_nodes now depth (goal_view e) tenant n) \<le> search_bound e"
proof -
  let ?ts = "concat (map (\<lambda>(_, w). map d_Target (w_Dependencies w)) (WaitRows (te_goals e)))"
  let ?js = "map (\<lambda>(k, _). job_target (JobId k)) (te_jobRecords e)"
  have dom: "getJobRecord e k = Some r \<Longrightarrow> job_target (JobId k) \<in> set ?js" for k r
    using map_of_SomeD[of "te_jobRecords e" k r] by (force simp: getJobRecord_def)
  have tg: "{t. \<exists>k w. Memory_Wait (te_goals e) k = Inr w \<and> pending_on t w} \<subseteq> set ?ts" by (rule pending_targets)
  have tg': "{t. \<exists>k w. store_Wait memory_store (goal_view e) k = Inr w \<and> pending_on t w} \<subseteq> set ?ts"
    using tg by (simp del: set_concat)
  have "edges (unresolved (memory_engine now depth) (goal_view e) tenant) `` T \<subseteq> Range (dep_edges memory_store now (goal_view e) tenant)" for T
    using me.edges_sub[OF assms, of now depth tenant] by auto
  moreover have "Range (dep_edges memory_store now (goal_view e) tenant) \<subseteq> set ?ts \<union> set ?js"
  proof
    fix m assume "m \<in> Range (dep_edges memory_store now (goal_view e) tenant)"
    then obtain x where "(x, m) \<in> dep_edges memory_store now (goal_view e) tenant" by blast
    then consider "goal_edge memory_store (goal_view e) tenant (t_GoalID x) m" | "job_edge memory_store now (goal_view e) tenant (t_JobID x) m"
      by (auto simp: in_dep_edges split: if_split_asm)
    then show "m \<in> set ?ts \<union> set ?js"
    proof cases
      case 1
      then obtain r where "getJobRecord e (JobKey tenant (t_JobID m)) = Some r" "m = job_target (t_JobID m)" by (auto simp: goal_edge_def)
      then show ?thesis using dom by (metis JobKey.sel(2) UnI2)
    next
      case 2
      then show ?thesis using tg by (auto simp: job_edge_def simp del: set_concat)
    qed
  qed
  ultimately have "me.search_nodes now depth (goal_view e) tenant n \<subseteq> set (n # ?ts @ ?js)"
    using tg' unfolding me.search_nodes_def Let_def set_append list.set(2) by blast
  from card_mono[OF finite_set this] have "card (me.search_nodes now depth (goal_view e) tenant n) \<le> card (set (n # ?ts @ ?js))" .
  also have "\<dots> \<le> length (n # ?ts @ ?js)" by (rule card_length)
  also have "\<dots> = search_bound e" by (simp add: search_bound_def length_concat o_def split_def)
  finally show ?thesis .
qed

lemma edges_exist:
  assumes "refs_ok (goal_view e)" and "memory_inv (goal_view e)" and "(n, m) \<in> dep_edges memory_store now (goal_view e) tenant"
  shows "target_exists (goal_view e) tenant m"
proof -
  consider (goal) "goal_edge memory_store (goal_view e) tenant (t_GoalID n) m" | (job) "job_edge memory_store now (goal_view e) tenant (t_JobID n) m"
    using assms(3) by (auto simp: in_dep_edges split: if_split_asm)
  then show ?thesis
  proof cases
    case goal
    then have "t_GoalID m = []" by (metis DependencyTarget.sel(2) goal_edge_def)
    then show ?thesis using goal by (auto simp: goal_edge_def target_exists_def job_exists_def)
  next
    case job
    then obtain wk w where w: "Memory_Wait (te_goals e) wk = Inr w" "wk_JobKey wk = JobKey tenant (t_JobID n)" "pending_on m w"
      by (auto simp: job_edge_def)
    have "w_JobKey w = wk_JobKey wk" using mem.wait_at_key[OF assms(2), of wk w] w(1) by (auto simp: wait_key_def)
    moreover have "wait_refs (goal_view e) w" using assms(1) w(1) by (simp add: refs_ok_def waits_refs_def)
    ultimately show ?thesis using w(2,3) by (simp add: wait_refs_def)
  qed
qed

lemma unresolved_total:
  assumes "refs_ok (goal_view e)" and "target_exists (goal_view e) tenant n"
  shows "\<not> isl (unresolved (memory_engine now depth) (goal_view e) tenant n)"
proof (cases "t_GoalID n \<noteq> []")
  case True
  then obtain g where g: "Memory_Goal (goal_view e) (GoalKey tenant (t_GoalID n)) = Inr g"
    using assms(2) by (auto simp: target_exists_def goal_exists_iff)
  obtain js where "Memory_Candidates (goal_view e) (g_GoalKey g) = Inr js"
    using Candidates_total assms(1) unfolding refs_ok_def by blast
  then show ?thesis using True g by (simp add: unresolved_def)
next
  case False
  then obtain j where "LookupJob (goal_view e) (JobKey tenant (t_JobID n)) = Inr j"
    using assms(2) by (auto simp: target_exists_def job_exists_def simp del: lookup_view_Inr)
  then show ?thesis using False by (simp add: unresolved_def Memory_ConsumerWaits_def del: lookup_view_Inr)
qed

lemma reach_exist:
  assumes "refs_ok (goal_view e)" and "memory_inv (goal_view e)" and "(n, m) \<in> (dep_edges memory_store now (goal_view e) tenant)\<^sup>*"
    and "target_exists (goal_view e) tenant n"
  shows "target_exists (goal_view e) tenant m"
  using assms(3) by (induction rule: rtrancl_induct) (use assms(4) edges_exist[OF assms(1,2)] in auto)

section \<open>Property\<close>

text \<open>
  C9. The cycle check ends.  In every reachable state, started at a job or a goal that exists, with
  a stack deeper than the number of recorded dependencies and jobs, \<open>CheckCycle\<close> returns without
  exhausting its stack and without an error.
\<close>

theorem cycle_check_ends:
  assumes "toy_run lib depth0 t0 (NewToyEngine keys) ids t e" and "target_exists (goal_view e) tenant n" and "search_bound e < depth"
  shows "CheckCycle (memory_engine t depth) tenant n (goal_view e) = Inr ()"
proof (cases "CheckCycle (memory_engine t depth) tenant n (goal_view e)")
  case (Inl er)
  let ?E = "dep_edges memory_store t (goal_view e) tenant"
  have h: "memory_inv (goal_view e)" "refs_ok (goal_view e)" "acyclic ?E"
    using reach_inv[OF assms(1)] by (simp_all add: toy_inv_def goals_ok_def healthy_def no_cycles_def)
  have "er \<noteq> ErrStackExhausted" using me.CheckCycle_fuel[OF h(1), of t depth tenant n] search_nodes_bound[OF h(1), of t depth tenant n] assms(3) Inl by auto
  moreover have "er \<noteq> ErrDependencyCycle" using me.CheckCycle_cycle[OF h(1), of t depth tenant n] h(3) Inl by (auto simp: acyclic_def)
  moreover have v: "visit (unresolved (memory_engine t depth) (goal_view e) tenant) depth n ({}, {}) = Inl er"
    using Inl by (auto simp: CheckCycle_def rbind_Inl_iff)
  ultimately obtain x where x: "(n, x) \<in> (edges (unresolved (memory_engine t depth) (goal_view e) tenant))\<^sup>*"
    "unresolved (memory_engine t depth) (goal_view e) tenant x = Inl er" using visit_error(1)[OF v] by blast
  then have "(n, x) \<in> ?E\<^sup>*" using rtrancl_mono[OF me.edges_sub[OF h(1), of t depth tenant]] by auto
  from unresolved_total[OF h(2) reach_exist[OF h(2,1) this assms(2)], of t depth] x(2) show ?thesis by simp
qed simp

theorem cycle_check_ends_witness: "CheckCycle (memory_engine 6 9) ''t'' (job_target ''b'') (goal_view demo6) = Inr ()"
proof (rule cycle_check_ends[OF demo_run[unfolded demo0_def]])
  show "target_exists (goal_view demo6) ''t'' (job_target ''b'')" by (simp add: target_exists_def job_exists_def demo_jobs)
  show "search_bound demo6 < 9" using demo_tables by (simp add: search_bound_def demo_b_wait_def)
qed

end
