(* ===== verification/Toy_Schedule_Demo.thy ===== *)
theory Toy_Schedule_Demo
  imports Toy_Demo Toy_Handlers
begin

text \<open>
  Runs of the in-process runtime with an interval schedule: its first occurrence is leased, submits
  its successor and completes, and is restarted; or the schedule is resumed or archived before.
\<close>

definition tick_key :: ScheduleKey where
  "tick_key = ScheduleKey ''t'' ''s''"

definition tick_id :: "gostring \<Rightarrow> gostring" where
  "tick_id n = ''jobdbsched_s_g1_run_19700101T0000000000000'' @ n @ ''Z''"

definition tick1 :: JobKey where
  "tick1 = JobKey ''t'' (tick_id ''02'')"

definition tick2 :: JobKey where
  "tick2 = JobKey ''t'' (tick_id ''15'')"

definition tick_occurrence :: "gostring \<Rightarrow> gostring \<Rightarrow> instant \<Rightarrow> ScheduleOccurrenceMetadata" where
  "tick_occurrence previous n at = \<lparr>oc_ScheduleId = ''s'', oc_Kind = ''schedule_tick'', oc_Generation = 1, oc_SpecHash = ''h'',
     oc_ScheduledAt = at, oc_RunId = ''19700101T0000000000000'' @ n @ ''Z'', oc_Manual = False, oc_PreviousJobId = previous, oc_Bits = [],
     oc_WindowSize = 0\<rparr>"

text \<open>The encoding of an occurrence is its run identifier, which is decoded among the occurrences of the run.\<close>

definition tick_occurrences :: "ScheduleOccurrenceMetadata list" where
  "tick_occurrences = [tick_occurrence [] ''02'' 2, tick_occurrence (JobId tick1) ''15'' 15]"

definition demo_schedules :: schedule_lib where
  "demo_schedules = \<lparr>sl_zones = (\<lambda>_. None), sl_submission = (\<lambda>_ _. Inr ()), sl_object = (\<lambda>_. True), sl_normalize = (\<lambda>m. m),
     sl_digest = (\<lambda>_. Inr []), sl_spec = (\<lambda>_. Inr ''h''), sl_envelope = (\<lambda>_ occ. Inr (oc_RunId occ)),
     sl_occurrence = (\<lambda>raw. Inr (find (\<lambda>occ. oc_RunId occ = raw) tick_occurrences)), sl_descriptor = (\<lambda>_. Inr ''d''), sl_inputHash = (\<lambda>_ _. Inr ''i''),
     sl_chapterMetadata = (\<lambda>_ _ _ _. Inr []), sl_detail = (\<lambda>_. Inr []), sl_systemError = (\<lambda>_ _ _. [])\<rparr>"

definition tick_request :: UpsertScheduleRequest where
  "tick_request = \<lparr>us_Key = tick_key,
     us_Trigger = \<lparr>tr_Kind = ''interval'', tr_Expression = [], tr_Timezone = [], tr_StartAt = None, tr_EndAt = None, tr_Interval = 10\<rparr>,
     us_Target = \<lparr>rc_Cell = ''api'', rc_CellID = [], rc_CellRepo = [], st_ClientPayloadUpdate = None, st_JobType = ''build'',
       st_Data = Some (''{}'', []), st_RunPolicy = [], st_Metadata = []\<rparr>,
     us_OverlapPolicy = ''serial'', us_FailurePolicy = \<lparr>fp_MinSuccessPercent = 0, fp_WindowSize = 0, fp_MaxSequentialFailures = 0\<rparr>,
     us_Paused = False, us_ExpectedGeneration = None\<rparr>"

definition tick_poll :: PollWorkRequest where
  "tick_poll = \<lparr>pw_TenantId = ''t'', pw_Routes = [Route ''build'' []], pw_CellNames = None, pw_Limit = 2, pw_WorkerID = ''w'', pw_LeaseDuration = 5\<rparr>"

definition poll_at :: "instant \<Rightarrow> gostring \<Rightarrow> ToyEngine \<Rightarrow> runtimeLease list outcome" where
  "poll_at now l e = pollAcquire demo_runtime demo_worker (\<lambda>_. Inr True) (\<lambda>n. l @ nat_text n) [tick1, tick2] now tick_poll e"

definition lease_of :: "JobKey \<Rightarrow> gostring \<Rightarrow> instant \<Rightarrow> runtimeLease" where
  "lease_of k l now = \<lparr>ls_jobKey = k, ls_leaseID = l, ls_workerID = ''w'', ls_route = Route ''build'' [],
     ls_payload = \<lparr>wp_RunPolicy = [], wp_TaskWait = None\<rparr>, ls_clientPayload = None, ls_clientPayloadRevision = 0,
     ls_expiresAt = now + 5, ls_duration = 5, ls_schemaHash = []\<rparr>"

definition preflight_at :: "instant \<Rightarrow> gostring \<Rightarrow> runtimeLease \<Rightarrow> ToyEngine \<Rightarrow> bool outcome" where
  "preflight_at now g lease e = preflightScheduleLease demo_runtime demo_schedules 9 now demo_user g lease e"

definition tick_done :: CompleteExecutionRequest where
  "tick_done = \<lparr>ce_ClientPayloadUpdate = None, ce_Status = [], ce_Detail = [],
     ce_Chapter = Some (demo_start\<lparr>ch_Ordinal := 1, ch_Body := JobAttemptOutcomeChapter (ApplicationOutputOutcome ''1'')\<rparr>), ce_ArtifactUploads = []\<rparr>"

section \<open>The states\<close>

definition tick_schedule :: toyScheduleRecord where
  "tick_schedule = \<lparr>si_PauseReason = [], si_Key = tick_key, si_State = ScheduleStateActive, si_EffectiveState = ScheduleStateActive,
     si_Generation = 1, si_SpecHash = ''h'', si_Trigger = us_Trigger tick_request,
     si_Target = (us_Target tick_request)\<lparr>rc_CellID := ''id1'', rc_CellRepo := ''host/api''\<rparr>, si_OverlapPolicy = ''serial'',
     si_FailurePolicy = us_FailurePolicy tick_request, si_NextFireAt = Some 2, si_NextJobKey = Some tick1, si_CreatedAt = 2, si_UpdatedAt = 2\<rparr>"

definition tick_job :: "gostring \<Rightarrow> instant \<Rightarrow> gostring \<Rightarrow> gostring \<Rightarrow> instant \<Rightarrow> JobKey \<times> jobRecord" where
  "tick_job n at g l expires = (JobKey ''t'' (tick_id n),
     demo_a\<lparr>jr_key := JobKey ''t'' (tick_id n), jr_goalID := g, jr_metadata := ''19700101T0000000000000'' @ n @ ''Z'',
       jr_createdAt := (if g = ''g1'' then 3 else 5), jr_availableAt := at, jr_leaseExpiresAt := expires,
       jr_leaseWorkerID := ''w'', jr_leaseID := l, jr_leased := True, jr_status := JobStatusActive\<rparr>)"

definition tick_wait :: "gostring \<Rightarrow> instant \<Rightarrow> gostring \<Rightarrow> gostring \<Rightarrow> JobKey \<times> jobRecord" where
  "tick_wait n at g previous = (case tick_job n at g [] zero_time of (k, r) \<Rightarrow>
     (k, r\<lparr>jr_leaseWorkerID := [], jr_leased := False, jr_status := if previous = [] then JobStatusReady else JobStatusPendingJobs,
       jr_waitFor := if previous = [] then [] else [previous]\<rparr>))"

abbreviation tick_goal :: "gostring \<Rightarrow> instant \<Rightarrow> GoalInfo" where
  "tick_goal g created \<equiv> \<lparr>g_Cell = ''api'', g_CellID = ''id1'', g_CellRepo = ''host/api'', g_GoalKey = GoalKey ''t'' g, g_State = GoalOpen,
     g_Revision = 1, g_SuccessfulJobID = [], g_Failure = None, g_CreatedAt = created, g_UpdatedAt = created, g_ClosedAt = None\<rparr>"

abbreviation tick_goal_done :: GoalInfo where
  "tick_goal_done \<equiv> \<lparr>g_Cell = ''api'', g_CellID = ''id1'', g_CellRepo = ''host/api'', g_GoalKey = GoalKey ''t'' ''g1'', g_State = GoalSucceeded,
     g_Revision = 2, g_SuccessfulJobID = ''jobdbsched_s_g1_run_19700101T000000000000002Z'', g_Failure = None, g_CreatedAt = 3, g_UpdatedAt = 6,
     g_ClosedAt = Some 6\<rparr>"

abbreviation goals1 :: "GoalKey \<Rightarrow> GoalInfo option" where
  "goals1 \<equiv> (\<lambda>x. None)(GoalKey ''t'' ''g1'' \<mapsto> tick_goal ''g1'' 3)"

abbreviation goals2 :: "GoalKey \<Rightarrow> GoalInfo option" where
  "goals2 \<equiv> goals1(GoalKey ''t'' ''g2'' \<mapsto> tick_goal ''g2'' 5)"

abbreviation goals3 :: "GoalKey \<Rightarrow> GoalInfo option" where
  "goals3 \<equiv> goals2(GoalKey ''t'' ''g1'' \<mapsto> tick_goal_done)"

definition tick_prepared :: "JobKey \<times> jobRecord \<Rightarrow> JobKey \<times> preparedGoalJob" where
  "tick_prepared = (\<lambda>(k, r). (k, \<lparr>pg_Request = (demo_prep [] [])\<lparr>pp_CellRepo := ''host/api'', pp_Target := jr_cell r, pp_Key := k, pp_Descriptor := ''d''\<rparr>,
     pg_GoalID = jr_goalID r\<rparr>))"

definition tick_chapters :: "JobKey \<times> jobRecord \<Rightarrow> JobKey \<times> (int \<times> Chapter) list" where
  "tick_chapters = (\<lambda>(k, r). (k, (0, demo_start\<lparr>ch_TaskType := ''build'', ch_InputHash := ''i'', ch_CreatedAt := jr_createdAt r\<rparr>)
     # (if jr_archived r = None then [] else [(1, the (ce_Chapter tick_done))])))"

definition tick_state :: "(GoalKey \<Rightarrow> GoalInfo option) \<Rightarrow> (JobKey \<times> jobRecord) list \<Rightarrow> ToyEngine" where
  "tick_state goals jobs = (let e = demo0\<lparr>te_cells := [(''t'', demo_cells)], te_preparedGoals := map tick_prepared jobs, te_jobRecords := jobs,
       te_schedules := [(tick_key, tick_schedule)], te_runtimeChapters := map tick_chapters jobs\<rparr>
     in e\<lparr>te_goals := (goal_view e)\<lparr>GoalRows := goals\<rparr>\<rparr>)"

definition first_done :: "JobKey \<times> jobRecord" where
  "first_done = (case tick_job ''02'' 2 ''g1'' [] 9 of (k, r) \<Rightarrow>
     (k, r\<lparr>jr_leased := False, jr_status := JobStatusCompleted, jr_archived := Some 6, jr_completionStatus := ''success''\<rparr>))"

definition cell1 :: ToyEngine where
  "cell1 = demo0\<lparr>te_cells := [(''t'', demo_cells)]\<rparr>"

definition sched1 :: ToyEngine where
  "sched1 = tick_state goals1 [tick_wait ''02'' 2 ''g1'' []]"

definition sched2 :: ToyEngine where
  "sched2 = tick_state goals1 [tick_job ''02'' 2 ''g1'' ''a0'' 9]"

definition sched3 :: ToyEngine where
  "sched3 = tick_state goals2 [tick_job ''02'' 2 ''g1'' ''a0'' 9, tick_wait ''15'' 15 ''g2'' (tick_id ''02'')]"

definition sched4 :: ToyEngine where
  "sched4 = tick_state goals3 [first_done, tick_wait ''15'' 15 ''g2'' (tick_id ''02'')]"

text \<open>A schedule that is resumed or archived before its first occurrence is leased.\<close>

definition resumed_schedule :: toyScheduleRecord where
  "resumed_schedule = tick_schedule\<lparr>si_Generation := 2, si_NextFireAt := Some 4,
     si_NextJobKey := Some (JobKey ''t'' ''jobdbsched_s_g2_run_19700101T000000000000004Z''), si_UpdatedAt := 4\<rparr>"

definition archived_schedule :: toyScheduleRecord where
  "archived_schedule = tick_schedule\<lparr>si_State := ScheduleStateArchived, si_EffectiveState := ScheduleStateArchived, si_Generation := 2,
     si_NextFireAt := None, si_NextJobKey := None, si_UpdatedAt := 4\<rparr>"

definition changed4 :: "toyScheduleRecord \<Rightarrow> ToyEngine" where
  "changed4 s = sched1\<lparr>te_schedules := [(tick_key, s)]\<rparr>"

definition changed5 :: "toyScheduleRecord \<Rightarrow> ToyEngine" where
  "changed5 s = (tick_state goals1 [tick_job ''02'' 2 ''g1'' ''a0'' 10])\<lparr>te_schedules := [(tick_key, s)]\<rparr>"

definition tick_change :: ScheduleMutationRequest where
  "tick_change = \<lparr>sm_Key = tick_key, sm_ExpectedGeneration = None\<rparr>"

text \<open>A restart of the first occurrence after it has completed.\<close>

definition restart_key :: JobKey where
  "restart_key = JobKey ''t'' ''r''"

definition restart_request :: RestartJob where
  "restart_request = \<lparr>rj_PriorJobKey = tick1, rj_LastStepToKeep = 0, rj_ExecutionRestart = Some ''{}'', rj_ExtraTaskOutput = False,
     rj_ClientPayload = None, rj_ClientPayloadRevision = 0, rj_InitialPayloadDigest = [], rj_Metadata = [], rj_SchemaHash = []\<rparr>"

definition restart_prep :: Preparation where
  "restart_prep = (demo_prep ''r'' [])\<lparr>pp_PriorJobID := tick_id ''02''\<rparr>"

definition demo_restarts :: restart_lib where
  "demo_restarts = \<lparr>rl_attempt = (\<lambda>_. Inr 1), rl_runPolicy = (\<lambda>_. Inr [])\<rparr>"

definition restart1 :: ToyEngine where
  "restart1 = sched4\<lparr>te_preparedGoals := te_preparedGoals sched4
     @ [(restart_key, \<lparr>pg_Request = restart_prep\<lparr>pp_Target := jr_cell demo_a\<rparr>, pg_GoalID = ''gr''\<rparr>)]\<rparr>"

section \<open>The runs\<close>

lemma sched_polls:
  "(P :: ToyEngine list \<Rightarrow> bool)
     [demo1, fst (poll_at 4 ''a'' sched1), fst (poll_at 5 ''a'' (changed4 resumed_schedule)), fst (poll_at 5 ''a'' (changed4 archived_schedule)),
      fst (completeLease demo_runtime 9 6 tick1 ''a0'' ''w'' tick_done sched3)]
   = P [cell1, sched2, changed5 resumed_schedule, changed5 archived_schedule, sched4]"
  by code_simp

lemma sched_submits:
  "(P :: ToyEngine list \<times> bool list \<Rightarrow> bool)
     ([fst (UpsertSchedule demo_runtime demo_schedules 9 2 3 demo_user ''g1'' tick_request cell1),
       fst (preflight_at 5 ''g2'' (lease_of tick1 ''a0'' 4) sched2)],
      [snd (preflight_at 5 ''g2'' (lease_of tick1 ''a0'' 5) (changed5 resumed_schedule)) = Inr False,
       snd (preflight_at 5 ''g2'' (lease_of tick1 ''a0'' 5) (changed5 archived_schedule)) = Inr False])
   = P ([sched1, sched3], [True, True])"
  by code_simp (simp only: ResolvedCell.select_convs cong: if_cong)

lemma sched_changes:
  "(P :: (ToyEngine \<times> (error + toyScheduleRecord)) list \<Rightarrow> bool)
     [mutateScheduleState demo_schedules demo_admin 4 tick_change ScheduleStateActive sched1,
      mutateScheduleState demo_schedules demo_admin 4 tick_change ScheduleStateArchived sched1]
   = P [(changed4 resumed_schedule, Inr resumed_schedule), (changed4 archived_schedule, Inr archived_schedule)]"
  by code_simp

lemma restart_steps:
  "(P :: ToyEngine \<times> bool list \<Rightarrow> bool)
     (fst (PrepareJob demo_runtime 23 demo_user (Inr (JobKey ''t'' ''x'')) ''gr'' restart_prep sched4),
      [snd (insertRestart demo_runtime demo_restarts 9 24 demo_user restart_key restart_request restart1)
         = Inr \<lparr>jh_Target = jr_cell demo_a, jh_GoalID = ''gr'', jh_JobKey = restart_key\<rparr>])
   = P (restart1, [True])"
  by code_simp

text \<open>The equations that the evaluations give, as rewrite rules.\<close>

lemma sched_steps:
  "demo1 = cell1" "fst (poll_at 4 ''a'' sched1) = sched2" "fst (completeLease demo_runtime 9 6 tick1 ''a0'' ''w'' tick_done sched3) = sched4"
  "fst (UpsertSchedule demo_runtime demo_schedules 9 2 3 demo_user ''g1'' tick_request cell1) = sched1"
  "fst (preflight_at 5 ''g2'' (lease_of tick1 ''a0'' 4) sched2) = sched3"
  "fst (PrepareJob demo_runtime 23 demo_user (Inr (JobKey ''t'' ''x'')) ''gr'' restart_prep sched4) = restart1"
  "snd (insertRestart demo_runtime demo_restarts 9 24 demo_user restart_key restart_request restart1)
     = Inr \<lparr>jh_Target = jr_cell demo_a, jh_GoalID = ''gr'', jh_JobKey = restart_key\<rparr>"
  using sched_polls[of "\<lambda>x. x = [cell1, sched2, changed5 resumed_schedule, changed5 archived_schedule, sched4]"]
    sched_submits[of "\<lambda>x. x = ([sched1, sched3], [True, True])"] restart_steps[of "\<lambda>x. x = (restart1, [True])"] by simp_all

lemma changed_steps:
  "mutateScheduleState demo_schedules demo_admin 4 tick_change ScheduleStateActive sched1 = (changed4 resumed_schedule, Inr resumed_schedule)"
  "mutateScheduleState demo_schedules demo_admin 4 tick_change ScheduleStateArchived sched1 = (changed4 archived_schedule, Inr archived_schedule)"
  "fst (poll_at 5 ''a'' (changed4 archived_schedule)) = changed5 archived_schedule"
  "fst (poll_at 5 ''a'' (changed4 resumed_schedule)) = changed5 resumed_schedule"
  "snd (preflight_at 5 ''g2'' (lease_of tick1 ''a0'' 5) (changed5 resumed_schedule)) = Inr False"
  "snd (preflight_at 5 ''g2'' (lease_of tick1 ''a0'' 5) (changed5 archived_schedule)) = Inr False"
  using sched_polls[of "\<lambda>x. x = [cell1, sched2, changed5 resumed_schedule, changed5 archived_schedule, sched4]"]
    sched_submits[of "\<lambda>x. x = ([sched1, sched3], [True, True])"]
    sched_changes[of "\<lambda>x. x = [(changed4 resumed_schedule, Inr resumed_schedule), (changed4 archived_schedule, Inr archived_schedule)]"] by simp_all

lemma changed_tables:
  "map_of (te_schedules sched1) tick_key = Some tick_schedule
   \<and> ExtractScheduleOccurrenceMetadata demo_schedules (jr_metadata (snd (tick_job ''02'' 2 ''g1'' ''a0'' 10))) = Inr (Some (tick_occurrence [] ''02'' 2))
   \<and> list_all (\<lambda>s. map_of (te_schedules (changed4 s)) tick_key = Some s \<and> map_of (te_schedules (changed5 s)) tick_key = Some s
       \<and> getJobRecord (changed5 s) tick1 = Some (snd (tick_job ''02'' 2 ''g1'' ''a0'' 10))
       \<and> map_of (te_runtimeChapters (changed5 s)) tick1 = Some [(0, demo_start\<lparr>ch_TaskType := ''build'', ch_InputHash := ''i'', ch_CreatedAt := 3\<rparr>)])
     [resumed_schedule, archived_schedule]
   \<and> getJobRecord restart1 restart_key = None \<and> map_of (te_runtimeChapters restart1) tick1 = Some (snd (tick_chapters first_done))"
  by code_simp

lemma poll_run:
  assumes "toy_run demo_runtime 9 t0 e0 ids t e" and "t \<le> now" and "l \<noteq> []"
  shows "toy_run demo_runtime 9 t0 e0 (ids \<union> range (\<lambda>n. l @ nat_text n)) now (fst (poll_at now l e))"
  unfolding poll_at_def using toy_run.then_step[OF assms(1,2) toy_step.poll[of "\<lambda>n. l @ nat_text n"]] assms(3) by simp

lemma preflight_run:
  assumes "toy_run demo_runtime 9 t0 e0 ids t e" and "t \<le> now" and "g \<noteq> []"
  shows "toy_run demo_runtime 9 t0 e0 ids now (fst (preflight_at now g lease e))"
  unfolding preflight_at_def by (rule handled_run[OF assms(1,2) preflight_handled[OF assms(3)]])

lemma sched1_run: "toy_run demo_runtime 9 0 demo0 {} 3 sched1"
proof -
  have "toy_step demo_runtime 9 1 silent demo0 demo1" unfolding demo1_def
    by (rule toy_step.new_cell) (simp add: demo0_def NewToyEngine_def cellsLocked_def NewRegistry_def)
  then have "toy_run demo_runtime 9 0 demo0 {} 1 cell1" using toy_run.then_step[OF toy_run.begin_run, of 0 1] sched_steps(1) by fastforce
  then show ?thesis
    using handled_run[OF _ _ UpsertSchedule_handled[of "''g1''"], of demo_runtime 9 0 demo0 "{}" 1 cell1 3 demo_schedules 2 demo_user tick_request]
    by (simp add: sched_steps)
qed

lemma sched4_run: "\<exists>ids. toy_run demo_runtime 9 0 demo0 ids 6 sched4"
  using handled_run[OF preflight_run[OF poll_run[OF sched1_run, of 4 "''a''"], of 5 "''g2''" "lease_of tick1 ''a0'' 4"] _ completeLease_handled,
      of 6 tick1 "''a0''" "''w''" tick_done]
  by (auto simp: sched_steps)

lemma restart1_run: "\<exists>ids. toy_run demo_runtime 9 0 demo0 ids 23 restart1"
proof -
  obtain ids where "toy_run demo_runtime 9 0 demo0 ids 6 sched4" using sched4_run by blast
  from toy_run.then_step[OF this _ toy_step.prepare_job[of "''gr''" demo_runtime 9 23 sched4 demo_user "Inr (JobKey ''t'' ''x'')" restart_prep]]
  show ?thesis by (auto simp: sched_steps)
qed

lemma archived4_run: "toy_run demo_runtime 9 0 demo0 {} 4 (changed4 archived_schedule)"
  using handled_run[OF sched1_run _ step_handled(12), of 4 demo_schedules demo_admin 4 tick_change ScheduleStateArchived] by (simp add: changed_steps)

lemma archived5_run: "toy_run demo_runtime 9 4 (changed4 archived_schedule) (range (\<lambda>n. ''a'' @ nat_text n)) 5 (changed5 archived_schedule)"
  using poll_run[OF toy_run.begin_run, of 4 5 "''a''" "changed4 archived_schedule"] by (simp add: changed_steps)

end
