(* ===== verification/Toy_Occurrences.thy ===== *)
theory Toy_Occurrences
  imports Toy_Progress Toy_Schedule_Demo Schedule_Properties
begin

text \<open>
  Scheduled occurrences and restarts of the in-process runtime: an occurrence from before a change of
  its schedule does not start, an archived schedule starts nothing any more, and a restarted job
  begins with the history it was asked to keep.
\<close>

section \<open>Schedules over a run\<close>

lemma schedule_le_refl [simp]: "schedule_le s s"
  by (simp add: schedule_le_def)

lemma schedule_le_trans: "schedule_le a b \<Longrightarrow> schedule_le b c \<Longrightarrow> schedule_le a c"
  by (auto simp: schedule_le_def)

lemma put_schedules [simp]:
  "te_schedules (put_job k r e) = te_schedules e" "te_schedules (put_chapter k cs n ch e) = te_schedules e"
  "te_schedules (put_chapters k cs e) = te_schedules e" "te_schedules (put_artifact k n name b e) = te_schedules e"
  "te_schedules (put_cells tenant s e) = te_schedules e" "te_schedules (fst (completeGoals now depth k e)) = te_schedules e"
  by (simp_all add: put_job_def put_chapter_def put_chapters_def put_artifact_def put_cells_def completeGoals_def split: sum.split)

lemma effect_schedules:
  assumes "effect depth now lab e e'" and "map_of (te_schedules e) k = Some s"
  shows "\<exists>s'. map_of (te_schedules e') k = Some s' \<and> schedule_le s s'"
  using assms(1) by cases (use assms(2) in \<open>auto simp: schedules_le_def\<close>)

lemma run_schedules:
  assumes "toy_run lib depth t0 e0 ids t e" and "toy_inv t0 e0" and "map_of (te_schedules e0) k = Some s"
  shows "\<exists>s'. map_of (te_schedules e) k = Some s' \<and> schedule_le s s'"
  using assms(1,2)
proof (induction rule: run_induct)
  case (effect now new e e')
  then show ?case using effect_schedules[OF effect(4)] schedule_le_trans by blast
qed (use assms(3) in auto)

section \<open>Preflight\<close>

lemma completeLease_cancelled:
  assumes "completeLease lib depth now k l w req e = (e', Inr u)" and "ce_Status req = ''cancelled''"
    and "ce_Chapter req = Some ch" and "\<not> ChapterPayloadFailure ch"
  shows "\<exists>r. getJobRecord e' k = Some r \<and> jr_status r = JobStatusCancelled \<and> jr_archived r = Some now"
proof -
  obtain e1 where f: "completeFinish lib depth now k l w req e1 = (e', Inr u)"
    using assms(1,3,4) unfolding completeLease_def by (auto split: sum.splits prod.splits)
  then obtain r v n where "e' = fst (completeGoals now depth k (put_job k (completedRecord now v n req r) e1))"
    unfolding completeFinish_def by (auto split: option.splits if_split_asm sum.splits) (metis fst_conv)
  then show ?thesis using assms(2) by (simp add: completedRecord_def)
qed

lemma cancelled_lease:
  assumes "cancelScheduledLease lib sl depth now lease detail e = (e', Inr b)"
  shows "\<not> b \<and> (\<exists>r. getJobRecord e' (ls_jobKey lease) = Some r \<and> jr_status r = JobStatusCancelled \<and> jr_archived r = Some now)"
proof -
  let ?req = "\<lambda>raw. \<lparr>ce_ClientPayloadUpdate = None, ce_Status = ''cancelled'', ce_Detail = raw,
     ce_Chapter = Some (schedulePreflightCancelChapter sl now (rt_JobType (ls_route lease)) detail), ce_ArtifactUploads = []\<rparr>"
  obtain raw where "completeLease lib depth now (ls_jobKey lease) (ls_leaseID lease) (ls_workerID lease) (?req raw) e = (e', Inr ())" "\<not> b"
    using assms unfolding cancelScheduledLease_def by (auto split: sum.splits prod.splits if_split_asm)
  then show ?thesis
    using completeLease_cancelled[of lib depth now _ _ _ "?req raw" e e'] by (simp add: ChapterPayloadFailure_def schedulePreflightCancelChapter_def)
qed

text \<open>A change of a schedule that succeeds gives it another generation, also when the counter wraps.\<close>

lemma wrap64_next: "wrap64 (g + 1) \<noteq> g"
proof
  assume w: "wrap64 (g + 1) = g"
  then have g: "int64 g" using wrap64_int64[of "g + 1"] by simp
  show False
  proof (cases "g = 2 ^ 63 - 1")
    case True then show ?thesis using w by (simp add: wrap64_def)
  next
    case False then show ?thesis using w g wrap64_id[of "g + 1"] by (simp add: int64_def)
  qed
qed

lemma stored_schedule:
  assumes "storeSchedule lib sl ctx now req target at e = (e', Inr info)" and "map_of (te_schedules e) (us_Key req) = Some s"
  shows "si_Generation info = wrap64 (si_Generation s + 1)" "si_PauseReason info = []"
  using assms by (auto simp: storeSchedule_def Let_def split: sum.splits prod.splits if_split_asm)

lemma mutated_schedule:
  assumes "mutateScheduleState sl ctx now req state e = (e', Inr info)" and "map_of (te_schedules e) (sm_Key req) = Some s"
  shows "si_Generation info = wrap64 (si_Generation s + 1)" "si_PauseReason info \<in> {[], si_PauseReason s}"
  using assms by (auto simp: mutateScheduleState_def Let_def split: sum.splits if_split_asm)

lemma refused_preflight:
  assumes "getJobRecord e (ls_jobKey lease) = Some r" and "ExtractScheduleOccurrenceMetadata sl (jr_metadata r) = Inr (Some occ)"
    and "map_of (te_runtimeChapters e) (ls_jobKey lease) = Some [start]"
    and "map_of (te_schedules e) (ScheduleKey (TenantId (ls_jobKey lease)) (oc_ScheduleId occ)) = Some s"
    and "oc_Generation occ \<noteq> si_Generation s \<or> si_State s = ScheduleStateArchived" and "si_PauseReason s \<noteq> ''cell_repo_mismatch''"
    and "preflightScheduleLease lib sl depth t cx newGoal lease e = (e', out)"
  shows "out \<noteq> Inr True \<and> (out = Inr False \<longrightarrow>
     (\<exists>r'. getJobRecord e' (ls_jobKey lease) = Some r' \<and> jr_status r' = JobStatusCancelled \<and> jr_archived r' = Some t))"
proof -
  have "\<exists>detail. preflightDecision (ls_jobKey lease) occ e = PreflightCancel detail"
    using assms(3-6) by (auto simp: preflightDecision_def GetSchedule_def Let_def)
  then obtain detail where "preflightDecision (ls_jobKey lease) occ e = PreflightCancel detail" ..
  then have "cancelScheduledLease lib sl depth t lease detail e = (e', out)" using assms(1,2,7) by (simp add: preflightScheduleLease_def)
  then show ?thesis using cancelled_lease[of lib sl depth t lease detail e e'] by blast
qed

section \<open>Restarts\<close>

text \<open>A restart that creates a job publishes it and writes the chapters it inherits.\<close>

lemma insertRestart_created:
  assumes "insertRestart lib rl depth now cx k job e = (e', Inr h)" and "getJobRecord e k = None"
  obtains target e1 sb where "restartChapters lib rl k job e = Inr target" "e' = put_chapters k target e1"
    "publishGoalLocked depth now cx k (newRecord now sb) (put_job k (newRecord now sb) e) = Inr e1"
proof -
  have "existingEquivalentRestartJob k job target e = Inr None" for target using assms(2) by (simp add: existingEquivalentRestartJob_def)
  then show thesis
    using assms(1) that unfolding insertRestart_def by (fastforce simp: rbind_Inr_iff Let_def split: sum.splits option.splits)
qed

section \<open>Properties\<close>

text \<open>
  C12. An occurrence from before a change of its schedule does not start.  Let an update, a pause, a
  resumption or an archiving of the schedule succeed, and let the schedule still be as that left it.
  Then the preflight of an occurrence of the generation before the change that has no chapter of its own
  never hands out its lease, and when it does not fail it has cancelled the occurrence.  The schedule must
  not have been paused for a change of its cell's repository, since such an occurrence passes.
\<close>

theorem changed_schedule_cancels:
  assumes "map_of (te_schedules e0) sk = Some s" and "si_PauseReason s \<noteq> ''cell_repo_mismatch''"
    and "storeSchedule lib sl ctx now ureq target at e0 = (e1, Inr info) \<and> us_Key ureq = sk
       \<or> mutateScheduleState sl ctx now mreq state e0 = (e1, Inr info) \<and> sm_Key mreq = sk"
    and "map_of (te_schedules e) sk = Some info"
    and "oc_Generation occ = si_Generation s" and "sk = ScheduleKey (TenantId (ls_jobKey lease)) (oc_ScheduleId occ)"
    and "getJobRecord e (ls_jobKey lease) = Some r" and "ExtractScheduleOccurrenceMetadata sl (jr_metadata r) = Inr (Some occ)"
    and "map_of (te_runtimeChapters e) (ls_jobKey lease) = Some [start]"
    and "preflightScheduleLease lib sl depth t cx newGoal lease e = (e', out)"
  shows "out \<noteq> Inr True \<and> (out = Inr False \<longrightarrow>
     (\<exists>r'. getJobRecord e' (ls_jobKey lease) = Some r' \<and> jr_status r' = JobStatusCancelled \<and> jr_archived r' = Some t))"
proof (rule refused_preflight[OF assms(7-9) assms(4)[unfolded assms(6)] _ _ assms(10)])
  have "si_Generation info = wrap64 (si_Generation s + 1)" using assms(1,3) stored_schedule(1) mutated_schedule(1) by blast
  then show "oc_Generation occ \<noteq> si_Generation info \<or> si_State info = ScheduleStateArchived" using wrap64_next[of "si_Generation s"] assms(5) by simp
  have "si_PauseReason info \<in> {[], si_PauseReason s}" using assms(1,3) stored_schedule(2) mutated_schedule(2) by blast
  then show "si_PauseReason info \<noteq> ''cell_repo_mismatch''" using assms(2) by auto
qed

text \<open>The facts about the demo schedule that both witnesses use.\<close>

lemma demo_occurrence:
  "tick_key = ScheduleKey (TenantId (ls_jobKey (lease_of tick1 l n))) (oc_ScheduleId (tick_occurrence [] ''02'' 2))"
  "oc_Generation (tick_occurrence [] ''02'' 2) = si_Generation tick_schedule" "ls_jobKey (lease_of tick1 l n) = tick1"
  "si_PauseReason tick_schedule \<noteq> ''cell_repo_mismatch''" "si_PauseReason archived_schedule \<noteq> ''cell_repo_mismatch''"
  "si_State archived_schedule = ScheduleStateArchived" "sm_Key tick_change = tick_key"
  by (simp_all add: lease_of_def tick_key_def tick1_def tick_occurrence_def archived_schedule_def tick_schedule_def tick_change_def)

lemma demo_preflight:
  assumes "s = resumed_schedule \<or> s = archived_schedule"
  shows "preflightScheduleLease demo_runtime demo_schedules 9 5 demo_user ''g2'' (lease_of tick1 ''a0'' 5) (changed5 s)
    = (fst (preflightScheduleLease demo_runtime demo_schedules 9 5 demo_user ''g2'' (lease_of tick1 ''a0'' 5) (changed5 s)), Inr False)"
  using assms changed_steps(5,6) by (auto simp: preflight_at_def prod_eq_iff)

theorem changed_schedule_cancels_witness:
  "\<exists>r'. getJobRecord (fst (preflightScheduleLease demo_runtime demo_schedules 9 5 demo_user ''g2'' (lease_of tick1 ''a0'' 5) (changed5 resumed_schedule))) tick1 = Some r'
     \<and> jr_status r' = JobStatusCancelled \<and> jr_archived r' = Some 5"
proof -
  have p: "preflightScheduleLease demo_runtime demo_schedules 9 5 demo_user ''g2'' (lease_of tick1 ''a0'' 5) (changed5 resumed_schedule)
    = (fst (preflightScheduleLease demo_runtime demo_schedules 9 5 demo_user ''g2'' (lease_of tick1 ''a0'' 5) (changed5 resumed_schedule)), Inr False)"
    by (rule demo_preflight) simp
  show ?thesis
    using changed_schedule_cancels[OF _ demo_occurrence(4) disjI2[OF conjI[OF changed_steps(1) demo_occurrence(7)]] _ demo_occurrence(2,1) _ _ _ p]
      changed_tables by (simp add: demo_occurrence)
qed

text \<open>
  C40. An archived schedule starts nothing any more.  From a reachable state in which a schedule is
  archived, and was not paused for a change of its cell's repository, whatever the runtime does next, the
  schedule stays archived, and the preflight of an occurrence of it that has no chapter of its own
  never hands out its lease; when the preflight does not fail it has cancelled the occurrence.
\<close>

theorem archived_schedule_stops:
  assumes "toy_run lib depth s0 (NewToyEngine keys) ids0 t0 e0" and "toy_run lib depth t0 e0 ids t e"
    and "map_of (te_schedules e0) sk = Some s" and "si_State s = ScheduleStateArchived" and "si_PauseReason s \<noteq> ''cell_repo_mismatch''"
    and "sk = ScheduleKey (TenantId (ls_jobKey lease)) (oc_ScheduleId occ)"
    and "getJobRecord e (ls_jobKey lease) = Some r" and "ExtractScheduleOccurrenceMetadata sl (jr_metadata r) = Inr (Some occ)"
    and "map_of (te_runtimeChapters e) (ls_jobKey lease) = Some [start]"
    and "preflightScheduleLease lib sl depth t cx newGoal lease e = (e', out)"
  shows "map_option si_State (map_of (te_schedules e) sk) = Some ScheduleStateArchived \<and> out \<noteq> Inr True \<and> (out = Inr False \<longrightarrow>
     (\<exists>r'. getJobRecord e' (ls_jobKey lease) = Some r' \<and> jr_status r' = JobStatusCancelled \<and> jr_archived r' = Some t))"
proof -
  obtain s' where s': "map_of (te_schedules e) sk = Some s'" "schedule_le s s'"
    using run_schedules[OF assms(2) reach_inv[OF assms(1)] assms(3)] by blast
  then have a: "si_State s' = ScheduleStateArchived" "si_PauseReason s' \<noteq> ''cell_repo_mismatch''" using assms(4,5) by (auto simp: schedule_le_def)
  show ?thesis using refused_preflight[OF assms(7-9) s'(1)[unfolded assms(6)] _ a(2) assms(10)] a(1) s'(1) by simp
qed

theorem archived_schedule_stops_witness:
  "\<exists>r'. getJobRecord (fst (preflightScheduleLease demo_runtime demo_schedules 9 5 demo_user ''g2'' (lease_of tick1 ''a0'' 5) (changed5 archived_schedule))) tick1 = Some r'
     \<and> jr_status r' = JobStatusCancelled \<and> jr_archived r' = Some 5"
proof -
  have p: "preflightScheduleLease demo_runtime demo_schedules 9 5 demo_user ''g2'' (lease_of tick1 ''a0'' 5) (changed5 archived_schedule)
    = (fst (preflightScheduleLease demo_runtime demo_schedules 9 5 demo_user ''g2'' (lease_of tick1 ''a0'' 5) (changed5 archived_schedule)), Inr False)"
    by (rule demo_preflight) simp
  show ?thesis
    using archived_schedule_stops[OF archived4_run[unfolded demo0_def] archived5_run _ demo_occurrence(6,5,1) _ _ _ p]
      changed_tables by (simp add: demo_occurrence)
qed

text \<open>
  C13. A restarted job keeps the history it was asked to keep.  When a restart creates a job, the new
  job's chapters are the chapters of the prior job up to \<open>LastStepToKeep\<close>, in their order, followed
  by the execution chapter if the restart has one; the prior job had a chapter after the last one
  kept, and its own chapters stay as they were.
\<close>

theorem restart_keeps_history:
  assumes "toy_run lib depth t0 (NewToyEngine keys) ids t e" and "int64 (rj_LastStepToKeep job)" and "getJobRecord e k = None"
    and "insertRestart lib rl depth now cx k job e = (e', Inr h)"
  shows "\<exists>source. map_of (te_runtimeChapters e) (rj_PriorJobKey job) = Some source
     \<and> 0 \<le> rj_LastStepToKeep job \<and> rj_LastStepToKeep job + 1 < int (length source)
     \<and> map_of (te_runtimeChapters e') k = Some (take (nat (rj_LastStepToKeep job) + 1) source
          @ (case rj_ExecutionRestart job of None \<Rightarrow> []
             | Some raw \<Rightarrow> [(rj_LastStepToKeep job + 1, executionChapter (rj_LastStepToKeep job + 1) raw)]))
     \<and> map_of (te_runtimeChapters e') (rj_PriorJobKey job) = Some source"
proof -
  have ok: "chapter_rows_ok e" using reach_inv[OF assms(1)] by (simp add: toy_inv_def)
  obtain target e1 sb where c: "restartChapters lib rl k job e = Inr target" "e' = put_chapters k target e1"
    "publishGoalLocked depth now cx k (newRecord now sb) (put_job k (newRecord now sb) e) = Inr e1"
    using insertRestart_created[OF assms(4,3)] .
  note r = restartChapters_contiguous[OF c(1) ok assms(2)]
  have e1: "te_runtimeChapters e1 = te_runtimeChapters e"
    using publish_effect(2)[OF c(3) assms(3) newRecord_fresh, of "[]"] by (simp add: contiguous_def)
  show ?thesis
  proof (rule r)
    fix source
    assume s: "map_of (te_runtimeChapters e) (rj_PriorJobKey job) = Some source"
    have "map_of (te_runtimeChapters e) k = None" using ok assms(3) by (metis chapter_rows_ok_def domIff)
    then have "rj_PriorJobKey job \<noteq> k" using s by auto
    moreover assume "0 \<le> rj_LastStepToKeep job" "rj_LastStepToKeep job + 1 < int (length source)"
      "target = take (nat (rj_LastStepToKeep job) + 1) source @ (case rj_ExecutionRestart job of None \<Rightarrow> []
         | Some raw \<Rightarrow> [(rj_LastStepToKeep job + 1, executionChapter (rj_LastStepToKeep job + 1) raw)])"
    ultimately show ?thesis using s c(2) e1 by (simp add: put_chapters_def update_conv')
  qed
qed

theorem restart_keeps_history_witness:
  "map_of (te_runtimeChapters (fst (insertRestart demo_runtime demo_restarts 9 24 demo_user restart_key restart_request restart1))) restart_key
   = Some [(0, demo_start\<lparr>ch_TaskType := ''build'', ch_InputHash := ''i'', ch_CreatedAt := 3\<rparr>), (1, executionChapter 1 ''{}'')]"
proof -
  let ?i = "insertRestart demo_runtime demo_restarts 9 24 demo_user restart_key restart_request restart1"
  obtain ids where r: "toy_run demo_runtime 9 0 (NewToyEngine (\<lambda>_. ''k'')) ids 23 restart1" using restart1_run unfolding demo0_def by blast
  have "int64 (rj_LastStepToKeep restart_request)" by (simp add: restart_request_def int64_def)
  moreover have "?i = (fst ?i, Inr \<lparr>jh_Target = jr_cell demo_a, jh_GoalID = ''gr'', jh_JobKey = restart_key\<rparr>)"
    using sched_steps(7) by (simp add: prod_eq_iff)
  ultimately show ?thesis
    using restart_keeps_history[OF r, of restart_request restart_key demo_restarts 24 demo_user] changed_tables
    by (auto simp: restart_request_def tick_chapters_def first_done_def tick_job_def demo_a_def split: prod.splits)
qed

end
