(* ===== verification/Spec2Isabelle.thy ===== *)
theory Spec2Isabelle
  imports Goal_Properties Cell_Properties Delegation_Tokens Payload_Properties Schedule_Properties Toy_Leases Toy_Tasks Toy_Cycles Toy_Occurrences
begin

text \<open>
  \<^bold>\<open>Verification of jobdb.\<close>  Jobdb schedules jobs.  A job has a key, a route, a payload and a history of
  chapters; workers acquire it with a lease, write chapters, and complete or reschedule it.  Jobs
  belong to goals and wait for goals and for other jobs; they run in cells, which are named and
  bound to repositories; schedules submit jobs at fire times; and a lease holder can delegate part
  of its authority with credentials that only become narrower.  Paths below are under \<open>src/pkg/jobdb\<close>.

  \<^bold>\<open>Conventions.\<close>  A Go struct is a record with prefixed fields, an error a value of one datatype
  \<open>error\<close>, a fallible function returns \<open>error + 'a\<close>, a map is an association list or a partial
  function, a string a list of bytes, a time an integer of nanoseconds with \<open>zero_time\<close> for Go's zero
  value, and an integer wraps around with \<open>wrap64\<close> where it can overflow.  Libraries that are not in
  the repository, and JSON, hashing, signatures and random identifiers, are parameters: the records
  \<open>json_lib\<close>, \<open>payload_lib\<close>, \<open>token_lib\<close>, \<open>body_lib\<close>, \<open>runtime_lib\<close>, \<open>restart_lib\<close> and \<open>schedule_lib\<close>.
  \<open>Prelude\<close> has the shared types, the error-stopping fold \<open>rfold\<close> and its invariant rules.

  \<^bold>\<open>Goals\<close> (\<open>goals.go\<close>, \<open>internal/goalstate\<close>).  \<open>Goal_Types\<close> has the data, \<open>Goal_Store\<close> the storage
  interface as the locale \<open>goal_store\<close> and the in-memory store that interprets it, \<open>Goal_Cycle\<close> the
  depth-first search, \<open>Goal_Engine\<close> every operation of the engine.  \<open>Goal_Invariants\<close>, \<open>Goal_Settlement\<close>
  and \<open>Goal_Transitions\<close> prove in the locale, for every store, that closed goals and settled waits
  stay as they are and that completing a job settles what waits for it; \<open>Goal_Acyclic\<close> that the
  cycle check is exact and that the engine keeps the graph acyclic; \<open>Goal_Properties\<close> instantiates
  them.  The recursion of the search takes a depth, and \<open>Toy_Cycles\<close> shows that a depth larger than
  the tables is always enough.

  \<^bold>\<open>Cells\<close> (\<open>cells.go\<close>, \<open>runtime/cellstate\<close>).  \<open>Cell_Repo\<close> models names and the normalisation of
  repositories with the URL grammar it relies on, \<open>Cell_State\<close> the registry, \<open>Cell_Properties\<close> shows
  that names, aliases and repositories identify cells for ever, that updates are guarded by
  revisions, and that pages are complete.

  \<^bold>\<open>Client payloads\<close> (\<open>clientpayload\<close>).  \<open>Client_Payload\<close> and \<open>Payload_Properties\<close>: guarded updates,
  merge patches and canonical numbers.

  \<^bold>\<open>Delegated credentials\<close> (\<open>delegation.go\<close>, \<open>runtime/remote\<close>).  \<open>Delegation_Policy\<close> has permissions
  and their subset tests, \<open>Delegation_Grant\<close> grants, \<open>Delegation_Server\<close> owner tokens and the
  request boundary.  \<open>Delegation_Properties\<close> and \<open>Delegation_Tokens\<close> show that caveats only narrow,
  that the subset tests are exact and that credentials round-trip.  The boundary relies on the
  runtime through the locale \<open>lease_service\<close> of \<open>Delegation_Leases\<close>, which \<open>Toy_Leases\<close> interprets.

  \<^bold>\<open>Schedules\<close> (\<open>schedule.go\<close>, \<open>schedule_trigger.go\<close>).  \<open>Schedule_Trigger\<close> has cron and interval
  triggers, the failure window and the identifiers of occurrences.  The loop over a cron range may
  wrap around, so it is a partial function; \<open>Schedule_Properties\<close> shows that it ends, and that the
  search for the next fire time, bounded by \<open>search_window\<close> as in the code, is exact.

  \<^bold>\<open>The in-process runtime\<close> (\<open>runtime/toy/internal/toyimpl\<close>).  \<open>Toy_State\<close> has the engine and its
  records; \<open>Toy_Lease\<close>, \<open>Toy_Chapters\<close>, \<open>Toy_Complete\<close>, \<open>Toy_Submit\<close>, \<open>Toy_Restart\<close>, \<open>Toy_Admin\<close> and
  \<open>Toy_Schedules\<close> the operations, one definition per critical section and one per handler that
  composes them.  \<open>Toy_Steps\<close> makes critical sections the steps of a relation \<open>toy_step\<close>, with a
  clock that does not go back, so that handlers of different callers interleave; \<open>toy_run\<close> is
  reachability.  Each step is a sequence of smaller effects, and \<open>Toy_Goals\<close>, \<open>Toy_Views\<close>,
  \<open>Toy_Publish\<close>, \<open>Toy_Records\<close>, \<open>Toy_Invariants\<close>, \<open>Toy_Effects\<close> and \<open>Toy_Runs\<close> show that every effect
  keeps the invariant \<open>toy_inv\<close>.  \<open>Toy_Handlers\<close> shows that the handlers are runs.  On that rest
  \<open>Toy_Progress\<close> (no lost wake-up, progress, finality of ends, append-only chapters), \<open>Toy_Leases\<close>
  (a refinement of an abstract lease machine, one machine step for each runtime step, with the
  identifiers the step generates and the leases its caller presents; fencing; the bound on
  expirations), \<open>Toy_Tasks\<close> (external tasks are published once), \<open>Toy_Cycles\<close> and
  \<open>Toy_Occurrences\<close> (an occurrence from before a change of its schedule is cancelled, archived
  schedules stay archived, restarts keep their history).  \<open>Toy_Demo\<close> and \<open>Toy_Schedule_Demo\<close>
  are concrete runs.  Some theorems state behaviour that the code's comments or documents do not
  intend: a delay that is forgotten, a refused write that overwrites artifacts, and a dependency on
  a goal that is not woken because a blank job name stands beside it.

  \<^bold>\<open>Bounds.\<close>  \<open>depth\<close> is the stack of the cycle search, arbitrary in every theorem; a search that
  exceeds it fails, and \<open>cycle_check_ends\<close> says when it does not.  Generations of schedules and
  counts of expirations wrap as 64-bit integers do.  Identifiers are generated fresh, which is what
  the code assumes of them.

  \<^bold>\<open>Simplifications.\<close>  Hosts of repositories are lowered as ASCII text.  Times are instants, without
  location or monotonic reading.  The record lock that a status projection would take twice is an
  error \<open>ErrDeadlock\<close> of the model.  Page tokens are values and not texts.  The preflight of a
  scheduled lease reads the clock once.

  \<^bold>\<open>Not modelled.\<close>  The durable runtime in \<open>runtime/sqlite\<close> and the row stores, because their steps are
  SQL statements and depend on a database; \<open>runtime/core\<close>, which calls external services; the HTTP
  client, wire codecs and generated code; the worker library in \<open>pkg/workflow\<close>, whose steps are
  functions of the application; schema validation and the brokers of secrets and configuration,
  which are parameters or input and output; and views that only read (job runs, job and run
  listings, goal discovery).
\<close>

section \<open>Delegated credentials and the runtime\<close>

definition demo_late_request :: HTTPRequest where
  "demo_late_request = \<lparr>rq_Method = MethodGet, rq_Tokens = [demo_token ''M1''], rq_Path = ''/v1/tenants/t/jobs/a/leases/l1/chapters/0'', rq_Body = None\<rparr>"

text \<open>
  C7. A delegated credential dies with the lease it comes from.  Once the runtime refuses a lease
  for every worker, the request boundary in front of it refuses every delegated request that names
  the lease, at any later time, whatever the credential grants.
\<close>

theorem delegation_dies_with_lease:
  assumes "toy_run lib depth s0 (NewToyEngine keys) ids0 t0 e0" and "toy_run lib depth t0 e0 ids t e" and "l \<notin> ids"
    and "\<And>w. ValidateExecutionLeaseByID t0 e0 k l w = Inl ErrExecutionLeaseLost"
    and "rq_Tokens r = token # others" and "isDelegationToken token"
    and "unescape (split_slash (rq_Path r) ! 3) = Some (TenantId k)" and "unescape (split_slash (rq_Path r) ! 5) = Some (JobId k)"
    and "unescape (split_slash (rq_Path r) ! 7) = Some l"
  shows "isl (prepareDelegationRequest tokens bl sg (Some (ValidateExecutionLeaseByID t e)) t r)"
  using toy_leases.dead_refused_later[OF reach_inv[OF assms(1)] assms(2-9)] .

theorem delegation_dies_with_lease_witness:
  "isl (prepareDelegationRequest demo_lib demo_bodies demo_signer (Some (ValidateExecutionLeaseByID 200 demo6)) 200 demo_late_request)"
proof -
  let ?p = "split_slash (rq_Path demo_late_request)"
  have "isDelegationToken (demo_token ''M1'')" "unescape (?p ! 3) = Some (TenantId (JobKey ''t'' ''a''))"
    "unescape (?p ! 5) = Some (JobId (JobKey ''t'' ''a''))" "unescape (?p ! 7) = Some ''l1''"
    by code_simp+
  then show ?thesis
    by (rule delegation_dies_with_lease[OF demo_run_late[unfolded demo0_def] toy_run.begin_run _ demo_lapsed, rotated 2])
       (simp_all add: demo_late_request_def)
qed

end
